(* ===== verification/Prelude.thy ===== *)
theory Prelude
  imports Main "HOL-Library.Word"
begin

text \<open>
  What every theory of the development shares: Go's machine integers, byte slices and
  strings, the results of fallible code, and the lemmas about them.

  A Go \<open>int\<close> is 64 bits wide and signed: a value is an \<open>int\<close> in
  \<open>[-2^63, 2^63)\<close>, and \<open>wrap64\<close> is what an addition does at the ends of that range.
  A \<open>uint64\<close> is a \<open>64 word\<close>. A slice is a list of bytes; reads, writes and slice
  expressions outside the slice panic in Go and are the value \<open>IndexPanic\<close> here.
\<close>

unbundle bit_operations_syntax

section \<open>Machine integers\<close>

type_synonym byte = "8 word"
type_synonym uint64 = "64 word"
type_synonym goint = int

definition wrap64 :: "int \<Rightarrow> goint" where
  "wrap64 x = (x + 2 ^ 63) mod 2 ^ 64 - 2 ^ 63"

lemma wrap64_id [simp]: "- (2 ^ 63) \<le> x \<Longrightarrow> x < 2 ^ 63 \<Longrightarrow> wrap64 x = x"
  by (simp add: wrap64_def)

lemma wrap64_range: "- (2 ^ 63) \<le> wrap64 x \<and> wrap64 x < 2 ^ 63"
proof -
  have "0 \<le> (x + 2 ^ 63) mod 2 ^ 64" "(x + 2 ^ 63) mod 2 ^ 64 < (2 :: int) ^ 64"
    by simp_all
  then show ?thesis by (simp add: wrap64_def)
qed

text \<open>An overflowing addition of two non-negative ints shows as a negative result.\<close>

lemma wrap64_add_nonneg:
  assumes "0 \<le> x" "x < 2 ^ 63" "0 \<le> y" "y < 2 ^ 63" "0 \<le> wrap64 (x + y)"
  shows "wrap64 (x + y) = x + y" and "x + y < 2 ^ 63"
proof -
  show *: "x + y < 2 ^ 63"
  proof (rule ccontr)
    assume "\<not> x + y < 2 ^ 63"
    then have "(x + y + 2 ^ 63) mod 2 ^ 64 = ((x + y - 2 ^ 63) + 2 ^ 64) mod 2 ^ 64"
      by (simp add: algebra_simps)
    also have "\<dots> = x + y - 2 ^ 63"
      unfolding mod_add_self2 using assms(1-4) \<open>\<not> x + y < 2 ^ 63\<close>
      by (intro mod_pos_pos_trivial) simp_all
    finally show False using assms(1-4) assms(5) by (simp add: wrap64_def)
  qed
  show "wrap64 (x + y) = x + y" using * assms by simp
qed

lemma wrap64_add_cases:
  assumes "0 \<le> x" "x < 2 ^ 63" "0 \<le> y" "y < 2 ^ 63"
  shows "wrap64 (x + y) < 0 \<or> wrap64 (x + y) = x + y"
  using wrap64_add_nonneg(1) [OF assms] by linarith

section \<open>Fallible code\<close>

text \<open>
  The five generated files each declare their own three error values; \<open>pbfile\<close> says
  whose. \<open>IndexPanic\<close> is the run-time panic of an index or slice expression out of
  range. \<open>ErrExternal\<close> carries an error of code outside the repository. \<open>Diverges\<close> marks
  a loop iteration that did not advance its index, after which the loop may not return; it is
  shown never to occur on a slice whose length is a Go \<open>int\<close>.
\<close>

datatype pbfile = TxPb | GenesisPb | ParamsPb | QueryPb | ModulePb

datatype perr =
    ErrIntOverflow pbfile
  | ErrInvalidLength pbfile
  | ErrUnexpectedEndOfGroup pbfile
  | ErrUnexpectedEOF
  | ErrEndGroupForNonGroup string
  | ErrIllegalTag string goint uint64
  | ErrWrongWireType goint string
  | ErrIllegalWireType goint
  | ErrExternal string
  | IndexPanic
  | Diverges

definition bind_err :: "'e + 'a \<Rightarrow> ('a \<Rightarrow> 'e + 'b) \<Rightarrow> 'e + 'b" where
  "bind_err r k = (case r of Inl e \<Rightarrow> Inl e | Inr x \<Rightarrow> k x)"

lemma bind_err_simps [simp]:
  "bind_err (Inl e) k = Inl e"
  "bind_err (Inr x) k = k x"
  by (simp_all add: bind_err_def)

lemma bind_err_cong [fundef_cong]:
  "r = r' \<Longrightarrow> (\<And>x. r' = Inr x \<Longrightarrow> k x = k' x) \<Longrightarrow> bind_err r k = bind_err r' k'"
  by (simp add: bind_err_def split: sum.split)

lemma bind_err_eq_Inr: "bind_err r k = Inr y \<longleftrightarrow> (\<exists>x. r = Inr x \<and> k x = Inr y)"
  by (cases r) auto

lemma bind_err_eq_Inl: "bind_err r k = Inl e \<longleftrightarrow> r = Inl e \<or> (\<exists>x. r = Inr x \<and> k x = Inl e)"
  by (cases r) auto

section \<open>Byte slices\<close>

definition len :: "'a list \<Rightarrow> goint" where
  "len d = int (length d)"

definition len_ok :: "'a list \<Rightarrow> bool" where
  "len_ok d \<longleftrightarrow> len d < 2 ^ 63"

definition index_byte :: "byte list \<Rightarrow> goint \<Rightarrow> perr + byte" where
  "index_byte d i = (if 0 \<le> i \<and> i < len d then Inr (d ! nat i) else Inl IndexPanic)"

definition set_byte :: "byte list \<Rightarrow> goint \<Rightarrow> byte \<Rightarrow> perr + byte list" where
  "set_byte d i b = (if 0 \<le> i \<and> i < len d then Inr (d[nat i := b]) else Inl IndexPanic)"

definition slice :: "byte list \<Rightarrow> goint \<Rightarrow> goint \<Rightarrow> perr + byte list" where
  "slice d i j =
     (if 0 \<le> i \<and> i \<le> j \<and> j \<le> len d then Inr (take (nat (j - i)) (drop (nat i) d))
      else Inl IndexPanic)"

text \<open>\<open>copy(d[i:], s)\<close>: as many bytes of \<open>s\<close> as fit, over \<open>d\<close> from \<open>i\<close> on.\<close>

definition copy_at :: "byte list \<Rightarrow> goint \<Rightarrow> byte list \<Rightarrow> perr + byte list" where
  "copy_at d i s =
     (if 0 \<le> i \<and> i \<le> len d
      then Inr (take (nat i) d @ take (length d - nat i) s @ drop (nat i + length s) d)
      else Inl IndexPanic)"

lemma len_simps [simp]:
  "len [] = 0"
  "len (x # xs) = len xs + 1"
  "len (xs @ ys) = len xs + len ys"
  by (simp_all add: len_def)

lemma len_nonneg [simp]: "0 \<le> len d"
  by (simp add: len_def)

lemma len_not_neg [simp]: "\<not> len d < 0"
  by (simp add: len_def)

lemma nat_len [simp]: "nat (len d) = length d"
  by (simp add: len_def)

lemma len_length: "length xs = length ys \<Longrightarrow> len xs = len ys"
  by (simp add: len_def)

lemma wrap64_len [simp]: "len_ok d \<Longrightarrow> wrap64 (len d) = len d"
  using len_nonneg [of d] unfolding len_ok_def by (intro wrap64_id) linarith+

lemma slice_at [simp]: "slice (pre @ s @ t) (len pre) (len pre + len s) = Inr s"
  by (simp add: slice_def len_def)

lemma slice_prefix [simp]: "slice (s @ t) 0 (len s) = Inr s"
  by (simp add: slice_def)

lemma slice_suffix [simp]: "slice (pre @ s) (len pre) (len pre + len s) = Inr s"
  using slice_at [of pre s "[]"] by simp

lemma slice_ok: "slice d i j = Inr s \<Longrightarrow> len s = j - i \<and> 0 \<le> i \<and> i \<le> j \<and> j \<le> len d"
  by (auto simp: slice_def len_def split: if_splits)

lemma slice_in_range: "0 \<le> i \<Longrightarrow> i \<le> j \<Longrightarrow> j \<le> len d \<Longrightarrow> \<exists>s. slice d i j = Inr s"
  by (simp add: slice_def)

lemma len_ok_append: "len_ok (xs @ ys) \<Longrightarrow> len_ok xs \<and> len_ok ys"
  using len_nonneg [of xs] len_nonneg [of ys] unfolding len_ok_def len_simps by linarith

section \<open>Strings\<close>

text \<open>
  A Go string is a sequence of bytes. It is a \<open>string\<close> here; \<open>str_bytes\<close> and
  \<open>bytes_str\<close> are the conversions \<open>[]byte(s)\<close> and \<open>string(b)\<close>.
\<close>

definition str_bytes :: "string \<Rightarrow> byte list" where
  "str_bytes s = map of_char s"

definition bytes_str :: "byte list \<Rightarrow> string" where
  "bytes_str bs = map (\<lambda>b. char_of (unat b)) bs"

lemma length_str_bytes [simp]: "length (str_bytes s) = length s"
  by (simp add: str_bytes_def)

lemma len_str_bytes [simp]: "len (str_bytes s) = len s"
  by (simp add: len_def)

lemma str_bytes_Nil [simp]: "str_bytes s = [] \<longleftrightarrow> s = []"
  by (simp add: str_bytes_def)

lemma unat_of_char: "unat (of_char c :: byte) = of_char c"
proof -
  have "(of_char c :: byte) = of_nat (of_char c)"
    by (simp add: of_char_def)
  moreover have "of_char c < (256 :: nat)"
    by (rule of_char_mod_256 [THEN subst, where P = "\<lambda>x. x < 256"]) simp
  ultimately show ?thesis by (simp add: unat_of_nat)
qed

lemma bytes_str_str_bytes [simp]: "bytes_str (str_bytes s) = s"
  by (induction s) (simp_all add: bytes_str_def str_bytes_def unat_of_char)

end
