(* ===== verification/Varint.thy ===== *)
theory Varint
  imports Prelude
begin

text \<open>
  Base-128 varints, as the generated protobuf code writes and reads them.

  \<open>varint_bytes\<close> and \<open>varint_val\<close> are the wire format itself (the reference); \<open>sov\<close>,
  \<open>encodeVarint\<close> and \<open>decode_varint\<close> are the code: the size computation by bit length, the
  writer that fills a caller's buffer at an offset, and the reader loop that is inlined at
  every place of the generated files that reads a varint. The lemmas relate the two.
\<close>

section \<open>The wire format\<close>

fun varint_bytes :: "nat \<Rightarrow> byte list" where
  "varint_bytes n =
     (if n < 128 then [of_nat n] else of_nat (n mod 128 + 128) # varint_bytes (n div 128))"

declare varint_bytes.simps [simp del]

text \<open>Value and width of the varint a byte list starts with.\<close>

fun varint_val :: "byte list \<Rightarrow> (nat \<times> nat) option" where
  "varint_val [] = None"
| "varint_val (b # bs) =
     (if unat b < 128 then Some (unat b, 1)
      else map_option (\<lambda>(v, n). (unat b mod 128 + 128 * v, Suc n)) (varint_val bs))"

section \<open>The code\<close>

subsection \<open>Sizes\<close>

text \<open>\<open>math_bits.Len64\<close> of Go's standard library: the number of bits needed for \<open>x\<close>.\<close>

fun bit_len :: "nat \<Rightarrow> nat" where
  "bit_len n = (if n = 0 then 0 else Suc (bit_len (n div 2)))"

declare bit_len.simps [simp del]

definition Len64 :: "uint64 \<Rightarrow> nat" where
  "Len64 x = bit_len (unat x)"

definition sov :: "uint64 \<Rightarrow> goint" where
  "sov x = int ((Len64 (x OR 1) + 6) div 7)"

definition soz :: "uint64 \<Rightarrow> goint" where
  "soz x = sov (push_bit 1 x XOR signed_drop_bit 63 x)"

subsection \<open>Writing\<close>

function encode_loop :: "byte list \<Rightarrow> goint \<Rightarrow> uint64 \<Rightarrow> perr + byte list" where
  "encode_loop d offset v =
     (if 128 \<le> v
      then bind_err (set_byte d offset (ucast ((v AND 0x7f) OR 0x80)))
             (\<lambda>d'. encode_loop d' (offset + 1) (drop_bit 7 v))
      else set_byte d offset (ucast v))"
  by pat_completeness auto

lemma unat_drop_bit_7: "unat (drop_bit 7 v) = unat (v :: uint64) div 128"
  by (simp only: unat_drop_bit_eq drop_bit_eq_div unat_div) simp

termination encode_loop
proof (relation "measure (\<lambda>(d, offset, v). unat v)")
  fix v :: uint64
  assume "128 \<le> v"
  then have "128 \<le> unat v" by (simp add: word_le_nat_alt)
  then show "((x, offset + 1, drop_bit 7 v), (d, offset, v)) \<in> measure (\<lambda>(d, offset, v). unat v)"
    for x d :: "byte list" and offset :: goint
    by (simp add: unat_drop_bit_7)
qed simp

declare encode_loop.simps [simp del]

definition encodeVarint :: "byte list \<Rightarrow> goint \<Rightarrow> uint64 \<Rightarrow> perr + (byte list \<times> goint)" where
  "encodeVarint d offset v =
     (let offset = offset - sov v; base = offset
      in bind_err (encode_loop d offset v) (\<lambda>d'. Inr (d', base)))"

subsection \<open>Reading\<close>

text \<open>
  The loop \<open>for shift := uint(0); ; shift += 7\<close>: it fails once the shift has reached 64,
  or at the end of the input, and otherwise ORs seven more bits in. The result is the
  accumulated value and the index after the last byte read.
\<close>

function decode_varint :: "pbfile \<Rightarrow> byte list \<Rightarrow> goint \<Rightarrow> nat \<Rightarrow> uint64 \<Rightarrow> perr + (uint64 \<times> goint)" where
  "decode_varint f d i shift acc =
     (if 64 \<le> shift then Inl (ErrIntOverflow f)
      else if len d \<le> i then Inl ErrUnexpectedEOF
      else bind_err (index_byte d i) (\<lambda>b.
        let acc' = acc OR push_bit shift (ucast (b AND 0x7F)) in
        if b < 0x80 then Inr (acc', i + 1)
        else decode_varint f d (i + 1) (shift + 7) acc'))"
  by pat_completeness auto
termination
  by (relation "measure (\<lambda>(f, d, i, shift, acc). 64 - shift)") auto

declare decode_varint.simps [simp del]

text \<open>\<open>skip\<close>'s loop over a varint it does not need: the same loop without the value.\<close>

function skip_varint :: "pbfile \<Rightarrow> byte list \<Rightarrow> goint \<Rightarrow> nat \<Rightarrow> perr + goint" where
  "skip_varint f d i shift =
     (if 64 \<le> shift then Inl (ErrIntOverflow f)
      else if len d \<le> i then Inl ErrUnexpectedEOF
      else bind_err (index_byte d i) (\<lambda>b.
        if b < 0x80 then Inr (i + 1) else skip_varint f d (i + 1) (shift + 7)))"
  by pat_completeness auto
termination
  by (relation "measure (\<lambda>(f, d, i, shift). 64 - shift)") auto

declare skip_varint.simps [simp del]


section \<open>The size is the number of bytes\<close>

lemma bit_len_0 [simp]: "bit_len 0 = 0"
  by (subst bit_len.simps) simp

lemma bit_len_pos: "0 < n \<Longrightarrow> bit_len n = Suc (bit_len (n div 2))"
  by (subst bit_len.simps) simp

lemma bit_len_div_128:
  assumes "128 \<le> n"
  shows "bit_len n = bit_len (n div 128) + 7"
proof -
  have "bit_len n = Suc (bit_len (n div 2))"
    "bit_len (n div 2) = Suc (bit_len (n div 4))"
    "bit_len (n div 4) = Suc (bit_len (n div 8))"
    "bit_len (n div 8) = Suc (bit_len (n div 16))"
    "bit_len (n div 16) = Suc (bit_len (n div 32))"
    "bit_len (n div 32) = Suc (bit_len (n div 64))"
    "bit_len (n div 64) = Suc (bit_len (n div 128))"
    using assms by (subst bit_len_pos; simp add: div_greater_zero_iff div_mult2_eq [symmetric])+
  then show ?thesis by simp
qed

lemma bit_len_small: "n < 128 \<Longrightarrow> bit_len n \<le> 7"
proof -
  have "n < 2 ^ k \<Longrightarrow> bit_len n \<le> k" for k
  proof (induction k arbitrary: n)
    case 0
    then show ?case by simp
  next
    case (Suc k)
    then show ?case by (cases "n = 0") (auto simp: bit_len_pos)
  qed
  from this [of 7] show "n < 128 \<Longrightarrow> bit_len n \<le> 7" by simp
qed

lemma bit_len_or_one: "bit_len (n OR 1) = (if n = 0 then 1 else bit_len n)"
proof (cases "n = 0")
  case False
  moreover have "(n OR 1) div 2 = n div 2"
    unfolding or_one_eq by auto
  moreover have "0 < n OR 1" unfolding or_one_eq using False by simp
  ultimately show ?thesis using bit_len_pos [of n] bit_len_pos [of "n OR 1"] by simp
next
  case True
  have "bit_len 1 = 1" using bit_len_pos [of 1] by simp
  then show ?thesis unfolding True by simp
qed

lemma length_varint_bytes: "length (varint_bytes n) = (bit_len (n OR 1) + 6) div 7"
proof (induction n rule: varint_bytes.induct)
  case (1 n)
  show ?case
  proof (cases "n < 128")
    case True
    then have "bit_len (n OR 1) \<in> {1..7}"
      unfolding bit_len_or_one using bit_len_small [of n] bit_len_pos [of n] by auto
    then have "(bit_len (n OR 1) + 6) div 7 = 1" by auto
    with True show ?thesis by (subst varint_bytes.simps) simp
  next
    case False
    then have "n \<noteq> 0" "n div 128 \<noteq> 0" by simp_all
    with False 1 bit_len_div_128 [of n] show ?thesis
      unfolding bit_len_or_one by (subst varint_bytes.simps) simp
  qed
qed

lemma sov_eq: "sov x = len (varint_bytes (unat x))"
  by (simp add: sov_def Len64_def len_def length_varint_bytes unsigned_or_eq)

lemma varint_bytes_nonempty [simp]: "varint_bytes n \<noteq> []"
  by (subst varint_bytes.simps) simp

lemma length_varint_bytes_le:
  assumes "n < 2 ^ 64"
  shows "length (varint_bytes n) \<le> 10"
proof -
  have "n < 128 ^ Suc k \<Longrightarrow> length (varint_bytes n) \<le> Suc k" for k
  proof (induction k arbitrary: n)
    case 0
    then show ?case by (subst varint_bytes.simps) simp
  next
    case (Suc k)
    then have "n div 128 < 128 ^ Suc k" by (simp add: less_mult_imp_div_less)
    then show ?case using Suc.IH [of "n div 128"] by (subst varint_bytes.simps) simp
  qed
  from this [of 9] assms show ?thesis by simp
qed

lemma unat_less_2p64: "unat (x :: uint64) < 2 ^ 64"
  using unsigned_less [of x] by simp

lemma sov_bounds: "1 \<le> sov x \<and> sov x \<le> 10"
  using length_varint_bytes_le [OF unat_less_2p64, of x]
  by (cases "varint_bytes (unat x)") (auto simp: sov_eq len_def)

section \<open>The writer writes the wire format\<close>

lemma nat_or_shifted:
  assumes "m < 2 ^ s"
  shows "(m::nat) OR push_bit s k = m + push_bit s k"
proof -
  have m: "m = take_bit s m" using assms by (simp add: take_bit_nat_eq_self)
  have "n < s" if "bit m n" for n
    using that by (subst (asm) m) (simp add: bit_take_bit_iff)
  then show ?thesis
    by (intro disjunctive_add_eq_or [symmetric]) (force simp: bit_eq_iff bit_simps)
qed

lemma word_or_shifted:
  assumes "m < 2 ^ s"
  shows "(of_nat m :: 'a::len word) OR push_bit s k = of_nat m + push_bit s k"
proof -
  have m: "m = take_bit s m" using assms by (simp add: take_bit_nat_eq_self)
  have "n < s" if "bit m n" for n
    using that by (subst (asm) m) (simp add: bit_take_bit_iff)
  then show ?thesis
    by (intro disjunctive_add_eq_or [symmetric]) (force simp: bit_eq_iff bit_simps)
qed

lemma and_127: "(m::nat) AND 127 = m mod 128"
proof -
  have "(127::nat) = mask 7" by (simp add: mask_eq_exp_minus_1)
  then have "m AND 127 = take_bit 7 m" by (simp only: take_bit_eq_mask)
  then show ?thesis by (simp add: take_bit_eq_mod)
qed

lemma cont_byte: "(ucast ((v AND 0x7f) OR 0x80) :: byte) = of_nat (unat (v :: uint64) mod 128 + 128)"
proof -
  have "unat ((v AND 0x7f) OR 0x80) = (unat v mod 128) OR push_bit 7 1"
    by (simp add: unsigned_or_eq unsigned_and_eq and_127)
  also have "\<dots> = unat v mod 128 + 128"
    by (subst nat_or_shifted) simp_all
  finally have "(of_nat (unat ((v AND 0x7f) OR 0x80)) :: byte) = of_nat (unat v mod 128 + 128)"
    by (rule arg_cong)
  then show ?thesis by (simp only: of_nat_unat)
qed

lemma set_byte_at: "set_byte (pre @ x # suf) (len pre) b = Inr (pre @ b # suf)"
  by (simp add: set_byte_def)

lemma encode_loop_eq:
  "length mid = length (varint_bytes (unat v)) \<Longrightarrow>
   encode_loop (pre @ mid @ suf) (len pre) v = Inr (pre @ varint_bytes (unat v) @ suf)"
proof (induction "pre @ mid @ suf" "len pre" v arbitrary: pre mid rule: encode_loop.induct)
  case (1 v)
  then obtain x mid' where mid: "mid = x # mid'"
    by (metis length_0_conv list.exhaust varint_bytes_nonempty)
  show ?case
  proof (cases "128 \<le> v")
    case True
    let ?b = "ucast ((v AND 0x7f) OR 0x80) :: byte"
    from True have v: "\<not> unat v < 128" by (simp add: word_le_nat_alt)
    then have w: "varint_bytes (unat v) = ?b # varint_bytes (unat (drop_bit 7 v))"
      unfolding cont_byte unat_drop_bit_7 by (subst varint_bytes.simps) simp
    from 1 True mid w have "encode_loop ((pre @ [?b]) @ mid' @ suf) (len (pre @ [?b])) (drop_bit 7 v)
        = Inr ((pre @ [?b]) @ varint_bytes (unat (drop_bit 7 v)) @ suf)"
      by (intro 1) (simp_all add: set_byte_at)
    with True show ?thesis
      by (subst encode_loop.simps) (simp add: mid set_byte_at w)
  next
    case False
    then have v: "unat v < 128" by (simp add: word_le_nat_alt)
    then have w: "varint_bytes (unat v) = [ucast v]"
      by (subst varint_bytes.simps) simp
    with 1 mid have "mid' = []" by simp
    with False mid w show ?thesis
      by (subst encode_loop.simps) (simp add: set_byte_at)
  qed
qed

lemma encodeVarint_eq:
  assumes "length mid = length (varint_bytes (unat v))"
  shows "encodeVarint (pre @ mid @ suf) (len (pre @ mid)) v
     = Inr (pre @ varint_bytes (unat v) @ suf, len pre)"
proof -
  have "len (pre @ mid) - sov v = len pre"
    using assms by (simp add: sov_eq len_def)
  with encode_loop_eq [OF assms] show ?thesis
    by (simp add: encodeVarint_def Let_def)
qed

section \<open>The reader reads the wire format\<close>

lemma low_bits: "(ucast ((b::byte) AND 0x7F) :: uint64) = of_nat (unat b mod 128)"
proof -
  have "unat (b AND 0x7F) = unat b mod 128"
    by (simp add: unsigned_and_eq and_127)
  then have "(of_nat (unat (b AND 0x7F)) :: uint64) = of_nat (unat b mod 128)"
    by (rule arg_cong)
  then show ?thesis by simp
qed

lemma index_byte_at: "index_byte (pre @ b # suf) (len pre) = Inr b"
  by (simp add: index_byte_def)

text \<open>What the reader returns on any input, in terms of the wire format.\<close>

definition read_varint :: "pbfile \<Rightarrow> byte list \<Rightarrow> nat \<Rightarrow> perr + (nat \<times> nat)" where
  "read_varint f bs k =
     (case varint_val (take k bs) of
        Some (v, n) \<Rightarrow> Inr (v, n)
      | None \<Rightarrow> Inl (if length bs < k then ErrUnexpectedEOF else ErrIntOverflow f))"

lemma len_Cons_pos: "\<not> len (pre @ b # s) \<le> len pre"
  using len_nonneg [of s] unfolding len_simps by linarith

lemma decode_varint_step:
  fixes b :: byte
  assumes "sh < 64" "a < 2 ^ sh"
  defines "a' \<equiv> a + unat b mod 128 * 2 ^ sh"
  shows "decode_varint f (pre @ b # s) (len pre) sh (of_nat a) =
    (if unat b < 128 then Inr (of_nat a', len pre + 1)
     else decode_varint f (pre @ b # s) (len pre + 1) (sh + 7) (of_nat a'))"
proof -
  have acc: "(of_nat a :: uint64) OR push_bit sh (ucast (b AND 0x7F)) = of_nat a'"
    unfolding low_bits a'_def by (subst word_or_shifted [OF assms(2)]) (simp add: push_bit_eq_mult)
  have small: "b < 0x80 \<longleftrightarrow> unat b < 128" by (simp add: word_less_nat_alt)
  have sh: "(64 \<le> sh) = False" using assms(1) by simp
  show ?thesis
    by (subst decode_varint.simps)
      (simp only: sh acc small Let_def index_byte_at bind_err_simps len_Cons_pos if_False)
qed

lemma decode_varint_gen:
  assumes "k \<le> 10" "a < 2 ^ (70 - 7 * k)"
  shows "decode_varint f (pre @ s) (len pre) (70 - 7 * k) (of_nat a) =
    bind_err (read_varint f s k) (\<lambda>(v, n). Inr (of_nat (a + v * 2 ^ (70 - 7 * k)), len pre + int n))"
  using assms
proof (induction k arbitrary: pre s a)
  case 0
  then show ?case by (subst decode_varint.simps) (simp add: read_varint_def)
next
  case (Suc k)
  define sh where "sh = 70 - 7 * Suc k"
  have sh: "sh < 64" "70 - 7 * k = sh + 7" using Suc.prems(1) by (auto simp: sh_def)
  note sh_fold = sh_def [symmetric]
  show ?case
  proof (cases s)
    case Nil
    with sh show ?thesis
      unfolding sh_fold by (subst decode_varint.simps) (simp add: read_varint_def)
  next
    case (Cons b s')
    let ?a = "a + unat b mod 128 * 2 ^ sh"
    have a0: "a < 2 ^ sh" using Suc.prems(2) by (simp only: sh_fold)
    then have "?a < 2 ^ sh + unat b mod 128 * 2 ^ sh" by simp
    also have "\<dots> \<le> 2 ^ sh * 128" by simp
    also have "\<dots> = 2 ^ (sh + 7)" by (simp only: power_add) simp
    finally have a: "?a < 2 ^ (sh + 7)" .
    have IH: "decode_varint f (pre @ s) (len pre + 1) (sh + 7) (of_nat ?a) =
      bind_err (read_varint f s' k)
        (\<lambda>(v, n). Inr (of_nat (?a + v * 2 ^ (sh + 7)), len pre + 1 + int n))"
      using Suc.IH [of ?a "pre @ [b]" s'] Suc.prems(1) Cons a unfolding sh(2) by simp
    show ?thesis
      unfolding sh_fold using IH
      by (auto simp: Cons decode_varint_step [OF sh(1) a0] read_varint_def power_add algebra_simps
          split: option.split)
  qed
qed

theorem decode_varint_eq:
  "decode_varint f (pre @ s) (len pre) 0 0 =
    bind_err (read_varint f s 10) (\<lambda>(v, n). Inr (of_nat v, len pre + int n))"
  using decode_varint_gen [of 10 0 f pre s] by simp

lemma varint_val_bytes: "varint_val (varint_bytes n @ suf) = Some (n, length (varint_bytes n))"
proof (induction n rule: varint_bytes.induct)
  case (1 n)
  show ?case
  proof (cases "n < 128")
    case True
    then show ?thesis by (subst (1 2) varint_bytes.simps) (simp add: unat_of_nat)
  next
    case False
    have "unat (of_nat (n mod 128 + 128) :: byte) = n mod 128 + 128"
      unfolding unat_of_nat by (simp add: mod_pos_pos_trivial)
    with False 1 show ?thesis
      by (subst (1 2) varint_bytes.simps) (simp add: mod_add_eq mult.commute)
  qed
qed

lemma varint_val_take:
  "varint_val bs = Some (v, n) \<Longrightarrow> varint_val (take k bs) = (if n \<le> k then Some (v, n) else None)"
proof (induction bs arbitrary: v n k)
  case (Cons b bs)
  then show ?case by (cases k) (auto split: if_splits)
qed simp

lemma varint_val_append: "varint_val bs = Some (v, n) \<Longrightarrow> varint_val (bs @ t) = Some (v, n)"
  by (induction bs arbitrary: v n) (auto split: if_splits)

lemma varint_val_bound: "varint_val bs = Some (v, n) \<Longrightarrow> 0 < n \<and> n \<le> length bs"
  by (induction bs arbitrary: v n) (force split: if_splits)+

lemma read_varint_bytes:
  "n < 2 ^ 64 \<Longrightarrow> read_varint f (varint_bytes n @ suf) 10 = Inr (n, length (varint_bytes n))"
  unfolding read_varint_def varint_val_take [OF varint_val_bytes] by (simp add: length_varint_bytes_le)

lemma decode_varint_bytes:
  "n < 2 ^ 64 \<Longrightarrow>
   decode_varint f (pre @ varint_bytes n @ suf) (len pre) 0 0 = Inr (of_nat n, len (pre @ varint_bytes n))"
  by (simp only: decode_varint_eq read_varint_bytes) (simp add: len_def)

subsection \<open>Bounds, panics and longer inputs\<close>

lemma read_varint_ok:
  "read_varint f bs k = Inr (v, n) \<Longrightarrow> 0 < n \<and> n \<le> k \<and> n \<le> length bs"
  using varint_val_bound [of "take k bs"] by (auto simp: read_varint_def split: option.splits)

lemma read_varint_append:
  assumes "read_varint f bs k = Inr r"
  shows "read_varint f (bs @ t) k = Inr r"
proof -
  obtain v n where r: "r = (v, n)" "varint_val (take k bs) = Some (v, n)"
    using assms by (auto simp: read_varint_def split: option.splits)
  with varint_val_append [OF r(2), of "take (k - length bs) t"] show ?thesis
    by (simp add: read_varint_def)
qed

lemma read_varint_no_panic: "read_varint f bs k \<noteq> Inl IndexPanic"
  by (auto simp: read_varint_def split: option.splits)

text \<open>Every index that is inside the input, or at its end, splits it into two parts.\<close>

lemma split_at_index:
  assumes "0 \<le> i" "i \<le> len d"
  obtains pre s where "d = pre @ s" "i = len pre"
proof
  show "d = take (nat i) d @ drop (nat i) d" by simp
  show "i = len (take (nat i) d)" using assms by (simp add: len_def)
qed

lemma decode_varint_beyond: "len d \<le> i \<Longrightarrow> decode_varint f d i 0 0 = Inl ErrUnexpectedEOF"
  by (subst decode_varint.simps) simp

lemma decode_varint_ok:
  assumes "decode_varint f d i 0 0 = Inr (w, j)" "0 \<le> i"
  shows "i < j \<and> j \<le> i + 10 \<and> j \<le> len d"
proof -
  have "i \<le> len d" using assms decode_varint_beyond [of d i f] by force
  with assms(2) obtain pre s where d: "d = pre @ s" "i = len pre" by (rule split_at_index)
  with assms(1) obtain v n where "read_varint f s 10 = Inr (v, n)" "j = len pre + int n"
    unfolding d decode_varint_eq by (cases "read_varint f s 10") auto
  with read_varint_ok [OF this(1)] d show ?thesis by (simp add: len_def)
qed

lemma decode_varint_no_panic:
  assumes "0 \<le> i"
  shows "decode_varint f d i 0 0 \<noteq> Inl IndexPanic"
proof (cases "i \<le> len d")
  case True
  with assms obtain pre s where d: "d = pre @ s" "i = len pre" by (rule split_at_index)
  then show ?thesis
    using read_varint_no_panic [of f s 10] unfolding d decode_varint_eq
    by (cases "read_varint f s 10") auto
qed (simp add: decode_varint_beyond)

text \<open>Reading at an offset, with more input after: the same value, the index shifted.\<close>

lemma decode_varint_shift:
  assumes "decode_varint f d i 0 0 = Inr (w, j)" "0 \<le> i"
  shows "decode_varint f (pre @ d @ t) (len pre + i) 0 0 = Inr (w, len pre + j)"
proof -
  have "i \<le> len d" using assms decode_varint_beyond [of d i f] by force
  with assms(2) obtain p s where d: "d = p @ s" "i = len p" by (rule split_at_index)
  with assms(1) obtain v n where r: "read_varint f s 10 = Inr (v, n)" "w = of_nat v" "j = len p + int n"
    unfolding d decode_varint_eq by (cases "read_varint f s 10") auto
  from decode_varint_eq [of f "pre @ p" "s @ t"] read_varint_append [OF r(1), of t] r d
  show ?thesis by simp
qed

lemma skip_varint_eq:
  "skip_varint f d i shift = bind_err (decode_varint f d i shift acc) (\<lambda>(w, j). Inr j)"
proof (induction f d i shift acc rule: decode_varint.induct)
  case (1 f d i shift acc)
  show ?case
  proof (cases "64 \<le> shift \<or> len d \<le> i")
    case True
    then show ?thesis by (subst skip_varint.simps, subst decode_varint.simps) auto
  next
    case False
    with 1 show ?thesis
      by (subst skip_varint.simps, subst decode_varint.simps)
        (cases "index_byte d i", auto simp: Let_def)
  qed
qed

text \<open>The length is the least number of seven-bit groups that hold the value.\<close>

lemma varint_bytes_range:
  "n < 128 ^ length (varint_bytes n) \<and>
   (length (varint_bytes n) = 1 \<or> 128 ^ (length (varint_bytes n) - 1) \<le> n)"
proof (induction n rule: varint_bytes.induct)
  case (1 n)
  show ?case
  proof (cases "n < 128")
    case True
    then show ?thesis by (subst (1 2 3) varint_bytes.simps) simp
  next
    case False
    let ?l = "length (varint_bytes (n div 128))"
    have l: "length (varint_bytes n) = Suc ?l" using False by (subst varint_bytes.simps) simp
    have IH: "n div 128 < 128 ^ ?l" "?l = 1 \<or> 128 ^ (?l - 1) \<le> n div 128"
      using 1 False by auto
    have "n < 128 ^ Suc ?l"
      using IH(1) by (simp add: div_less_iff_less_mult mult.commute)
    moreover have "128 ^ ?l \<le> n"
    proof (cases "?l = 1")
      case False
      obtain k where k: "?l = Suc k" by (cases ?l) auto
      with IH(2) False have "128 ^ k \<le> n div 128" by simp
      then show ?thesis by (simp add: k less_eq_div_iff_mult_less_eq mult.commute)
    qed (use \<open>\<not> n < 128\<close> in simp)
    ultimately show ?thesis unfolding l by simp
  qed
qed

section \<open>Zigzag sizes\<close>

text \<open>\<open>soz\<close> sizes the zigzag encoding of a signed 64-bit integer.\<close>

definition zigzag :: "int \<Rightarrow> nat" where
  "zigzag n = nat (if 0 \<le> n then 2 * n else - 2 * n - 1)"

lemma signed_drop_bit_63: "signed_drop_bit 63 (x :: uint64) = (if sint x < 0 then - 1 else 0)"
proof -
  have "sint (signed_drop_bit 63 x) = drop_bit 63 (sint x)" by (simp add: sint_signed_drop_bit_eq)
  also have "\<dots> = (if sint x < 0 then - 1 else 0)"
    using sint_ge [of x] sint_lt [of x] div_add_self2 [of "2 ^ 63" "sint x"]
    by (auto simp: drop_bit_eq_div div_pos_pos_trivial)
  finally have "sint (signed_drop_bit 63 x) = sint (if sint x < 0 then - 1 else 0 :: uint64)" by simp
  then show ?thesis by (rule signed_word_eqI)
qed

lemma unat_word_of_int: "0 \<le> n \<Longrightarrow> n < 2 ^ 64 \<Longrightarrow> unat (of_int n :: uint64) = nat n"
  by (simp add: unat_eq_nat_uint uint_word_of_int)

lemma zigzag_word: "unat (push_bit 1 x XOR signed_drop_bit 63 (x :: uint64)) = zigzag (sint x)"
proof (cases "sint x < 0")
  case True
  have "x = of_int (sint x)" by simp
  then have "push_bit 1 x XOR - 1 = (of_int (- 2 * sint x - 1) :: uint64)"
    by (simp add: push_bit_eq_mult not_eq_complement)
  then have "unat (push_bit 1 x XOR signed_drop_bit 63 x) = unat (of_int (- 2 * sint x - 1) :: uint64)"
    using True by (simp only: signed_drop_bit_63 if_True)
  also have "\<dots> = nat (- 2 * sint x - 1)"
    using True sint_ge [of x] by (intro unat_word_of_int) simp_all
  finally show ?thesis using True by (simp add: zigzag_def)
next
  case False
  have "push_bit 1 x = (of_int (2 * sint x) :: uint64)" by (simp add: push_bit_eq_mult)
  then have "unat (push_bit 1 x XOR signed_drop_bit 63 x) = unat (of_int (2 * sint x) :: uint64)"
    using False by (simp only: signed_drop_bit_63 if_False xor.right_neutral)
  also have "\<dots> = nat (2 * sint x)"
    using False sint_lt [of x] by (intro unat_word_of_int) simp_all
  finally show ?thesis using False by (simp add: zigzag_def)
qed

lemma soz_eq: "soz x = len (varint_bytes (zigzag (sint x)))"
  by (simp only: soz_def sov_eq zigzag_word)

end
