(* ===== verification/Wire.thy ===== *)
theory Wire
  imports Varint
begin

text \<open>
  The field level of the wire format, as the generated code reads and writes it: tags, the
  length-delimited field, the skipping of unknown fields with their nested groups, the loop
  that every \<open>Unmarshal\<close> is, and the backwards writing of fields into a caller's buffer.
  The five generated files repeat this code with their own error values; here it is written
  once, with the file as an argument.
\<close>

section \<open>Skipping an unknown field\<close>

text \<open>
  One iteration of \<open>skip\<close> after the tag: by wire type, the index after the field's data and
  the group depth.
\<close>

definition skip_body :: "pbfile \<Rightarrow> byte list \<Rightarrow> goint \<Rightarrow> nat \<Rightarrow> goint \<Rightarrow> perr + (goint \<times> nat)" where
  "skip_body f d i depth wireType =
     (if wireType = 0 then bind_err (skip_varint f d i 0) (\<lambda>i'. Inr (i', depth))
      else if wireType = 1 then Inr (wrap64 (i + 8), depth)
      else if wireType = 2 then
        bind_err (decode_varint f d i 0 0) (\<lambda>(len', i').
          if sint len' < 0 then Inl (ErrInvalidLength f)
          else Inr (wrap64 (i' + sint len'), depth))
      else if wireType = 3 then Inr (i, Suc depth)
      else if wireType = 4 then
        (if depth = 0 then Inl (ErrUnexpectedEndOfGroup f) else Inr (i, depth - 1))
      else if wireType = 5 then Inr (wrap64 (i + 4), depth)
      else Inl (ErrIllegalWireType wireType))"

function skip_loop :: "pbfile \<Rightarrow> byte list \<Rightarrow> goint \<Rightarrow> nat \<Rightarrow> perr + goint" where
  "skip_loop f d i depth =
     (if i < len d then
        bind_err (decode_varint f d i 0 0) (\<lambda>(wire, i1).
        bind_err (skip_body f d i1 depth (uint (wire AND 7))) (\<lambda>(i2, depth').
          if i2 < 0 then Inl (ErrInvalidLength f)
          else if depth' = 0 then Inr i2
          else if i2 \<le> i then Inl Diverges
          else skip_loop f d i2 depth'))
      else Inl ErrUnexpectedEOF)"
  by pat_completeness auto
termination
  by (relation "measure (\<lambda>(f, d, i, depth). nat (len d - i))") auto

declare skip_loop.simps [simp del]

definition skip :: "pbfile \<Rightarrow> byte list \<Rightarrow> perr + goint" where
  "skip f d = skip_loop f d 0 0"

section \<open>Reading a message\<close>

subsection \<open>Tags and length-delimited fields\<close>

text \<open>The tag at the start of an iteration: field number, wire type, and the next index.\<close>

definition read_tag :: "pbfile \<Rightarrow> string \<Rightarrow> byte list \<Rightarrow> goint \<Rightarrow> perr + (goint \<times> goint \<times> goint)" where
  "read_tag f name d i =
     bind_err (decode_varint f d i 0 0) (\<lambda>(wire, i').
       let fieldNum = sint (ucast (drop_bit 3 wire) :: 32 word);
           wireType = uint (wire AND 7)
       in if wireType = 4 then Inl (ErrEndGroupForNonGroup name)
          else if fieldNum \<le> 0 then Inl (ErrIllegalTag name fieldNum wire)
          else Inr (fieldNum, wireType, i'))"

text \<open>The length of a string, bytes or message field: where its data begins and ends.\<close>

definition read_len :: "pbfile \<Rightarrow> byte list \<Rightarrow> goint \<Rightarrow> perr + (goint \<times> goint)" where
  "read_len f d i =
     bind_err (decode_varint f d i 0 0) (\<lambda>(n, i').
       let intLen = sint n; postIndex = wrap64 (i' + intLen)
       in if intLen < 0 then Inl (ErrInvalidLength f)
          else if postIndex < 0 then Inl (ErrInvalidLength f)
          else if len d < postIndex then Inl ErrUnexpectedEOF
          else Inr (i', postIndex))"

text \<open>The \<open>default\<close> case of the switch: back to the tag, and skip from there.\<close>

definition skip_unknown :: "pbfile \<Rightarrow> byte list \<Rightarrow> goint \<Rightarrow> perr + goint" where
  "skip_unknown f d preIndex =
     bind_err (slice d preIndex (len d)) (\<lambda>rest.
     bind_err (skip f rest) (\<lambda>skippy.
       if skippy < 0 \<or> wrap64 (preIndex + skippy) < 0 then Inl (ErrInvalidLength f)
       else if len d < wrap64 (preIndex + skippy) then Inl ErrUnexpectedEOF
       else Inr (wrap64 (preIndex + skippy))))"

subsection \<open>The loop of Unmarshal\<close>

text \<open>
  All fields of this module's messages are length-delimited. A case of a message's switch
  over the field number is the field's name (for the error) and what it does to the receiver
  with the field's bytes; the receiver keeps what was stored before an error.
\<close>

type_synonym 'm field = "string \<times> ('m \<Rightarrow> byte list \<Rightarrow> 'm \<times> perr option)"

definition unmarshal_field ::
    "pbfile \<Rightarrow> 'm field \<Rightarrow> byte list \<Rightarrow> 'm \<Rightarrow> goint \<Rightarrow> goint \<Rightarrow> 'm \<times> (perr + goint)" where
  "unmarshal_field f fld d m wireType i =
     (if wireType \<noteq> 2 then (m, Inl (ErrWrongWireType wireType (fst fld)))
      else case bind_err (read_len f d i) (\<lambda>(i', postIndex).
                  bind_err (slice d i' postIndex) (\<lambda>bs. Inr (bs, postIndex))) of
        Inl e \<Rightarrow> (m, Inl e)
      | Inr (bs, postIndex) \<Rightarrow>
          (case snd fld m bs of
             (m', Some e) \<Rightarrow> (m', Inl e)
           | (m', None) \<Rightarrow> (m', Inr postIndex)))"

definition unmarshal_step ::
    "pbfile \<Rightarrow> string \<Rightarrow> (goint \<Rightarrow> 'm field option) \<Rightarrow> byte list \<Rightarrow> 'm \<Rightarrow> goint \<Rightarrow> 'm \<times> (perr + goint)" where
  "unmarshal_step f name fields d m i =
     (case read_tag f name d i of
        Inl e \<Rightarrow> (m, Inl e)
      | Inr (fieldNum, wireType, i') \<Rightarrow>
          (case fields fieldNum of
             Some fld \<Rightarrow> unmarshal_field f fld d m wireType i'
           | None \<Rightarrow> (m, skip_unknown f d i)))"

function unmarshal_loop ::
    "pbfile \<Rightarrow> string \<Rightarrow> (goint \<Rightarrow> 'm field option) \<Rightarrow> byte list \<Rightarrow> 'm \<Rightarrow> goint \<Rightarrow> 'm \<times> perr option" where
  "unmarshal_loop f name fields d m i =
     (if i < len d then
        (case unmarshal_step f name fields d m i of
           (m', Inl e) \<Rightarrow> (m', Some e)
         | (m', Inr i') \<Rightarrow>
             if i' \<le> i then (m', Some Diverges) else unmarshal_loop f name fields d m' i')
      else if len d < i then (m, Some ErrUnexpectedEOF)
      else (m, None))"
  by pat_completeness auto
termination
  by (relation "measure (\<lambda>(f, name, fields, d, m, i). nat (len d - i))") auto

declare unmarshal_loop.simps [simp del]

definition unmarshal ::
    "pbfile \<Rightarrow> string \<Rightarrow> (goint \<Rightarrow> 'm field option) \<Rightarrow> 'm \<Rightarrow> byte list \<Rightarrow> 'm \<times> perr option" where
  "unmarshal f name fields m d = unmarshal_loop f name fields d m 0"

section \<open>Writing a message\<close>

text \<open>
  A message is written from its last field to its first, into the end of a buffer \<open>d\<close> whose
  bytes from index \<open>i\<close> on are already written. A field goes before them: the data, then its
  length, then the tag byte.
\<close>

definition put_bytes :: "byte \<Rightarrow> byte list \<Rightarrow> byte list \<times> goint \<Rightarrow> perr + (byte list \<times> goint)" where
  "put_bytes tag s = (\<lambda>(d, i).
     let i = i - len s in
     bind_err (copy_at d i s) (\<lambda>d.
     bind_err (encodeVarint d i (of_int (len s))) (\<lambda>(d, i).
     let i = i - 1 in
     bind_err (set_byte d i tag) (\<lambda>d. Inr (d, i)))))"

text \<open>The \<open>if len(m.X) > 0\<close> around a string field.\<close>

definition put_string :: "byte \<Rightarrow> string \<Rightarrow> byte list \<times> goint \<Rightarrow> perr + (byte list \<times> goint)" where
  "put_string tag s di = (if len s > 0 then put_bytes tag (str_bytes s) di else Inr di)"

text \<open>
  A nested message is written into the slice \<open>d[:i]\<close>, which shares the buffer, by its own
  \<open>MarshalToSizedBuffer\<close>.
\<close>

definition put_message ::
    "byte \<Rightarrow> (byte list \<Rightarrow> perr + (byte list \<times> goint)) \<Rightarrow> byte list \<times> goint \<Rightarrow> perr + (byte list \<times> goint)" where
  "put_message tag mtsb = (\<lambda>(d, i).
     bind_err (slice d 0 i) (\<lambda>sub.
     bind_err (mtsb sub) (\<lambda>(sub', sz).
     let d = sub' @ drop (nat i) d; i = i - sz in
     bind_err (encodeVarint d i (of_int sz)) (\<lambda>(d, i).
     let i = i - 1 in
     bind_err (set_byte d i tag) (\<lambda>d. Inr (d, i))))))"

text \<open>The whole buffer: \<open>i := len(dAtA)\<close> at the start, \<open>len(dAtA) - i\<close> at the end.\<close>

definition to_sized_buffer ::
    "(byte list \<times> goint \<Rightarrow> perr + (byte list \<times> goint)) \<Rightarrow> byte list \<Rightarrow> perr + (byte list \<times> goint)" where
  "to_sized_buffer put dAtA =
     (let i = len dAtA in bind_err (put (dAtA, i)) (\<lambda>(d, i). Inr (d, len d - i)))"

text \<open>
  \<open>Marshal\<close> and \<open>MarshalTo\<close> of every message, over its \<open>Size\<close> and its
  \<open>MarshalToSizedBuffer\<close>. \<open>make\<close> panics on a negative size.
\<close>

definition marshal ::
    "('m \<Rightarrow> goint) \<Rightarrow> ('m \<Rightarrow> byte list \<Rightarrow> perr + (byte list \<times> goint)) \<Rightarrow> 'm \<Rightarrow> perr + byte list" where
  "marshal Size mtsb m =
     (let size = Size m in
      if size < 0 then Inl IndexPanic
      else let dAtA = replicate (nat size) 0 in
        bind_err (slice dAtA 0 size) (\<lambda>buf.
        bind_err (mtsb m buf) (\<lambda>(buf', n). slice (buf' @ drop (nat size) dAtA) 0 n)))"

definition marshal_to ::
    "('m \<Rightarrow> goint) \<Rightarrow> ('m \<Rightarrow> byte list \<Rightarrow> perr + (byte list \<times> goint)) \<Rightarrow> 'm \<Rightarrow> byte list
     \<Rightarrow> perr + (byte list \<times> goint)" where
  "marshal_to Size mtsb m dAtA =
     (let size = Size m in
      bind_err (slice dAtA 0 size) (\<lambda>buf.
      bind_err (mtsb m buf) (\<lambda>(buf', n). Inr (buf' @ drop (nat size) dAtA, n))))"

text \<open>
  \<open>XXX_Marshal\<close> without the deterministic flag: the slice is extended to its capacity
  (\<open>backing\<close> is the backing array from the slice's start on) and handed to
  \<open>MarshalToSizedBuffer\<close>, and the first \<open>n\<close> bytes are returned.
\<close>

definition xxx_marshal ::
    "('m \<Rightarrow> byte list \<Rightarrow> perr + (byte list \<times> goint)) \<Rightarrow> 'm \<Rightarrow> byte list \<Rightarrow> perr + byte list" where
  "xxx_marshal mtsb m backing =
     bind_err (mtsb m backing) (\<lambda>(b, n). slice b 0 n)"

section \<open>Safety of the readers\<close>

text \<open>
  An error of the decoder proper is an error value the Go code returns: neither a panic nor
  an iteration without progress.
\<close>

definition decoder_error :: "perr \<Rightarrow> bool" where
  "decoder_error e \<longleftrightarrow> e \<noteq> IndexPanic \<and> e \<noteq> Diverges"

lemma decoder_error_simps [simp]:
  "decoder_error (ErrIntOverflow f)" "decoder_error (ErrInvalidLength f)"
  "decoder_error (ErrUnexpectedEndOfGroup f)" "decoder_error ErrUnexpectedEOF"
  "decoder_error (ErrEndGroupForNonGroup name)" "decoder_error (ErrIllegalTag name n w)"
  "decoder_error (ErrWrongWireType t name)" "decoder_error (ErrIllegalWireType t)"
  "decoder_error (ErrExternal name)" "\<not> decoder_error IndexPanic" "\<not> decoder_error Diverges"
  by (simp_all add: decoder_error_def)

lemma decode_varint_error:
  assumes "decode_varint f d i 0 0 = Inl e" "0 \<le> i"
  shows "decoder_error e"
proof (cases "i \<le> len d")
  case True
  with assms(2) obtain pre s where d: "d = pre @ s" "i = len pre" by (rule split_at_index)
  with assms(1) show ?thesis
    unfolding d decode_varint_eq by (auto simp: bind_err_eq_Inl read_varint_def split: option.splits)
next
  case False
  with assms show ?thesis by (simp add: decode_varint_beyond)
qed

lemma sint_less_2p63: "sint (w :: uint64) < 2 ^ 63"
  using sint_lt [of w] by simp

lemma skip_body_ok:
  assumes "skip_body f d i depth t = Inr (i', depth')" "0 \<le> i" "i \<le> len d" "len_ok d"
  shows "(i' < 0 \<or> i \<le> i') \<and> i' < 2 ^ 63"
proof -
  have w: "wrap64 (j + k) < 0 \<or> wrap64 (j + k) = j + k"
    if "0 \<le> j" "j \<le> len d" "0 \<le> k" "k < 2 ^ 63" for j k
    using that assms(4) by (intro wrap64_add_cases) (auto simp: len_ok_def)
  consider "t = 0" | "t = 1" | "t = 2" | "t = 3" | "t = 4" | "t = 5"
    using assms(1) by (force simp: skip_body_def split: if_splits)
  then show ?thesis
  proof cases
    case 1
    with assms(1,2) show ?thesis
      using assms(4) by (auto simp: skip_body_def bind_err_eq_Inr skip_varint_eq [where acc = 0]
          len_ok_def dest!: decode_varint_ok)
  next
    case 3
    with assms(1) obtain n j where n: "decode_varint f d i 0 0 = Inr (n, j)" "0 \<le> sint n"
        "i' = wrap64 (j + sint n)"
      by (auto simp: skip_body_def bind_err_eq_Inr split: if_splits)
    from decode_varint_ok [OF n(1) assms(2)] n w [of j "sint n"] sint_less_2p63 [of n] assms(2)
    show ?thesis using wrap64_range [of "j + sint n"] by auto
  qed (use assms w [of i 8] w [of i 4] wrap64_range [of "i + 8"] wrap64_range [of "i + 4"]
      in \<open>auto simp: skip_body_def len_ok_def split: if_splits\<close>)
qed

lemma skip_body_error:
  "skip_body f d i depth t = Inl e \<Longrightarrow> 0 \<le> i \<Longrightarrow> decoder_error e"
  by (auto simp: skip_body_def bind_err_eq_Inl skip_varint_eq [where acc = 0]
      split: if_splits dest: decode_varint_error)

lemma skip_loop_ok:
  "skip_loop f d i depth = Inr r \<Longrightarrow> 0 \<le> i \<Longrightarrow> len_ok d \<Longrightarrow> i < r \<and> r < 2 ^ 63"
proof (induction f d i depth rule: skip_loop.induct)
  case (1 f d i depth)
  from "1.prems"(1) obtain wire i1 i2 depth' where
    r: "i < len d" "decode_varint f d i 0 0 = Inr (wire, i1)"
      "skip_body f d i1 depth (uint (wire AND 7)) = Inr (i2, depth')" "\<not> i2 < 0"
      "depth' = 0 \<and> r = i2 \<or> depth' \<noteq> 0 \<and> i < i2 \<and> skip_loop f d i2 depth' = Inr r"
    by (subst (asm) skip_loop.simps) (auto simp: bind_err_eq_Inr split: if_splits)
  from decode_varint_ok [OF r(2) "1.prems"(2)] have i1: "i < i1" "i1 \<le> len d" by simp_all
  with skip_body_ok [OF r(3)] r(4) "1.prems" have i2: "i1 \<le> i2" "i2 < 2 ^ 63" by fastforce+
  from r(5) show ?case
  proof
    assume "depth' = 0 \<and> r = i2"
    with i1 i2 show ?thesis by simp
  next
    assume *: "depth' \<noteq> 0 \<and> i < i2 \<and> skip_loop f d i2 depth' = Inr r"
    then have "i2 < r \<and> r < 2 ^ 63" using r "1.prems" by (intro "1.IH" [OF r(1,2) refl r(3) refl]) auto
    with i1 i2 show ?thesis by simp
  qed
qed

lemma skip_loop_error:
  "skip_loop f d i depth = Inl e \<Longrightarrow> 0 \<le> i \<Longrightarrow> len_ok d \<Longrightarrow> decoder_error e"
proof (induction f d i depth rule: skip_loop.induct)
  case (1 f d i depth)
  show ?case
  proof (cases "i < len d")
    case True
    show ?thesis
    proof (cases "decode_varint f d i 0 0")
      case (Inl e')
      with "1.prems" True show ?thesis
        by (subst (asm) skip_loop.simps) (auto dest: decode_varint_error)
    next
      case (Inr wi)
      then obtain wire i1 where dv: "decode_varint f d i 0 0 = Inr (wire, i1)" by (cases wi) auto
      from decode_varint_ok [OF this "1.prems"(2)] have i1: "i < i1" "i1 \<le> len d" by simp_all
      show ?thesis
      proof (cases "skip_body f d i1 depth (uint (wire AND 7))")
        case (Inl e')
        with skip_body_error [OF this] "1.prems" dv i1 True show ?thesis
          by (subst (asm) skip_loop.simps) auto
      next
        case (Inr id)
        then obtain i2 depth' where sb: "skip_body f d i1 depth (uint (wire AND 7)) = Inr (i2, depth')"
          by (cases id) auto
        with skip_body_ok [OF this] i1 "1.prems" have "i2 < 0 \<or> i1 \<le> i2" by fastforce
        with "1.IH" [OF True dv refl sb refl] "1.prems" dv sb i1 True show ?thesis
          by (subst (asm) skip_loop.simps) (auto split: if_splits)
      qed
    qed
  next
    case False
    with "1.prems" show ?thesis by (subst (asm) skip_loop.simps) auto
  qed
qed

lemma read_tag_ok:
  "read_tag f name d i = Inr (n, t, j) \<Longrightarrow> 0 \<le> i \<Longrightarrow> i < j \<and> j \<le> len d \<and> 0 < n"
  by (auto simp: read_tag_def bind_err_eq_Inr Let_def split: if_splits dest: decode_varint_ok)

lemma read_tag_error: "read_tag f name d i = Inl e \<Longrightarrow> 0 \<le> i \<Longrightarrow> decoder_error e"
  by (auto simp: read_tag_def bind_err_eq_Inl Let_def split: if_splits dest: decode_varint_error)

lemma read_len_ok:
  assumes "read_len f d i = Inr (j, p)" "0 \<le> i" "len_ok d"
  shows "i < j \<and> j \<le> p \<and> p \<le> len d"
proof -
  from assms(1) obtain n where n: "decode_varint f d i 0 0 = Inr (n, j)" "0 \<le> sint n"
      "0 \<le> wrap64 (j + sint n)" "p = wrap64 (j + sint n)" "p \<le> len d"
    by (auto simp: read_len_def bind_err_eq_Inr Let_def split: if_splits)
  from decode_varint_ok [OF n(1) assms(2)] have "i < j" "j \<le> len d" by simp_all
  moreover have "p = j + sint n"
    using n wrap64_add_nonneg(1) [of j "sint n"] sint_less_2p63 [of n] calculation assms(2,3)
    by (auto simp: len_ok_def)
  ultimately show ?thesis using n by simp
qed

lemma read_len_error: "read_len f d i = Inl e \<Longrightarrow> 0 \<le> i \<Longrightarrow> decoder_error e"
  by (auto simp: read_len_def bind_err_eq_Inl Let_def split: if_splits dest: decode_varint_error)

lemma skip_unknown_ok:
  assumes "skip_unknown f d i = Inr j" "0 \<le> i" "len_ok d"
  shows "i < j \<and> j \<le> len d"
proof -
  from assms(1) obtain rest n where n: "slice d i (len d) = Inr rest" "skip f rest = Inr n"
      "0 \<le> n" "0 \<le> wrap64 (i + n)" "wrap64 (i + n) \<le> len d" "j = wrap64 (i + n)"
    by (auto simp: skip_unknown_def bind_err_eq_Inr split: if_splits)
  from slice_ok [OF n(1)] assms have rest: "len_ok rest" "i \<le> len d" by (auto simp: len_ok_def)
  then have "0 < n" "n < 2 ^ 63" using n(2) skip_loop_ok unfolding skip_def by blast+
  with wrap64_add_nonneg(1) [of i n] n rest assms show ?thesis by (auto simp: len_ok_def)
qed

lemma skip_unknown_error:
  assumes "skip_unknown f d i = Inl e" "0 \<le> i" "i \<le> len d" "len_ok d"
  shows "decoder_error e"
proof -
  obtain rest where rest: "slice d i (len d) = Inr rest"
    using slice_in_range [of i "len d" d] assms by auto
  with slice_ok [OF this] assms have "len_ok rest" by (auto simp: len_ok_def)
  with assms(1) rest show ?thesis
    by (auto simp: skip_unknown_def bind_err_eq_Inl skip_def split: if_splits dest: skip_loop_error)
qed

text \<open>One iteration of \<open>Unmarshal\<close> moves the index forward, within the input.\<close>

lemma unmarshal_field_ok:
  assumes "unmarshal_field f fld d m t i = (m', Inr j)" "0 \<le> i" "len_ok d"
  shows "\<exists>i1 bs. t = 2 \<and> read_len f d i = Inr (i1, j) \<and> slice d i1 j = Inr bs
    \<and> snd fld m bs = (m', None) \<and> i < j \<and> j \<le> len d"
  using assms read_len_ok [of f d i]
  by (fastforce simp: unmarshal_field_def bind_err_eq_Inr split: if_splits sum.splits prod.splits option.splits)

lemma unmarshal_step_ok:
  assumes "unmarshal_step f name fields d m i = (m', Inr j)" "0 \<le> i" "len_ok d"
  shows "i < j \<and> j \<le> len d"
proof -
  from assms(1) obtain n t i1 where tag: "read_tag f name d i = Inr (n, t, i1)"
    by (cases "read_tag f name d i") (auto simp: unmarshal_step_def)
  from read_tag_ok [OF this assms(2)] have i1: "i < i1" by simp
  show ?thesis
  proof (cases "fields n")
    case None
    with assms tag show ?thesis by (auto simp: unmarshal_step_def dest: skip_unknown_ok)
  next
    case (Some fld)
    with assms(1) tag have "unmarshal_field f fld d m t i1 = (m', Inr j)"
      by (simp add: unmarshal_step_def)
    with i1 assms(2,3) show ?thesis using unmarshal_field_ok [of f fld d m t i1 m' j] by auto
  qed
qed

lemma unmarshal_step_error:
  assumes "unmarshal_step f name fields d m i = (m', Inl e)" "0 \<le> i" "i \<le> len d" "len_ok d"
    and safe: "\<And>k fld m bs m' e. fields k = Some fld \<Longrightarrow> len_ok bs \<Longrightarrow> snd fld m bs = (m', Some e) \<Longrightarrow> decoder_error e"
  shows "decoder_error e"
proof (cases "read_tag f name d i")
  case (Inl e')
  with assms(1,2) show ?thesis by (auto simp: unmarshal_step_def dest: read_tag_error)
next
  case (Inr r)
  then obtain n t i1 where tag: "read_tag f name d i = Inr (n, t, i1)" by (cases r) auto
  from read_tag_ok [OF this assms(2)] have i1: "0 \<le> i1" using assms(2) by simp
  show ?thesis
  proof (cases "fields n")
    case None
    with assms(1-4) tag show ?thesis by (auto simp: unmarshal_step_def dest: skip_unknown_error)
  next
    case (Some fld)
    have sl: "\<exists>bs. slice d j p = Inr bs \<and> len_ok bs" if "read_len f d i1 = Inr (j, p)" for j p
    proof -
      from read_len_ok [OF that i1 assms(4)] i1 obtain bs where bs: "slice d j p = Inr bs"
        using slice_in_range [of j p d] by auto
      with slice_ok [OF bs] assms(4) show ?thesis by (auto simp: len_ok_def)
    qed
    from Some assms(1) tag have "unmarshal_field f fld d m t i1 = (m', Inl e)"
      by (simp add: unmarshal_step_def)
    then show ?thesis
      using safe [OF Some] i1 sl
      by (fastforce simp: unmarshal_field_def bind_err_eq_Inl bind_err_eq_Inr
          split: if_splits sum.splits prod.splits option.splits dest: read_len_error)
  qed
qed

section \<open>Longer inputs\<close>

text \<open>
  A reader that succeeds reads the same at an offset of a longer input, whatever follows.
\<close>

lemma decode_varint_append:
  "decode_varint f d i 0 0 = Inr r \<Longrightarrow> 0 \<le> i \<Longrightarrow> decode_varint f (d @ t) i 0 0 = Inr r"
  using decode_varint_shift [of f d i _ _ "[]" t] by (cases r) auto

lemma skip_body_append:
  assumes "skip_body f d i depth t = Inr r" "0 \<le> i"
  shows "skip_body f (d @ s) i depth t = Inr r"
proof -
  note app = decode_varint_append [OF _ assms(2)]
  consider n j where "t = 0 \<or> t = 2" "decode_varint f d i 0 0 = Inr (n, j)" | "t \<noteq> 0" "t \<noteq> 2"
    using assms(1) by (force simp: skip_body_def bind_err_eq_Inr skip_varint_eq [where acc = 0])
  then show ?thesis
  proof cases
    case 1
    with app [OF 1(2)] assms(1) show ?thesis
      by (auto simp: skip_body_def skip_varint_eq [where acc = 0])
  next
    case 2
    have "skip_body f (d @ s) i depth t = skip_body f d i depth t"
      using 2 by (simp add: skip_body_def)
    with assms(1) show ?thesis by simp
  qed
qed

lemma skip_loop_append:
  "skip_loop f d i depth = Inr r \<Longrightarrow> 0 \<le> i \<Longrightarrow> len_ok d \<Longrightarrow> skip_loop f (d @ s) i depth = Inr r"
proof (induction f d i depth rule: skip_loop.induct)
  case (1 f d i depth)
  from "1.prems"(1) obtain wire i1 i2 depth' where
    r: "i < len d" "decode_varint f d i 0 0 = Inr (wire, i1)"
      "skip_body f d i1 depth (uint (wire AND 7)) = Inr (i2, depth')" "\<not> i2 < 0"
      "depth' = 0 \<and> r = i2 \<or> depth' \<noteq> 0 \<and> i < i2 \<and> skip_loop f d i2 depth' = Inr r"
    by (subst (asm) skip_loop.simps) (auto simp: bind_err_eq_Inr split: if_splits)
  have dv: "decode_varint f (d @ s) i 0 0 = Inr (wire, i1)"
    using decode_varint_append [OF r(2)] "1.prems" by simp
  have "0 \<le> i1" using decode_varint_ok [OF r(2)] "1.prems" by simp
  then have sb: "skip_body f (d @ s) i1 depth (uint (wire AND 7)) = Inr (i2, depth')"
    by (rule skip_body_append [OF r(3)])
  have "i < len (d @ s)" using r(1) len_nonneg [of s] unfolding len_simps by linarith
  moreover have "skip_loop f (d @ s) i2 depth' = Inr r" if "depth' \<noteq> 0 \<and> i < i2 \<and> skip_loop f d i2 depth' = Inr r"
    using "1.IH" [OF r(1,2) refl r(3) refl] r that "1.prems" by auto
  ultimately show ?case
    using dv sb r(4,5) by (subst skip_loop.simps) auto
qed

lemma read_tag_shift:
  assumes "read_tag f name d i = Inr (n, t, j)" "0 \<le> i"
  shows "read_tag f name (pre @ d @ s) (len pre + i) = Inr (n, t, len pre + j)"
proof -
  from assms(1) obtain w where "decode_varint f d i 0 0 = Inr (w, j)"
    by (auto simp: read_tag_def bind_err_eq_Inr Let_def split: if_splits)
  with decode_varint_shift [OF this assms(2), of pre s] assms(1) show ?thesis
    by (auto simp: read_tag_def Let_def split: if_splits)
qed

lemma slice_shift:
  "slice d i j = Inr r \<Longrightarrow> slice (pre @ d @ s) (len pre + i) (len pre + j) = Inr r"
  by (auto simp: slice_def len_def nat_add_distrib split: if_splits)

lemma read_len_shift:
  assumes "read_len f d i = Inr (j, p)" "0 \<le> i" "len_ok (pre @ d @ s)"
  shows "read_len f (pre @ d @ s) (len pre + i) = Inr (len pre + j, len pre + p)"
proof -
  from assms(1) obtain n where n: "decode_varint f d i 0 0 = Inr (n, j)" "0 \<le> sint n"
      "0 \<le> wrap64 (j + sint n)" "p = wrap64 (j + sint n)" "p \<le> len d"
    by (auto simp: read_len_def bind_err_eq_Inr Let_def split: if_splits)
  have ok: "len_ok d" using assms(3) len_ok_append by blast
  have j: "0 \<le> j" "j \<le> len d" using decode_varint_ok [OF n(1) assms(2)] assms(2) by simp_all
  have p: "p = j + sint n"
    using n wrap64_add_nonneg(1) [of j "sint n"] sint_less_2p63 [of n] j ok by (auto simp: len_ok_def)
  have l: "len pre + len d + len s < 2 ^ 63" "0 \<le> len pre" "0 \<le> len s"
    using assms(3) by (simp_all add: len_ok_def add.assoc)
  then have "wrap64 (len pre + j + sint n) = len pre + p"
    using p n(2,5) j(1) by (subst wrap64_id) (linarith | simp)+
  moreover have "\<not> len pre + p < 0" "\<not> len pre + (len d + len s) < len pre + p"
    using p n(2,5) j(1) l by linarith+
  ultimately show ?thesis
    using decode_varint_shift [OF n(1) assms(2), of pre s] n(2)
    by (simp add: read_len_def Let_def)
qed

lemma skip_unknown_shift:
  assumes "skip_unknown f d i = Inr j" "0 \<le> i" "len_ok (pre @ d @ s)"
  shows "skip_unknown f (pre @ d @ s) (len pre + i) = Inr (len pre + j)"
proof -
  have ok: "len_ok d" using assms(3) len_ok_append by blast
  from assms(1) obtain rest n where n: "slice d i (len d) = Inr rest" "skip f rest = Inr n"
      "0 \<le> n" "0 \<le> wrap64 (i + n)" "wrap64 (i + n) \<le> len d" "j = wrap64 (i + n)"
    by (auto simp: skip_unknown_def bind_err_eq_Inr split: if_splits)
  from slice_ok [OF n(1)] have i: "i \<le> len d" "len rest = len d - i" by simp_all
  then have "len_ok rest" using ok assms(2) by (simp add: len_ok_def)
  then have n2: "skip f (rest @ s) = Inr n" "n < 2 ^ 63"
    using n(2) skip_loop_append [of f rest 0 0 n s] skip_loop_ok [of f rest 0 0 n]
    by (auto simp: skip_def)
  have j: "j = i + n"
    using wrap64_add_nonneg(1) [of i n] n n2 i ok assms(2) by (auto simp: len_ok_def)
  have l: "len pre + len d + len s < 2 ^ 63" "0 \<le> len pre" "0 \<le> len s"
    using assms(3) by (simp_all add: len_ok_def add.assoc)
  have "rest = drop (nat i) d"
    using n(1) i assms(2) by (auto simp: slice_def len_def split: if_splits)
  then have "slice (pre @ d @ s) (len pre + i) (len (pre @ d @ s)) = Inr (rest @ s)"
    using i assms(2) by (simp add: slice_def len_def nat_add_distrib)
  moreover have "wrap64 (len pre + i + n) = len pre + j"
    using j n l by (subst wrap64_id) (linarith | simp)+
  moreover have "\<not> len pre + j < 0" "\<not> len pre + (len d + len s) < len pre + j"
    using j n l by linarith+
  ultimately show ?thesis
    using n n2 by (simp add: skip_unknown_def)
qed

lemma unmarshal_step_shift:
  assumes "unmarshal_step f name fields d m i = (m', Inr j)" "0 \<le> i" "len_ok (pre @ d @ s)"
  shows "unmarshal_step f name fields (pre @ d @ s) m (len pre + i) = (m', Inr (len pre + j))"
proof -
  have ok: "len_ok d" using assms(3) len_ok_append by blast
  from assms(1) obtain n t i1 where tag: "read_tag f name d i = Inr (n, t, i1)"
    by (cases "read_tag f name d i") (auto simp: unmarshal_step_def)
  note tag' = read_tag_shift [OF tag assms(2), of pre s]
  from read_tag_ok [OF tag assms(2)] have i1: "0 \<le> i1" using assms(2) by simp
  show ?thesis
  proof (cases "fields n")
    case None
    with assms tag tag' show ?thesis by (auto simp: unmarshal_step_def dest: skip_unknown_shift)
  next
    case (Some fld)
    with assms(1) tag have "unmarshal_field f fld d m t i1 = (m', Inr j)"
      by (simp add: unmarshal_step_def)
    from unmarshal_field_ok [OF this i1 ok] obtain i2 bs where
      "t = 2" "read_len f d i1 = Inr (i2, j)" "slice d i2 j = Inr bs" "snd fld m bs = (m', None)"
      by blast
    with Some tag' read_len_shift [of f d i1 i2 j pre s] i1 assms(3) slice_shift [of d i2 j bs pre s]
    show ?thesis by (simp add: unmarshal_step_def unmarshal_field_def)
  qed
qed

section \<open>The loop over a message\<close>

text \<open>
  What holds of the loop of every message whose fields return only errors: it returns with
  no panic, having consumed the whole input or met an error, and the decoding of a
  concatenation is the decoding of its parts in turn.
\<close>

locale pb_reader =
  fixes f :: pbfile and name :: string and fields :: "goint \<Rightarrow> 'm field option"
  assumes fields_safe:
    "fields k = Some fld \<Longrightarrow> len_ok bs \<Longrightarrow> snd fld m bs = (m', Some e) \<Longrightarrow> decoder_error e"
begin

lemma step_error:
  "unmarshal_step f name fields d m i = (m', Inl e) \<Longrightarrow> 0 \<le> i \<Longrightarrow> i \<le> len d \<Longrightarrow> len_ok d \<Longrightarrow>
   decoder_error e"
  by (erule (3) unmarshal_step_error) (rule fields_safe)

lemma loop_unfold:
  assumes "0 \<le> i" "len_ok d" "i \<le> len d"
  shows "unmarshal_loop f name fields d m i =
    (if i = len d then (m, None)
     else case unmarshal_step f name fields d m i of
       (m', Inl e) \<Rightarrow> (m', Some e)
     | (m', Inr j) \<Rightarrow> unmarshal_loop f name fields d m' j)"
  using assms by (subst unmarshal_loop.simps)
    (auto split: prod.split sum.split dest!: unmarshal_step_ok)

lemma loop_error:
  assumes "unmarshal_loop f name fields d m i = (m', Some e)" "0 \<le> i" "i \<le> len d" "len_ok d"
  shows "decoder_error e"
  using assms(1-3)
proof (induction "nat (len d - i)" arbitrary: m i rule: less_induct)
  case less
  show ?case
  proof (cases "unmarshal_step f name fields d m i")
    case (Pair m1 r)
    show ?thesis
    proof (cases r)
      case (Inl e')
      with Pair less.prems assms(4) show ?thesis
        by (auto simp: loop_unfold split: if_splits dest: step_error)
    next
      case (Inr j)
      with Pair less.prems assms(4) have j: "i < j" "j \<le> len d" by (auto dest: unmarshal_step_ok)
      with Inr Pair less.prems assms(4) have "unmarshal_loop f name fields d m1 j = (m', Some e)"
        by (auto simp: loop_unfold split: if_splits)
      with less.hyps [of j m1] j less.prems show ?thesis by simp
    qed
  qed
qed

text \<open>The loop at an offset of a longer input, up to the end of the part it was run on.\<close>

lemma loop_shift:
  assumes "unmarshal_loop f name fields d m i = (m', None)" "0 \<le> i" "i \<le> len d" "len_ok (pre @ d @ s)"
  shows "unmarshal_loop f name fields (pre @ d @ s) m (len pre + i) =
    unmarshal_loop f name fields (pre @ d @ s) m' (len (pre @ d))"
  using assms(1-3)
proof (induction "nat (len d - i)" arbitrary: m i rule: less_induct)
  case less
  have ok: "len_ok d" using assms(4) len_ok_append by blast
  show ?case
  proof (cases "i = len d")
    case True
    with less.prems ok show ?thesis by (simp add: loop_unfold)
  next
    case False
    with less.prems ok obtain m1 j where st: "unmarshal_step f name fields d m i = (m1, Inr j)"
      and l: "unmarshal_loop f name fields d m1 j = (m', None)"
      by (cases "unmarshal_step f name fields d m i") (auto simp: loop_unfold split: sum.splits)
    from unmarshal_step_ok [OF st less.prems(2) ok] have j: "i < j" "j \<le> len d" by simp_all
    have "unmarshal_loop f name fields (pre @ d @ s) m (len pre + i) =
        unmarshal_loop f name fields (pre @ d @ s) m1 (len pre + j)"
      using unmarshal_step_shift [OF st less.prems(2) assms(4)] j less.prems(2) len_nonneg [of s] len_nonneg [of pre]
      by (subst loop_unfold) (auto simp: assms(4) simp del: len_nonneg)
    with less.hyps [of j m1] l j less.prems show ?thesis by simp
  qed
qed

lemma unmarshal_error:
  "unmarshal f name fields m d = (m', Some e) \<Longrightarrow> len_ok d \<Longrightarrow> decoder_error e"
  unfolding unmarshal_def using loop_error [of d m 0 m' e] by simp

lemma unmarshal_append:
  assumes "unmarshal f name fields m d = (m', None)" "unmarshal f name fields m' t = (m'', None)"
    and "len_ok (d @ t)"
  shows "unmarshal f name fields m (d @ t) = (m'', None)"
proof -
  have "unmarshal_loop f name fields (d @ t) m 0 = unmarshal_loop f name fields (d @ t) m' (len d)"
    using loop_shift [of d m 0 m' "[]" t] assms by (simp add: unmarshal_def)
  also have "\<dots> = unmarshal_loop f name fields (d @ t) m'' (len (d @ t))"
    using loop_shift [of t m' 0 m'' d "[]"] assms by (simp add: unmarshal_def)
  also have "\<dots> = (m'', None)"
    using assms(3) len_nonneg [of "d @ t"] by (subst loop_unfold) (simp_all del: len_simps len_nonneg)
  finally show ?thesis by (simp add: unmarshal_def)
qed

lemma unmarshal_Nil: "unmarshal f name fields m [] = (m, None)"
  unfolding unmarshal_def by (subst unmarshal_loop.simps) simp

text \<open>One field at the front of the input is one iteration.\<close>

lemma unmarshal_front:
  assumes "unmarshal_step f name fields d m 0 = (m', Inr (len d))" "len_ok d"
  shows "unmarshal f name fields m d = (m', None)"
  using unmarshal_step_ok [OF assms(1) _ assms(2)] assms
  by (simp add: unmarshal_def loop_unfold)

end

end
