(* ===== verification/Wire_Fields.thy ===== *)
theory Wire_Fields
  imports Wire
begin

text \<open>
  The wire format of a field as a datatype, and what the code of \<open>Wire\<close> does on it: the
  skipping of a field is exactly the length of its encoding, whatever groups it nests; a
  known field is handed its bytes; the backwards writer writes the encoding.
\<close>

section \<open>Encoded fields\<close>

definition tag_value :: "nat \<Rightarrow> nat \<Rightarrow> nat" where
  "tag_value k t = 8 * k + t"

definition tag_bytes :: "nat \<Rightarrow> nat \<Rightarrow> byte list" where
  "tag_bytes k t = varint_bytes (tag_value k t)"

text \<open>
  A group ends with an end tag that carries a field number of its own: the code does not
  compare it with the number of the start tag.
\<close>

datatype wfield =
    WVarint nat nat
  | WFixed64 nat "byte list"
  | WLen nat "byte list"
  | WGroup nat "wfield list" nat
  | WFixed32 nat "byte list"

fun field_number :: "wfield \<Rightarrow> nat" where
  "field_number (WVarint k v) = k"
| "field_number (WFixed64 k bs) = k"
| "field_number (WLen k bs) = k"
| "field_number (WGroup k fs k') = k"
| "field_number (WFixed32 k bs) = k"

fun wire_type :: "wfield \<Rightarrow> nat" where
  "wire_type (WVarint k v) = 0"
| "wire_type (WFixed64 k bs) = 1"
| "wire_type (WLen k bs) = 2"
| "wire_type (WGroup k fs k') = 3"
| "wire_type (WFixed32 k bs) = 5"

fun wf_body :: "wfield \<Rightarrow> byte list" where
  "wf_body (WVarint k v) = varint_bytes v"
| "wf_body (WFixed64 k bs) = bs"
| "wf_body (WLen k bs) = varint_bytes (length bs) @ bs"
| "wf_body (WGroup k fs k') =
     concat (map (\<lambda>w. tag_bytes (field_number w) (wire_type w) @ wf_body w) fs) @ tag_bytes k' 4"
| "wf_body (WFixed32 k bs) = bs"

definition wf_bytes :: "wfield \<Rightarrow> byte list" where
  "wf_bytes w = tag_bytes (field_number w) (wire_type w) @ wf_body w"

fun wf_ok :: "wfield \<Rightarrow> bool" where
  "wf_ok (WVarint k v) \<longleftrightarrow> k < 2 ^ 61 \<and> v < 2 ^ 64"
| "wf_ok (WFixed64 k bs) \<longleftrightarrow> k < 2 ^ 61 \<and> length bs = 8"
| "wf_ok (WLen k bs) \<longleftrightarrow> k < 2 ^ 61"
| "wf_ok (WGroup k fs k') \<longleftrightarrow> k < 2 ^ 61 \<and> k' < 2 ^ 61 \<and> list_all wf_ok fs"
| "wf_ok (WFixed32 k bs) \<longleftrightarrow> k < 2 ^ 61 \<and> length bs = 4"

lemma wf_body_group:
  "wf_body (WGroup k fs k') = concat (map wf_bytes fs) @ tag_bytes k' 4"
  unfolding wf_body.simps wf_bytes_def [abs_def] ..

lemma wf_ok_number: "wf_ok w \<Longrightarrow> field_number w < 2 ^ 61"
  by (cases w) auto

lemma wire_type_less: "wire_type w < 8"
  by (cases w) auto

lemma tag_bytes_nonempty [simp]: "tag_bytes k t \<noteq> []"
  by (simp add: tag_bytes_def)

section \<open>Tags\<close>

lemma tag_value_less: "k < 2 ^ n \<Longrightarrow> t < 8 \<Longrightarrow> tag_value k t < 2 ^ (n + 3)"
  by (simp add: tag_value_def power_add)

lemma decode_tag:
  assumes "k < 2 ^ 61" "t < 8"
  shows "decode_varint f (pre @ tag_bytes k t @ suf) (len pre) 0 0 =
    Inr (of_nat (tag_value k t), len (pre @ tag_bytes k t))"
  unfolding tag_bytes_def using tag_value_less [OF assms] by (intro decode_varint_bytes) simp

lemma tag_wire_type:
  assumes "t < 8"
  shows "uint ((of_nat (tag_value k t) :: uint64) AND 7) = int t"
proof -
  have "(7::uint64) = mask 3" by (simp add: mask_eq_exp_minus_1)
  then have "(of_nat (tag_value k t) :: uint64) AND 7 = take_bit 3 (of_nat (tag_value k t))"
    by (simp only: take_bit_eq_mask)
  also have "\<dots> = of_nat (take_bit 3 (tag_value k t))" by (simp add: take_bit_of_nat)
  also have "take_bit 3 (tag_value k t) = t"
    using assms by (simp add: take_bit_eq_mod tag_value_def)
  finally have "uint ((of_nat (tag_value k t) :: uint64) AND 7) = uint (of_nat t :: uint64)"
    by (rule arg_cong)
  also have "\<dots> = int t" using assms by (simp add: uint_nat unat_of_nat)
  finally show ?thesis .
qed

lemma tag_number:
  assumes "k < 2 ^ 31" "t < 8"
  shows "sint (ucast (drop_bit 3 (of_nat (tag_value k t) :: uint64)) :: 32 word) = int k"
proof -
  have "unat (drop_bit 3 (of_nat (tag_value k t) :: uint64)) = drop_bit 3 (tag_value k t)"
    using tag_value_less [OF assms] by (simp only: unat_drop_bit_eq unat_of_nat) simp
  also have "\<dots> = k" using assms by (simp add: drop_bit_eq_div tag_value_def)
  finally have "(of_nat (unat (drop_bit 3 (of_nat (tag_value k t) :: uint64))) :: 32 word) = of_nat k"
    by (rule arg_cong)
  then have "ucast (drop_bit 3 (of_nat (tag_value k t) :: uint64)) = (of_nat k :: 32 word)"
    by (simp only: of_nat_unat)
  moreover have "sint (of_nat k :: 32 word) = int k"
    using assms by (simp add: sint_uint uint_nat unat_of_nat signed_take_bit_int_eq_self)
  ultimately show ?thesis by simp
qed

section \<open>Skipping is exact\<close>

text \<open>What the loop does once a field has been skipped: done at depth 0, else the next one.\<close>

definition skip_next :: "pbfile \<Rightarrow> byte list \<Rightarrow> goint \<Rightarrow> nat \<Rightarrow> perr + goint" where
  "skip_next f d i depth = (if depth = 0 then Inr i else skip_loop f d i depth)"

lemma skip_loop_tag:
  assumes "k < 2 ^ 61" "t < 8"
    and "skip_body f (pre @ tag_bytes k t @ suf) (len (pre @ tag_bytes k t)) depth (int t) = Inr (i, depth')"
    and "len (pre @ tag_bytes k t) \<le> i"
  shows "skip_loop f (pre @ tag_bytes k t @ suf) (len pre) depth =
    skip_next f (pre @ tag_bytes k t @ suf) i depth'"
proof -
  obtain b bs where tb: "tag_bytes k t = b # bs" by (cases "tag_bytes k t") auto
  then have "len pre < len (pre @ tag_bytes k t)" "0 \<le> len pre" "0 \<le> len suf"
    using len_nonneg [of bs] unfolding tb len_simps by auto
  moreover from this have "len pre < len (pre @ tag_bytes k t @ suf)" unfolding len_simps by linarith
  moreover have "\<not> i < 0" using assms(4) len_nonneg [of "pre @ tag_bytes k t"] by linarith
  ultimately show ?thesis
    unfolding skip_next_def using assms
    by (subst skip_loop.simps) (simp add: decode_tag tag_wire_type del: len_simps)
qed

lemma wrap64_after: "len_ok (pre @ bs @ suf) \<Longrightarrow> wrap64 (len pre + len bs) = len (pre @ bs)"
  using len_nonneg [of pre] len_nonneg [of bs] len_nonneg [of suf]
  unfolding len_ok_def len_simps by (intro wrap64_id) linarith+

lemma sint_length: "len_ok bs \<Longrightarrow> sint (of_nat (length bs) :: uint64) = len bs"
  by (simp add: len_ok_def len_def sint_uint uint_nat unat_of_nat signed_take_bit_int_eq_self)

lemma length_less: "len_ok bs \<Longrightarrow> length bs < 2 ^ 64"
  by (simp add: len_ok_def len_def)

lemma skip_body_len:
  assumes "len_ok (pre @ varint_bytes (length bs) @ bs @ suf)"
  shows "skip_body f (pre @ varint_bytes (length bs) @ bs @ suf) (len pre) depth 2 =
    Inr (len (pre @ varint_bytes (length bs) @ bs), depth)"
proof -
  let ?v = "varint_bytes (length bs)"
  from assms have bs: "len_ok bs" using len_ok_append by blast
  have "wrap64 (len (pre @ ?v) + len bs) = len (pre @ ?v @ bs)"
    using wrap64_after [of "pre @ ?v" bs suf] assms by (simp del: len_simps)
  then show ?thesis
    by (simp add: skip_body_def decode_varint_bytes [OF length_less [OF bs]] sint_length [OF bs]
        del: len_simps)
qed

text \<open>The fields of a group, given that each of them is skipped.\<close>

lemma skip_wfields:
  assumes "\<And>w pre suf depth. w \<in> set ws \<Longrightarrow> len_ok (pre @ wf_bytes w @ suf) \<Longrightarrow>
      skip_loop f (pre @ wf_bytes w @ suf) (len pre) depth =
      skip_next f (pre @ wf_bytes w @ suf) (len (pre @ wf_bytes w)) depth"
    and "len_ok (pre @ concat (map wf_bytes ws) @ suf)" "0 < depth"
  shows "skip_loop f (pre @ concat (map wf_bytes ws) @ suf) (len pre) depth =
    skip_loop f (pre @ concat (map wf_bytes ws) @ suf) (len (pre @ concat (map wf_bytes ws))) depth"
  using assms(1,2)
proof (induction ws arbitrary: pre)
  case (Cons w ws)
  let ?r = "concat (map wf_bytes ws)"
  have "skip_loop f (pre @ wf_bytes w @ ?r @ suf) (len pre) depth =
      skip_loop f (pre @ wf_bytes w @ ?r @ suf) (len (pre @ wf_bytes w)) depth"
    using Cons.prems(1) [of w pre "?r @ suf" depth] Cons.prems(2) assms(3)
    by (simp add: skip_next_def del: len_simps)
  also have "\<dots> = skip_loop f (pre @ wf_bytes w @ ?r @ suf) (len (pre @ wf_bytes w @ ?r)) depth"
    using Cons.IH [of "pre @ wf_bytes w"] Cons.prems by (simp del: len_simps)
  finally show ?case by (simp del: len_simps)
qed simp

lemma skip_wfield:
  "wf_ok w \<Longrightarrow> len_ok (pre @ wf_bytes w @ suf) \<Longrightarrow>
   skip_loop f (pre @ wf_bytes w @ suf) (len pre) depth =
   skip_next f (pre @ wf_bytes w @ suf) (len (pre @ wf_bytes w)) depth"
proof (induction w arbitrary: pre suf depth)
  case (WVarint k v)
  let ?p = "pre @ tag_bytes k 0"
  from WVarint have "skip_body f (?p @ varint_bytes v @ suf) (len ?p) depth (int 0) =
      Inr (len (?p @ varint_bytes v), depth)"
    using decode_varint_bytes [of v f ?p suf]
    by (simp add: skip_body_def skip_varint_eq [where acc = 0] del: len_simps)
  from skip_loop_tag [of k 0 f pre "varint_bytes v @ suf" depth, OF _ _ this [simplified append_assoc]]
  show ?case using WVarint by (simp add: wf_bytes_def)
next
  case (WFixed64 k bs)
  let ?p = "pre @ tag_bytes k 1"
  from WFixed64 have "skip_body f (?p @ bs @ suf) (len ?p) depth (int 1) = Inr (len (?p @ bs), depth)"
    using wrap64_after [of ?p bs suf] by (simp add: skip_body_def wf_bytes_def len_def)
  from skip_loop_tag [of k 1 f pre "bs @ suf" depth, OF _ _ this [simplified append_assoc]]
  show ?case using WFixed64 by (simp add: wf_bytes_def)
next
  case (WLen k bs)
  let ?p = "pre @ tag_bytes k 2" and ?v = "varint_bytes (length bs)"
  from WLen have "skip_body f (?p @ ?v @ bs @ suf) (len ?p) depth (int 2) = Inr (len (?p @ ?v @ bs), depth)"
    using skip_body_len [of ?p bs suf] by (simp add: wf_bytes_def del: len_simps)
  from skip_loop_tag [of k 2 f pre "?v @ bs @ suf" depth, OF _ _ this [simplified append_assoc]]
  show ?case using WLen by (simp add: wf_bytes_def)
next
  case (WGroup k ws k')
  let ?p = "pre @ tag_bytes k 3" and ?c = "concat (map wf_bytes ws)" and ?e = "tag_bytes k' 4"
  have k: "k < 2 ^ 61" "k' < 2 ^ 61" and ws: "\<And>w. w \<in> set ws \<Longrightarrow> wf_ok w"
    using WGroup.prems(1) by (auto simp: list_all_iff)
  have ok: "len_ok (?p @ ?c @ ?e @ suf)"
    using WGroup.prems(2) by (simp add: wf_bytes_def wf_body_group del: wf_body.simps)
  have "skip_loop f (pre @ tag_bytes k 3 @ ?c @ ?e @ suf) (len pre) depth =
      skip_loop f (?p @ ?c @ ?e @ suf) (len ?p) (Suc depth)"
    using skip_loop_tag [of k 3 f pre "?c @ ?e @ suf" depth "len ?p" "Suc depth"] k
    by (simp add: skip_body_def skip_next_def del: len_simps)
  also have "\<dots> = skip_loop f (?p @ ?c @ ?e @ suf) (len (?p @ ?c)) (Suc depth)"
    using ok ws by (intro skip_wfields WGroup.IH) simp_all
  also have "\<dots> = skip_next f (?p @ ?c @ ?e @ suf) (len (?p @ ?c @ ?e)) depth"
    using skip_loop_tag [of k' 4 f "?p @ ?c" suf "Suc depth" "len (?p @ ?c @ ?e)" depth] k
    by (simp add: skip_body_def del: len_simps)
  finally show ?case by (simp add: wf_bytes_def wf_body_group del: wf_body.simps len_simps)
next
  case (WFixed32 k bs)
  let ?p = "pre @ tag_bytes k 5"
  from WFixed32 have "skip_body f (?p @ bs @ suf) (len ?p) depth (int 5) = Inr (len (?p @ bs), depth)"
    using wrap64_after [of ?p bs suf] by (simp add: skip_body_def wf_bytes_def len_def)
  from skip_loop_tag [of k 5 f pre "bs @ suf" depth, OF _ _ this [simplified append_assoc]]
  show ?case using WFixed32 by (simp add: wf_bytes_def)
qed

theorem skip_exact:
  "wf_ok w \<Longrightarrow> len_ok (wf_bytes w @ suf) \<Longrightarrow> skip f (wf_bytes w @ suf) = Inr (len (wf_bytes w))"
  using skip_wfield [of w "[]" suf f 0] by (simp add: skip_def skip_next_def)

section \<open>A message is a sequence of fields\<close>

text \<open>
  What a message's \<open>Unmarshal\<close> is meant to do with one field: an unknown field changes
  nothing, a known field of wire type 2 is handed its bytes, and any other known field is
  an error (\<open>None\<close> here: the specification says nothing about the receiver then).
\<close>

definition apply_field :: "(goint \<Rightarrow> 'm field option) \<Rightarrow> wfield \<Rightarrow> 'm \<Rightarrow> 'm option" where
  "apply_field fields w m =
     (case fields (int (field_number w)) of
        None \<Rightarrow> Some m
      | Some fld \<Rightarrow>
          (case w of
             WLen k bs \<Rightarrow> (case snd fld m bs of (m', None) \<Rightarrow> Some m' | (m', Some e) \<Rightarrow> None)
           | _ \<Rightarrow> None))"

fun apply_fields :: "(goint \<Rightarrow> 'm field option) \<Rightarrow> wfield list \<Rightarrow> 'm \<Rightarrow> 'm option" where
  "apply_fields fields [] m = Some m"
| "apply_fields fields (w # ws) m =
     (case apply_field fields w m of None \<Rightarrow> None | Some m' \<Rightarrow> apply_fields fields ws m')"

text \<open>A field that may stand in a message: its number is positive and fits an \<open>int32\<close>.\<close>

definition field_ok :: "wfield \<Rightarrow> bool" where
  "field_ok w \<longleftrightarrow> wf_ok w \<and> 0 < field_number w \<and> field_number w < 2 ^ 31"

definition fields_bytes :: "wfield list \<Rightarrow> byte list" where
  "fields_bytes ws = concat (map wf_bytes ws)"

lemma fields_bytes_simps [simp]:
  "fields_bytes [] = []"
  "fields_bytes (w # ws) = wf_bytes w @ fields_bytes ws"
  "fields_bytes (ws @ vs) = fields_bytes ws @ fields_bytes vs"
  by (simp_all add: fields_bytes_def)

lemma wire_type_not_4: "wire_type w \<noteq> 4"
  by (cases w) auto

lemma read_tag_field:
  assumes "field_ok w"
  shows "read_tag f name (wf_bytes w @ suf) 0 =
    Inr (int (field_number w), int (wire_type w), len (tag_bytes (field_number w) (wire_type w)))"
proof -
  note ok = assms [unfolded field_ok_def]
  have "decode_varint f (wf_bytes w @ suf) 0 0 0 = Inr (of_nat (tag_value (field_number w) (wire_type w)),
      len (tag_bytes (field_number w) (wire_type w)))"
    using decode_tag [of "field_number w" "wire_type w" f "[]" "wf_body w @ suf"]
      wf_ok_number wire_type_less [of w] ok by (simp add: wf_bytes_def)
  then show ?thesis
    using ok wire_type_less [of w] wire_type_not_4 [of w]
    by (simp add: read_tag_def Let_def tag_wire_type tag_number)
qed

lemma read_len_at:
  assumes "len_ok (pre @ varint_bytes (length bs) @ bs @ suf)"
  shows "read_len f (pre @ varint_bytes (length bs) @ bs @ suf) (len pre) =
    Inr (len (pre @ varint_bytes (length bs)), len (pre @ varint_bytes (length bs) @ bs))"
proof -
  let ?v = "varint_bytes (length bs)"
  from assms have bs: "len_ok bs" using len_ok_append by blast
  have w: "wrap64 (len (pre @ ?v) + len bs) = len (pre @ ?v @ bs)"
    using wrap64_after [of "pre @ ?v" bs suf] assms by (simp del: len_simps)
  have "\<not> len (pre @ ?v @ bs @ suf) < len (pre @ ?v @ bs)"
    using len_nonneg [of suf] unfolding len_simps by linarith
  then show ?thesis
    by (simp add: read_len_def Let_def decode_varint_bytes [OF length_less [OF bs]]
        sint_length [OF bs] w del: len_simps)
qed

lemma slice_mid: "slice (pre @ v @ bs @ suf) (len (pre @ v)) (len (pre @ v @ bs)) = Inr bs"
  using slice_at [of "pre @ v" bs suf] by (simp add: add.assoc)

lemma unmarshal_step_field:
  assumes "field_ok w" "len_ok (wf_bytes w)" "apply_field fields w m = Some m'"
  shows "unmarshal_step f name fields (wf_bytes w) m 0 = (m', Inr (len (wf_bytes w)))"
proof (cases "fields (int (field_number w))")
  case None
  with assms have "m' = m" by (simp add: apply_field_def)
  moreover have "skip_unknown f (wf_bytes w) 0 = Inr (len (wf_bytes w))"
    using assms skip_exact [of w "[]" f]
    by (simp add: skip_unknown_def field_ok_def slice_def)
  ultimately show ?thesis
    using None read_tag_field [OF assms(1), of f name "[]"] by (simp add: unmarshal_step_def)
next
  case (Some fld)
  with assms(3) obtain k bs where w: "w = WLen k bs" "snd fld m bs = (m', None)"
    by (auto simp: apply_field_def split: wfield.splits prod.splits option.splits)
  let ?t = "tag_bytes k 2" and ?v = "varint_bytes (length bs)"
  have wb: "wf_bytes w = ?t @ ?v @ bs @ []" by (simp add: w wf_bytes_def)
  have "len_ok (?t @ ?v @ bs @ [])" using assms(2) unfolding wb .
  from read_len_at [OF this, of f] slice_mid [of ?t ?v bs "[]"]
  have "unmarshal_field f fld (wf_bytes w) m 2 (len ?t) = (m', Inr (len (wf_bytes w)))"
    unfolding wb by (simp add: unmarshal_field_def w del: len_simps)
  with Some read_tag_field [OF assms(1), of f name "[]"] show ?thesis
    by (simp add: unmarshal_step_def w)
qed

context pb_reader
begin

text \<open>\<open>Unmarshal\<close> of a sequence of fields does with each of them what it is meant to do.\<close>

lemma unmarshal_fields:
  assumes "list_all field_ok ws" "len_ok (fields_bytes ws)" "apply_fields fields ws m = Some m'"
  shows "unmarshal f name fields m (fields_bytes ws) = (m', None)"
  using assms
proof (induction ws arbitrary: m)
  case Nil
  then show ?case by (simp add: unmarshal_Nil)
next
  case (Cons w ws)
  then obtain m1 where m1: "apply_field fields w m = Some m1" "apply_fields fields ws m1 = Some m'"
    by (auto split: option.splits)
  from Cons.prems have ok: "len_ok (wf_bytes w)" "len_ok (fields_bytes ws)"
    using len_ok_append [of "wf_bytes w" "fields_bytes ws"] by simp_all
  from Cons.prems m1 ok have "unmarshal f name fields m (wf_bytes w) = (m1, None)"
    by (intro unmarshal_front unmarshal_step_field) auto
  moreover have "unmarshal f name fields m1 (fields_bytes ws) = (m', None)"
    using Cons m1 ok by auto
  ultimately show ?case
    using Cons.prems by (simp add: unmarshal_append)
qed

end

section \<open>Field numbers are truncated\<close>

text \<open>
  The reader keeps 32 bits of a tag's field number: a larger number is taken for the known field
  it is congruent to.
\<close>

lemma tag_number_alias:
  assumes "k < 2 ^ 31" "k + j * 2 ^ 32 < 2 ^ 61" "t < 8"
  shows "sint (ucast (drop_bit 3 (of_nat (tag_value (k + j * 2 ^ 32) t) :: uint64)) :: 32 word) = int k"
proof -
  let ?n = "k + j * 2 ^ 32"
  have "unat (drop_bit 3 (of_nat (tag_value ?n t) :: uint64)) = drop_bit 3 (tag_value ?n t)"
    using tag_value_less [OF assms(2,3)] by (simp only: unat_drop_bit_eq unat_of_nat) simp
  also have "\<dots> = ?n" using assms(3) by (simp add: drop_bit_eq_div tag_value_def)
  finally have "(of_nat (unat (drop_bit 3 (of_nat (tag_value ?n t) :: uint64))) :: 32 word) = of_nat ?n"
    by (rule arg_cong)
  also have "(of_nat ?n :: 32 word) = of_nat k" 
    by (rule word_unat_eq_iff [THEN iffD2]) (simp add: unat_of_nat del: of_nat_add of_nat_mult)
  finally have "ucast (drop_bit 3 (of_nat (tag_value ?n t) :: uint64)) = (of_nat k :: 32 word)"
    by (simp only: of_nat_unat)
  moreover have "sint (of_nat k :: 32 word) = int k"
    using assms(1) by (simp add: sint_uint uint_nat unat_of_nat signed_take_bit_int_eq_self)
  ultimately show ?thesis by simp
qed

context pb_reader
begin

lemma unmarshal_alias:
  assumes "fields (int k) = Some fld" "snd fld m bs = (m', None)"
    and "0 < k" "k < 2 ^ 31" "k + j * 2 ^ 32 < 2 ^ 61" "len_ok (wf_bytes (WLen (k + j * 2 ^ 32) bs))"
  shows "unmarshal f name fields m (wf_bytes (WLen (k + j * 2 ^ 32) bs)) = (m', None)"
proof (rule unmarshal_front [OF _ assms(6)])
  let ?n = "k + j * 2 ^ 32"
  let ?t = "tag_bytes ?n 2" and ?v = "varint_bytes (length bs)"
  have wb: "wf_bytes (WLen ?n bs) = ?t @ ?v @ bs @ []" by (simp add: wf_bytes_def)
  have d: "decode_varint f (?t @ ?v @ bs @ []) 0 0 0 = Inr (of_nat (tag_value ?n 2), len ?t)"
    using decode_tag [of ?n 2 f "[]" "?v @ bs @ []"] assms(5) by simp
  have tag: "read_tag f name (?t @ ?v @ bs @ []) 0 = Inr (int k, 2, len ?t)"
    unfolding read_tag_def d bind_err_simps prod.case Let_def
    using assms(3) tag_wire_type [of 2 ?n] by (simp only: tag_number_alias [OF assms(4,5)]) simp
  have "len_ok (?t @ ?v @ bs @ [])" using assms(6) unfolding wb .
  from read_len_at [OF this, of f] slice_mid [of ?t ?v bs "[]"]
  have "unmarshal_field f fld (?t @ ?v @ bs @ []) m 2 (len ?t) = (m', Inr (len (?t @ ?v @ bs @ [])))"
    by (simp add: unmarshal_field_def assms(2) del: len_simps)
  with assms(1) tag show "unmarshal_step f name fields (wf_bytes (WLen ?n bs)) m 0 =
      (m', Inr (len (wf_bytes (WLen ?n bs))))"
    unfolding wb by (simp add: unmarshal_step_def)
qed

end

section \<open>Writing\<close>

text \<open>
  A writer \<open>put\<close> writes \<open>bs\<close> when, on a buffer with room for it before the write index, it
  stores \<open>bs\<close> there, changes nothing else, and moves the index down to it.
\<close>

definition writes :: "(byte list \<times> goint \<Rightarrow> perr + (byte list \<times> goint)) \<Rightarrow> byte list \<Rightarrow> bool" where
  "writes put bs \<longleftrightarrow> (\<forall>pre mid suf. length mid = length bs \<longrightarrow>
     put (pre @ mid @ suf, len (pre @ mid)) = Inr (pre @ bs @ suf, len pre))"

lemma writesI:
  "(\<And>pre mid suf. length mid = length bs \<Longrightarrow>
     put (pre @ mid @ suf, len (pre @ mid)) = Inr (pre @ bs @ suf, len pre)) \<Longrightarrow> writes put bs"
  by (simp add: writes_def)

lemma writesD:
  "writes put bs \<Longrightarrow> length mid = length bs \<Longrightarrow>
   put (pre @ mid @ suf, len (pre @ mid)) = Inr (pre @ bs @ suf, len pre)"
  by (simp add: writes_def)

lemma writes_Nil: "writes Inr []"
  by (rule writesI) simp

lemma writes_bind:
  assumes "writes p bs" "writes q cs"
  shows "writes (\<lambda>di. bind_err (p di) q) (cs @ bs)"
proof (rule writesI)
  fix pre mid suf :: "byte list"
  assume l: "length mid = length (cs @ bs)"
  define m1 m2 where "m1 = take (length cs) mid" and "m2 = drop (length cs) mid"
  then have m: "mid = m1 @ m2" "length m1 = length cs" "length m2 = length bs" using l by auto
  then show "bind_err (p (pre @ mid @ suf, len (pre @ mid))) q = Inr (pre @ (cs @ bs) @ suf, len pre)"
    using writesD [OF assms(1) m(3), of "pre @ m1" suf] writesD [OF assms(2) m(2), of pre "bs @ suf"]
    by (simp del: len_simps)
qed

lemma small_tag_bytes: "tag_value k t < 128 \<Longrightarrow> tag_bytes k t = [of_nat (tag_value k t)]"
  unfolding tag_bytes_def by (subst varint_bytes.simps) simp

lemma copy_at_mid:
  assumes "length p = length s"
  shows "copy_at (pre @ p @ suf) (len pre) s = Inr (pre @ s @ suf)"
  using assms len_nonneg [of p] len_nonneg [of suf]
  by (simp add: copy_at_def)

lemma of_int_len: "of_int (len s) = (of_nat (length s) :: uint64)"
  by (simp add: len_def)

lemma unat_length: "len_ok s \<Longrightarrow> unat (of_nat (length s) :: uint64) = length s"
  by (simp add: unat_of_nat length_less [simplified])

text \<open>Length and tag in front of data that is already in place: the end of both writers.\<close>

definition put_head :: "byte \<Rightarrow> goint \<Rightarrow> byte list \<times> goint \<Rightarrow> perr + (byte list \<times> goint)" where
  "put_head tag sz = (\<lambda>(d, i).
     bind_err (encodeVarint d i (of_int sz)) (\<lambda>(d, i).
     let i = i - 1 in bind_err (set_byte d i tag) (\<lambda>d. Inr (d, i))))"

lemma put_head_at:
  assumes "len_ok s" "length v = length (varint_bytes (length s))"
  shows "put_head tag (len s) (pre @ x # v @ suf, len (pre @ x # v)) =
    Inr (pre @ tag # varint_bytes (length s) @ suf, len pre)"
  using encodeVarint_eq [of v "of_nat (length s)" "pre @ [x]" suf] assms
  by (simp add: put_head_def of_int_len unat_length set_byte_at)

lemma put_bytes_writes:
  assumes "len_ok s" "tag_value k 2 < 128"
  shows "writes (put_bytes (of_nat (tag_value k 2)) s) (wf_bytes (WLen k s))"
proof (rule writesI)
  fix pre mid suf :: "byte list"
  let ?v = "varint_bytes (length s)" and ?t = "of_nat (tag_value k 2) :: byte"
  have wb: "wf_bytes (WLen k s) = ?t # ?v @ s" by (simp add: wf_bytes_def small_tag_bytes assms)
  assume l: "length mid = length (wf_bytes (WLen k s))"
  define x v p where "x = hd mid" and "v = take (length ?v) (tl mid)" and "p = drop (length ?v) (tl mid)"
  then have m: "mid = x # v @ p" "length v = length ?v" "length p = length s"
    using l unfolding wb by (cases mid; simp)+
  have i: "len (pre @ mid) - len s = len (pre @ x # v)"
    using m(3) by (simp add: m(1) len_def)
  have c: "copy_at (pre @ mid @ suf) (len (pre @ x # v)) s = Inr ((pre @ x # v) @ s @ suf)"
    using copy_at_mid [OF m(3), of "pre @ x # v" suf] by (simp add: m(1) del: len_simps)
  have "put_bytes ?t s (pre @ mid @ suf, len (pre @ mid)) =
      put_head ?t (len s) (pre @ x # v @ s @ suf, len (pre @ x # v))"
    by (simp add: put_bytes_def put_head_def i c Let_def del: len_simps)
  also have "\<dots> = Inr (pre @ ?t # ?v @ s @ suf, len pre)"
    by (rule put_head_at [OF assms(1) m(2)])
  finally show "put_bytes ?t s (pre @ mid @ suf, len (pre @ mid)) =
      Inr (pre @ wf_bytes (WLen k s) @ suf, len pre)"
    by (simp add: wb)
qed

text \<open>A string field is absent when the string is empty.\<close>

definition string_field :: "nat \<Rightarrow> string \<Rightarrow> wfield list" where
  "string_field k s = (if s = [] then [] else [WLen k (str_bytes s)])"

lemma put_string_writes:
  assumes "len_ok s" "tag_value k 2 < 128"
  shows "writes (put_string (of_nat (tag_value k 2)) s) (fields_bytes (string_field k s))"
proof (cases "s = []")
  case True
  then show ?thesis
    using writes_Nil by (simp add: put_string_def [abs_def] string_field_def writes_def)
next
  case False
  then have "0 < len s" by (cases s) (auto simp: add_nonneg_pos)
  moreover have "len_ok (str_bytes s)" using assms(1) by (simp add: len_ok_def)
  ultimately show ?thesis
    using put_bytes_writes [OF _ assms(2), of "str_bytes s"] False
    by (simp add: put_string_def [abs_def] string_field_def)
qed

lemma to_sized_buffer_writes:
  assumes "writes put bs" "length mid = length bs"
  shows "to_sized_buffer put (pre @ mid) = Inr (pre @ bs, len bs)"
  using writesD [OF assms, of pre "[]"] by (simp add: to_sized_buffer_def Let_def)

text \<open>The sizes \<open>Size\<close> adds up.\<close>

lemma len_WLen:
  assumes "len_ok s" "tag_value k 2 < 128"
  shows "len (wf_bytes (WLen k s)) = 1 + len s + sov (of_int (len s))"
  using assms by (simp add: wf_bytes_def small_tag_bytes sov_eq of_int_len unat_length)

lemma len_string_field:
  assumes "len_ok s" "tag_value k 2 < 128"
  shows "len (fields_bytes (string_field k s)) =
    (if 0 < len s then 1 + len s + sov (of_int (len s)) else 0)"
proof (cases "s = []")
  case False
  then have "0 < len s" by (cases s) (auto simp: add_nonneg_pos)
  moreover have "len_ok (str_bytes s)" using assms(1) by (simp add: len_ok_def)
  ultimately show ?thesis
    using len_WLen [OF _ assms(2), of "str_bytes s"] False by (simp add: string_field_def)
qed (simp add: string_field_def)

lemma len_ok_string_field: "len_ok (fields_bytes (string_field k s)) \<Longrightarrow> len_ok s"
  using len_ok_append [of "tag_bytes k 2 @ varint_bytes (length s)" "str_bytes s"]
  by (auto simp: string_field_def wf_bytes_def len_ok_def split: if_splits)

end
