(* ===== verification/Messages.thy ===== *)
theory Messages
  imports Wire_Fields
begin

text \<open>
  The contract between a generated message type and the code that marshals and unmarshals
  it. A type provides \<open>Size\<close>, \<open>MarshalToSizedBuffer\<close> and a switch over field numbers; what
  it promises is stated against the sequence of fields that stands for a message. From it
  follow, once for all messages, what \<open>Marshal\<close>, \<open>MarshalTo\<close> and \<open>XXX_Marshal\<close> return,
  the writing of a message as a field of another, and the round trip.
\<close>

section \<open>Writers\<close>

locale pb_writer =
  fixes Size :: "'m \<Rightarrow> goint"
    and mtsb :: "'m \<Rightarrow> byte list \<Rightarrow> perr + (byte list \<times> goint)"
    and ok :: "'m \<Rightarrow> bool"
    and msg_fields :: "'m \<Rightarrow> wfield list"
  assumes size_fields: "ok m \<Longrightarrow> Size m = len (fields_bytes (msg_fields m))"
    and mtsb_fields: "ok m \<Longrightarrow> length mid = length (fields_bytes (msg_fields m)) \<Longrightarrow>
      mtsb m (pre @ mid) = Inr (pre @ fields_bytes (msg_fields m), len (fields_bytes (msg_fields m)))"
    and len_ok_fields: "ok m \<Longrightarrow> len_ok (fields_bytes (msg_fields m))"
begin

lemma mtsb_exact:
  "ok m \<Longrightarrow> length mid = length (fields_bytes (msg_fields m)) \<Longrightarrow>
   mtsb m mid = Inr (fields_bytes (msg_fields m), len (fields_bytes (msg_fields m)))"
  using mtsb_fields [of m mid "[]"] by simp

lemma marshal_eq:
  assumes "ok m"
  shows "marshal Size mtsb m = Inr (fields_bytes (msg_fields m))"
proof -
  let ?bs = "fields_bytes (msg_fields m)"
  have "slice (replicate (length ?bs) 0) 0 (len ?bs) = Inr (replicate (length ?bs) 0)"
    by (simp add: slice_def len_def)
  moreover have "slice ?bs 0 (len ?bs) = Inr ?bs" using slice_prefix [of ?bs "[]"] by simp
  ultimately show ?thesis
    using assms by (simp add: marshal_def Let_def size_fields mtsb_exact)
qed

lemma marshal_to_eq:
  assumes "ok m" "length mid = length (fields_bytes (msg_fields m))"
  shows "marshal_to Size mtsb m (mid @ suf) =
    Inr (fields_bytes (msg_fields m) @ suf, len (fields_bytes (msg_fields m)))"
  using assms len_length [OF assms(2)] slice_prefix [of mid suf]
  by (simp add: marshal_to_def Let_def size_fields mtsb_exact)

lemma xxx_marshal_eq:
  assumes "ok m" "length mid = length (fields_bytes (msg_fields m))"
  shows "xxx_marshal mtsb m (pre @ mid) =
    Inr (take (length (fields_bytes (msg_fields m))) (pre @ fields_bytes (msg_fields m)))"
  using assms by (simp add: xxx_marshal_def mtsb_fields slice_def)

text \<open>The message as a field of another one, written into the front of the buffer.\<close>

lemma put_message_writes:
  assumes "ok m" "tag_value k 2 < 128"
  shows "writes (put_message (of_nat (tag_value k 2)) (mtsb m))
    (wf_bytes (WLen k (fields_bytes (msg_fields m))))"
proof (rule writesI)
  fix pre mid suf :: "byte list"
  let ?s = "fields_bytes (msg_fields m)"
  let ?v = "varint_bytes (length ?s)" and ?t = "of_nat (tag_value k 2) :: byte"
  have wb: "wf_bytes (WLen k ?s) = ?t # ?v @ ?s" by (simp add: wf_bytes_def small_tag_bytes assms)
  assume l: "length mid = length (wf_bytes (WLen k ?s))"
  define x v p where "x = hd mid" and "v = take (length ?v) (tl mid)" and "p = drop (length ?v) (tl mid)"
  then have m: "mid = x # v @ p" "length v = length ?v" "length p = length ?s"
    using l unfolding wb by (cases mid; simp)+
  have w: "mtsb m ((pre @ x # v) @ p) = Inr ((pre @ x # v) @ ?s, len ?s)"
    by (rule mtsb_fields [OF assms(1) m(3)])
  have i: "len (pre @ mid) - len ?s = len (pre @ x # v)"
    using m(3) by (simp add: m(1) len_def)
  have sl: "slice (pre @ mid @ suf) 0 (len (pre @ mid)) = Inr (pre @ mid)"
    using slice_prefix [of "pre @ mid" suf] by simp
  have "put_message ?t (mtsb m) (pre @ mid @ suf, len (pre @ mid)) =
      put_head ?t (len ?s) (pre @ x # v @ ?s @ suf, len (pre @ x # v))"
    using w i sl by (simp add: put_message_def put_head_def Let_def m(1) del: len_simps)
  also have "\<dots> = Inr (pre @ ?t # ?v @ ?s @ suf, len pre)"
    by (rule put_head_at [OF len_ok_fields [OF assms(1)] m(2)])
  finally show "put_message ?t (mtsb m) (pre @ mid @ suf, len (pre @ mid)) =
      Inr (pre @ wf_bytes (WLen k ?s) @ suf, len pre)"
    by (simp add: wb)
qed

end

section \<open>Codecs\<close>

text \<open>
  A codec reads back, into a zero message, the fields it writes.
\<close>

locale pb_codec = pb_writer Size mtsb ok msg_fields + pb_reader f name fields
  for Size :: "'m \<Rightarrow> goint" and mtsb and ok and msg_fields and f and name
    and fields :: "goint \<Rightarrow> 'm field option" +
  fixes zero :: 'm
  assumes fields_ok: "ok m \<Longrightarrow> list_all field_ok (msg_fields m)"
    and apply_msg_fields: "ok m \<Longrightarrow> apply_fields fields (msg_fields m) zero = Some m"
begin

lemma unmarshal_msg:
  "ok m \<Longrightarrow> unmarshal f name fields zero (fields_bytes (msg_fields m)) = (m, None)"
  by (intro unmarshal_fields fields_ok len_ok_fields apply_msg_fields)

lemma round_trip:
  assumes "ok m"
  shows "bind_err (marshal Size mtsb m) (\<lambda>bs. Inr (unmarshal f name fields zero bs)) = Inr (m, None)"
  using assms by (simp add: marshal_eq unmarshal_msg)

lemma marshal_inj:
  assumes "ok m" "ok m'" "marshal Size mtsb m = marshal Size mtsb m'"
  shows "m = m'"
proof -
  have "fields_bytes (msg_fields m) = fields_bytes (msg_fields m')"
    using assms(3) unfolding marshal_eq [OF assms(1)] marshal_eq [OF assms(2)] by (rule sum.inject(2) [THEN iffD1])
  then have "(m, None) = (m', None :: perr option)"
    unfolding unmarshal_msg [OF assms(1), symmetric] unmarshal_msg [OF assms(2), symmetric]
    by (rule arg_cong)
  then show ?thesis by simp
qed

text \<open>Fields the type does not know, before or after the message's own, change nothing.\<close>

lemma apply_unknown:
  assumes "list_all (\<lambda>w. fields (int (field_number w)) = None) ws"
  shows "apply_fields fields ws m = Some m"
  using assms by (induction ws) (auto simp: apply_field_def)

lemma apply_fields_append:
  "apply_fields fields (ws @ vs) m =
     (case apply_fields fields ws m of None \<Rightarrow> None | Some m' \<Rightarrow> apply_fields fields vs m')"
  by (induction ws arbitrary: m) (auto split: option.split)

lemma unknown_ignored:
  assumes "ok m" "list_all field_ok (us @ vs)"
    and "list_all (\<lambda>w. fields (int (field_number w)) = None) (us @ vs)"
    and "len_ok (fields_bytes (us @ msg_fields m @ vs))"
  shows "unmarshal f name fields zero (fields_bytes (us @ msg_fields m @ vs)) = (m, None)"
  using assms fields_ok [OF assms(1)] apply_msg_fields [OF assms(1)]
  by (intro unmarshal_fields) (simp_all add: apply_fields_append apply_unknown)

end

end
