(* ===== verification/Params_Pb.thy ===== *)
theory Params_Pb
  imports Messages
begin

text \<open>
  \<open>x/feicoin/types/params.pb.go\<close>: the message \<open>Params\<close>, which has no fields, and its
  generated methods. A receiver pointer is an \<open>option\<close> where the method looks at nil.
\<close>

datatype Params = Params

lemma Params_only: "m = Params"
  by (cases m) simp

definition Params_Reset :: "Params \<Rightarrow> Params" where
  "Params_Reset m = Params"

text \<open>
  The argument of \<open>Equal\<close> is an \<open>interface{}\<close>: nil, a pointer to \<open>Params\<close> (which may be a
  nil pointer), a \<open>Params\<close>, or a value of any other type.
\<close>

datatype params_iface = NilIface | ParamsPtr "Params option" | ParamsVal Params | OtherIface

definition Params_Equal :: "Params option \<Rightarrow> params_iface \<Rightarrow> bool" where
  "Params_Equal this that =
     (case that of
        NilIface \<Rightarrow> this = None
      | OtherIface \<Rightarrow> False
      | ParamsPtr that1 \<Rightarrow>
          (if that1 = None then this = None else if this = None then False else True)
      | ParamsVal that2 \<Rightarrow>
          (let that1 = Some that2 in
           if that1 = None then this = None else if this = None then False else True))"

definition Params_Size :: "Params option \<Rightarrow> goint" where
  "Params_Size m = (case m of None \<Rightarrow> 0 | Some m \<Rightarrow> 0)"

definition Params_MarshalToSizedBuffer :: "Params \<Rightarrow> byte list \<Rightarrow> perr + (byte list \<times> goint)" where
  "Params_MarshalToSizedBuffer m dAtA = to_sized_buffer Inr dAtA"

definition Params_Marshal :: "Params \<Rightarrow> perr + byte list" where
  "Params_Marshal = marshal (\<lambda>m. Params_Size (Some m)) Params_MarshalToSizedBuffer"

definition Params_MarshalTo :: "Params \<Rightarrow> byte list \<Rightarrow> perr + (byte list \<times> goint)" where
  "Params_MarshalTo = marshal_to (\<lambda>m. Params_Size (Some m)) Params_MarshalToSizedBuffer"

definition Params_XXX_Marshal :: "Params \<Rightarrow> byte list \<Rightarrow> perr + byte list" where
  "Params_XXX_Marshal = xxx_marshal Params_MarshalToSizedBuffer"

text \<open>The switch of \<open>Unmarshal\<close> has a default case only.\<close>

definition Params_fields :: "goint \<Rightarrow> Params field option" where
  "Params_fields fieldNum = None"

definition Params_Unmarshal :: "Params \<Rightarrow> byte list \<Rightarrow> Params \<times> perr option" where
  "Params_Unmarshal = unmarshal ParamsPb ''Params'' Params_fields"

definition skipParams :: "byte list \<Rightarrow> perr + goint" where
  "skipParams = skip ParamsPb"

definition sovParams :: "uint64 \<Rightarrow> goint" where
  "sovParams = sov"

definition sozParams :: "uint64 \<Rightarrow> goint" where
  "sozParams = soz"

definition encodeVarintParams :: "byte list \<Rightarrow> goint \<Rightarrow> uint64 \<Rightarrow> perr + (byte list \<times> goint)" where
  "encodeVarintParams = encodeVarint"

interpretation params: pb_codec
  "\<lambda>m. Params_Size (Some m)" Params_MarshalToSizedBuffer "\<lambda>m. True" "\<lambda>m. []"
  ParamsPb "''Params''" Params_fields Params
proof
  fix m :: Params and mid pre :: "byte list"
  show "Params_Size (Some m) = len (fields_bytes [])" by (simp add: Params_Size_def)
  show "length mid = length (fields_bytes []) \<Longrightarrow> Params_MarshalToSizedBuffer m (pre @ mid) =
      Inr (pre @ fields_bytes [], len (fields_bytes []))"
    unfolding Params_MarshalToSizedBuffer_def using writes_Nil by (intro to_sized_buffer_writes) simp_all
qed (auto simp: len_ok_def Params_fields_def intro: Params_only [symmetric])

lemma Params_Unmarshal_error:
  "Params_Unmarshal m d = (m', Some e) \<Longrightarrow> len_ok d \<Longrightarrow> decoder_error e"
  unfolding Params_Unmarshal_def by (rule params.unmarshal_error)

end
