(* ===== verification/Genesis_Pb.thy ===== *)
theory Genesis_Pb
  imports Params_Pb
begin

text \<open>
  \<open>x/feicoin/types/genesis.pb.go\<close>: the message \<open>GenesisState\<close> and its generated methods.
\<close>

record GenesisState =
  genesis_Params :: Params

definition GenesisState_zero :: GenesisState where
  "GenesisState_zero = \<lparr>genesis_Params = Params\<rparr>"

definition GenesisState_GetParams :: "GenesisState option \<Rightarrow> Params" where
  "GenesisState_GetParams m = (case m of Some m \<Rightarrow> genesis_Params m | None \<Rightarrow> Params)"

definition sovGenesis :: "uint64 \<Rightarrow> goint" where
  "sovGenesis = sov"

definition GenesisState_Size :: "GenesisState option \<Rightarrow> goint" where
  "GenesisState_Size m =
     (case m of
        None \<Rightarrow> 0
      | Some m \<Rightarrow> (let l = Params_Size (Some (genesis_Params m)) in 1 + l + sovGenesis (of_int l)))"

definition GenesisState_MarshalToSizedBuffer ::
    "GenesisState \<Rightarrow> byte list \<Rightarrow> perr + (byte list \<times> goint)" where
  "GenesisState_MarshalToSizedBuffer m =
     to_sized_buffer (put_message 0xa (Params_MarshalToSizedBuffer (genesis_Params m)))"

definition GenesisState_Marshal :: "GenesisState \<Rightarrow> perr + byte list" where
  "GenesisState_Marshal = marshal (\<lambda>m. GenesisState_Size (Some m)) GenesisState_MarshalToSizedBuffer"

definition GenesisState_MarshalTo :: "GenesisState \<Rightarrow> byte list \<Rightarrow> perr + (byte list \<times> goint)" where
  "GenesisState_MarshalTo = marshal_to (\<lambda>m. GenesisState_Size (Some m)) GenesisState_MarshalToSizedBuffer"

definition GenesisState_XXX_Marshal :: "GenesisState \<Rightarrow> byte list \<Rightarrow> perr + byte list" where
  "GenesisState_XXX_Marshal = xxx_marshal GenesisState_MarshalToSizedBuffer"

definition GenesisState_fields :: "goint \<Rightarrow> GenesisState field option" where
  "GenesisState_fields fieldNum =
     (if fieldNum = 1 then
        Some (''Params'', \<lambda>m bs.
          let (p, err) = Params_Unmarshal (genesis_Params m) bs in (m\<lparr>genesis_Params := p\<rparr>, err))
      else None)"

definition GenesisState_Unmarshal :: "GenesisState \<Rightarrow> byte list \<Rightarrow> GenesisState \<times> perr option" where
  "GenesisState_Unmarshal = unmarshal GenesisPb ''GenesisState'' GenesisState_fields"

definition skipGenesis :: "byte list \<Rightarrow> perr + goint" where
  "skipGenesis = skip GenesisPb"

definition sozGenesis :: "uint64 \<Rightarrow> goint" where
  "sozGenesis = soz"

definition encodeVarintGenesis :: "byte list \<Rightarrow> goint \<Rightarrow> uint64 \<Rightarrow> perr + (byte list \<times> goint)" where
  "encodeVarintGenesis = encodeVarint"

text \<open>The fields a genesis state is written as: the empty encoding of \<open>Params\<close> in field 1.\<close>

definition GenesisState_msg :: "GenesisState \<Rightarrow> wfield list" where
  "GenesisState_msg m = [WLen 1 []]"

lemma Params_put_writes:
  "tag_value k 2 < 128 \<Longrightarrow>
   writes (put_message (of_nat (tag_value k 2)) (Params_MarshalToSizedBuffer p)) (wf_bytes (WLen k []))"
  using params.put_message_writes [where m = p and k = k] by simp

lemma Params_field_len: "tag_value k 2 < 128 \<Longrightarrow> len (wf_bytes (WLen k [])) = 1 + sov 0"
  using len_WLen [of "[]" k] by (simp add: len_ok_def)

interpretation genesis: pb_codec
  "\<lambda>m. GenesisState_Size (Some m)" GenesisState_MarshalToSizedBuffer "\<lambda>m. True" GenesisState_msg
  GenesisPb "''GenesisState''" GenesisState_fields GenesisState_zero
proof
  fix m :: GenesisState and mid pre :: "byte list"
  show "GenesisState_Size (Some m) = len (fields_bytes (GenesisState_msg m))"
    by (simp add: GenesisState_Size_def GenesisState_msg_def Params_Size_def Params_field_len
        tag_value_def sovGenesis_def)
  show "len_ok (fields_bytes (GenesisState_msg m))"
    using sov_bounds [of 0]
    by (simp add: GenesisState_msg_def len_ok_def Params_field_len tag_value_def)
  show "length mid = length (fields_bytes (GenesisState_msg m)) \<Longrightarrow>
      GenesisState_MarshalToSizedBuffer m (pre @ mid) =
      Inr (pre @ fields_bytes (GenesisState_msg m), len (fields_bytes (GenesisState_msg m)))"
    using Params_put_writes [of 1 "genesis_Params m"]
    unfolding GenesisState_MarshalToSizedBuffer_def
    by (intro to_sized_buffer_writes) (simp_all add: GenesisState_msg_def tag_value_def)
  show "list_all field_ok (GenesisState_msg m)"
    by (simp add: GenesisState_msg_def field_ok_def)
  show "apply_fields GenesisState_fields (GenesisState_msg m) GenesisState_zero = Some m"
    using Params_only [of "genesis_Params m"]
    by (cases m) (simp add: GenesisState_msg_def apply_field_def GenesisState_fields_def
        GenesisState_zero_def Params_Unmarshal_def params.unmarshal_Nil)
qed (auto simp: GenesisState_fields_def split: if_splits prod.splits dest: Params_Unmarshal_error)

end
