(* ===== verification/Query_Pb.thy ===== *)
theory Query_Pb
  imports Genesis_Pb
begin

text \<open>
  \<open>x/feicoin/types/query.pb.go\<close>: the messages \<open>QueryParamsRequest\<close> and
  \<open>QueryParamsResponse\<close> and their generated methods.
\<close>

datatype QueryParamsRequest = QueryParamsRequest

lemma QueryParamsRequest_only: "m = QueryParamsRequest"
  by (cases m) simp

record QueryParamsResponse =
  response_Params :: Params

definition QueryParamsResponse_zero :: QueryParamsResponse where
  "QueryParamsResponse_zero = \<lparr>response_Params = Params\<rparr>"

definition QueryParamsResponse_GetParams :: "QueryParamsResponse option \<Rightarrow> Params" where
  "QueryParamsResponse_GetParams m = (case m of Some m \<Rightarrow> response_Params m | None \<Rightarrow> Params)"

definition sovQuery :: "uint64 \<Rightarrow> goint" where
  "sovQuery = sov"

definition skipQuery :: "byte list \<Rightarrow> perr + goint" where
  "skipQuery = skip QueryPb"

definition sozQuery :: "uint64 \<Rightarrow> goint" where
  "sozQuery = soz"

definition encodeVarintQuery :: "byte list \<Rightarrow> goint \<Rightarrow> uint64 \<Rightarrow> perr + (byte list \<times> goint)" where
  "encodeVarintQuery = encodeVarint"

section \<open>QueryParamsRequest\<close>

definition QueryParamsRequest_Size :: "QueryParamsRequest option \<Rightarrow> goint" where
  "QueryParamsRequest_Size m = (case m of None \<Rightarrow> 0 | Some m \<Rightarrow> 0)"

definition QueryParamsRequest_MarshalToSizedBuffer ::
    "QueryParamsRequest \<Rightarrow> byte list \<Rightarrow> perr + (byte list \<times> goint)" where
  "QueryParamsRequest_MarshalToSizedBuffer m dAtA = to_sized_buffer Inr dAtA"

definition QueryParamsRequest_Marshal :: "QueryParamsRequest \<Rightarrow> perr + byte list" where
  "QueryParamsRequest_Marshal =
     marshal (\<lambda>m. QueryParamsRequest_Size (Some m)) QueryParamsRequest_MarshalToSizedBuffer"

definition QueryParamsRequest_MarshalTo :: "QueryParamsRequest \<Rightarrow> byte list \<Rightarrow> perr + (byte list \<times> goint)" where
  "QueryParamsRequest_MarshalTo = marshal_to (\<lambda>m. QueryParamsRequest_Size (Some m)) QueryParamsRequest_MarshalToSizedBuffer"

definition QueryParamsRequest_XXX_Marshal :: "QueryParamsRequest \<Rightarrow> byte list \<Rightarrow> perr + byte list" where
  "QueryParamsRequest_XXX_Marshal = xxx_marshal QueryParamsRequest_MarshalToSizedBuffer"

definition QueryParamsRequest_fields :: "goint \<Rightarrow> QueryParamsRequest field option" where
  "QueryParamsRequest_fields fieldNum = None"

definition QueryParamsRequest_Unmarshal ::
    "QueryParamsRequest \<Rightarrow> byte list \<Rightarrow> QueryParamsRequest \<times> perr option" where
  "QueryParamsRequest_Unmarshal = unmarshal QueryPb ''QueryParamsRequest'' QueryParamsRequest_fields"

interpretation query_request: pb_codec
  "\<lambda>m. QueryParamsRequest_Size (Some m)" QueryParamsRequest_MarshalToSizedBuffer "\<lambda>m. True" "\<lambda>m. []"
  QueryPb "''QueryParamsRequest''" QueryParamsRequest_fields QueryParamsRequest
proof
  fix m :: QueryParamsRequest and mid pre :: "byte list"
  show "QueryParamsRequest_Size (Some m) = len (fields_bytes [])"
    by (simp add: QueryParamsRequest_Size_def)
  show "length mid = length (fields_bytes []) \<Longrightarrow>
      QueryParamsRequest_MarshalToSizedBuffer m (pre @ mid) =
      Inr (pre @ fields_bytes [], len (fields_bytes []))"
    unfolding QueryParamsRequest_MarshalToSizedBuffer_def
    using writes_Nil by (intro to_sized_buffer_writes) simp_all
qed (auto simp: len_ok_def QueryParamsRequest_fields_def intro: QueryParamsRequest_only [symmetric])

section \<open>QueryParamsResponse\<close>

definition QueryParamsResponse_Size :: "QueryParamsResponse option \<Rightarrow> goint" where
  "QueryParamsResponse_Size m =
     (case m of
        None \<Rightarrow> 0
      | Some m \<Rightarrow> (let l = Params_Size (Some (response_Params m)) in 1 + l + sovQuery (of_int l)))"

definition QueryParamsResponse_MarshalToSizedBuffer ::
    "QueryParamsResponse \<Rightarrow> byte list \<Rightarrow> perr + (byte list \<times> goint)" where
  "QueryParamsResponse_MarshalToSizedBuffer m =
     to_sized_buffer (put_message 0xa (Params_MarshalToSizedBuffer (response_Params m)))"

definition QueryParamsResponse_Marshal :: "QueryParamsResponse \<Rightarrow> perr + byte list" where
  "QueryParamsResponse_Marshal =
     marshal (\<lambda>m. QueryParamsResponse_Size (Some m)) QueryParamsResponse_MarshalToSizedBuffer"

definition QueryParamsResponse_MarshalTo :: "QueryParamsResponse \<Rightarrow> byte list \<Rightarrow> perr + (byte list \<times> goint)" where
  "QueryParamsResponse_MarshalTo = marshal_to (\<lambda>m. QueryParamsResponse_Size (Some m)) QueryParamsResponse_MarshalToSizedBuffer"

definition QueryParamsResponse_XXX_Marshal :: "QueryParamsResponse \<Rightarrow> byte list \<Rightarrow> perr + byte list" where
  "QueryParamsResponse_XXX_Marshal = xxx_marshal QueryParamsResponse_MarshalToSizedBuffer"

definition QueryParamsResponse_fields :: "goint \<Rightarrow> QueryParamsResponse field option" where
  "QueryParamsResponse_fields fieldNum =
     (if fieldNum = 1 then
        Some (''Params'', \<lambda>m bs.
          let (p, err) = Params_Unmarshal (response_Params m) bs in (m\<lparr>response_Params := p\<rparr>, err))
      else None)"

definition QueryParamsResponse_Unmarshal ::
    "QueryParamsResponse \<Rightarrow> byte list \<Rightarrow> QueryParamsResponse \<times> perr option" where
  "QueryParamsResponse_Unmarshal =
     unmarshal QueryPb ''QueryParamsResponse'' QueryParamsResponse_fields"

definition QueryParamsResponse_msg :: "QueryParamsResponse \<Rightarrow> wfield list" where
  "QueryParamsResponse_msg m = [WLen 1 []]"

interpretation query_response: pb_codec
  "\<lambda>m. QueryParamsResponse_Size (Some m)" QueryParamsResponse_MarshalToSizedBuffer "\<lambda>m. True"
  QueryParamsResponse_msg
  QueryPb "''QueryParamsResponse''" QueryParamsResponse_fields QueryParamsResponse_zero
proof
  fix m :: QueryParamsResponse and mid pre :: "byte list"
  show "QueryParamsResponse_Size (Some m) = len (fields_bytes (QueryParamsResponse_msg m))"
    by (simp add: QueryParamsResponse_Size_def QueryParamsResponse_msg_def Params_Size_def
        Params_field_len tag_value_def sovQuery_def)
  show "len_ok (fields_bytes (QueryParamsResponse_msg m))"
    using sov_bounds [of 0]
    by (simp add: QueryParamsResponse_msg_def len_ok_def Params_field_len tag_value_def)
  show "length mid = length (fields_bytes (QueryParamsResponse_msg m)) \<Longrightarrow>
      QueryParamsResponse_MarshalToSizedBuffer m (pre @ mid) =
      Inr (pre @ fields_bytes (QueryParamsResponse_msg m), len (fields_bytes (QueryParamsResponse_msg m)))"
    using Params_put_writes [of 1 "response_Params m"]
    unfolding QueryParamsResponse_MarshalToSizedBuffer_def
    by (intro to_sized_buffer_writes) (simp_all add: QueryParamsResponse_msg_def tag_value_def)
  show "list_all field_ok (QueryParamsResponse_msg m)"
    by (simp add: QueryParamsResponse_msg_def field_ok_def)
  show "apply_fields QueryParamsResponse_fields (QueryParamsResponse_msg m) QueryParamsResponse_zero = Some m"
    using Params_only [of "response_Params m"]
    by (cases m) (simp add: QueryParamsResponse_msg_def apply_field_def QueryParamsResponse_fields_def
        QueryParamsResponse_zero_def Params_Unmarshal_def params.unmarshal_Nil)
qed (auto simp: QueryParamsResponse_fields_def split: if_splits prod.splits dest: Params_Unmarshal_error)

end
