(* ===== verification/Tx_Pb.thy ===== *)
theory Tx_Pb
  imports Genesis_Pb
begin

text \<open>
  \<open>x/feicoin/types/tx.pb.go\<close>: the messages of the \<open>Msg\<close> service and their generated
  methods. The amount of a \<open>MsgMintTokens\<close> is a \<open>cosmossdk.io/math.Int\<close>, which is not part
  of the repository: its type is \<open>'amt\<close> and its methods are the argument \<open>ac\<close>.
\<close>

definition sovTx :: "uint64 \<Rightarrow> goint" where
  "sovTx = sov"

definition sozTx :: "uint64 \<Rightarrow> goint" where
  "sozTx = soz"

definition encodeVarintTx :: "byte list \<Rightarrow> goint \<Rightarrow> uint64 \<Rightarrow> perr + (byte list \<times> goint)" where
  "encodeVarintTx = encodeVarint"

definition skipTx :: "byte list \<Rightarrow> perr + goint" where
  "skipTx = skip TxPb"

section \<open>MsgUpdateParams\<close>

record MsgUpdateParams =
  update_Authority :: string
  update_Params :: Params

definition MsgUpdateParams_zero :: MsgUpdateParams where
  "MsgUpdateParams_zero = \<lparr>update_Authority = '''', update_Params = Params\<rparr>"

definition MsgUpdateParams_GetAuthority :: "MsgUpdateParams option \<Rightarrow> string" where
  "MsgUpdateParams_GetAuthority m = (case m of Some m \<Rightarrow> update_Authority m | None \<Rightarrow> '''')"

definition MsgUpdateParams_GetParams :: "MsgUpdateParams option \<Rightarrow> Params" where
  "MsgUpdateParams_GetParams m = (case m of Some m \<Rightarrow> update_Params m | None \<Rightarrow> Params)"

definition MsgUpdateParams_Size :: "MsgUpdateParams option \<Rightarrow> goint" where
  "MsgUpdateParams_Size m =
     (case m of
        None \<Rightarrow> 0
      | Some m \<Rightarrow>
          (let l = len (update_Authority m);
               n = (if l > 0 then 1 + l + sovTx (of_int l) else 0);
               l = Params_Size (Some (update_Params m))
           in n + (1 + l + sovTx (of_int l))))"

definition MsgUpdateParams_MarshalToSizedBuffer ::
    "MsgUpdateParams \<Rightarrow> byte list \<Rightarrow> perr + (byte list \<times> goint)" where
  "MsgUpdateParams_MarshalToSizedBuffer m =
     to_sized_buffer (\<lambda>di.
       bind_err (put_message 0x12 (Params_MarshalToSizedBuffer (update_Params m)) di)
         (put_string 0xa (update_Authority m)))"

definition MsgUpdateParams_Marshal :: "MsgUpdateParams \<Rightarrow> perr + byte list" where
  "MsgUpdateParams_Marshal =
     marshal (\<lambda>m. MsgUpdateParams_Size (Some m)) MsgUpdateParams_MarshalToSizedBuffer"

definition MsgUpdateParams_MarshalTo :: "MsgUpdateParams \<Rightarrow> byte list \<Rightarrow> perr + (byte list \<times> goint)" where
  "MsgUpdateParams_MarshalTo =
     marshal_to (\<lambda>m. MsgUpdateParams_Size (Some m)) MsgUpdateParams_MarshalToSizedBuffer"

definition MsgUpdateParams_XXX_Marshal :: "MsgUpdateParams \<Rightarrow> byte list \<Rightarrow> perr + byte list" where
  "MsgUpdateParams_XXX_Marshal = xxx_marshal MsgUpdateParams_MarshalToSizedBuffer"

definition MsgUpdateParams_fields :: "goint \<Rightarrow> MsgUpdateParams field option" where
  "MsgUpdateParams_fields fieldNum =
     (if fieldNum = 1 then
        Some (''Authority'', \<lambda>m bs. (m\<lparr>update_Authority := bytes_str bs\<rparr>, None))
      else if fieldNum = 2 then
        Some (''Params'', \<lambda>m bs.
          let (p, err) = Params_Unmarshal (update_Params m) bs in (m\<lparr>update_Params := p\<rparr>, err))
      else None)"

definition MsgUpdateParams_Unmarshal ::
    "MsgUpdateParams \<Rightarrow> byte list \<Rightarrow> MsgUpdateParams \<times> perr option" where
  "MsgUpdateParams_Unmarshal = unmarshal TxPb ''MsgUpdateParams'' MsgUpdateParams_fields"

definition MsgUpdateParams_msg :: "MsgUpdateParams \<Rightarrow> wfield list" where
  "MsgUpdateParams_msg m = string_field 1 (update_Authority m) @ [WLen 2 []]"

definition MsgUpdateParams_ok :: "MsgUpdateParams \<Rightarrow> bool" where
  "MsgUpdateParams_ok m \<longleftrightarrow> len_ok (fields_bytes (MsgUpdateParams_msg m))"

interpretation update_msg: pb_codec
  "\<lambda>m. MsgUpdateParams_Size (Some m)" MsgUpdateParams_MarshalToSizedBuffer MsgUpdateParams_ok
  MsgUpdateParams_msg TxPb "''MsgUpdateParams''" MsgUpdateParams_fields MsgUpdateParams_zero
proof
  fix m :: MsgUpdateParams and mid pre :: "byte list"
  assume "MsgUpdateParams_ok m"
  then show ok: "len_ok (fields_bytes (MsgUpdateParams_msg m))" by (simp add: MsgUpdateParams_ok_def)
  then have a: "len_ok (update_Authority m)"
    unfolding MsgUpdateParams_msg_def fields_bytes_simps
    by (intro len_ok_string_field [of 1]) (blast dest: len_ok_append)
  show "MsgUpdateParams_Size (Some m) = len (fields_bytes (MsgUpdateParams_msg m))"
    using len_string_field [OF a, of 1]
    by (simp add: MsgUpdateParams_Size_def MsgUpdateParams_msg_def sovTx_def tag_value_def Let_def
        Params_Size_def Params_field_len)
  show "length mid = length (fields_bytes (MsgUpdateParams_msg m)) \<Longrightarrow>
      MsgUpdateParams_MarshalToSizedBuffer m (pre @ mid) =
      Inr (pre @ fields_bytes (MsgUpdateParams_msg m), len (fields_bytes (MsgUpdateParams_msg m)))"
    using writes_bind [OF Params_put_writes [of 2 "update_Params m"] put_string_writes [OF a, of 1]]
    unfolding MsgUpdateParams_MarshalToSizedBuffer_def MsgUpdateParams_msg_def
    by (intro to_sized_buffer_writes) (simp_all add: tag_value_def)
  show "list_all field_ok (MsgUpdateParams_msg m)"
    by (simp add: MsgUpdateParams_msg_def string_field_def field_ok_def)
  show "apply_fields MsgUpdateParams_fields (MsgUpdateParams_msg m) MsgUpdateParams_zero = Some m"
    using Params_only [of "update_Params m"]
    by (cases m) (simp add: MsgUpdateParams_msg_def string_field_def apply_field_def
        MsgUpdateParams_fields_def MsgUpdateParams_zero_def Params_Unmarshal_def params.unmarshal_Nil)
qed (auto simp: MsgUpdateParams_fields_def split: if_splits prod.splits dest: Params_Unmarshal_error)

section \<open>The empty responses\<close>

datatype MsgUpdateParamsResponse = MsgUpdateParamsResponse

datatype MsgMintTokensResponse = MsgMintTokensResponse

lemma MsgUpdateParamsResponse_only: "m = MsgUpdateParamsResponse"
  by (cases m) simp

lemma MsgMintTokensResponse_only: "m = MsgMintTokensResponse"
  by (cases m) simp

definition MsgUpdateParamsResponse_Size :: "MsgUpdateParamsResponse option \<Rightarrow> goint" where
  "MsgUpdateParamsResponse_Size m = (case m of None \<Rightarrow> 0 | Some m \<Rightarrow> 0)"

definition MsgUpdateParamsResponse_MarshalToSizedBuffer ::
    "MsgUpdateParamsResponse \<Rightarrow> byte list \<Rightarrow> perr + (byte list \<times> goint)" where
  "MsgUpdateParamsResponse_MarshalToSizedBuffer m dAtA = to_sized_buffer Inr dAtA"

definition MsgUpdateParamsResponse_Marshal :: "MsgUpdateParamsResponse \<Rightarrow> perr + byte list" where
  "MsgUpdateParamsResponse_Marshal =
     marshal (\<lambda>m. MsgUpdateParamsResponse_Size (Some m)) MsgUpdateParamsResponse_MarshalToSizedBuffer"

definition MsgUpdateParamsResponse_MarshalTo :: "MsgUpdateParamsResponse \<Rightarrow> byte list \<Rightarrow> perr + (byte list \<times> goint)" where
  "MsgUpdateParamsResponse_MarshalTo = marshal_to (\<lambda>m. MsgUpdateParamsResponse_Size (Some m)) MsgUpdateParamsResponse_MarshalToSizedBuffer"

definition MsgUpdateParamsResponse_XXX_Marshal :: "MsgUpdateParamsResponse \<Rightarrow> byte list \<Rightarrow> perr + byte list" where
  "MsgUpdateParamsResponse_XXX_Marshal = xxx_marshal MsgUpdateParamsResponse_MarshalToSizedBuffer"

definition MsgUpdateParamsResponse_fields :: "goint \<Rightarrow> MsgUpdateParamsResponse field option" where
  "MsgUpdateParamsResponse_fields fieldNum = None"

definition MsgUpdateParamsResponse_Unmarshal ::
    "MsgUpdateParamsResponse \<Rightarrow> byte list \<Rightarrow> MsgUpdateParamsResponse \<times> perr option" where
  "MsgUpdateParamsResponse_Unmarshal =
     unmarshal TxPb ''MsgUpdateParamsResponse'' MsgUpdateParamsResponse_fields"

definition MsgMintTokensResponse_Size :: "MsgMintTokensResponse option \<Rightarrow> goint" where
  "MsgMintTokensResponse_Size m = (case m of None \<Rightarrow> 0 | Some m \<Rightarrow> 0)"

definition MsgMintTokensResponse_MarshalToSizedBuffer ::
    "MsgMintTokensResponse \<Rightarrow> byte list \<Rightarrow> perr + (byte list \<times> goint)" where
  "MsgMintTokensResponse_MarshalToSizedBuffer m dAtA = to_sized_buffer Inr dAtA"

definition MsgMintTokensResponse_Marshal :: "MsgMintTokensResponse \<Rightarrow> perr + byte list" where
  "MsgMintTokensResponse_Marshal =
     marshal (\<lambda>m. MsgMintTokensResponse_Size (Some m)) MsgMintTokensResponse_MarshalToSizedBuffer"

definition MsgMintTokensResponse_MarshalTo :: "MsgMintTokensResponse \<Rightarrow> byte list \<Rightarrow> perr + (byte list \<times> goint)" where
  "MsgMintTokensResponse_MarshalTo = marshal_to (\<lambda>m. MsgMintTokensResponse_Size (Some m)) MsgMintTokensResponse_MarshalToSizedBuffer"

definition MsgMintTokensResponse_XXX_Marshal :: "MsgMintTokensResponse \<Rightarrow> byte list \<Rightarrow> perr + byte list" where
  "MsgMintTokensResponse_XXX_Marshal = xxx_marshal MsgMintTokensResponse_MarshalToSizedBuffer"

definition MsgMintTokensResponse_fields :: "goint \<Rightarrow> MsgMintTokensResponse field option" where
  "MsgMintTokensResponse_fields fieldNum = None"

definition MsgMintTokensResponse_Unmarshal ::
    "MsgMintTokensResponse \<Rightarrow> byte list \<Rightarrow> MsgMintTokensResponse \<times> perr option" where
  "MsgMintTokensResponse_Unmarshal =
     unmarshal TxPb ''MsgMintTokensResponse'' MsgMintTokensResponse_fields"

interpretation update_response: pb_codec
  "\<lambda>m. MsgUpdateParamsResponse_Size (Some m)" MsgUpdateParamsResponse_MarshalToSizedBuffer
  "\<lambda>m. True" "\<lambda>m. []"
  TxPb "''MsgUpdateParamsResponse''" MsgUpdateParamsResponse_fields MsgUpdateParamsResponse
proof
  fix m :: MsgUpdateParamsResponse and mid pre :: "byte list"
  show "MsgUpdateParamsResponse_Size (Some m) = len (fields_bytes [])"
    by (simp add: MsgUpdateParamsResponse_Size_def)
  show "length mid = length (fields_bytes []) \<Longrightarrow>
      MsgUpdateParamsResponse_MarshalToSizedBuffer m (pre @ mid) =
      Inr (pre @ fields_bytes [], len (fields_bytes []))"
    unfolding MsgUpdateParamsResponse_MarshalToSizedBuffer_def
    using writes_Nil by (intro to_sized_buffer_writes) simp_all
qed (auto simp: len_ok_def MsgUpdateParamsResponse_fields_def intro: MsgUpdateParamsResponse_only [symmetric])

interpretation mint_response: pb_codec
  "\<lambda>m. MsgMintTokensResponse_Size (Some m)" MsgMintTokensResponse_MarshalToSizedBuffer
  "\<lambda>m. True" "\<lambda>m. []"
  TxPb "''MsgMintTokensResponse''" MsgMintTokensResponse_fields MsgMintTokensResponse
proof
  fix m :: MsgMintTokensResponse and mid pre :: "byte list"
  show "MsgMintTokensResponse_Size (Some m) = len (fields_bytes [])"
    by (simp add: MsgMintTokensResponse_Size_def)
  show "length mid = length (fields_bytes []) \<Longrightarrow>
      MsgMintTokensResponse_MarshalToSizedBuffer m (pre @ mid) =
      Inr (pre @ fields_bytes [], len (fields_bytes []))"
    unfolding MsgMintTokensResponse_MarshalToSizedBuffer_def
    using writes_Nil by (intro to_sized_buffer_writes) simp_all
qed (auto simp: len_ok_def MsgMintTokensResponse_fields_def intro: MsgMintTokensResponse_only [symmetric])

end
