(* ===== verification/Mint_Pb.thy ===== *)
theory Mint_Pb
  imports Tx_Pb
begin

text \<open>
  \<open>MsgMintTokens\<close> of \<open>x/feicoin/types/tx.pb.go\<close>. Its amount is a \<open>cosmossdk.io/math.Int\<close>,
  whose code is not part of the repository: the type \<open>'amt\<close> and the methods the generated
  code calls on it, collected in \<open>int_codec\<close>, are arguments of the definitions. What the
  generated code relies on is \<open>int_codec_ok\<close>; \<open>decimal_codec\<close> is a concrete codec, of
  integers as signed decimal text, for which it holds.
\<close>

section \<open>The methods of the amount\<close>

record 'amt int_codec =
  Int_zero :: 'amt
  Int_Size :: "'amt \<Rightarrow> goint"
  Int_MarshalTo :: "'amt \<Rightarrow> byte list \<Rightarrow> string + (byte list \<times> goint)"
  Int_Unmarshal :: "'amt \<Rightarrow> byte list \<Rightarrow> 'amt \<times> string option"

text \<open>
  The amount \<open>a\<close> is encoded as \<open>e\<close>: \<open>Size\<close> is its length, \<open>MarshalTo\<close> writes it to the front
  of the slice it is given, \<open>Unmarshal\<close> reads \<open>a\<close> back into any receiver.
\<close>

definition int_codec_ok :: "'amt int_codec \<Rightarrow> byte list \<Rightarrow> 'amt \<Rightarrow> bool" where
  "int_codec_ok ac e a \<longleftrightarrow>
     Int_Size ac a = len e \<and>
     (\<forall>p suf. length p = length e \<longrightarrow> Int_MarshalTo ac a (p @ suf) = Inr (e @ suf, len e)) \<and>
     (\<forall>a'. Int_Unmarshal ac a' e = (a, None))"

section \<open>The message\<close>

record 'amt MsgMintTokens =
  mint_Authority :: string
  mint_Recipient :: string
  mint_Amount :: 'amt
  mint_Denom :: string

definition MsgMintTokens_zero :: "'amt int_codec \<Rightarrow> 'amt MsgMintTokens" where
  "MsgMintTokens_zero ac =
     \<lparr>mint_Authority = '''', mint_Recipient = '''', mint_Amount = Int_zero ac, mint_Denom = ''''\<rparr>"

definition MsgMintTokens_GetAuthority :: "'amt MsgMintTokens option \<Rightarrow> string" where
  "MsgMintTokens_GetAuthority m = (case m of Some m \<Rightarrow> mint_Authority m | None \<Rightarrow> '''')"

definition MsgMintTokens_GetRecipient :: "'amt MsgMintTokens option \<Rightarrow> string" where
  "MsgMintTokens_GetRecipient m = (case m of Some m \<Rightarrow> mint_Recipient m | None \<Rightarrow> '''')"

definition MsgMintTokens_GetDenom :: "'amt MsgMintTokens option \<Rightarrow> string" where
  "MsgMintTokens_GetDenom m = (case m of Some m \<Rightarrow> mint_Denom m | None \<Rightarrow> '''')"

definition MsgMintTokens_Size :: "'amt int_codec \<Rightarrow> 'amt MsgMintTokens option \<Rightarrow> goint" where
  "MsgMintTokens_Size ac m =
     (case m of
        None \<Rightarrow> 0
      | Some m \<Rightarrow>
          (let n = 0;
               l = len (mint_Authority m);
               n = (if l > 0 then n + (1 + l + sovTx (of_int l)) else n);
               l = len (mint_Recipient m);
               n = (if l > 0 then n + (1 + l + sovTx (of_int l)) else n);
               l = Int_Size ac (mint_Amount m);
               n = n + (1 + l + sovTx (of_int l));
               l = len (mint_Denom m);
               n = (if l > 0 then n + (1 + l + sovTx (of_int l)) else n)
           in n))"

text \<open>The block that writes the amount, from the end of the slice \<open>dAtA[i:]\<close> down to its tag.\<close>

definition put_amount ::
    "'amt int_codec \<Rightarrow> 'amt \<Rightarrow> byte list \<times> goint \<Rightarrow> perr + (byte list \<times> goint)" where
  "put_amount ac a = (\<lambda>(d, i).
     let size = Int_Size ac a; i = i - size in
     bind_err (slice d i (len d)) (\<lambda>sub.
       case Int_MarshalTo ac a sub of
         Inl e \<Rightarrow> Inl (ErrExternal e)
       | Inr (sub', _) \<Rightarrow>
           bind_err (encodeVarintTx (take (nat i) d @ sub') i (of_int size)) (\<lambda>(d, i).
           let i = i - 1 in
           bind_err (set_byte d i 0x1a) (\<lambda>d. Inr (d, i)))))"

definition MsgMintTokens_MarshalToSizedBuffer ::
    "'amt int_codec \<Rightarrow> 'amt MsgMintTokens \<Rightarrow> byte list \<Rightarrow> perr + (byte list \<times> goint)" where
  "MsgMintTokens_MarshalToSizedBuffer ac m =
     to_sized_buffer (\<lambda>di.
       bind_err (put_string 0x22 (mint_Denom m) di) (\<lambda>di.
       bind_err (put_amount ac (mint_Amount m) di) (\<lambda>di.
       bind_err (put_string 0x12 (mint_Recipient m) di)
         (put_string 0xa (mint_Authority m)))))"

definition MsgMintTokens_Marshal :: "'amt int_codec \<Rightarrow> 'amt MsgMintTokens \<Rightarrow> perr + byte list" where
  "MsgMintTokens_Marshal ac =
     marshal (\<lambda>m. MsgMintTokens_Size ac (Some m)) (MsgMintTokens_MarshalToSizedBuffer ac)"

definition MsgMintTokens_MarshalTo ::
    "'amt int_codec \<Rightarrow> 'amt MsgMintTokens \<Rightarrow> byte list \<Rightarrow> perr + (byte list \<times> goint)" where
  "MsgMintTokens_MarshalTo ac =
     marshal_to (\<lambda>m. MsgMintTokens_Size ac (Some m)) (MsgMintTokens_MarshalToSizedBuffer ac)"

definition MsgMintTokens_XXX_Marshal ::
    "'amt int_codec \<Rightarrow> 'amt MsgMintTokens \<Rightarrow> byte list \<Rightarrow> perr + byte list" where
  "MsgMintTokens_XXX_Marshal ac = xxx_marshal (MsgMintTokens_MarshalToSizedBuffer ac)"

definition MsgMintTokens_fields :: "'amt int_codec \<Rightarrow> goint \<Rightarrow> 'amt MsgMintTokens field option" where
  "MsgMintTokens_fields ac fieldNum =
     (if fieldNum = 1 then
        Some (''Authority'', \<lambda>m bs. (m\<lparr>mint_Authority := bytes_str bs\<rparr>, None))
      else if fieldNum = 2 then
        Some (''Recipient'', \<lambda>m bs. (m\<lparr>mint_Recipient := bytes_str bs\<rparr>, None))
      else if fieldNum = 3 then
        Some (''Amount'', \<lambda>m bs.
          let (a, err) = Int_Unmarshal ac (mint_Amount m) bs
          in (m\<lparr>mint_Amount := a\<rparr>, map_option ErrExternal err))
      else if fieldNum = 4 then
        Some (''Denom'', \<lambda>m bs. (m\<lparr>mint_Denom := bytes_str bs\<rparr>, None))
      else None)"

definition MsgMintTokens_Unmarshal ::
    "'amt int_codec \<Rightarrow> 'amt MsgMintTokens \<Rightarrow> byte list \<Rightarrow> 'amt MsgMintTokens \<times> perr option" where
  "MsgMintTokens_Unmarshal ac = unmarshal TxPb ''MsgMintTokens'' (MsgMintTokens_fields ac)"

section \<open>The message is a codec\<close>

definition MsgMintTokens_msg :: "('amt \<Rightarrow> byte list) \<Rightarrow> 'amt MsgMintTokens \<Rightarrow> wfield list" where
  "MsgMintTokens_msg enc m =
     string_field 1 (mint_Authority m) @ string_field 2 (mint_Recipient m) @
     [WLen 3 (enc (mint_Amount m))] @ string_field 4 (mint_Denom m)"

definition MsgMintTokens_ok :: "'amt int_codec \<Rightarrow> ('amt \<Rightarrow> byte list) \<Rightarrow> 'amt MsgMintTokens \<Rightarrow> bool" where
  "MsgMintTokens_ok ac enc m \<longleftrightarrow>
     int_codec_ok ac (enc (mint_Amount m)) (mint_Amount m) \<and> len_ok (fields_bytes (MsgMintTokens_msg enc m))"

lemma put_amount_writes:
  assumes "int_codec_ok ac e a" "len_ok e"
  shows "writes (put_amount ac a) (wf_bytes (WLen 3 e))"
proof (rule writesI)
  fix pre mid suf :: "byte list"
  let ?v = "varint_bytes (length e)"
  have wb: "wf_bytes (WLen 3 e) = 0x1a # ?v @ e"
    by (simp add: wf_bytes_def small_tag_bytes tag_value_def)
  assume l: "length mid = length (wf_bytes (WLen 3 e))"
  define x v p where "x = hd mid" and "v = take (length ?v) (tl mid)" and "p = drop (length ?v) (tl mid)"
  then have m: "mid = x # v @ p" "length v = length ?v" "length p = length e"
    using l unfolding wb by (cases mid; simp)+
  have w: "Int_Size ac a = len e" "Int_MarshalTo ac a (p @ suf) = Inr (e @ suf, len e)"
    using assms(1) m(3) by (simp_all add: int_codec_ok_def)
  have i: "len (pre @ mid) - len e = len (pre @ x # v)"
    using m(3) by (simp add: m(1) len_def)
  have sl: "slice (pre @ mid @ suf) (len (pre @ x # v)) (len (pre @ mid @ suf)) = Inr (p @ suf)"
    using slice_suffix [of "pre @ x # v" "p @ suf"] by (simp add: m(1) algebra_simps)
  have "put_amount ac a (pre @ mid @ suf, len (pre @ mid)) =
      put_head 0x1a (len e) (pre @ x # v @ e @ suf, len (pre @ x # v))"
    using w i sl by (simp add: put_amount_def put_head_def encodeVarintTx_def Let_def m(1) del: len_simps)
  also have "\<dots> = Inr (pre @ 0x1a # ?v @ e @ suf, len pre)"
    by (rule put_head_at [OF assms(2) m(2)])
  finally show "put_amount ac a (pre @ mid @ suf, len (pre @ mid)) =
      Inr (pre @ wf_bytes (WLen 3 e) @ suf, len pre)"
    by (simp add: wb)
qed

lemma len_ok_WLen: "len_ok (wf_bytes (WLen k s)) \<Longrightarrow> len_ok s"
  using len_ok_append [of "tag_bytes k 2 @ varint_bytes (length s)" s] by (simp add: wf_bytes_def)

lemma MsgMintTokens_parts:
  assumes "MsgMintTokens_ok ac enc m"
  shows "len_ok (mint_Authority m)" "len_ok (mint_Recipient m)" "len_ok (mint_Denom m)"
    "len_ok (enc (mint_Amount m))"
proof -
  have "len_ok (fields_bytes (string_field 1 (mint_Authority m)) @ fields_bytes (string_field 2 (mint_Recipient m)) @
      wf_bytes (WLen 3 (enc (mint_Amount m))) @ fields_bytes (string_field 4 (mint_Denom m)))"
    using assms by (simp add: MsgMintTokens_ok_def MsgMintTokens_msg_def)
  then have "len_ok (fields_bytes (string_field 1 (mint_Authority m)))"
    "len_ok (fields_bytes (string_field 2 (mint_Recipient m)))"
    "len_ok (wf_bytes (WLen 3 (enc (mint_Amount m))))"
    "len_ok (fields_bytes (string_field 4 (mint_Denom m)))"
    by (blast dest: len_ok_append)+
  then show "len_ok (mint_Authority m)" "len_ok (mint_Recipient m)" "len_ok (mint_Denom m)"
    "len_ok (enc (mint_Amount m))"
    by (blast intro: len_ok_string_field len_ok_WLen)+
qed

lemma MsgMintTokens_writes:
  assumes "MsgMintTokens_ok ac enc m"
  shows "writes (\<lambda>di.
       bind_err (put_string 0x22 (mint_Denom m) di) (\<lambda>di.
       bind_err (put_amount ac (mint_Amount m) di) (\<lambda>di.
       bind_err (put_string 0x12 (mint_Recipient m) di)
         (put_string 0xa (mint_Authority m)))))
    (fields_bytes (MsgMintTokens_msg enc m))"
proof -
  note ok = MsgMintTokens_parts [OF assms]
  have a: "writes (put_amount ac (mint_Amount m)) (wf_bytes (WLen 3 (enc (mint_Amount m))))"
    using assms ok by (intro put_amount_writes) (simp_all add: MsgMintTokens_ok_def)
  have s: "writes (put_string 0xa (mint_Authority m)) (fields_bytes (string_field 1 (mint_Authority m)))"
    "writes (put_string 0x12 (mint_Recipient m)) (fields_bytes (string_field 2 (mint_Recipient m)))"
    "writes (put_string 0x22 (mint_Denom m)) (fields_bytes (string_field 4 (mint_Denom m)))"
    using put_string_writes [OF ok(1), of 1] put_string_writes [OF ok(2), of 2]
      put_string_writes [OF ok(3), of 4] by (simp_all add: tag_value_def)
  from writes_bind [OF s(3) writes_bind [OF a writes_bind [OF s(2) s(1)]]]
  show ?thesis by (simp add: MsgMintTokens_msg_def)
qed

interpretation mint_msg: pb_codec
  "\<lambda>m. MsgMintTokens_Size ac (Some m)" "MsgMintTokens_MarshalToSizedBuffer ac"
  "MsgMintTokens_ok ac enc" "MsgMintTokens_msg enc"
  TxPb "''MsgMintTokens''" "MsgMintTokens_fields ac" "MsgMintTokens_zero ac"
  for ac :: "'amt int_codec" and enc :: "'amt \<Rightarrow> byte list"
proof
  fix m :: "'amt MsgMintTokens" and mid pre :: "byte list"
  assume m: "MsgMintTokens_ok ac enc m"
  note ok = MsgMintTokens_parts [OF m]
  have a: "int_codec_ok ac (enc (mint_Amount m)) (mint_Amount m)"
    using m by (simp add: MsgMintTokens_ok_def)
  show "len_ok (fields_bytes (MsgMintTokens_msg enc m))"
    using m by (simp add: MsgMintTokens_ok_def)
  show "MsgMintTokens_Size ac (Some m) = len (fields_bytes (MsgMintTokens_msg enc m))"
    using len_string_field [OF ok(1), of 1] len_string_field [OF ok(2), of 2]
      len_string_field [OF ok(3), of 4] len_WLen [OF ok(4), of 3] a
    by (simp add: MsgMintTokens_Size_def MsgMintTokens_msg_def sovTx_def tag_value_def Let_def
        int_codec_ok_def)
  show "length mid = length (fields_bytes (MsgMintTokens_msg enc m)) \<Longrightarrow>
      MsgMintTokens_MarshalToSizedBuffer ac m (pre @ mid) =
      Inr (pre @ fields_bytes (MsgMintTokens_msg enc m), len (fields_bytes (MsgMintTokens_msg enc m)))"
    unfolding MsgMintTokens_MarshalToSizedBuffer_def
    by (intro to_sized_buffer_writes MsgMintTokens_writes m)
  show "list_all field_ok (MsgMintTokens_msg enc m)"
    by (simp add: MsgMintTokens_msg_def string_field_def field_ok_def)
  show "apply_fields (MsgMintTokens_fields ac) (MsgMintTokens_msg enc m) (MsgMintTokens_zero ac) = Some m"
    using a by (cases m) (simp add: MsgMintTokens_msg_def string_field_def apply_field_def
        MsgMintTokens_fields_def MsgMintTokens_zero_def int_codec_ok_def)
qed (auto simp: MsgMintTokens_fields_def split: if_splits prod.splits)

end
