(* ===== verification/Module_Pb.thy ===== *)
theory Module_Pb
  imports Messages
begin

text \<open>
  \<open>x/feicoin/types/module.pb.go\<close>: the module's configuration object \<open>Module\<close> and its
  generated methods.
\<close>

record Module =
  module_Authority :: string

definition Module_zero :: Module where
  "Module_zero = \<lparr>module_Authority = ''''\<rparr>"

definition Module_GetAuthority :: "Module option \<Rightarrow> string" where
  "Module_GetAuthority m = (case m of Some m \<Rightarrow> module_Authority m | None \<Rightarrow> '''')"

definition sovModule :: "uint64 \<Rightarrow> goint" where
  "sovModule = sov"

definition skipModule :: "byte list \<Rightarrow> perr + goint" where
  "skipModule = skip ModulePb"

definition sozModule :: "uint64 \<Rightarrow> goint" where
  "sozModule = soz"

definition encodeVarintModule :: "byte list \<Rightarrow> goint \<Rightarrow> uint64 \<Rightarrow> perr + (byte list \<times> goint)" where
  "encodeVarintModule = encodeVarint"

definition Module_Size :: "Module option \<Rightarrow> goint" where
  "Module_Size m =
     (case m of
        None \<Rightarrow> 0
      | Some m \<Rightarrow>
          (let l = len (module_Authority m) in if l > 0 then 1 + l + sovModule (of_int l) else 0))"

definition Module_MarshalToSizedBuffer :: "Module \<Rightarrow> byte list \<Rightarrow> perr + (byte list \<times> goint)" where
  "Module_MarshalToSizedBuffer m = to_sized_buffer (put_string 0xa (module_Authority m))"

definition Module_Marshal :: "Module \<Rightarrow> perr + byte list" where
  "Module_Marshal = marshal (\<lambda>m. Module_Size (Some m)) Module_MarshalToSizedBuffer"

definition Module_MarshalTo :: "Module \<Rightarrow> byte list \<Rightarrow> perr + (byte list \<times> goint)" where
  "Module_MarshalTo = marshal_to (\<lambda>m. Module_Size (Some m)) Module_MarshalToSizedBuffer"

definition Module_XXX_Marshal :: "Module \<Rightarrow> byte list \<Rightarrow> perr + byte list" where
  "Module_XXX_Marshal = xxx_marshal Module_MarshalToSizedBuffer"

definition Module_fields :: "goint \<Rightarrow> Module field option" where
  "Module_fields fieldNum =
     (if fieldNum = 1 then
        Some (''Authority'', \<lambda>m bs. (m\<lparr>module_Authority := bytes_str bs\<rparr>, None))
      else None)"

definition Module_Unmarshal :: "Module \<Rightarrow> byte list \<Rightarrow> Module \<times> perr option" where
  "Module_Unmarshal = unmarshal ModulePb ''Module'' Module_fields"

definition Module_msg :: "Module \<Rightarrow> wfield list" where
  "Module_msg m = string_field 1 (module_Authority m)"

definition Module_ok :: "Module \<Rightarrow> bool" where
  "Module_ok m \<longleftrightarrow> len_ok (fields_bytes (Module_msg m))"

interpretation module_msg: pb_codec
  "\<lambda>m. Module_Size (Some m)" Module_MarshalToSizedBuffer Module_ok Module_msg
  ModulePb "''Module''" Module_fields Module_zero
proof
  fix m :: Module and mid pre :: "byte list"
  assume "Module_ok m"
  then show ok: "len_ok (fields_bytes (Module_msg m))" by (simp add: Module_ok_def)
  then have a: "len_ok (module_Authority m)"
    unfolding Module_msg_def by (rule len_ok_string_field)
  show "Module_Size (Some m) = len (fields_bytes (Module_msg m))"
    using len_string_field [OF a, of 1]
    by (simp add: Module_Size_def Module_msg_def sovModule_def tag_value_def Let_def)
  show "length mid = length (fields_bytes (Module_msg m)) \<Longrightarrow>
      Module_MarshalToSizedBuffer m (pre @ mid) =
      Inr (pre @ fields_bytes (Module_msg m), len (fields_bytes (Module_msg m)))"
    using put_string_writes [OF a, of 1]
    unfolding Module_MarshalToSizedBuffer_def Module_msg_def
    by (intro to_sized_buffer_writes) (simp_all add: tag_value_def)
  show "list_all field_ok (Module_msg m)"
    by (simp add: Module_msg_def string_field_def field_ok_def)
  show "apply_fields Module_fields (Module_msg m) Module_zero = Some m"
    by (cases m) (simp add: Module_msg_def string_field_def apply_field_def Module_fields_def Module_zero_def)
qed (auto simp: Module_fields_def split: if_splits)

end
