(* ===== verification/Proto_Hooks.thy ===== *)
theory Proto_Hooks
  imports Query_Pb Mint_Pb Module_Pb
begin

text \<open>
  The methods by which the protobuf library reaches a message of \<open>*.pb.go\<close>: \<open>Reset\<close>, which a decoder
  calls on a message before it fills it, \<open>XXX_Unmarshal\<close> and \<open>XXX_Size\<close>. (\<open>XXX_Marshal\<close> is with each
  message.)
\<close>

definition MsgUpdateParams_Reset :: "MsgUpdateParams \<Rightarrow> MsgUpdateParams" where
  "MsgUpdateParams_Reset m = MsgUpdateParams_zero"

definition MsgUpdateParams_XXX_Unmarshal :: "MsgUpdateParams \<Rightarrow> byte list \<Rightarrow> MsgUpdateParams \<times> perr option" where
  "MsgUpdateParams_XXX_Unmarshal m b = MsgUpdateParams_Unmarshal m b"

definition MsgUpdateParams_XXX_Size :: "MsgUpdateParams option \<Rightarrow> goint" where
  "MsgUpdateParams_XXX_Size m = MsgUpdateParams_Size m"

definition MsgUpdateParamsResponse_Reset :: "MsgUpdateParamsResponse \<Rightarrow> MsgUpdateParamsResponse" where
  "MsgUpdateParamsResponse_Reset m = MsgUpdateParamsResponse"

definition MsgUpdateParamsResponse_XXX_Unmarshal :: "MsgUpdateParamsResponse \<Rightarrow> byte list \<Rightarrow> MsgUpdateParamsResponse \<times> perr option" where
  "MsgUpdateParamsResponse_XXX_Unmarshal m b = MsgUpdateParamsResponse_Unmarshal m b"

definition MsgUpdateParamsResponse_XXX_Size :: "MsgUpdateParamsResponse option \<Rightarrow> goint" where
  "MsgUpdateParamsResponse_XXX_Size m = MsgUpdateParamsResponse_Size m"

definition MsgMintTokens_Reset :: "'amt int_codec \<Rightarrow> 'amt MsgMintTokens \<Rightarrow> 'amt MsgMintTokens" where
  "MsgMintTokens_Reset ac m = MsgMintTokens_zero ac"

definition MsgMintTokens_XXX_Unmarshal :: "'amt int_codec \<Rightarrow> 'amt MsgMintTokens \<Rightarrow> byte list \<Rightarrow> 'amt MsgMintTokens \<times> perr option" where
  "MsgMintTokens_XXX_Unmarshal ac m b = MsgMintTokens_Unmarshal ac m b"

definition MsgMintTokens_XXX_Size :: "'amt int_codec \<Rightarrow> 'amt MsgMintTokens option \<Rightarrow> goint" where
  "MsgMintTokens_XXX_Size ac m = MsgMintTokens_Size ac m"

definition MsgMintTokensResponse_Reset :: "MsgMintTokensResponse \<Rightarrow> MsgMintTokensResponse" where
  "MsgMintTokensResponse_Reset m = MsgMintTokensResponse"

definition MsgMintTokensResponse_XXX_Unmarshal :: "MsgMintTokensResponse \<Rightarrow> byte list \<Rightarrow> MsgMintTokensResponse \<times> perr option" where
  "MsgMintTokensResponse_XXX_Unmarshal m b = MsgMintTokensResponse_Unmarshal m b"

definition MsgMintTokensResponse_XXX_Size :: "MsgMintTokensResponse option \<Rightarrow> goint" where
  "MsgMintTokensResponse_XXX_Size m = MsgMintTokensResponse_Size m"

definition GenesisState_Reset :: "GenesisState \<Rightarrow> GenesisState" where
  "GenesisState_Reset m = GenesisState_zero"

definition GenesisState_XXX_Unmarshal :: "GenesisState \<Rightarrow> byte list \<Rightarrow> GenesisState \<times> perr option" where
  "GenesisState_XXX_Unmarshal m b = GenesisState_Unmarshal m b"

definition GenesisState_XXX_Size :: "GenesisState option \<Rightarrow> goint" where
  "GenesisState_XXX_Size m = GenesisState_Size m"

definition Params_XXX_Unmarshal :: "Params \<Rightarrow> byte list \<Rightarrow> Params \<times> perr option" where
  "Params_XXX_Unmarshal m b = Params_Unmarshal m b"

definition Params_XXX_Size :: "Params option \<Rightarrow> goint" where
  "Params_XXX_Size m = Params_Size m"

definition QueryParamsRequest_Reset :: "QueryParamsRequest \<Rightarrow> QueryParamsRequest" where
  "QueryParamsRequest_Reset m = QueryParamsRequest"

definition QueryParamsRequest_XXX_Unmarshal :: "QueryParamsRequest \<Rightarrow> byte list \<Rightarrow> QueryParamsRequest \<times> perr option" where
  "QueryParamsRequest_XXX_Unmarshal m b = QueryParamsRequest_Unmarshal m b"

definition QueryParamsRequest_XXX_Size :: "QueryParamsRequest option \<Rightarrow> goint" where
  "QueryParamsRequest_XXX_Size m = QueryParamsRequest_Size m"

definition QueryParamsResponse_Reset :: "QueryParamsResponse \<Rightarrow> QueryParamsResponse" where
  "QueryParamsResponse_Reset m = QueryParamsResponse_zero"

definition QueryParamsResponse_XXX_Unmarshal :: "QueryParamsResponse \<Rightarrow> byte list \<Rightarrow> QueryParamsResponse \<times> perr option" where
  "QueryParamsResponse_XXX_Unmarshal m b = QueryParamsResponse_Unmarshal m b"

definition QueryParamsResponse_XXX_Size :: "QueryParamsResponse option \<Rightarrow> goint" where
  "QueryParamsResponse_XXX_Size m = QueryParamsResponse_Size m"

definition Module_Reset :: "Module \<Rightarrow> Module" where
  "Module_Reset m = Module_zero"

definition Module_XXX_Unmarshal :: "Module \<Rightarrow> byte list \<Rightarrow> Module \<times> perr option" where
  "Module_XXX_Unmarshal m b = Module_Unmarshal m b"

definition Module_XXX_Size :: "Module option \<Rightarrow> goint" where
  "Module_XXX_Size m = Module_Size m"

end
