(* ===== verification/Results.thy ===== *)
theory Results
  imports Genesis_Pb
begin

text \<open>
  The errors and outcomes of the module's hand-written code, and the interfaces it is given:
  address codec, store item, bank, the SDK's coins and events, the operating system. These are
  records of functions, arguments of the model; a definition calls them where the code does.

  The state \<open>'s\<close> is everything a Cosmos SDK context leads to (stores, events). An operation
  returns the state it leaves also when it fails: undoing it is up to the caller.
\<close>

section \<open>Errors\<close>

datatype grpc_code = InvalidArgument | Internal | Unimplemented

text \<open>
  \<open>Msg\<close> is an error known by its text alone, \<open>Wrapped e t\<close> one whose text is \<open>t: e\<close> and which
  unwraps to \<open>e\<close>, \<open>Registered\<close> a sentinel of \<open>cosmossdk.io/errors\<close>, \<open>CollNotFound\<close> is
  \<open>collections.ErrNotFound\<close>. The texts of \<open>encoding/json\<close>'s errors, and of the run-time panic of a
  nil dereference, are not modelled.
\<close>

datatype goerr =
    Msg string
  | Wrapped goerr string
  | Registered string nat string
  | Status grpc_code string
  | CollNotFound
  | JsonError
  | NilDereference

fun grpc_code_text :: "grpc_code \<Rightarrow> string" where
  "grpc_code_text InvalidArgument = ''InvalidArgument''"
| "grpc_code_text Internal = ''Internal''"
| "grpc_code_text Unimplemented = ''Unimplemented''"

fun err_text :: "goerr \<Rightarrow> string" where
  "err_text (Msg t) = t"
| "err_text (Wrapped e t) = t @ '': '' @ err_text e"
| "err_text (Registered codespace n d) = d"
| "err_text (Status c t) = ''rpc error: code = '' @ grpc_code_text c @ '' desc = '' @ t"
| "err_text CollNotFound = ''collections: not found''"
| "err_text JsonError = ''json''"
| "err_text NilDereference = ''runtime error: invalid memory address or nil pointer dereference''"

text \<open>\<open>errors.Is\<close>.\<close>

fun errors_Is :: "goerr \<Rightarrow> goerr \<Rightarrow> bool" where
  "errors_Is (Wrapped e t) e' \<longleftrightarrow> Wrapped e t = e' \<or> errors_Is e e'"
| "errors_Is e e' \<longleftrightarrow> e = e'"

section \<open>Outcomes\<close>

datatype 'a outcome = Return 'a | Fail goerr | Panic goerr

fun to_outcome :: "goerr + 'a \<Rightarrow> 'a outcome" where
  "to_outcome (Inl e) = Fail e"
| "to_outcome (Inr x) = Return x"

text \<open>Sequencing: the continuation runs from the state left by a call that returned.\<close>

definition after :: "'s \<times> 'a outcome \<Rightarrow> ('s \<Rightarrow> 'a \<Rightarrow> 's \<times> 'b outcome) \<Rightarrow> 's \<times> 'b outcome" where
  "after r k =
     (case r of
        (s, Return x) \<Rightarrow> k s x
      | (s, Fail e) \<Rightarrow> (s, Fail e)
      | (s, Panic e) \<Rightarrow> (s, Panic e))"

text \<open>The \<open>if err != nil { return nil, Wrap(err, t) }\<close> around a call.\<close>

definition wrap_err :: "string \<Rightarrow> 's \<times> 'a outcome \<Rightarrow> 's \<times> 'a outcome" where
  "wrap_err t r = (case r of (s, Fail e) \<Rightarrow> (s, Fail (Wrapped e t)) | _ \<Rightarrow> r)"

lemma after_simps [simp]:
  "after (s, Return x) k = k s x"
  "after (s, Fail e) k = (s, Fail e)"
  "after (s, Panic e) k = (s, Panic e)"
  by (simp_all add: after_def)

lemma wrap_err_simps [simp]:
  "wrap_err t (s, Return x) = (s, Return x)"
  "wrap_err t (s, Fail e) = (s, Fail (Wrapped e t))"
  "wrap_err t (s, Panic e) = (s, Panic e)"
  by (simp_all add: wrap_err_def)

lemma after_Return:
  "after r k = (s', Return y) \<longleftrightarrow> (\<exists>s x. r = (s, Return x) \<and> k s x = (s', Return y))"
  by (cases r; cases "snd r") auto

lemma wrap_err_Return: "wrap_err t r = (s, Return x) \<longleftrightarrow> r = (s, Return x)"
  by (cases r; cases "snd r") auto

section \<open>Interfaces\<close>

text \<open>\<open>cosmossdk.io/core/address.Codec\<close>; \<open>BytesToString\<close> returns a string beside its error.\<close>

record address_codec =
  StringToBytes :: "string \<Rightarrow> goerr + byte list"
  BytesToString :: "byte list \<Rightarrow> string \<times> goerr option"

text \<open>\<open>collections.Item[types.Params]\<close>; \<open>Get\<close> returns a value beside its error.\<close>

record 's params_item =
  Item_Get :: "'s \<Rightarrow> Params \<times> goerr option"
  Item_Set :: "'s \<Rightarrow> Params \<Rightarrow> 's \<times> unit outcome"

text \<open>\<open>types.BankKeeper\<close> of \<open>expected_keepers.go\<close>, over the SDK's coins.\<close>

record ('s, 'coins) BankKeeper =
  SpendableCoins :: "'s \<Rightarrow> byte list \<Rightarrow> 'coins"
  MintCoins :: "'s \<Rightarrow> string \<Rightarrow> 'coins \<Rightarrow> 's \<times> unit outcome"
  SendCoinsFromModuleToAccount :: "'s \<Rightarrow> string \<Rightarrow> byte list \<Rightarrow> 'coins \<Rightarrow> 's \<times> unit outcome"

text \<open>
  The functions of \<open>github.com/cosmos/cosmos-sdk/types\<close> the message server calls. The two coin
  constructors panic on invalid arguments (\<open>Inl\<close>).
\<close>

datatype event = NewEvent string "(string \<times> string) list"

record ('s, 'amt, 'coin, 'coins) sdk =
  AccAddressFromBech32 :: "string \<Rightarrow> goerr + byte list"
  NewCoin :: "string \<Rightarrow> 'amt \<Rightarrow> goerr + 'coin"
  NewCoins :: "'coin list \<Rightarrow> goerr + 'coins"
  Int_String :: "'amt \<Rightarrow> string"
  EmitEvent :: "'s \<Rightarrow> event \<Rightarrow> 's"

text \<open>
  Running a command: its standard output, or an error. It is a function of the machine the node
  runs on and of the moment of the call, not of the chain's state.
\<close>

type_synonym host = "string \<Rightarrow> string list \<Rightarrow> goerr + byte list"

end
