(* ===== verification/Keeper.thy ===== *)
theory Keeper
  imports Results Query_Pb
begin

text \<open>
  \<open>x/feicoin/types/{keys,errors,params,genesis}.go\<close> and
  \<open>x/feicoin/keeper/{keeper,genesis,query,query_params}.go\<close>: the module's names and sentinel
  error, its default and valid parameters, the keeper and its construction, genesis, and the
  \<open>Params\<close> query.
\<close>

section \<open>Keys and errors\<close>

definition ModuleName :: string where
  "ModuleName = ''feicoin''"

definition StoreKey :: string where
  "StoreKey = ModuleName"

definition GovModuleName :: string where
  "GovModuleName = ''gov''"

definition ParamsKey :: "byte list" where
  "ParamsKey = str_bytes ''p_feicoin''"

definition ErrInvalidSigner :: goerr where
  "ErrInvalidSigner = Registered ModuleName 1100 ''expected gov account as only signer for proposal message''"

section \<open>Parameters and genesis state\<close>

definition NewParams :: Params where
  "NewParams = Params"

definition DefaultParams :: Params where
  "DefaultParams = NewParams"

definition Params_Validate :: "Params \<Rightarrow> goerr option" where
  "Params_Validate p = None"

definition DefaultGenesis :: GenesisState where
  "DefaultGenesis = \<lparr>genesis_Params = DefaultParams\<rparr>"

definition GenesisState_Validate :: "GenesisState \<Rightarrow> goerr option" where
  "GenesisState_Validate gs = Params_Validate (genesis_Params gs)"

section \<open>The keeper\<close>

record ('s, 'svc, 'cdc, 'sch, 'coins) Keeper =
  k_storeService :: 'svc
  k_cdc :: 'cdc
  k_addressCodec :: address_codec
  k_authority :: "byte list"
  k_bankKeeper :: "('s, 'coins) BankKeeper"
  k_Schema :: 'sch
  k_Params :: "'s params_item"

text \<open>
  \<open>cosmossdk.io/collections\<close>: an item over a store, its key, its name and the codec of its value;
  the schema of the items declared so far, by key and name.
\<close>

record ('s, 'svc, 'cdc, 'sch) collections =
  NewItem :: "'svc \<Rightarrow> byte list \<Rightarrow> string \<Rightarrow> 'cdc \<Rightarrow> 's params_item"
  Build :: "'svc \<Rightarrow> (byte list \<times> string) list \<Rightarrow> goerr + 'sch"

definition NewKeeper ::
    "('s, 'svc, 'cdc, 'sch) collections \<Rightarrow> 'svc \<Rightarrow> 'cdc \<Rightarrow> address_codec \<Rightarrow> byte list
     \<Rightarrow> ('s, 'coins) BankKeeper \<Rightarrow> ('s, 'svc, 'cdc, 'sch, 'coins) Keeper outcome" where
  "NewKeeper coll storeService cdc addressCodec authority bankKeeper =
     (case BytesToString addressCodec authority of
        (_, Some err) \<Rightarrow>
          Panic (Msg (''invalid authority address '' @ bytes_str authority @ '': '' @ err_text err))
      | (_, None) \<Rightarrow>
          (let params = NewItem coll storeService ParamsKey ''params'' cdc in
           case Build coll storeService [(ParamsKey, ''params'')] of
             Inl err \<Rightarrow> Panic err
           | Inr schema \<Rightarrow>
               Return \<lparr>k_storeService = storeService, k_cdc = cdc, k_addressCodec = addressCodec,
                 k_authority = authority, k_bankKeeper = bankKeeper, k_Schema = schema,
                 k_Params = params\<rparr>))"

definition GetAuthority :: "('s, 'svc, 'cdc, 'sch, 'coins) Keeper \<Rightarrow> byte list" where
  "GetAuthority k = k_authority k"

section \<open>Genesis\<close>

definition Keeper_InitGenesis ::
    "('s, 'svc, 'cdc, 'sch, 'coins) Keeper \<Rightarrow> 's \<Rightarrow> GenesisState \<Rightarrow> 's \<times> unit outcome" where
  "Keeper_InitGenesis k s genState = Item_Set (k_Params k) s (genesis_Params genState)"

definition Keeper_ExportGenesis ::
    "('s, 'svc, 'cdc, 'sch, 'coins) Keeper \<Rightarrow> 's \<Rightarrow> goerr + GenesisState" where
  "Keeper_ExportGenesis k s =
     (let genesis = DefaultGenesis;
          (params, err) = Item_Get (k_Params k) s;
          genesis = genesis\<lparr>genesis_Params := params\<rparr>
      in case err of Some err \<Rightarrow> Inl err | None \<Rightarrow> Inr genesis)"

section \<open>The query server\<close>

definition queryServer_Params ::
    "('s, 'svc, 'cdc, 'sch, 'coins) Keeper \<Rightarrow> 's \<Rightarrow> QueryParamsRequest option
     \<Rightarrow> goerr + QueryParamsResponse" where
  "queryServer_Params k s req =
     (case req of
        None \<Rightarrow> Inl (Status InvalidArgument ''invalid request'')
      | Some req \<Rightarrow>
          (let (params, err) = Item_Get (k_Params k) s in
           if (case err of Some e \<Rightarrow> \<not> errors_Is e CollNotFound | None \<Rightarrow> False)
           then Inl (Status Internal ''internal error'')
           else Inr \<lparr>response_Params = params\<rparr>))"

section \<open>Laws of the store item\<close>

text \<open>
  What the keeper relies on: a value that was set is what \<open>Get\<close> returns, with no error, and a
  \<open>Set\<close> that does not return leaves what \<open>Get\<close> returns as it was.
\<close>

definition item_laws :: "'s params_item \<Rightarrow> bool" where
  "item_laws it \<longleftrightarrow>
     (\<forall>s p s'. Item_Set it s p = (s', Return ()) \<longrightarrow> Item_Get it s' = (p, None)) \<and>
     (\<forall>s p s' r. Item_Set it s p = (s', r) \<longrightarrow> r \<noteq> Return () \<longrightarrow> Item_Get it s' = Item_Get it s)"

text \<open>What a provider of genesis promises its clients: what was imported is exported.\<close>

locale genesis_provider =
  fixes good :: "'k \<Rightarrow> bool"
    and init :: "'k \<Rightarrow> 's \<Rightarrow> GenesisState \<Rightarrow> 's \<times> unit outcome"
    and export :: "'k \<Rightarrow> 's \<Rightarrow> goerr + GenesisState"
  assumes export_init: "good k \<Longrightarrow> init k s gs = (s', Return ()) \<Longrightarrow> export k s' = Inr gs"
begin

lemma reimport:
  "good k \<Longrightarrow> init k s gs = (s', Return ()) \<Longrightarrow> init k t gs' = (t', Return ()) \<Longrightarrow>
   export k s' = export k t' \<Longrightarrow> gs = gs'"
  using export_init [of k s gs s'] export_init [of k t gs' t'] by simp

end

interpretation keeper_genesis: genesis_provider
  "\<lambda>k :: ('s, 'svc, 'cdc, 'sch, 'coins) Keeper. item_laws (k_Params k)"
  Keeper_InitGenesis Keeper_ExportGenesis
  by unfold_locales
    (auto simp: Keeper_InitGenesis_def Keeper_ExportGenesis_def item_laws_def split: prod.splits)

text \<open>The query, on every branch.\<close>

lemma queryServer_Params_nil: "queryServer_Params k s None = Inl (Status InvalidArgument ''invalid request'')"
  by (simp add: queryServer_Params_def)

lemma queryServer_Params_cases:
  "queryServer_Params k s (Some req) =
     (case Item_Get (k_Params k) s of
        (p, None) \<Rightarrow> Inr \<lparr>response_Params = p\<rparr>
      | (p, Some e) \<Rightarrow> if errors_Is e CollNotFound then Inr \<lparr>response_Params = p\<rparr>
          else Inl (Status Internal ''internal error''))"
  by (auto simp: queryServer_Params_def split: prod.split option.split)

end
