(* ===== verification/Json.thy ===== *)
theory Json
  imports Prelude
begin

text \<open>
  What the keeper uses of Go's \<open>encoding/json\<close>: the syntax check and the reading of a document,
  with the strings decoded the way \<open>json.Unmarshal\<close> does it (escapes, surrogate pairs, invalid
  UTF-8 replaced by U+FFFD), and the storing of an object's members into a struct with one
  string field. The parser takes fuel; \<open>json_value_enough\<close> shows that the fuel
  \<open>json_parse\<close> gives it is as good as any larger amount.
\<close>

section \<open>Documents\<close>

datatype json =
    JNull
  | JBool bool
  | JNum string
  | JStr string
  | JArr "json list"
  | JObj "(string \<times> json) list"

section \<open>Characters and code points\<close>

definition code :: "char \<Rightarrow> nat" where
  "code c = of_char c"

definition json_space :: "char \<Rightarrow> bool" where
  "json_space c \<longleftrightarrow> code c = 32 \<or> code c = 9 \<or> code c = 10 \<or> code c = 13"

definition skip_space :: "string \<Rightarrow> string" where
  "skip_space s = dropWhile json_space s"

definition is_digit :: "char \<Rightarrow> bool" where
  "is_digit c \<longleftrightarrow> 48 \<le> code c \<and> code c \<le> 57"

definition hex_val :: "char \<Rightarrow> nat option" where
  "hex_val c =
     (if is_digit c then Some (code c - 48)
      else if 97 \<le> code c \<and> code c \<le> 102 then Some (code c - 87)
      else if 65 \<le> code c \<and> code c \<le> 70 then Some (code c - 55)
      else None)"

text \<open>\<open>getu4\<close>: the four hexadecimal digits of a \<open>\u\<close> escape.\<close>

fun getu4 :: "string \<Rightarrow> nat option" where
  "getu4 (a # b # c # d # s) =
     (case (hex_val a, hex_val b, hex_val c, hex_val d) of
        (Some x, Some y, Some z, Some w) \<Rightarrow> Some (((x * 16 + y) * 16 + z) * 16 + w)
      | _ \<Rightarrow> None)"
| "getu4 _ = None"

definition surrogate :: "nat \<Rightarrow> bool" where
  "surrogate r \<longleftrightarrow> 0xD800 \<le> r \<and> r < 0xE000"

text \<open>\<open>utf16.DecodeRune\<close>, \<open>None\<close> for the replacement character.\<close>

definition utf16_decode :: "nat \<Rightarrow> nat \<Rightarrow> nat option" where
  "utf16_decode r1 r2 =
     (if 0xD800 \<le> r1 \<and> r1 < 0xDC00 \<and> 0xDC00 \<le> r2 \<and> r2 < 0xE000
      then Some ((r1 - 0xD800) * 1024 + (r2 - 0xDC00) + 0x10000) else None)"

definition utf8_replacement :: string where
  "utf8_replacement = map char_of [0xEF, 0xBF, 0xBD :: nat]"

text \<open>\<open>utf8.EncodeRune\<close>.\<close>

definition utf8_encode :: "nat \<Rightarrow> string" where
  "utf8_encode r =
     (if r < 0x80 then [char_of r]
      else if r < 0x800 then map char_of [0xC0 + r div 64, 0x80 + r mod 64]
      else if surrogate r \<or> 0x10FFFF < r then utf8_replacement
      else if r < 0x10000 then
        map char_of [0xE0 + r div 4096, 0x80 + r div 64 mod 64, 0x80 + r mod 64]
      else map char_of
        [0xF0 + r div 262144, 0x80 + r div 4096 mod 64, 0x80 + r div 64 mod 64, 0x80 + r mod 64])"

text \<open>
  \<open>utf8.DecodeRune\<close> as far as it matters: how many bytes the well-formed character at the
  front has, 0 when it is ill-formed.
\<close>

definition cont :: "char \<Rightarrow> bool" where
  "cont c \<longleftrightarrow> 0x80 \<le> code c \<and> code c \<le> 0xBF"

fun utf8_width :: "string \<Rightarrow> nat" where
  "utf8_width [] = 0"
| "utf8_width (a # s) =
     (let x = code a; y = (case s of [] \<Rightarrow> 0 | b # _ \<Rightarrow> code b);
          c1 = list_all cont (take 1 s) \<and> 1 \<le> length s;
          c2 = list_all cont (take 2 s) \<and> 2 \<le> length s;
          c3 = list_all cont (take 3 s) \<and> 3 \<le> length s
      in if x < 0x80 then 1
         else if 0xC2 \<le> x \<and> x \<le> 0xDF then (if c1 then 2 else 0)
         else if 0xE0 \<le> x \<and> x \<le> 0xEF then
           (if c2 \<and> (x = 0xE0 \<longrightarrow> 0xA0 \<le> y) \<and> (x = 0xED \<longrightarrow> y \<le> 0x9F) then 3 else 0)
         else if 0xF0 \<le> x \<and> x \<le> 0xF4 then
           (if c3 \<and> (x = 0xF0 \<longrightarrow> 0x90 \<le> y) \<and> (x = 0xF4 \<longrightarrow> y \<le> 0x8F) then 4 else 0)
         else 0)"

section \<open>Strings\<close>

text \<open>The scanner: the literal up to the closing quote, with its escapes checked, and the rest.\<close>

definition prepend :: "'a list \<Rightarrow> ('a list \<times> 'b) option \<Rightarrow> ('a list \<times> 'b) option" where
  "prepend p r = map_option (\<lambda>(s, t). (p @ s, t)) r"

fun scan_str :: "string \<Rightarrow> (string \<times> string) option" where
  "scan_str [] = None"
| "scan_str (c # s) =
     (if code c = 34 then Some ([], s)
      else if code c = 92 then
        (case s of
           [] \<Rightarrow> None
         | e # s' \<Rightarrow>
             if code e \<in> {98, 102, 110, 114, 116, 92, 47, 34} then prepend [c, e] (scan_str s')
             else if code e = 117 then
               (case s' of
                  h1 # h2 # h3 # h4 # s'' \<Rightarrow>
                    if getu4 [h1, h2, h3, h4] = None then None
                    else prepend [c, e, h1, h2, h3, h4] (scan_str s'')
                | _ \<Rightarrow> None)
             else None)
      else if code c < 32 then None
      else prepend [c] (scan_str s))"

text \<open>The meaning of a one-character escape.\<close>

definition escape :: "char \<Rightarrow> char" where
  "escape e =
     (if code e = 98 then char_of (8 :: nat)
      else if code e = 102 then char_of (12 :: nat)
      else if code e = 110 then char_of (10 :: nat)
      else if code e = 114 then char_of (13 :: nat)
      else if code e = 116 then char_of (9 :: nat)
      else e)"

text \<open>A \<open>\u\<close> escape directly after the first one, as \<open>getu4\<close> reads it.\<close>

definition next_u4 :: "string \<Rightarrow> nat option" where
  "next_u4 s =
     (case s of
        c # e # s' \<Rightarrow> if code c = 92 \<and> code e = 117 then getu4 s' else None
      | _ \<Rightarrow> None)"

function unquote :: "string \<Rightarrow> string" where
  "unquote [] = []"
| "unquote (c # s) =
     (if code c = 92 then
        (case s of
           [] \<Rightarrow> []
         | e # s' \<Rightarrow>
             if code e = 117 then
               (case getu4 s' of
                  None \<Rightarrow> []
                | Some r \<Rightarrow>
                    let s'' = drop 4 s' in
                    if surrogate r then
                      (case next_u4 s'' of
                         None \<Rightarrow> utf8_replacement @ unquote s''
                       | Some r2 \<Rightarrow>
                           (case utf16_decode r r2 of
                              None \<Rightarrow> utf8_replacement @ unquote s''
                            | Some d \<Rightarrow> utf8_encode d @ unquote (drop 6 s'')))
                    else utf8_encode r @ unquote s'')
             else escape e # unquote s')
      else let n = utf8_width (c # s) in
        if n = 0 then utf8_replacement @ unquote s
        else take n (c # s) @ unquote (drop (n - 1) s))"
  by pat_completeness auto
termination
  by (relation "measure length") auto

declare unquote.simps [simp del]

section \<open>Values\<close>

text \<open>The number grammar: sign, integer part, fraction, exponent; each returns its text and the rest.\<close>

definition num_sign :: "string \<Rightarrow> string \<times> string" where
  "num_sign s = (case s of c # s' \<Rightarrow> if code c = 45 then ([c], s') else ([], s) | [] \<Rightarrow> ([], s))"

definition num_digits :: "string \<Rightarrow> (string \<times> string) option" where
  "num_digits s =
     (if takeWhile is_digit s = [] then None else Some (takeWhile is_digit s, dropWhile is_digit s))"

definition num_int :: "string \<Rightarrow> (string \<times> string) option" where
  "num_int s =
     (case s of
        c # s' \<Rightarrow> if code c = 48 then Some ([c], s') else num_digits s
      | [] \<Rightarrow> None)"

definition num_frac :: "string \<Rightarrow> (string \<times> string) option" where
  "num_frac s =
     (case s of
        c # s' \<Rightarrow> if code c = 46 then prepend [c] (num_digits s') else Some ([], s)
      | [] \<Rightarrow> Some ([], s))"

definition num_exp :: "string \<Rightarrow> (string \<times> string) option" where
  "num_exp s =
     (case s of
        c # s' \<Rightarrow>
          if code c = 101 \<or> code c = 69 then
            (case s' of
               d # t \<Rightarrow> if code d = 43 \<or> code d = 45 then prepend [c, d] (num_digits t)
                 else prepend [c] (num_digits s')
             | [] \<Rightarrow> None)
          else Some ([], s)
      | [] \<Rightarrow> Some ([], s))"

definition json_number :: "string \<Rightarrow> (string \<times> string) option" where
  "json_number s =
     (let (g, s1) = num_sign s in
      case num_int s1 of
        None \<Rightarrow> None
      | Some (i, s2) \<Rightarrow>
          (case num_frac s2 of
             None \<Rightarrow> None
           | Some (f, s3) \<Rightarrow> prepend (g @ i @ f) (num_exp s3)))"

definition strip :: "string \<Rightarrow> string \<Rightarrow> string option" where
  "strip p s = (if take (length p) s = p then Some (drop (length p) s) else None)"

text \<open>
  A value, the elements of an array and the members of an object. The first argument is the
  fuel, the second how deep the value may still nest (\<open>maxNestingDepth\<close> is 10000).
\<close>

fun json_value :: "nat \<Rightarrow> nat \<Rightarrow> string \<Rightarrow> (json \<times> string) option"
  and json_elems :: "nat \<Rightarrow> nat \<Rightarrow> string \<Rightarrow> (json list \<times> string) option"
  and json_members :: "nat \<Rightarrow> nat \<Rightarrow> string \<Rightarrow> ((string \<times> json) list \<times> string) option"
where
  "json_value 0 d s = None"
| "json_value (Suc n) d [] = None"
| "json_value (Suc n) d (c # s) =
     (if code c = 34 then map_option (\<lambda>(r, t). (JStr (unquote r), t)) (scan_str s)
      else if code c = 123 then
        (if d = 0 then None
         else case skip_space s of
             [] \<Rightarrow> None
           | c' # t \<Rightarrow> if code c' = 125 then Some (JObj [], t)
               else map_option (\<lambda>(ms, t). (JObj ms, t)) (json_members n (d - 1) (c' # t)))
      else if code c = 91 then
        (if d = 0 then None
         else case skip_space s of
             [] \<Rightarrow> None
           | c' # t \<Rightarrow> if code c' = 93 then Some (JArr [], t)
               else map_option (\<lambda>(es, t). (JArr es, t)) (json_elems n (d - 1) (c' # t)))
      else if code c = 110 then map_option (\<lambda>t. (JNull, t)) (strip ''ull'' s)
      else if code c = 116 then map_option (\<lambda>t. (JBool True, t)) (strip ''rue'' s)
      else if code c = 102 then map_option (\<lambda>t. (JBool False, t)) (strip ''alse'' s)
      else map_option (\<lambda>(r, t). (JNum r, t)) (json_number (c # s)))"
| "json_elems 0 d s = None"
| "json_elems (Suc n) d s =
     (case json_value n d s of
        None \<Rightarrow> None
      | Some (v, t) \<Rightarrow>
          (case skip_space t of
             [] \<Rightarrow> None
           | c # t' \<Rightarrow> if code c = 93 then Some ([v], t')
               else if code c = 44 then prepend [v] (json_elems n d (skip_space t'))
               else None))"
| "json_members 0 d s = None"
| "json_members (Suc n) d s =
     (case s of
        [] \<Rightarrow> None
      | q # s' \<Rightarrow>
          if code q \<noteq> 34 then None
          else case scan_str s' of
              None \<Rightarrow> None
            | Some (k, t) \<Rightarrow>
                (case skip_space t of
                   [] \<Rightarrow> None
                 | c # t' \<Rightarrow>
                     if code c \<noteq> 58 then None
                     else case json_value n d (skip_space t') of
                         None \<Rightarrow> None
                       | Some (v, u) \<Rightarrow>
                           (case skip_space u of
                              [] \<Rightarrow> None
                            | e # u' \<Rightarrow>
                                if code e = 125 then Some ([(unquote k, v)], u')
                                else if code e = 44 then
                                  prepend [(unquote k, v)] (json_members n d (skip_space u'))
                                else None)))"

definition json_parse :: "string \<Rightarrow> json option" where
  "json_parse s =
     (case json_value (2 * length s + 1) 10000 (skip_space s) of
        Some (v, t) \<Rightarrow> if skip_space t = [] then Some v else None
      | None \<Rightarrow> None)"

section \<open>A struct with one string field\<close>

text \<open>
  Member names match a field exactly or after folding case: ASCII letters to capitals, and the
  two other characters whose simple folding is an ASCII letter, U+017F to \<open>S\<close> and U+212A to \<open>K\<close>.
\<close>

fun fold_name :: "string \<Rightarrow> string" where
  "fold_name [] = []"
| "fold_name (a # s) =
     (if 97 \<le> code a \<and> code a \<le> 122 then char_of (code a - 32) # fold_name s
      else if code a = 0xC5 then
        (case s of b # s' \<Rightarrow> if code b = 0xBF then CHR ''S'' # fold_name s' else a # fold_name s
         | [] \<Rightarrow> [a])
      else if code a = 0xE2 then
        (case s of b # c # s' \<Rightarrow>
             if code b = 0x84 \<and> code c = 0xAA then CHR ''K'' # fold_name s' else a # fold_name s
         | _ \<Rightarrow> a # fold_name s)
      else a # fold_name s)"

text \<open>
  \<open>json.Unmarshal\<close> into \<open>struct { F string \`json:"name"\` }\<close>, field initially empty: members in
  order, the last one wins, \<open>null\<close> is ignored, a value of another type is remembered as an error
  that is returned at the end. A document that is \<open>null\<close> leaves the struct as it is.
\<close>

fun store_members :: "string \<Rightarrow> (string \<times> json) list \<Rightarrow> string \<times> bool \<Rightarrow> string \<times> bool" where
  "store_members name [] r = r"
| "store_members name ((k, v) # ms) (x, bad) =
     (if fold_name k = fold_name name then
        (case v of
           JStr s \<Rightarrow> store_members name ms (s, bad)
         | JNull \<Rightarrow> store_members name ms (x, bad)
         | _ \<Rightarrow> store_members name ms (x, True))
      else store_members name ms (x, bad))"

definition json_string_field :: "string \<Rightarrow> string \<Rightarrow> string option" where
  "json_string_field name s =
     (case json_parse s of
        None \<Rightarrow> None
      | Some JNull \<Rightarrow> Some []
      | Some (JObj ms) \<Rightarrow> (let (x, bad) = store_members name ms ([], False) in if bad then None else Some x)
      | Some _ \<Rightarrow> None)"

section \<open>The fuel suffices\<close>

lemma prepend_Some: "prepend p r = Some (x, t) \<longleftrightarrow> (\<exists>y. r = Some (y, t) \<and> x = p @ y)"
  by (cases r) (auto simp: prepend_def)

lemma length_ws: "length (skip_space s) \<le> length s"
  by (simp add: skip_space_def length_dropWhile_le)

lemma ws_Cons: "skip_space s = c # t \<Longrightarrow> length t < length s"
  using length_ws [of s] by simp

lemma scan_str_length: "scan_str s = Some (r, t) \<Longrightarrow> length t < length s"
proof (induction s arbitrary: r rule: scan_str.induct)
  case (2 c s)
  then show ?case
    by (auto simp: prepend_Some split: if_splits list.splits) force+
qed simp

lemma strip_length: "strip p s = Some t \<Longrightarrow> length t \<le> length s"
  by (auto simp: strip_def split: if_splits)

lemma num_digits_length: "num_digits s = Some (r, t) \<Longrightarrow> length t < length s"
  by (cases s) (auto simp: num_digits_def less_Suc_eq_le length_dropWhile_le split: if_splits)

lemma num_int_length: "num_int s = Some (r, t) \<Longrightarrow> length t < length s"
  by (auto simp: num_int_def split: if_splits list.splits dest: num_digits_length)

lemma num_frac_length: "num_frac s = Some (r, t) \<Longrightarrow> length t \<le> length s"
  by (auto simp: num_frac_def prepend_Some split: if_splits list.splits dest!: num_digits_length)

lemma num_exp_length: "num_exp s = Some (r, t) \<Longrightarrow> length t \<le> length s"
  by (auto simp: num_exp_def prepend_Some split: if_splits list.splits dest!: num_digits_length)

lemma num_sign_length: "num_sign s = (r, t) \<Longrightarrow> length t \<le> length s"
  by (auto simp: num_sign_def split: if_splits list.splits)

lemma json_number_length: "json_number s = Some (r, t) \<Longrightarrow> length t < length s"
  by (auto simp: json_number_def prepend_Some split: prod.splits option.splits
      dest!: num_sign_length num_int_length num_frac_length num_exp_length)

lemma json_lengths:
  "json_value n d s = Some (v, t) \<Longrightarrow> length t < length s"
  "json_elems n d s = Some (es, t) \<Longrightarrow> length t < length s"
  "json_members n d s = Some (ms, t) \<Longrightarrow> length t < length s"
proof (induction n d s and n d s and n d s arbitrary: v t and es t and ms t
    rule: json_value_json_elems_json_members.induct)
  case (3 n d c s)
  then show ?case
    by (auto split: if_splits list.splits
        dest!: scan_str_length strip_length json_number_length ws_Cons) force+
next
  case (5 n d s)
  from 5(3) obtain v t' c u where v: "json_value n d s = Some (v, t')" "skip_space t' = c # u"
    and r: "u = t \<or> (\<exists>y. json_elems n d (skip_space u) = Some (y, t))" 
      "code c = 93 \<longrightarrow> u = t" "code c \<noteq> 93 \<longrightarrow> code c = 44 \<and> (\<exists>y. json_elems n d (skip_space u) = Some (y, t))"
    by (auto simp: prepend_Some split: option.splits list.splits if_splits)
  have "length u < length s" using 5(1) [OF v(1)] ws_Cons [OF v(2)] by simp
  moreover have "length t \<le> length u"
    using r 5(2) [OF v(1) refl v(2)] length_ws [of u] by fastforce
  ultimately show ?case by simp
next
  case (7 n d s)
  from 7(3) obtain q s' k t1 c t2 v u e u' where
    v: "s = q # s'" "code q = 34" "scan_str s' = Some (k, t1)" "skip_space t1 = c # t2" "code c = 58"
      "json_value n d (skip_space t2) = Some (v, u)" "skip_space u = e # u'"
    and r: "code e = 125 \<longrightarrow> u' = t"
      "code e \<noteq> 125 \<longrightarrow> code e = 44 \<and> (\<exists>y. json_members n d (skip_space u') = Some (y, t))"
    by (auto simp: prepend_Some split: option.splits list.splits if_splits)
  have "length u' < length s"
    using scan_str_length [OF v(3)] ws_Cons [OF v(4)] ws_Cons [OF v(7)] length_ws [of t2] v(1)
      7(1) [OF v(1) _ v(3) refl v(4) _ v(6)] v(2,5) by simp
  moreover have "length t \<le> length u'"
    using r 7(2) [OF v(1) _ v(3) refl v(4) _ v(6) refl v(7)] v(2,5) length_ws [of u'] by fastforce
  ultimately show ?case by simp
qed simp_all

declare json_value.simps [simp del] json_elems.simps [simp del] json_members.simps [simp del]

text \<open>One more unit of fuel than the bound changes nothing.\<close>

lemma json_fuel_Suc:
  "2 * length s + 1 \<le> n \<Longrightarrow> json_value (Suc n) d s = json_value n d s"
  "2 * length s + 2 \<le> n \<Longrightarrow> json_elems (Suc n) d s = json_elems n d s"
  "2 * length s + 2 \<le> n \<Longrightarrow> json_members (Suc n) d s = json_members n d s"
proof (induction n d s and n d s and n d s rule: json_value_json_elems_json_members.induct)
  case (3 n d c s)
  have l: "2 * length (c' # t) + 2 \<le> n" if "skip_space s = c' # t" for c' t
    using 3(3) length_ws [of s] that by simp
  have "json_members (Suc n) (d - 1) (c' # t) = json_members n (d - 1) (c' # t)"
    if "skip_space s = c' # t" "code c = 123" "d \<noteq> 0" "code c' \<noteq> 125" for c' t
    using that 3(1) [OF _ that(2,3,1) that(4)] l [OF that(1)] by simp
  moreover have "json_elems (Suc n) (d - 1) (c' # t) = json_elems n (d - 1) (c' # t)"
    if "skip_space s = c' # t" "code c = 91" "d \<noteq> 0" "code c' \<noteq> 93" for c' t
    using that 3(2) [OF _ _ that(2,3,1) that(4)] l [OF that(1)] by simp
  ultimately show ?case by (subst (1 2) json_value.simps(3)) (simp split: list.split)
next
  case (5 n d s)
  have v: "json_value (Suc n) d s = json_value n d s" using 5(1,3) by simp
  have "json_elems (Suc n) d (skip_space u) = json_elems n d (skip_space u)"
    if "json_value n d s = Some (x, t)" "skip_space t = c # u" "code c \<noteq> 93" "code c = 44" for x t c u
    using 5(2) [OF that(1) refl that(2-4)] 5(3) length_ws [of u] ws_Cons [OF that(2)]
      json_lengths(1) [OF that(1)] by simp
  then show ?case
    by (subst (1 2) json_elems.simps(2)) (simp add: v split: option.split list.split prod.split)
next
  case (7 n d s)
  have v: "json_value (Suc n) d (skip_space t2) = json_value n d (skip_space t2)"
    if "s = q # s'" "\<not> code q \<noteq> 34" "scan_str s' = Some (k, t1)" "skip_space t1 = c # t2" "\<not> code c \<noteq> 58"
    for q s' k t1 c t2
    using 7(1) [OF that(1-3) refl that(4,5)] 7(3) that(1) scan_str_length [OF that(3)]
      ws_Cons [OF that(4)] length_ws [of t2] by simp
  have m: "json_members (Suc n) d (skip_space u') = json_members n d (skip_space u')"
    if "s = q # s'" "\<not> code q \<noteq> 34" "scan_str s' = Some (k, t1)" "skip_space t1 = c # t2" "\<not> code c \<noteq> 58"
      "json_value n d (skip_space t2) = Some (x, u)" "skip_space u = e # u'" "code e \<noteq> 125" "code e = 44"
    for q s' k t1 c t2 x u e u'
    using 7(2) [OF that(1-3) refl that(4-6) refl that(7-9)] 7(3) that(1) scan_str_length [OF that(3)]
      ws_Cons [OF that(4)] length_ws [of t2] ws_Cons [OF that(7)] length_ws [of u']
      json_lengths(1) [OF that(6)] by simp
  show ?case
    by (subst (1 2) json_members.simps(2)) (simp add: v m split: option.split list.split prod.split)
qed (simp_all add: json_value.simps(1,2))

lemma json_value_enough:
  assumes "2 * length s + 1 \<le> n"
  shows "json_value n d s = json_value (2 * length s + 1) d s"
  using assms
proof (induction n rule: dec_induct)
  case (step n)
  then show ?case by (simp add: json_fuel_Suc(1))
qed simp

lemma json_parse_fuel:
  assumes "2 * length s + 1 \<le> n"
  shows "json_parse s =
    (case json_value n 10000 (skip_space s) of
       Some (v, t) \<Rightarrow> if skip_space t = [] then Some v else None | None \<Rightarrow> None)"
proof -
  have "2 * length (skip_space s) + 1 \<le> 2 * length s + 1" using length_ws [of s] by simp
  with assms json_value_enough [of "skip_space s" n] json_value_enough [of "skip_space s" "2 * length s + 1"]
  show ?thesis by (simp add: json_parse_def)
qed

section \<open>Flat objects of plain strings\<close>

text \<open>
  What the code meets in practice: one object whose members are strings without escapes. Its
  compact text is read back as it was written.
\<close>

definition plain :: "string \<Rightarrow> bool" where
  "plain s \<longleftrightarrow> list_all (\<lambda>c. 32 \<le> code c \<and> code c < 128 \<and> code c \<noteq> 34 \<and> code c \<noteq> 92) s"

fun print_members :: "(string \<times> string) list \<Rightarrow> string" where
  "print_members [] = ''}''"
| "print_members ((k, v) # ms) =
     [CHR 0x22] @ k @ [CHR 0x22, CHR '':'', CHR 0x22] @ v @ [CHR 0x22] @
     (if ms = [] then ''}'' else CHR '','' # print_members ms)"

definition print_object :: "(string \<times> string) list \<Rightarrow> string" where
  "print_object ms = CHR ''{'' # print_members ms"

lemma code_simps [simp]:
  "code (CHR 0x22) = 34" "code (CHR '':'') = 58" "code (CHR '','') = 44"
  "code (CHR ''{'') = 123" "code (CHR ''}'') = 125"
  by (simp_all add: code_def)

lemma ws_Cons_other: "\<not> json_space c \<Longrightarrow> skip_space (c # s) = c # s"
  by (simp add: skip_space_def)

lemma scan_str_plain: "plain s \<Longrightarrow> scan_str (s @ CHR 0x22 # t) = Some (s, t)"
  by (induction s) (simp_all add: plain_def prepend_def)

lemma unquote_plain: "plain s \<Longrightarrow> unquote s = s"
  by (induction s) (simp_all add: plain_def unquote.simps)

lemma json_value_plain:
  "plain v \<Longrightarrow> json_value (Suc n) d (CHR 0x22 # v @ CHR 0x22 # t) = Some (JStr v, t)"
  by (simp add: json_value.simps scan_str_plain unquote_plain)

lemma json_members_plain:
  assumes "ms \<noteq> []" "length ms < n" "list_all (\<lambda>(k, v). plain k \<and> plain v) ms"
  shows "json_members n d (print_members ms) = Some (map (\<lambda>(k, v). (k, JStr v)) ms, [])"
  using assms
proof (induction ms arbitrary: n)
  case (Cons m ms)
  obtain k v where m: "m = (k, v)" by (cases m)
  from Cons.prems(2) obtain n' where n: "n = Suc (Suc n')" by (cases n; cases "n - 1") auto
  have q: "skip_space (c # s) = c # s" if "c \<in> {CHR 0x22, CHR '':'', CHR '','', CHR ''}''}" for c s
    using that by (auto intro!: ws_Cons_other simp: json_space_def)
  have tail: "skip_space (print_members ms) = print_members ms" if "ms \<noteq> []"
    using that by (cases ms) (auto simp: q)
  show ?case
    using Cons.IH [of "Suc n'"] Cons.prems unfolding m n
    by (subst json_members.simps)
      (auto simp: scan_str_plain unquote_plain json_value_plain q tail prepend_def)
qed simp

lemma length_print_members: "length ms < length (print_members ms)"
  by (induction ms rule: print_members.induct) auto

lemma json_parse_print:
  assumes "list_all (\<lambda>(k, v). plain k \<and> plain v) ms"
  shows "json_parse (print_object ms) = Some (JObj (map (\<lambda>(k, v). (k, JStr v)) ms))"
proof (cases "ms = []")
  case True
  have "json_parse ''{}'' = Some (JObj [])" by code_simp
  then show ?thesis by (simp add: True print_object_def)
next
  case False
  let ?p = "print_members ms"
  have q: "skip_space (c # s) = c # s" if "c \<in> {CHR ''{'', CHR 0x22}" for c s
    using that by (auto intro!: ws_Cons_other simp: json_space_def)
  obtain t where p: "?p = CHR 0x22 # t" using False by (cases ms) auto
  have "json_members (2 * length (CHR ''{'' # ?p)) (10000 - 1) ?p = Some (map (\<lambda>(k, v). (k, JStr v)) ms, [])"
    using length_print_members [of ms] assms False by (intro json_members_plain) simp_all
  then have "json_value (Suc (2 * length (CHR ''{'' # ?p))) 10000 (CHR ''{'' # ?p) =
      Some (JObj (map (\<lambda>(k, v). (k, JStr v)) ms), [])"
    by (subst json_value.simps) (simp add: p q)
  then show ?thesis by (simp add: json_parse_def print_object_def q skip_space_def json_space_def)
qed

text \<open>The field is the last member whose name folds to it, and empty when there is none.\<close>

lemma store_members_strings:
  "store_members name (map (\<lambda>(k, v). (k, JStr v)) ms) (x, bad) =
     (last (x # map snd (filter (\<lambda>(k, v). fold_name k = fold_name name) ms)), bad)"
  by (induction ms arbitrary: x) auto

lemma json_string_field_print:
  assumes "list_all (\<lambda>(k, v). plain k \<and> plain v) ms"
  shows "json_string_field name (print_object ms) =
    Some (last ([] # map snd (filter (\<lambda>(k, v). fold_name k = fold_name name) ms)))"
  by (simp add: json_string_field_def json_parse_print [OF assms] store_members_strings)

end
