(* ===== verification/Msg_Server.thy ===== *)
theory Msg_Server
  imports Keeper Mint_Pb Json
begin

text \<open>
  \<open>x/feicoin/keeper/msg_server.go\<close> and \<open>msg_update_params.go\<close>: the two handlers of the \<open>Msg\<close>
  service. A request is a pointer: \<open>None\<close> is nil, whose first field access panics.
\<close>

section \<open>UpdateParams\<close>

definition UpdateParams ::
    "('s, 'svc, 'cdc, 'sch, 'coins) Keeper \<Rightarrow> 's \<Rightarrow> MsgUpdateParams option
     \<Rightarrow> 's \<times> MsgUpdateParamsResponse outcome" where
  "UpdateParams k s req =
     (case req of
        None \<Rightarrow> (s, Panic NilDereference)
      | Some req \<Rightarrow>
          (case StringToBytes (k_addressCodec k) (update_Authority req) of
             Inl err \<Rightarrow> (s, Fail (Wrapped err ''invalid authority address''))
           | Inr authority \<Rightarrow>
               if GetAuthority k \<noteq> authority then
                 (let (expectedAuthorityStr, _) = BytesToString (k_addressCodec k) (GetAuthority k)
                  in (s, Fail (Wrapped ErrInvalidSigner
                       (''invalid authority; expected '' @ expectedAuthorityStr @ '', got '' @ update_Authority req))))
               else
                 (case Params_Validate (update_Params req) of
                    Some err \<Rightarrow> (s, Fail err)
                  | None \<Rightarrow>
                      after (Item_Set (k_Params k) s (update_Params req)) (\<lambda>s _.
                        (s, Return MsgUpdateParamsResponse)))))"

section \<open>MintTokens\<close>

text \<open>The command's output is decoded into a struct whose only field is \<open>json:"address"\<close>.\<close>

definition getBobAddress :: "host \<Rightarrow> goerr + string" where
  "getBobAddress exec =
     (case exec ''feicoind''
          [''keys'', ''show'', ''bob'', ''--keyring-backend'', ''test'', ''--output'', ''json''] of
        Inl err \<Rightarrow> Inl (Wrapped err ''failed to get bob's address'')
      | Inr output \<Rightarrow>
          (case json_string_field ''address'' (bytes_str output) of
             None \<Rightarrow> Inl (Wrapped JsonError ''failed to parse bob's address'')
           | Some address \<Rightarrow> Inr address))"

definition token_minted :: "('s, 'amt, 'coin, 'coins) sdk \<Rightarrow> 'amt MsgMintTokens \<Rightarrow> event" where
  "token_minted sdk req =
     NewEvent ''token_minted''
       [(''minter'', mint_Authority req), (''recipient'', mint_Recipient req),
        (''amount'', Int_String sdk (mint_Amount req)), (''denom'', mint_Denom req)]"

text \<open>The coins to mint: \<open>NewCoins(NewCoin(denom, amount))\<close>, each of which may panic.\<close>

definition mint_coins :: "('s, 'amt, 'coin, 'coins) sdk \<Rightarrow> 'amt MsgMintTokens \<Rightarrow> goerr + 'coins" where
  "mint_coins sdk req =
     bind_err (NewCoin sdk (mint_Denom req) (mint_Amount req)) (\<lambda>coin. NewCoins sdk [coin])"

definition MintTokens ::
    "('s, 'svc, 'cdc, 'sch, 'coins) Keeper \<Rightarrow> ('s, 'amt, 'coin, 'coins) sdk \<Rightarrow> host \<Rightarrow> 's
     \<Rightarrow> 'amt MsgMintTokens option \<Rightarrow> 's \<times> MsgMintTokensResponse outcome" where
  "MintTokens k sdk exec s req =
     (case getBobAddress exec of
        Inl err \<Rightarrow> (s, Fail (Wrapped err ''failed to get bob's address''))
      | Inr bobAddress \<Rightarrow>
      case req of
        None \<Rightarrow> (s, Panic NilDereference)
      | Some req \<Rightarrow>
      if mint_Authority req \<noteq> bobAddress then
        (s, Fail (Wrapped (Msg ''unauthorized'')
              (''only '' @ bobAddress @ '' can mint tokens, got '' @ mint_Authority req)))
      else
      case AccAddressFromBech32 sdk (mint_Recipient req) of
        Inl err \<Rightarrow> (s, Fail (Wrapped err (''invalid recipient address: '' @ mint_Recipient req)))
      | Inr recipientAddr \<Rightarrow>
      case mint_coins sdk req of
        Inl p \<Rightarrow> (s, Panic p)
      | Inr coins \<Rightarrow>
        after (wrap_err ''failed to mint coins''
            (MintCoins (k_bankKeeper k) s ModuleName coins)) (\<lambda>s _.
        after (wrap_err ''failed to send minted coins to recipient''
            (SendCoinsFromModuleToAccount (k_bankKeeper k) s ModuleName recipientAddr coins)) (\<lambda>s _.
        (EmitEvent sdk s (token_minted sdk req), Return MsgMintTokensResponse))))"

end
