(* ===== verification/Minting.thy ===== *)
theory Minting
  imports Msg_Server
begin

text \<open>
  What minting does to balances and supply, under what the bank module and the SDK's coins
  document of the calls the handler makes.
\<close>

section \<open>The view of the bank\<close>

text \<open>
  The quantities the laws speak of: the balance of an address and the total supply in a
  denomination, the address of a module account, the amount of a denomination in some coins,
  and the integer an amount stands for.
\<close>

record ('s, 'amt, 'coins) bank_view =
  bal :: "'s \<Rightarrow> byte list \<Rightarrow> string \<Rightarrow> int"
  total_supply :: "'s \<Rightarrow> string \<Rightarrow> int"
  module_address :: "string \<Rightarrow> byte list"
  coins_of :: "'coins \<Rightarrow> string \<Rightarrow> int"
  int_of :: "'amt \<Rightarrow> int"

definition mint_law :: "('s, 'amt, 'coins) bank_view \<Rightarrow> ('s, 'coins) BankKeeper \<Rightarrow> bool" where
  "mint_law v bk \<longleftrightarrow>
     (\<forall>s m cs s'. MintCoins bk s m cs = (s', Return ()) \<longrightarrow>
        (\<forall>a d. bal v s' a d = bal v s a d + (if a = module_address v m then coins_of v cs d else 0)) \<and>
        (\<forall>d. total_supply v s' d = total_supply v s d + coins_of v cs d))"

definition send_law :: "('s, 'amt, 'coins) bank_view \<Rightarrow> ('s, 'coins) BankKeeper \<Rightarrow> bool" where
  "send_law v bk \<longleftrightarrow>
     (\<forall>s m r cs s'. SendCoinsFromModuleToAccount bk s m r cs = (s', Return ()) \<longrightarrow>
        (\<forall>a d. bal v s' a d = bal v s a d
           - (if a = module_address v m then coins_of v cs d else 0)
           + (if a = r then coins_of v cs d else 0)) \<and>
        (\<forall>d. total_supply v s' d = total_supply v s d))"

text \<open>Coins of a single pair: not negative, and of that denomination only.\<close>

definition coin_law :: "('s, 'amt, 'coins) bank_view \<Rightarrow> ('s, 'amt, 'coin, 'coins) sdk \<Rightarrow> bool" where
  "coin_law v sdk \<longleftrightarrow>
     (\<forall>d a c cs. NewCoin sdk d a = Inr c \<longrightarrow> NewCoins sdk [c] = Inr cs \<longrightarrow>
        0 \<le> int_of v a \<and> (\<forall>d'. coins_of v cs d' = (if d' = d then int_of v a else 0)))"

definition event_law :: "('s, 'amt, 'coins) bank_view \<Rightarrow> ('s, 'amt, 'coin, 'coins) sdk \<Rightarrow> bool" where
  "event_law v sdk \<longleftrightarrow>
     (\<forall>s e. bal v (EmitEvent sdk s e) = bal v s \<and> total_supply v (EmitEvent sdk s e) = total_supply v s)"

definition bank_laws ::
    "('s, 'amt, 'coins) bank_view \<Rightarrow> ('s, 'coins) BankKeeper \<Rightarrow> ('s, 'amt, 'coin, 'coins) sdk \<Rightarrow> bool" where
  "bank_laws v bk sdk \<longleftrightarrow> mint_law v bk \<and> send_law v bk \<and> coin_law v sdk \<and> event_law v sdk"

section \<open>When the handler returns\<close>

lemma MintTokens_Return:
  "MintTokens k sdk exec s (Some req) = (s', Return r) \<longleftrightarrow>
     getBobAddress exec = Inr (mint_Authority req) \<and>
     (\<exists>rcp coins s1 s2. AccAddressFromBech32 sdk (mint_Recipient req) = Inr rcp \<and>
        mint_coins sdk req = Inr coins \<and>
        MintCoins (k_bankKeeper k) s ModuleName coins = (s1, Return ()) \<and>
        SendCoinsFromModuleToAccount (k_bankKeeper k) s1 ModuleName rcp coins = (s2, Return ()) \<and>
        s' = EmitEvent sdk s2 (token_minted sdk req))"
  by (cases r) (auto simp: MintTokens_def after_Return wrap_err_Return split: sum.splits if_splits)

text \<open>Without the authority of the address the node finds for bob, nothing happens.\<close>

lemma MintTokens_unauthorised:
  assumes "getBobAddress exec \<noteq> Inr (mint_Authority req)"
  shows "\<exists>e. MintTokens k sdk exec s (Some req) = (s, Fail e)"
  using assms by (auto simp: MintTokens_def split: sum.split)

text \<open>Nor before the coins are minted.\<close>

lemma MintTokens_before_mint:
  assumes "\<nexists>rcp coins. AccAddressFromBech32 sdk (mint_Recipient req) = Inr rcp \<and> mint_coins sdk req = Inr coins"
  shows "fst (MintTokens k sdk exec s (Some req)) = s"
  using assms by (auto simp: MintTokens_def split: sum.split)

lemma MintTokens_send_fails:
  assumes "getBobAddress exec = Inr (mint_Authority req)"
    and "AccAddressFromBech32 sdk (mint_Recipient req) = Inr rcp" "mint_coins sdk req = Inr coins"
    and "MintCoins (k_bankKeeper k) s ModuleName coins = (s1, Return ())"
    and "SendCoinsFromModuleToAccount (k_bankKeeper k) s1 ModuleName rcp coins = (s2, Fail e)"
  shows "MintTokens k sdk exec s (Some req) =
    (s2, Fail (Wrapped e ''failed to send minted coins to recipient''))"
  using assms by (simp add: MintTokens_def)

section \<open>What it does then\<close>

lemma coin_law_mint_coins:
  "coin_law v sdk \<Longrightarrow> mint_coins sdk req = Inr cs \<Longrightarrow>
   0 \<le> int_of v (mint_Amount req) \<and>
   coins_of v cs d = (if d = mint_Denom req then int_of v (mint_Amount req) else 0)"
  unfolding coin_law_def mint_coins_def bind_err_eq_Inr by blast

lemma MintTokens_effect:
  assumes "bank_laws v (k_bankKeeper k) sdk"
    and "MintTokens k sdk exec s (Some req) = (s', Return r)"
    and "AccAddressFromBech32 sdk (mint_Recipient req) = Inr rcp"
  shows "0 \<le> int_of v (mint_Amount req)"
    and "total_supply v s' d = total_supply v s d + (if d = mint_Denom req then int_of v (mint_Amount req) else 0)"
    and "bal v s' a d = bal v s a d +
      (if a = rcp \<and> d = mint_Denom req then int_of v (mint_Amount req) else 0)"
proof -
  from assms(2,3) obtain coins s1 s2 where
    coins: "mint_coins sdk req = Inr coins"
    and mint: "MintCoins (k_bankKeeper k) s ModuleName coins = (s1, Return ())"
    and send: "SendCoinsFromModuleToAccount (k_bankKeeper k) s1 ModuleName rcp coins = (s2, Return ())"
    and s': "s' = EmitEvent sdk s2 (token_minted sdk req)"
    by (auto simp: MintTokens_Return)
  note laws = assms(1) [unfolded bank_laws_def]
  have c: "0 \<le> int_of v (mint_Amount req)"
    "coins_of v coins d = (if d = mint_Denom req then int_of v (mint_Amount req) else 0)" for d
    using coin_law_mint_coins [OF _ coins] laws by blast+
  have m: "bal v s1 a d = bal v s a d + (if a = module_address v ModuleName then coins_of v coins d else 0)"
      "total_supply v s1 d = total_supply v s d + coins_of v coins d" for a d
    using laws mint unfolding mint_law_def by blast+
  have n: "bal v s2 a d = bal v s1 a d
         - (if a = module_address v ModuleName then coins_of v coins d else 0)
         + (if a = rcp then coins_of v coins d else 0)"
      "total_supply v s2 d = total_supply v s1 d" for a d
    using laws send unfolding send_law_def by blast+
  have e: "bal v s' = bal v s2" "total_supply v s' = total_supply v s2"
    using laws s' unfolding event_law_def by simp_all
  show "0 \<le> int_of v (mint_Amount req)" by (rule c(1))
  show "total_supply v s' d = total_supply v s d + (if d = mint_Denom req then int_of v (mint_Amount req) else 0)"
    by (simp add: e n(2) m(2) c(2))
  show "bal v s' a d = bal v s a d +
      (if a = rcp \<and> d = mint_Denom req then int_of v (mint_Amount req) else 0)"
    by (simp add: e n(1) m(1) c(2))
qed

end
