(* ===== verification/Chain.thy ===== *)
theory Chain
  imports Minting
begin

text \<open>
  The module as a state machine: the chain delivers messages to the two handlers one after the
  other. The base application, which is not part of the repository, keeps what a handler wrote
  when it returns a response and discards it when it returns an error or panics; a delivered
  message is logged with whether it was executed. A mint carries the machine it was executed
  on, because the handler asks that machine for bob's address.
\<close>

section \<open>The machine\<close>

datatype 'amt chain_msg =
    UpdateParamsMsg MsgUpdateParams
  | MintTokensMsg host "'amt MsgMintTokens"

fun handle ::
    "('s, 'svc, 'cdc, 'sch, 'coins) Keeper \<Rightarrow> ('s, 'amt, 'coin, 'coins) sdk \<Rightarrow> 'amt chain_msg \<Rightarrow> 's
     \<Rightarrow> 's \<times> unit outcome" where
  "handle k sdk (UpdateParamsMsg req) s = after (UpdateParams k s (Some req)) (\<lambda>s _. (s, Return ()))"
| "handle k sdk (MintTokensMsg exec req) s =
     after (MintTokens k sdk exec s (Some req)) (\<lambda>s _. (s, Return ()))"

inductive chain ::
    "('s, 'svc, 'cdc, 'sch, 'coins) Keeper \<Rightarrow> ('s, 'amt, 'coin, 'coins) sdk \<Rightarrow> 's
     \<Rightarrow> ('amt chain_msg \<times> bool) list \<Rightarrow> 's \<Rightarrow> bool"
  for k sdk s0
where
  start: "chain k sdk s0 [] s0"
| executed: "chain k sdk s0 log s \<Longrightarrow> handle k sdk m s = (s', Return ()) \<Longrightarrow>
    chain k sdk s0 (log @ [(m, True)]) s'"
| failed: "chain k sdk s0 log s \<Longrightarrow> handle k sdk m s = (s', r) \<Longrightarrow> r \<noteq> Return () \<Longrightarrow>
    chain k sdk s0 (log @ [(m, False)]) s"

lemma handle_mint:
  "handle k sdk (MintTokensMsg exec req) s = (s', Return ()) \<longleftrightarrow>
   (\<exists>r. MintTokens k sdk exec s (Some req) = (s', Return r))"
  by (auto simp: after_Return)

lemma handle_update:
  "handle k sdk (UpdateParamsMsg req) s = (s', Return ()) \<longleftrightarrow>
   (\<exists>r. UpdateParams k s (Some req) = (s', Return r))"
  by (auto simp: after_Return)

lemma UpdateParams_Return:
  "UpdateParams k s (Some req) = (s', Return r) \<longleftrightarrow>
   StringToBytes (k_addressCodec k) (update_Authority req) = Inr (GetAuthority k) \<and>
   Item_Set (k_Params k) s (update_Params req) = (s', Return ())"
  by (cases r) (auto simp: UpdateParams_def Params_Validate_def after_Return split: sum.splits prod.splits if_splits)

lemma UpdateParams_unauthorised:
  assumes "StringToBytes (k_addressCodec k) (update_Authority req) \<noteq> Inr (GetAuthority k)"
  shows "\<exists>e. UpdateParams k s (Some req) = (s, Fail e)"
  using assms by (auto simp: UpdateParams_def split: sum.split prod.split)

lemma UpdateParams_not_Return:
  assumes "UpdateParams k s req = (s', r)" "\<And>x. r \<noteq> Return x"
  shows "s' = s \<or> (\<exists>m r'. req = Some m \<and>
    StringToBytes (k_addressCodec k) (update_Authority m) = Inr (GetAuthority k) \<and>
    Item_Set (k_Params k) s (update_Params m) = (s', r') \<and> r' \<noteq> Return ())"
proof (cases req)
  case None
  with assms(1) show ?thesis by (simp add: UpdateParams_def)
next
  case (Some m)
  show ?thesis
  proof (cases "StringToBytes (k_addressCodec k) (update_Authority m) = Inr (GetAuthority k)")
    case False
    with UpdateParams_unauthorised [OF False, of s] assms(1) Some show ?thesis by auto
  next
    case True
    obtain t r' where t: "Item_Set (k_Params k) s (update_Params m) = (t, r')" by fastforce
    with True Some assms show ?thesis
      by (cases r') (auto simp: UpdateParams_def Params_Validate_def)
  qed
qed

section \<open>Separate stores\<close>

text \<open>The bank and the event manager do not touch the module's parameters, nor \<open>Set\<close> the bank.\<close>

definition frame_laws ::
    "('s, 'amt, 'coins) bank_view \<Rightarrow> 's params_item \<Rightarrow> ('s, 'coins) BankKeeper
     \<Rightarrow> ('s, 'amt, 'coin, 'coins) sdk \<Rightarrow> bool" where
  "frame_laws v it bk sdk \<longleftrightarrow>
     (\<forall>s m cs s'. MintCoins bk s m cs = (s', Return ()) \<longrightarrow> Item_Get it s' = Item_Get it s) \<and>
     (\<forall>s m r cs s'. SendCoinsFromModuleToAccount bk s m r cs = (s', Return ()) \<longrightarrow>
        Item_Get it s' = Item_Get it s) \<and>
     (\<forall>s e. Item_Get it (EmitEvent sdk s e) = Item_Get it s) \<and>
     (\<forall>s p s'. Item_Set it s p = (s', Return ()) \<longrightarrow>
        bal v s' = bal v s \<and> total_supply v s' = total_supply v s)"

lemma MintTokens_frame:
  assumes "frame_laws v (k_Params k) (k_bankKeeper k) sdk"
    and "MintTokens k sdk exec s (Some req) = (s', Return r)"
  shows "Item_Get (k_Params k) s' = Item_Get (k_Params k) s"
  using assms unfolding frame_laws_def MintTokens_Return by metis

lemma UpdateParams_frame:
  assumes "frame_laws v (k_Params k) (k_bankKeeper k) sdk"
    and "UpdateParams k s (Some req) = (s', Return r)"
  shows "bal v s' = bal v s" "total_supply v s' = total_supply v s"
  using assms unfolding frame_laws_def UpdateParams_Return by metis+

section \<open>Who minted, and how much\<close>

definition minted :: "('s, 'amt, 'coins) bank_view \<Rightarrow> string \<Rightarrow> 'amt chain_msg \<times> bool \<Rightarrow> int" where
  "minted v d e =
     (case e of
        (MintTokensMsg exec req, True) \<Rightarrow> if mint_Denom req = d then int_of v (mint_Amount req) else 0
      | _ \<Rightarrow> 0)"

definition received ::
    "('s, 'amt, 'coins) bank_view \<Rightarrow> ('s, 'amt, 'coin, 'coins) sdk \<Rightarrow> byte list \<Rightarrow> string
     \<Rightarrow> 'amt chain_msg \<times> bool \<Rightarrow> int" where
  "received v sdk a d e =
     (case e of
        (MintTokensMsg exec req, True) \<Rightarrow>
          if AccAddressFromBech32 sdk (mint_Recipient req) = Inr a then minted v d e else 0
      | _ \<Rightarrow> 0)"

lemma MintTokens_supply:
  assumes "bank_laws v (k_bankKeeper k) sdk" "MintTokens k sdk exec s (Some req) = (s', Return r)"
  shows "total_supply v s' d = total_supply v s d + minted v d (MintTokensMsg exec req, True)"
    and "bal v s' a d = bal v s a d + received v sdk a d (MintTokensMsg exec req, True)"
proof -
  from assms(2) obtain rcp where r: "AccAddressFromBech32 sdk (mint_Recipient req) = Inr rcp"
    by (auto simp: MintTokens_Return)
  show "total_supply v s' d = total_supply v s d + minted v d (MintTokensMsg exec req, True)"
    and "bal v s' a d = bal v s a d + received v sdk a d (MintTokensMsg exec req, True)"
    using MintTokens_effect(2) [OF assms r, of d] MintTokens_effect(3) [OF assms r, of a d] r
    by (auto simp: minted_def received_def)
qed

lemma chain_supply:
  assumes "bank_laws v (k_bankKeeper k) sdk" "frame_laws v (k_Params k) (k_bankKeeper k) sdk"
    and "chain k sdk s0 log s"
  shows "total_supply v s d = total_supply v s0 d + sum_list (map (minted v d) log) \<and>
    bal v s a d = bal v s0 a d + sum_list (map (received v sdk a d) log)"
  using assms(3)
proof (induction rule: chain.induct)
  case (executed log s m s')
  show ?case
  proof (cases m)
    case (UpdateParamsMsg req)
    with executed(2) UpdateParams_frame [OF assms(2)] executed(3) show ?thesis
      unfolding UpdateParamsMsg handle_update by (auto simp: minted_def received_def)
  next
    case (MintTokensMsg exec req)
    with executed(2) obtain r where r: "MintTokens k sdk exec s (Some req) = (s', Return r)"
      unfolding MintTokensMsg handle_mint by blast
    show ?thesis
      using MintTokens_supply(1) [OF assms(1) r, of d] MintTokens_supply(2) [OF assms(1) r, of a d]
        executed(3) MintTokensMsg by simp
  qed
qed (simp_all add: minted_def received_def split: chain_msg.split)

lemma chain_authorised:
  assumes "chain k sdk s0 log s" "(m, True) \<in> set log"
  shows "case m of
      UpdateParamsMsg req \<Rightarrow> StringToBytes (k_addressCodec k) (update_Authority req) = Inr (GetAuthority k)
    | MintTokensMsg exec req \<Rightarrow> getBobAddress exec = Inr (mint_Authority req)"
  using assms
proof (induction rule: chain.induct)
  case (executed log s m' s')
  then show ?case
    by (cases m; auto simp: handle_mint handle_update MintTokens_Return UpdateParams_Return simp del: handle.simps)
qed auto

text \<open>No executed message takes supply or balances down.\<close>

lemma chain_minted_nonneg:
  assumes "bank_laws v (k_bankKeeper k) sdk" "chain k sdk s0 log s" "e \<in> set log"
  shows "0 \<le> minted v d e"
  using assms(2,3)
proof (induction rule: chain.induct)
  case (executed log s m s')
  show ?case
  proof (cases "e \<in> set log")
    case False
    with executed.prems have e: "e = (m, True)" by simp
    show ?thesis
    proof (cases m)
      case (MintTokensMsg exec req)
      with executed(2) obtain r where r: "MintTokens k sdk exec s (Some req) = (s', Return r)"
        unfolding MintTokensMsg handle_mint by blast
      then obtain rcp where "AccAddressFromBech32 sdk (mint_Recipient req) = Inr rcp"
        by (auto simp: MintTokens_Return)
      from MintTokens_effect(1) [OF assms(1) r this] show ?thesis
        by (simp add: e MintTokensMsg minted_def)
    qed (simp add: e minted_def)
  qed (rule executed.IH)
next
  case (failed log s m s' r)
  then show ?case by (auto simp: minted_def split: chain_msg.split)
qed simp

lemma chain_supply_mono:
  assumes "bank_laws v (k_bankKeeper k) sdk" "frame_laws v (k_Params k) (k_bankKeeper k) sdk"
    and "chain k sdk s0 log s"
  shows "total_supply v s0 d \<le> total_supply v s d"
proof -
  have "0 \<le> sum_list (map (minted v d) log)"
    using chain_minted_nonneg [OF assms(1,3)] by (intro sum_list_nonneg) auto
  with chain_supply [OF assms, of d] show ?thesis by simp
qed

lemma chain_params:
  assumes "item_laws (k_Params k)" "frame_laws v (k_Params k) (k_bankKeeper k) sdk"
    and "chain k sdk s0 log s" "snd (Item_Get (k_Params k) s0) = None"
  shows "snd (Item_Get (k_Params k) s) = None"
  using assms(3,4)
proof (induction rule: chain.induct)
  case (executed log s m s')
  then show ?case
    using assms(1) MintTokens_frame [OF assms(2)]
    by (cases m; fastforce simp: handle_mint handle_update UpdateParams_Return item_laws_def simp del: handle.simps)
qed auto

section \<open>Replaying a log\<close>

text \<open>
  The last entry of a log, taken off; and logs that differ only in the machines the mints were
  executed on, where those machines report the same address for bob.
\<close>

inductive_cases chain_snocE: "chain k sdk s0 (log @ [e]) s"
inductive_simps chain_Nil: "chain k sdk s0 [] s"

fun same_report :: "'amt chain_msg \<times> bool \<Rightarrow> 'amt chain_msg \<times> bool \<Rightarrow> bool" where
  "same_report (UpdateParamsMsg r1, b1) (UpdateParamsMsg r2, b2) \<longleftrightarrow> r1 = r2 \<and> b1 = b2"
| "same_report (MintTokensMsg e1 r1, b1) (MintTokensMsg e2 r2, b2) \<longleftrightarrow>
     getBobAddress e1 = getBobAddress e2 \<and> r1 = r2 \<and> b1 = b2"
| "same_report _ _ \<longleftrightarrow> False"

lemma same_report_refl: "same_report e e"
  by (cases e; cases "fst e") auto

lemma same_report_handle:
  "same_report (m, b) (m', b') \<Longrightarrow> b = b' \<and> handle k sdk m s = handle k sdk m' s"
  by (cases m; cases m') (simp_all add: MintTokens_def)

lemma chain_replay:
  assumes "chain k sdk s0 log s" "chain k sdk s0 log' s'" "list_all2 same_report log log'"
  shows "s = s'"
  using assms
proof (induction log arbitrary: log' s s' rule: rev_induct)
  case Nil
  then show ?case by (simp add: chain_Nil)
next
  case (snoc e log)
  from snoc.prems(3) obtain log1 e' where l: "log' = log1 @ [e']" "list_all2 same_report log log1"
      "same_report e e'"
    by (auto simp: list_all2_append1 list_all2_Cons1)
  obtain m b m' b' where e: "e = (m, b)" "e' = (m', b')" by (cases e, cases e')
  note h = same_report_handle [where k = k and sdk = sdk, OF l(3) [unfolded e]]
  from snoc.prems(1) obtain t where t: "chain k sdk s0 log t"
      "if b then handle k sdk m t = (s, Return ()) else s = t"
    unfolding e by (auto elim!: chain_snocE)
  from snoc.prems(2) obtain t' where t': "chain k sdk s0 log1 t'"
      "if b' then handle k sdk m' t' = (s', Return ()) else s' = t'"
    unfolding e l(1) by (auto elim!: chain_snocE)
  have "t = t'" by (rule snoc.IH [OF t(1) t'(1) l(2)])
  with t(2) t'(2) h show ?case by (auto split: if_splits)
qed

end
