(* ===== verification/Digits.thy ===== *)
theory Digits
  imports Prelude
begin

text \<open>
  Decimal text of integers, as \<open>strconv.Itoa\<close> and \<open>math/big\<close> write it, and its reading; and the
  splitting of a string at a character (\<open>strings.Split\<close>).
\<close>

section \<open>Decimal text\<close>

definition digit :: "nat \<Rightarrow> byte" where
  "digit n = of_nat (48 + n)"

fun digits :: "nat \<Rightarrow> byte list" where
  "digits n = (if n < 10 then [digit n] else digits (n div 10) @ [digit (n mod 10)])"

declare digits.simps [simp del]

fun digits_val :: "nat \<Rightarrow> byte list \<Rightarrow> nat option" where
  "digits_val acc [] = Some acc"
| "digits_val acc (b # bs) =
     (if 48 \<le> unat b \<and> unat b < 58 then digits_val (10 * acc + (unat b - 48)) bs else None)"

definition decimal_enc :: "int \<Rightarrow> byte list" where
  "decimal_enc a = (if a < 0 then 45 # digits (nat (- a)) else digits (nat a))"

definition decimal_dec :: "byte list \<Rightarrow> int option" where
  "decimal_dec bs =
     (case bs of
        [] \<Rightarrow> None
      | b # bs' \<Rightarrow> if b = 45 then map_option (\<lambda>n. - int n) (digits_val 0 bs')
          else map_option int (digits_val 0 bs))"

lemma unat_digit: "n < 10 \<Longrightarrow> unat (digit n) = 48 + n"
  by (simp only: digit_def unat_of_nat) simp

lemma digits_val_append:
  "digits_val acc (bs @ cs) = (case digits_val acc bs of None \<Rightarrow> None | Some a \<Rightarrow> digits_val a cs)"
  by (induction bs arbitrary: acc) auto

lemma digits_val_digits: "digits_val 0 (digits n) = Some n"
proof (induction n rule: digits.induct)
  case (1 n)
  then show ?case
    by (subst digits.simps) (simp add: digits_val_append unat_digit)
qed

lemma digit_not_minus: "n < 10 \<Longrightarrow> digit n \<noteq> 45"
  using unat_digit [of n] by auto

lemma digits_head: "digits n \<noteq> [] \<and> hd (digits n) \<noteq> 45"
proof (induction n rule: digits.induct)
  case (1 n)
  then show ?case by (subst (1 2) digits.simps) (auto simp: digit_not_minus hd_append)
qed

lemma decimal_dec_enc: "decimal_dec (decimal_enc a) = Some a"
proof (cases "a < 0")
  case False
  obtain b bs where "digits (nat a) = b # bs" "b \<noteq> 45"
    using digits_head [of "nat a"] by (cases "digits (nat a)") auto
  with False digits_val_digits [of "nat a"] show ?thesis
    by (simp add: decimal_enc_def decimal_dec_def)
qed (simp add: decimal_enc_def decimal_dec_def digits_val_digits)

lemma decimal_enc_nonempty: "decimal_enc a \<noteq> []"
  using digits_head by (simp add: decimal_enc_def)

lemma decimal_enc_inject [simp]: "decimal_enc a = decimal_enc b \<longleftrightarrow> a = b"
proof
  assume "decimal_enc a = decimal_enc b"
  then have "decimal_dec (decimal_enc a) = decimal_dec (decimal_enc b)" by (rule arg_cong)
  then show "a = b" by (simp add: decimal_dec_enc)
qed simp

lemma of_char_of_byte: "(of_char (char_of (unat b)) :: byte) = b"
proof -
  have "unat (of_char (char_of (unat b)) :: byte) = unat b mod 256"
    by (simp only: unat_of_char of_char_of)
  also have "\<dots> = unat b"
  proof -
    have "unat b < 2 ^ 8" using unsigned_less [of b] by simp
    then show ?thesis by simp
  qed
  finally show ?thesis by (simp only: word_unat_eq_iff)
qed

lemma bytes_str_inject: "bytes_str x = bytes_str y \<longleftrightarrow> x = y"
proof
  have *: "str_bytes (bytes_str z) = z" for z
    by (induction z) (simp_all add: str_bytes_def bytes_str_def of_char_of_byte)
  assume "bytes_str x = bytes_str y"
  then have "str_bytes (bytes_str x) = str_bytes (bytes_str y)" by (rule arg_cong)
  then show "x = y" by (simp add: *)
qed simp

definition Itoa :: "goint \<Rightarrow> string" where
  "Itoa n = bytes_str (decimal_enc n)"

lemma Itoa_inject [simp]: "Itoa a = Itoa b \<longleftrightarrow> a = b"
  by (simp add: Itoa_def bytes_str_inject)

lemma digits_bytes: "b \<in> set (digits n) \<Longrightarrow> 48 \<le> unat b \<and> unat b < 58"
proof (induction n rule: digits.induct)
  case (1 n)
  then show ?case
    by (subst (asm) (2) digits.simps) (auto simp: unat_digit split: if_splits)
qed

text \<open>The text of a number that is not negative: at least one character, all of them digits.\<close>

lemma Itoa_digits:
  assumes "0 \<le> n"
  shows "Itoa n \<noteq> ''''" and "c \<in> set (Itoa n) \<Longrightarrow> 48 \<le> (of_char c :: nat) \<and> (of_char c :: nat) < 58"
proof -
  show "Itoa n \<noteq> ''''" by (simp add: Itoa_def bytes_str_def decimal_enc_nonempty)
  assume "c \<in> set (Itoa n)"
  then obtain b where b: "b \<in> set (digits (nat n))" "c = char_of (unat b)"
    using assms by (auto simp: Itoa_def bytes_str_def decimal_enc_def)
  then show "48 \<le> (of_char c :: nat) \<and> (of_char c :: nat) < 58"
    using digits_bytes [OF b(1)] by simp
qed

section \<open>Splitting\<close>

fun split_at :: "char \<Rightarrow> string \<Rightarrow> string list" where
  "split_at c [] = [[]]"
| "split_at c (x # s) =
     (if x = c then [] # split_at c s
      else case split_at c s of [] \<Rightarrow> [[x]] | p # ps \<Rightarrow> (x # p) # ps)"

text \<open>\<open>strings.Join\<close>.\<close>

fun join :: "string \<Rightarrow> string list \<Rightarrow> string" where
  "join sep [] = []"
| "join sep [p] = p"
| "join sep (p # q # ps) = p @ sep @ join sep (q # ps)"

lemma split_at_nonempty [simp]: "split_at c s \<noteq> []"
  by (induction s) (auto split: list.split)

lemma join_Cons: "ps \<noteq> [] \<Longrightarrow> join sep (p # ps) = p @ sep @ join sep ps"
  by (cases ps) auto

lemma join_split_at: "join [c] (split_at c s) = s"
proof (induction s)
  case (Cons x s)
  obtain p ps where p: "split_at c s = p # ps" by (cases "split_at c s") auto
  with Cons show ?case by (cases ps) (auto simp: join_Cons)
qed simp

lemma split_at_other: "c \<notin> set s \<Longrightarrow> split_at c s = [s]"
  by (induction s) auto

lemma split_at_append: "c \<notin> set p \<Longrightarrow> split_at c (p @ c # s) = p # split_at c s"
  by (induction p) auto

lemma split_at_join:
  "ps \<noteq> [] \<Longrightarrow> list_all (\<lambda>p. c \<notin> set p) ps \<Longrightarrow> split_at c (join [c] ps) = ps"
  by (induction "[c]" ps rule: join.induct) (simp_all add: split_at_other split_at_append)

end
