(* ===== verification/Decimal.thy ===== *)
theory Decimal
  imports Mint_Pb Digits
begin

text \<open>
  A concrete codec for the amounts of \<open>MsgMintTokens\<close>: integers as signed decimal text, of at
  most 256 bits, which is the encoding \<open>cosmossdk.io/math.Int\<close> documents. It instantiates the
  parameter of \<open>Mint_Pb\<close> and shows that its hypothesis can hold.
\<close>

definition decimal_codec :: "int int_codec" where
  "decimal_codec = \<lparr>
     Int_zero = 0,
     Int_Size = (\<lambda>a. len (decimal_enc a)),
     Int_MarshalTo = (\<lambda>a d.
       let bz = decimal_enc a in Inr (take (length d) bz @ drop (length bz) d, min (len d) (len bz))),
     Int_Unmarshal = (\<lambda>a bs.
       if bs = [] then (a, None)
       else case decimal_dec bs of
           None \<Rightarrow> (a, Some ''math/big: cannot unmarshal into a *big.Int'')
         | Some n \<Rightarrow> if \<bar>n\<bar> < 2 ^ 256 then (n, None) else (n, Some ''integer out of range''))\<rparr>"

lemma decimal_codec_ok:
  assumes "\<bar>a\<bar> < 2 ^ 256"
  shows "int_codec_ok decimal_codec (decimal_enc a) a"
  using assms decimal_enc_nonempty [of a]
  by (simp add: int_codec_ok_def decimal_codec_def decimal_dec_enc Let_def len_def min_def)

end
