(* ===== verification/Ledger.thy ===== *)
theory Ledger
  imports Chain Decimal
begin

text \<open>
  A concrete world for the interfaces of \<open>Results\<close>: a key-value store that holds the encoded
  parameters under \<open>ParamsKey\<close>, balances and supplies, a list of events, a text form of
  addresses. It satisfies the laws the properties assume, and the witnesses compute in it.
\<close>

record ledger =
  l_store :: "byte list \<rightharpoonup> byte list"
  l_bal :: "byte list \<Rightarrow> string \<Rightarrow> int"
  l_supply :: "string \<Rightarrow> int"
  l_events :: "event list"

definition empty_ledger :: ledger where
  "empty_ledger = \<lparr>l_store = (\<lambda>k. None), l_bal = (\<lambda>a d. 0), l_supply = (\<lambda>d. 0), l_events = []\<rparr>"

text \<open>The item: the store's bytes through the code's own codec of \<open>Params\<close>.\<close>

definition ledger_item :: "byte list \<Rightarrow> ledger params_item" where
  "ledger_item key = \<lparr>
     Item_Get = (\<lambda>s. case l_store s key of
         None \<Rightarrow> (Params, Some (Wrapped CollNotFound ''params''))
       | Some bz \<Rightarrow> (case Params_Unmarshal Params bz of
           (p, None) \<Rightarrow> (p, None) | (p, Some e) \<Rightarrow> (p, Some (Msg ''encoding'')))),
     Item_Set = (\<lambda>s p. case Params_Marshal p of
         Inl e \<Rightarrow> (s, Fail (Msg ''encoding''))
       | Inr bz \<Rightarrow> (s\<lparr>l_store := (l_store s)(key \<mapsto> bz)\<rparr>, Return ()))\<rparr>"

definition ledger_coins_of :: "(string \<times> int) list \<Rightarrow> string \<Rightarrow> int" where
  "ledger_coins_of cs d = sum_list (map (\<lambda>(d', n). if d' = d then n else 0) cs)"

definition ledger_module_address :: "string \<Rightarrow> byte list" where
  "ledger_module_address m = str_bytes m"

definition ledger_add :: "byte list \<Rightarrow> (string \<Rightarrow> int) \<Rightarrow> ledger \<Rightarrow> ledger" where
  "ledger_add a f s = s\<lparr>l_bal := (\<lambda>x d. l_bal s x d + (if x = a then f d else 0))\<rparr>"

text \<open>A bank with blocked addresses; only the module \<open>feicoin\<close> may mint.\<close>

definition ledger_bank :: "byte list list \<Rightarrow> (ledger, (string \<times> int) list) BankKeeper" where
  "ledger_bank blocked = \<lparr>
     SpendableCoins = (\<lambda>s a. []),
     MintCoins = (\<lambda>s m cs.
       if m \<noteq> ModuleName then (s, Panic (Msg ''module account does not have permissions to mint tokens''))
       else (ledger_add (ledger_module_address m) (ledger_coins_of cs)
               (s\<lparr>l_supply := (\<lambda>d. l_supply s d + ledger_coins_of cs d)\<rparr>), Return ())),
     SendCoinsFromModuleToAccount = (\<lambda>s m r cs.
       if r \<in> set blocked then (s, Fail (Msg ''address is not allowed to receive funds''))
       else if list_ex (\<lambda>(d, n). l_bal s (ledger_module_address m) d < n) cs
       then (s, Fail (Msg ''insufficient funds''))
       else (ledger_add r (ledger_coins_of cs)
               (ledger_add (ledger_module_address m) (\<lambda>d. - ledger_coins_of cs d) s), Return ()))\<rparr>"

text \<open>An address is text with the prefix \<open>feic1\<close>.\<close>

definition ledger_address :: "string \<Rightarrow> goerr + byte list" where
  "ledger_address t =
     (if take 5 t = ''feic1'' then Inr (str_bytes (drop 5 t)) else Inl (Msg ''decoding bech32 failed''))"

definition ledger_codec :: address_codec where
  "ledger_codec = \<lparr>
     StringToBytes = ledger_address,
     BytesToString = (\<lambda>b. if b = [] then ('''', Some (Msg ''empty address''))
       else (''feic1'' @ bytes_str b, None))\<rparr>"

definition ledger_sdk :: "(ledger, int, string \<times> int, (string \<times> int) list) sdk" where
  "ledger_sdk = \<lparr>
     AccAddressFromBech32 = ledger_address,
     NewCoin = (\<lambda>d a. if d = '''' then Inl (Msg ''invalid denom'')
       else if a < 0 then Inl (Msg ''negative coin amount'') else Inr (d, a)),
     NewCoins = (\<lambda>cs. Inr (filter (\<lambda>(d, n). n \<noteq> 0) cs)),
     Int_String = (\<lambda>a. bytes_str (decimal_enc a)),
     EmitEvent = (\<lambda>s e. s\<lparr>l_events := l_events s @ [e]\<rparr>)\<rparr>"

definition ledger_view :: "(ledger, int, (string \<times> int) list) bank_view" where
  "ledger_view = \<lparr>bal = l_bal, total_supply = l_supply, module_address = ledger_module_address,
     coins_of = ledger_coins_of, int_of = (\<lambda>a. a)\<rparr>"

definition ledger_collections :: "(ledger, unit, unit, (byte list \<times> string) list) collections" where
  "ledger_collections = \<lparr>
     NewItem = (\<lambda>svc key name cdc. ledger_item key),
     Build = (\<lambda>svc items. if distinct (map fst items) then Inr items else Inl (Msg ''schema''))\<rparr>"

definition ledger_keeper ::
    "byte list list \<Rightarrow> (ledger, unit, unit, (byte list \<times> string) list, (string \<times> int) list) Keeper" where
  "ledger_keeper blocked =
     \<lparr>k_storeService = (), k_cdc = (), k_addressCodec = ledger_codec,
      k_authority = str_bytes ''gov'', k_bankKeeper = ledger_bank blocked,
      k_Schema = [(ParamsKey, ''params'')], k_Params = ledger_item ParamsKey\<rparr>"

text \<open>A machine whose keyring holds a key, or none, under the name \<open>bob\<close>.\<close>

definition keyring_host :: "string option \<Rightarrow> host" where
  "keyring_host address cmd args =
     (if cmd = ''feicoind'' \<and> take 3 args = [''keys'', ''show'', ''bob''] then
        (case address of
           None \<Rightarrow> Inl (Msg ''exit status 1'')
         | Some a \<Rightarrow> Inr (str_bytes (print_object [(''name'', ''bob''), (''type'', ''local''), (''address'', a)])))
      else Inl (Msg ''exec: not found''))"

section \<open>The laws hold\<close>

lemma ledger_item_laws: "item_laws (ledger_item key)"
proof -
  have "Params_Unmarshal Params bs = (p, None)" if "Params_Marshal p = Inr bs" for p bs
    using params.round_trip [where m = p] that
    by (simp add: Params_Marshal_def Params_Unmarshal_def)
  then show ?thesis
    by (auto simp: item_laws_def ledger_item_def split: sum.splits)
qed

lemma ledger_bank_laws: "bank_laws ledger_view (ledger_bank blocked) ledger_sdk"
  by (auto simp: bank_laws_def mint_law_def send_law_def coin_law_def event_law_def ledger_view_def
      ledger_bank_def ledger_sdk_def ledger_add_def ledger_coins_of_def split: if_splits)

lemma ledger_frame_laws:
  "frame_laws ledger_view (ledger_item key) (ledger_bank blocked) ledger_sdk"
  by (auto simp: frame_laws_def ledger_view_def ledger_item_def ledger_bank_def ledger_sdk_def
      ledger_add_def fun_eq_iff split: if_splits sum.splits)

lemma keyring_getBobAddress:
  "getBobAddress (keyring_host None) = Inl (Wrapped (Msg ''exit status 1'') ''failed to get bob's address'')"
  "plain a \<Longrightarrow> getBobAddress (keyring_host (Some a)) = Inr a"
proof -
  have "plain ''name'' \<and> plain ''bob'' \<and> plain ''type'' \<and> plain ''local'' \<and> plain ''address''" by code_simp
  moreover have "fold_name ''name'' \<noteq> fold_name ''address''" "fold_name ''type'' \<noteq> fold_name ''address''"
    by code_simp+
  ultimately show "plain a \<Longrightarrow> getBobAddress (keyring_host (Some a)) = Inr a"
    by (simp add: getBobAddress_def keyring_host_def json_string_field_print)
qed (simp add: getBobAddress_def keyring_host_def)

section \<open>Minting in the ledger\<close>

lemma ledger_keeper_simps [simp]:
  "k_bankKeeper (ledger_keeper blocked) = ledger_bank blocked"
  "k_Params (ledger_keeper blocked) = ledger_item ParamsKey"
  "k_addressCodec (ledger_keeper blocked) = ledger_codec"
  "GetAuthority (ledger_keeper blocked) = str_bytes ''gov''"
  by (simp_all add: ledger_keeper_def GetAuthority_def)

lemma ledger_mint_coins:
  assumes "mint_Denom req \<noteq> ''''" "0 \<le> mint_Amount req"
  shows "mint_coins ledger_sdk req =
    Inr (if mint_Amount req = 0 then [] else [(mint_Denom req, mint_Amount req)])"
  using assms by (simp add: mint_coins_def ledger_sdk_def)

lemma ledger_MintCoins:
  "MintCoins (ledger_bank blocked) s ModuleName cs =
     (ledger_add (ledger_module_address ModuleName) (ledger_coins_of cs)
        (s\<lparr>l_supply := (\<lambda>d. l_supply s d + ledger_coins_of cs d)\<rparr>), Return ())"
  by (simp add: ledger_bank_def)

lemma ledger_mints:
  assumes "plain (mint_Authority req)" "ledger_address (mint_Recipient req) = Inr rcp"
    and "mint_Denom req \<noteq> ''''" "0 \<le> mint_Amount req"
    and "rcp \<notin> set blocked" "\<And>d. 0 \<le> l_bal s (ledger_module_address ModuleName) d"
  shows "\<exists>s'. MintTokens (ledger_keeper blocked) ledger_sdk (keyring_host (Some (mint_Authority req))) s (Some req)
    = (s', Return MsgMintTokensResponse)"
proof -
  have "AccAddressFromBech32 ledger_sdk (mint_Recipient req) = Inr rcp"
    using assms(2) by (simp add: ledger_sdk_def)
  moreover have nonneg: "\<not> l_bal s (ledger_module_address ModuleName) d < 0" for d
    using assms(6) [of d] by simp
  ultimately show ?thesis using assms(1-5)
    by (simp add: MintTokens_Return keyring_getBobAddress ledger_mint_coins ledger_MintCoins)
      (simp add: ledger_bank_def ledger_add_def ledger_coins_of_def nonneg)
qed

lemma ledger_blocked:
  assumes "ledger_address (mint_Recipient req) = Inr rcp" "rcp \<in> set blocked"
  shows "AccAddressFromBech32 ledger_sdk (mint_Recipient req) = Inr rcp"
    and "SendCoinsFromModuleToAccount (ledger_bank blocked) s m rcp cs =
      (s, Fail (Msg ''address is not allowed to receive funds''))"
  using assms by (simp_all add: ledger_sdk_def ledger_bank_def)

text \<open>A mint of five \<open>fei\<close> by bob, to alice.\<close>

definition bob :: string where
  "bob = ''feic1bob''"

definition mint_five :: "int MsgMintTokens" where
  "mint_five = \<lparr>mint_Authority = bob, mint_Recipient = ''feic1alice'', mint_Amount = 5, mint_Denom = ''fei''\<rparr>"

lemma mint_five_simps [simp]:
  "mint_Authority mint_five = bob" "mint_Amount mint_five = 5" "mint_Denom mint_five = ''fei''"
  "ledger_address (mint_Recipient mint_five) = Inr (str_bytes ''alice'')"
  "AccAddressFromBech32 ledger_sdk (mint_Recipient mint_five) = Inr (str_bytes ''alice'')"
  by (simp_all add: mint_five_def ledger_address_def ledger_sdk_def)

lemma plain_bob [simp]: "plain bob"
  by code_simp

lemma bob_mints:
  "\<exists>s'. MintTokens (ledger_keeper []) ledger_sdk (keyring_host (Some bob)) empty_ledger (Some mint_five) =
    (s', Return MsgMintTokensResponse)"
  using ledger_mints [of mint_five "str_bytes ''alice''" "[]" empty_ledger] by (simp add: empty_ledger_def)

text \<open>The new parameters, by the authority the keeper was given.\<close>

definition update_by_gov :: MsgUpdateParams where
  "update_by_gov = \<lparr>update_Authority = ''feic1gov'', update_Params = Params\<rparr>"

lemma ledger_Set: "\<exists>s'. Item_Set (ledger_item key) s p = (s', Return ())"
proof -
  have "\<exists>bz. Params_Marshal p = Inr bz"
    using params.marshal_eq [where m = p] by (simp add: Params_Marshal_def)
  then show ?thesis by (auto simp: ledger_item_def)
qed

lemma gov_updates:
  "\<exists>s'. UpdateParams (ledger_keeper []) s (Some update_by_gov) = (s', Return MsgUpdateParamsResponse)"
  by (simp add: UpdateParams_Return update_by_gov_def ledger_codec_def ledger_address_def ledger_Set)

text \<open>
  A short run: a mint, an update of the parameters, and a mint executed on a machine that has no
  key for bob.
\<close>

definition run_log :: "(int chain_msg \<times> bool) list" where
  "run_log =
     [(MintTokensMsg (keyring_host (Some bob)) mint_five, True),
      (UpdateParamsMsg update_by_gov, True),
      (MintTokensMsg (keyring_host None) mint_five, False)]"

lemma ledger_run: "\<exists>s. chain (ledger_keeper []) ledger_sdk empty_ledger run_log s"
proof -
  let ?k = "ledger_keeper []" and ?none = "keyring_host None"
  obtain s1 where s1: "MintTokens ?k ledger_sdk (keyring_host (Some bob)) empty_ledger (Some mint_five) =
      (s1, Return MsgMintTokensResponse)"
    using bob_mints by blast
  obtain s2 where s2: "UpdateParams ?k s1 (Some update_by_gov) = (s2, Return MsgUpdateParamsResponse)"
    using gov_updates by blast
  obtain e where e: "MintTokens ?k ledger_sdk ?none s2 (Some mint_five) = (s2, Fail e)"
    using MintTokens_unauthorised [of ?none mint_five] keyring_getBobAddress(1) by fastforce
  have "chain ?k ledger_sdk empty_ledger [(MintTokensMsg (keyring_host (Some bob)) mint_five, True)] s1"
    by (rule chain.executed [OF chain.start, unfolded append_Nil]) (simp add: s1)
  from chain.executed [OF this, where m = "UpdateParamsMsg update_by_gov" and s' = s2] s2
  have "chain ?k ledger_sdk empty_ledger
      [(MintTokensMsg (keyring_host (Some bob)) mint_five, True), (UpdateParamsMsg update_by_gov, True)] s2"
    by simp
  from chain.failed [OF this, where m = "MintTokensMsg ?none mint_five" and s' = s2 and r = "Fail e"] e
  have "chain ?k ledger_sdk empty_ledger run_log s2" by (simp add: run_log_def)
  then show ?thesis ..
qed

text \<open>The message on the wire, with its amount as decimal text.\<close>

lemma mint_five_ok: "MsgMintTokens_ok decimal_codec decimal_enc mint_five"
proof -
  have "len_ok (fields_bytes (MsgMintTokens_msg decimal_enc mint_five))" by code_simp
  then show ?thesis using decimal_codec_ok [of 5] by (simp add: MsgMintTokens_ok_def)
qed

lemma mint_five_bytes:
  "MsgMintTokens_Marshal decimal_codec mint_five =
     Inr ([0x0a, 8] @ str_bytes bob @ [0x12, 10] @ str_bytes ''feic1alice'' @
       [0x1a, 1, 53] @ [0x22, 3] @ str_bytes ''fei'')"
  by code_simp

text \<open>A keeper whose parameters were set at genesis.\<close>

lemma ledger_InitGenesis: "\<exists>s'. Keeper_InitGenesis (ledger_keeper blocked) s gs = (s', Return ())"
  by (simp add: Keeper_InitGenesis_def ledger_Set)

end
