(* ===== verification/Service.thy ===== *)
theory Service
  imports Msg_Server
begin

text \<open>
  The gRPC side of \<open>tx.pb.go\<close>, \<open>query.pb.go\<close> and \<open>query.pb.gw.go\<close>: the handlers that decode a
  request and call the server, directly or through an interceptor, the clients, and the
  unimplemented servers. The connection, the decoder the gRPC server passes and its
  interceptors are arguments.
\<close>

section \<open>Handlers\<close>

type_synonym ('s, 'req, 'resp) server_method = "'s \<Rightarrow> 'req option \<Rightarrow> 's \<times> 'resp outcome"

type_synonym ('s, 'req, 'resp) interceptor =
  "'s \<Rightarrow> 'req \<Rightarrow> string \<Rightarrow> ('s \<Rightarrow> 'req \<Rightarrow> 's \<times> 'resp outcome) \<Rightarrow> 's \<times> 'resp outcome"

text \<open>
  A unary handler: \<open>in := new(T)\<close>, \<open>dec(in)\<close>, then the server, or the interceptor with the
  method's name and a closure that calls the server.
\<close>

definition unary_handler ::
    "'req \<Rightarrow> string \<Rightarrow> ('s, 'req, 'resp) server_method \<Rightarrow> 's \<Rightarrow> ('req \<Rightarrow> 'req \<times> goerr option)
     \<Rightarrow> ('s, 'req, 'resp) interceptor option \<Rightarrow> 's \<times> 'resp outcome" where
  "unary_handler new FullMethod srv s dec icpt =
     (case dec new of
        (req, Some err) \<Rightarrow> (s, Fail err)
      | (req, None) \<Rightarrow>
          (case icpt of
             None \<Rightarrow> srv s (Some req)
           | Some f \<Rightarrow> f s req FullMethod (\<lambda>s req. srv s (Some req))))"

definition Msg_UpdateParams_Handler ::
    "('s, MsgUpdateParams, MsgUpdateParamsResponse) server_method \<Rightarrow> 's
     \<Rightarrow> (MsgUpdateParams \<Rightarrow> MsgUpdateParams \<times> goerr option)
     \<Rightarrow> ('s, MsgUpdateParams, MsgUpdateParamsResponse) interceptor option
     \<Rightarrow> 's \<times> MsgUpdateParamsResponse outcome" where
  "Msg_UpdateParams_Handler =
     unary_handler MsgUpdateParams_zero ''/feicoin.feicoin.v1.Msg/UpdateParams''"

definition Msg_MintTokens_Handler ::
    "'amt int_codec \<Rightarrow> ('s, 'amt MsgMintTokens, MsgMintTokensResponse) server_method \<Rightarrow> 's
     \<Rightarrow> ('amt MsgMintTokens \<Rightarrow> 'amt MsgMintTokens \<times> goerr option)
     \<Rightarrow> ('s, 'amt MsgMintTokens, MsgMintTokensResponse) interceptor option
     \<Rightarrow> 's \<times> MsgMintTokensResponse outcome" where
  "Msg_MintTokens_Handler ac =
     unary_handler (MsgMintTokens_zero ac) ''/feicoin.feicoin.v1.Msg/MintTokens''"

definition Query_Params_Handler ::
    "('s, QueryParamsRequest, QueryParamsResponse) server_method \<Rightarrow> 's
     \<Rightarrow> (QueryParamsRequest \<Rightarrow> QueryParamsRequest \<times> goerr option)
     \<Rightarrow> ('s, QueryParamsRequest, QueryParamsResponse) interceptor option
     \<Rightarrow> 's \<times> QueryParamsResponse outcome" where
  "Query_Params_Handler = unary_handler QueryParamsRequest ''/feicoin.feicoin.v1.Query/Params''"

text \<open>The service descriptions: service name and method names.\<close>

definition Msg_serviceDesc :: "string \<times> string list" where
  "Msg_serviceDesc = (''feicoin.feicoin.v1.Msg'', [''UpdateParams'', ''MintTokens''])"

definition Query_serviceDesc :: "string \<times> string list" where
  "Query_serviceDesc = (''feicoin.feicoin.v1.Query'', [''Params''])"

section \<open>Clients\<close>

text \<open>\<open>grpc.ClientConn.Invoke\<close>: it fills the reply it is given, or returns an error.\<close>

type_synonym ('w, 'req, 'resp) invoke = "'w \<Rightarrow> string \<Rightarrow> 'req \<Rightarrow> 'resp \<Rightarrow> 'w \<times> 'resp \<times> goerr option"

definition client_call ::
    "string \<Rightarrow> 'resp \<Rightarrow> ('w, 'req, 'resp) invoke \<Rightarrow> 'w \<Rightarrow> 'req \<Rightarrow> 'w \<times> (goerr + 'resp)" where
  "client_call path new invoke w req =
     (case invoke w path req new of
        (w, out, Some err) \<Rightarrow> (w, Inl err)
      | (w, out, None) \<Rightarrow> (w, Inr out))"

definition msgClient_UpdateParams ::
    "('w, MsgUpdateParams, MsgUpdateParamsResponse) invoke \<Rightarrow> 'w \<Rightarrow> MsgUpdateParams
     \<Rightarrow> 'w \<times> (goerr + MsgUpdateParamsResponse)" where
  "msgClient_UpdateParams =
     client_call ''/feicoin.feicoin.v1.Msg/UpdateParams'' MsgUpdateParamsResponse"

definition msgClient_MintTokens ::
    "('w, 'amt MsgMintTokens, MsgMintTokensResponse) invoke \<Rightarrow> 'w \<Rightarrow> 'amt MsgMintTokens
     \<Rightarrow> 'w \<times> (goerr + MsgMintTokensResponse)" where
  "msgClient_MintTokens =
     client_call ''/feicoin.feicoin.v1.Msg/MintTokens'' MsgMintTokensResponse"

definition queryClient_Params ::
    "('w, QueryParamsRequest, QueryParamsResponse) invoke \<Rightarrow> 'w \<Rightarrow> QueryParamsRequest
     \<Rightarrow> 'w \<times> (goerr + QueryParamsResponse)" where
  "queryClient_Params =
     client_call ''/feicoin.feicoin.v1.Query/Params'' QueryParamsResponse_zero"

section \<open>Unimplemented servers and the gateway's local request\<close>

definition Unimplemented_UpdateParams :: "('s, MsgUpdateParams, MsgUpdateParamsResponse) server_method" where
  "Unimplemented_UpdateParams s req = (s, Fail (Status Unimplemented ''method UpdateParams not implemented''))"

definition Unimplemented_MintTokens :: "('s, 'amt MsgMintTokens, MsgMintTokensResponse) server_method" where
  "Unimplemented_MintTokens s req = (s, Fail (Status Unimplemented ''method MintTokens not implemented''))"

definition Unimplemented_Params :: "('s, QueryParamsRequest, QueryParamsResponse) server_method" where
  "Unimplemented_Params s req = (s, Fail (Status Unimplemented ''method Params not implemented''))"

definition request_Query_Params_0 ::
    "('w, QueryParamsRequest, QueryParamsResponse) invoke \<Rightarrow> 'w \<Rightarrow> 'w \<times> (goerr + QueryParamsResponse)" where
  "request_Query_Params_0 invoke w =
     (let protoReq = QueryParamsRequest in queryClient_Params invoke w protoReq)"

definition local_request_Query_Params_0 ::
    "('s, QueryParamsRequest, QueryParamsResponse) server_method \<Rightarrow> 's \<Rightarrow> 's \<times> QueryParamsResponse outcome" where
  "local_request_Query_Params_0 server s = (let protoReq = QueryParamsRequest in server s (Some protoReq))"

text \<open>The query server as a method of the service: it leaves the state alone.\<close>

definition query_method ::
    "('s, 'svc, 'cdc, 'sch, 'coins) Keeper \<Rightarrow> ('s, QueryParamsRequest, QueryParamsResponse) server_method" where
  "query_method k s req = (s, to_outcome (queryServer_Params k s req))"

section \<open>Requests over the wire\<close>

text \<open>
  A decoder that reads a request from the bytes of the call. A server that decodes what a client
  encoded runs on the client's request: the contract of a method, by the round trip of its
  request type.
\<close>

definition wire_dec :: "('m \<Rightarrow> byte list \<Rightarrow> 'm \<times> perr option) \<Rightarrow> byte list \<Rightarrow> 'm \<Rightarrow> 'm \<times> goerr option" where
  "wire_dec unm bs m =
     (case unm m bs of
        (m', None) \<Rightarrow> (m', None)
      | (m', Some e) \<Rightarrow> (m', Some (Msg ''error unmarshalling request'')))"

locale grpc_method =
  fixes new :: 'req and path :: string
    and marshal_req :: "'req \<Rightarrow> perr + byte list"
    and unmarshal_req :: "'req \<Rightarrow> byte list \<Rightarrow> 'req \<times> perr option"
    and good :: "'req \<Rightarrow> bool"
  assumes req_round_trip: "good m \<Longrightarrow> \<exists>bs. marshal_req m = Inr bs \<and> unmarshal_req new bs = (m, None)"
begin

lemma marshals: "good req \<Longrightarrow> \<exists>bs. marshal_req req = Inr bs"
  using req_round_trip by blast

lemma delivered:
  assumes "good req" "marshal_req req = Inr bs"
  shows "unary_handler new path srv s (wire_dec unmarshal_req bs) None = srv s (Some req)"
  using req_round_trip [OF assms(1)] assms(2) by (auto simp: unary_handler_def wire_dec_def)

lemma intercepted:
  assumes "good req" "marshal_req req = Inr bs"
  shows "unary_handler new path srv s (wire_dec unmarshal_req bs) (Some f) =
    f s req path (\<lambda>s req. srv s (Some req))"
  using req_round_trip [OF assms(1)] assms(2) by (auto simp: unary_handler_def wire_dec_def)

lemma undecodable:
  assumes "unmarshal_req new bs = (m, Some e)"
  shows "unary_handler new path srv s (wire_dec unmarshal_req bs) icpt =
    (s, Fail (Msg ''error unmarshalling request''))"
  using assms by (simp add: unary_handler_def wire_dec_def)

end

interpretation update_call: grpc_method
  MsgUpdateParams_zero "''/feicoin.feicoin.v1.Msg/UpdateParams''"
  MsgUpdateParams_Marshal MsgUpdateParams_Unmarshal MsgUpdateParams_ok
  by unfold_locales
    (simp add: MsgUpdateParams_Marshal_def MsgUpdateParams_Unmarshal_def update_msg.marshal_eq
      update_msg.unmarshal_msg)

interpretation mint_call: grpc_method
  "MsgMintTokens_zero ac" "''/feicoin.feicoin.v1.Msg/MintTokens''"
  "MsgMintTokens_Marshal ac" "MsgMintTokens_Unmarshal ac" "MsgMintTokens_ok ac enc"
  for ac :: "'amt int_codec" and enc
  by unfold_locales
    (simp add: MsgMintTokens_Marshal_def MsgMintTokens_Unmarshal_def mint_msg.marshal_eq [where enc = enc]
      mint_msg.unmarshal_msg)

interpretation query_call: grpc_method
  QueryParamsRequest "''/feicoin.feicoin.v1.Query/Params''"
  QueryParamsRequest_Marshal QueryParamsRequest_Unmarshal "\<lambda>m. True"
  by unfold_locales
    (use query_request.marshal_eq query_request.unmarshal_msg in
      \<open>simp add: QueryParamsRequest_Marshal_def QueryParamsRequest_Unmarshal_def\<close>)

end
