(* ===== verification/App_Module.thy ===== *)
theory App_Module
  imports Minting Module_Pb
begin

text \<open>
  \<open>x/feicoin/module/{module,depinject,simulation}.go\<close>: the module's genesis entry points, which
  go through JSON and turn errors into panics, its construction from the configuration, its
  block hooks. The JSON codec and the module-address functions of the SDK are arguments.
\<close>

section \<open>Genesis through JSON\<close>

text \<open>\<open>codec.Codec\<close> on genesis states; a raw JSON message is a string.\<close>

record json_codec =
  MarshalJSON :: "GenesisState \<Rightarrow> goerr + string"
  UnmarshalJSON :: "string \<Rightarrow> goerr + GenesisState"

definition genesis_msg :: "string \<Rightarrow> string" where
  "genesis_msg verb = ''failed to '' @ verb @ '' '' @ ModuleName @ '' genesis state''"

definition AppModule_DefaultGenesis :: "json_codec \<Rightarrow> string outcome" where
  "AppModule_DefaultGenesis cdc =
     (case MarshalJSON cdc DefaultGenesis of Inl err \<Rightarrow> Panic err | Inr bz \<Rightarrow> Return bz)"

definition AppModule_ValidateGenesis :: "json_codec \<Rightarrow> string \<Rightarrow> goerr option" where
  "AppModule_ValidateGenesis cdc bz =
     (case UnmarshalJSON cdc bz of
        Inl err \<Rightarrow> Some (Wrapped err (genesis_msg ''unmarshal''))
      | Inr genState \<Rightarrow> GenesisState_Validate genState)"

definition AppModule_InitGenesis ::
    "json_codec \<Rightarrow> ('s, 'svc, 'cdc, 'sch, 'coins) Keeper \<Rightarrow> 's \<Rightarrow> string \<Rightarrow> 's \<times> unit outcome" where
  "AppModule_InitGenesis cdc k s gs =
     (case UnmarshalJSON cdc gs of
        Inl err \<Rightarrow> (s, Panic (Wrapped err (genesis_msg ''unmarshal'')))
      | Inr genState \<Rightarrow>
          (case Keeper_InitGenesis k s genState of
             (s, Fail err) \<Rightarrow> (s, Panic (Wrapped err (genesis_msg ''initialize'')))
           | r \<Rightarrow> r))"

definition AppModule_ExportGenesis ::
    "json_codec \<Rightarrow> ('s, 'svc, 'cdc, 'sch, 'coins) Keeper \<Rightarrow> 's \<Rightarrow> string outcome" where
  "AppModule_ExportGenesis cdc k s =
     (case Keeper_ExportGenesis k s of
        Inl err \<Rightarrow> Panic (Wrapped err (genesis_msg ''export''))
      | Inr genState \<Rightarrow>
          (case MarshalJSON cdc genState of
             Inl err \<Rightarrow> Panic (Wrapped err (genesis_msg ''marshal''))
           | Inr bz \<Rightarrow> Return bz))"

text \<open>\<open>GenerateGenesisState\<close> of the simulation: the module's entry of the genesis map.\<close>

definition GenerateGenesisState :: "json_codec \<Rightarrow> (string \<rightharpoonup> string) \<Rightarrow> (string \<rightharpoonup> string) outcome" where
  "GenerateGenesisState cdc GenState =
     (let feicoinGenesis = \<lparr>genesis_Params = DefaultParams\<rparr> in
      case MarshalJSON cdc feicoinGenesis of
        Inl err \<Rightarrow> Panic err
      | Inr bz \<Rightarrow> Return (GenState(ModuleName \<mapsto> bz)))"

text \<open>What the module relies on: a document the codec wrote is read back.\<close>

definition json_codec_ok :: "json_codec \<Rightarrow> bool" where
  "json_codec_ok cdc \<longleftrightarrow> (\<forall>gs bz. MarshalJSON cdc gs = Inr bz \<longrightarrow> UnmarshalJSON cdc bz = Inr gs)"

section \<open>Other operations\<close>

definition AppModule_Name :: string where
  "AppModule_Name = ModuleName"

definition ConsensusVersion :: uint64 where
  "ConsensusVersion = 1"

definition BeginBlock :: "'s \<Rightarrow> 's \<times> unit outcome" where
  "BeginBlock s = (s, Return ())"

definition EndBlock :: "'s \<Rightarrow> 's \<times> unit outcome" where
  "EndBlock s = (s, Return ())"

section \<open>Construction\<close>

record ('s, 'svc, 'cdc, 'sch, 'coins, 'auth) AppModule =
  am_cdc :: 'cdc
  am_keeper :: "('s, 'svc, 'cdc, 'sch, 'coins) Keeper"
  am_authKeeper :: 'auth
  am_bankKeeper :: "('s, 'coins) BankKeeper"

definition NewAppModule ::
    "'cdc \<Rightarrow> ('s, 'svc, 'cdc, 'sch, 'coins) Keeper \<Rightarrow> 'auth \<Rightarrow> ('s, 'coins) BankKeeper
     \<Rightarrow> ('s, 'svc, 'cdc, 'sch, 'coins, 'auth) AppModule" where
  "NewAppModule cdc keeper authKeeper bankKeeper =
     \<lparr>am_cdc = cdc, am_keeper = keeper, am_authKeeper = authKeeper, am_bankKeeper = bankKeeper\<rparr>"

record ('s, 'svc, 'cdc, 'coins, 'auth) ModuleInputs =
  in_Config :: Module
  in_StoreService :: 'svc
  in_Cdc :: 'cdc
  in_AddressCodec :: address_codec
  in_AuthKeeper :: 'auth
  in_BankKeeper :: "('s, 'coins) BankKeeper"

text \<open>\<open>authtypes.NewModuleAddress\<close> and \<open>authtypes.NewModuleAddressOrBech32Address\<close>.\<close>

record module_addresses =
  NewModuleAddress :: "string \<Rightarrow> byte list"
  NewModuleAddressOrBech32Address :: "string \<Rightarrow> byte list"

definition module_authority :: "module_addresses \<Rightarrow> Module \<Rightarrow> byte list" where
  "module_authority ma config =
     (let authority = NewModuleAddress ma GovModuleName in
      if module_Authority config \<noteq> '''' then NewModuleAddressOrBech32Address ma (module_Authority config)
      else authority)"

definition ProvideModule ::
    "('s, 'svc, 'cdc, 'sch) collections \<Rightarrow> module_addresses \<Rightarrow> ('s, 'svc, 'cdc, 'coins, 'auth) ModuleInputs
     \<Rightarrow> (('s, 'svc, 'cdc, 'sch, 'coins) Keeper \<times> ('s, 'svc, 'cdc, 'sch, 'coins, 'auth) AppModule) outcome" where
  "ProvideModule coll ma inp =
     (case NewKeeper coll (in_StoreService inp) (in_Cdc inp) (in_AddressCodec inp)
             (module_authority ma (in_Config inp)) (in_BankKeeper inp) of
        Return k \<Rightarrow> Return (k, NewAppModule (in_Cdc inp) k (in_AuthKeeper inp) (in_BankKeeper inp))
      | Fail err \<Rightarrow> Fail err
      | Panic err \<Rightarrow> Panic err)"

section \<open>Lemmas\<close>

lemma NewKeeper_Return:
  "NewKeeper coll svc cdc codec authority bank = Return k \<longleftrightarrow>
     snd (BytesToString codec authority) = None \<and>
     (\<exists>sch. Build coll svc [(ParamsKey, ''params'')] = Inr sch \<and>
       k = \<lparr>k_storeService = svc, k_cdc = cdc, k_addressCodec = codec, k_authority = authority,
            k_bankKeeper = bank, k_Schema = sch, k_Params = NewItem coll svc ParamsKey ''params'' cdc\<rparr>)"
  by (auto simp: NewKeeper_def split: prod.splits option.splits sum.splits)

lemma NewKeeper_not_Fail: "NewKeeper coll svc cdc codec authority bank \<noteq> Fail e"
  by (auto simp: NewKeeper_def split: prod.splits option.splits sum.splits)

lemma provided_fields:
  assumes "ProvideModule coll ma inp = Return (k, am)"
  shows "am_keeper am = k" "GetAuthority k = module_authority ma (in_Config inp)" "k_addressCodec k = in_AddressCodec inp"
    and "k_Params k = NewItem coll (in_StoreService inp) ParamsKey ''params'' (in_Cdc inp)" "k_bankKeeper k = in_BankKeeper inp"
  using assms
  by (auto simp: ProvideModule_def NewKeeper_Return NewAppModule_def GetAuthority_def split: outcome.splits)

text \<open>The keeper's genesis contract, lifted through JSON.\<close>

lemma AppModule_Init_Return:
  "AppModule_InitGenesis cdc k s bz = (s', Return ()) \<longleftrightarrow>
   (\<exists>gs. UnmarshalJSON cdc bz = Inr gs \<and> Keeper_InitGenesis k s gs = (s', Return ()))"
  by (auto simp: AppModule_InitGenesis_def split: sum.splits prod.splits outcome.splits)

lemma AppModule_Export_Return:
  "AppModule_ExportGenesis cdc k s = Return bz \<longleftrightarrow>
   (\<exists>gs. Keeper_ExportGenesis k s = Inr gs \<and> MarshalJSON cdc gs = Inr bz)"
  by (auto simp: AppModule_ExportGenesis_def split: sum.splits)

lemma AppModule_export_init:
  assumes "item_laws (k_Params k)" "UnmarshalJSON cdc bz = Inr gs"
    and "AppModule_InitGenesis cdc k s bz = (s', Return ())"
  shows "Keeper_ExportGenesis k s' = Inr gs"
  using assms keeper_genesis.export_init unfolding AppModule_Init_Return by force

end
