(* ===== verification/App_Config.thy ===== *)
theory App_Config
  imports Keeper Module_Pb
begin

text \<open>
  \<open>app/app_config.go\<close>, \<open>GetMaccPerms\<close> and \<open>BlockedAddresses\<close> of \<open>app/app.go\<close>, and
  \<open>app/genesis_account.go\<close>: the permissions of the module accounts, the blocked accounts, the
  orders in which the modules run, and the validation of a genesis account.

  The names of the other modules are constants of other packages: \<open>sdk_name\<close> has one
  constructor for each, and their values are the argument \<open>nm\<close>.
\<close>

section \<open>Names\<close>

datatype sdk_name =
    FeeCollectorName | distrtypes | minttypes | BondedPoolName | NotBondedPoolName
  | stakingtypes | govtypes | nft | ibctransfertypes | icatypes | upgradetypes | authtypes
  | slashingtypes | evidencetypes | authz | epochstypes | ibcexported | feegrant | group_module
  | consensustypes | banktypes | genutiltypes | vestingtypes | circuittypes | paramstypes
  | runtime_module | Minter | Burner

text \<open>A name in the configuration: another package's, this module's, or a literal.\<close>

datatype cfg_name = Ext sdk_name | Feicoin | Lit string

fun name_value :: "(sdk_name \<Rightarrow> string) \<Rightarrow> cfg_name \<Rightarrow> string" where
  "name_value nm (Ext n) = nm n"
| "name_value nm Feicoin = ModuleName"
| "name_value nm (Lit t) = t"

section \<open>The configuration\<close>

definition moduleAccPerms :: "(cfg_name \<times> sdk_name list) list" where
  "moduleAccPerms =
     [(Ext FeeCollectorName, []),
      (Ext distrtypes, []),
      (Ext minttypes, [Minter]),
      (Ext BondedPoolName, [Burner, stakingtypes]),
      (Ext NotBondedPoolName, [Burner, stakingtypes]),
      (Ext govtypes, [Burner]),
      (Ext nft, []),
      (Ext ibctransfertypes, [Minter, Burner]),
      (Ext icatypes, []),
      (Feicoin, [Minter, Burner])]"

definition blockAccAddrs :: "cfg_name list" where
  "blockAccAddrs =
     [Ext FeeCollectorName, Ext distrtypes, Ext minttypes, Ext BondedPoolName,
      Ext NotBondedPoolName, Ext nft]"

definition PreBlockers :: "cfg_name list" where
  "PreBlockers = [Ext upgradetypes, Ext authtypes]"

definition BeginBlockers :: "cfg_name list" where
  "BeginBlockers =
     [Ext minttypes, Ext distrtypes, Ext slashingtypes, Ext evidencetypes, Ext stakingtypes,
      Ext authz, Ext epochstypes, Ext ibcexported, Feicoin]"

definition EndBlockers :: "cfg_name list" where
  "EndBlockers = [Ext govtypes, Ext stakingtypes, Ext feegrant, Ext group_module, Feicoin]"

definition InitGenesis_order :: "cfg_name list" where
  "InitGenesis_order =
     [Ext consensustypes, Ext authtypes, Ext banktypes, Ext distrtypes, Ext stakingtypes,
      Ext slashingtypes, Ext govtypes, Ext minttypes, Ext genutiltypes, Ext evidencetypes,
      Ext authz, Ext feegrant, Ext vestingtypes, Ext nft, Ext group_module, Ext upgradetypes,
      Ext circuittypes, Ext epochstypes, Ext ibcexported, Ext ibctransfertypes, Ext icatypes,
      Feicoin]"

text \<open>
  The configuration of a module: the runtime's has the orders, \<open>auth\<close>'s the prefix and the
  permissions, \<open>bank\<close>'s the blocked accounts, \<open>group\<close>'s two limits (the period in nanoseconds);
  the others are empty, this module's among them.
\<close>

definition Name :: string where "Name = ''feicoin''"
definition AccountAddressPrefix :: string where "AccountAddressPrefix = ''feic''"

record runtime_config =
  AppName :: string
  rt_PreBlockers :: "cfg_name list"
  rt_BeginBlockers :: "cfg_name list"
  rt_EndBlockers :: "cfg_name list"
  OverrideStoreKeys :: "(cfg_name \<times> string) list"
  rt_InitGenesis :: "cfg_name list"

record auth_config =
  Bech32Prefix :: string
  ModuleAccountPermissions :: "(cfg_name \<times> sdk_name list) list"
  EnableUnorderedTransactions :: bool

record group_config =
  MaxExecutionPeriod :: int
  MaxMetadataLen :: nat

datatype module_config =
    RuntimeConfig runtime_config | AuthConfig auth_config | BankConfig "cfg_name list"
  | GroupConfig group_config | FeicoinConfig Module | NoConfig

definition runtime_cfg :: runtime_config where
  "runtime_cfg = \<lparr>AppName = Name, rt_PreBlockers = PreBlockers, rt_BeginBlockers = BeginBlockers,
     rt_EndBlockers = EndBlockers, OverrideStoreKeys = [(Ext authtypes, ''acc'')],
     rt_InitGenesis = InitGenesis_order\<rparr>"

definition auth_cfg :: auth_config where
  "auth_cfg = \<lparr>Bech32Prefix = AccountAddressPrefix, ModuleAccountPermissions = moduleAccPerms,
     EnableUnorderedTransactions = True\<rparr>"

definition module_configs :: "(cfg_name \<times> module_config) list" where
  "module_configs =
     [(Ext authtypes, AuthConfig auth_cfg),
      (Ext vestingtypes, NoConfig),
      (Ext banktypes, BankConfig blockAccAddrs),
      (Ext stakingtypes, NoConfig),
      (Ext slashingtypes, NoConfig),
      (Lit ''tx'', NoConfig),
      (Ext genutiltypes, NoConfig),
      (Ext authz, NoConfig),
      (Ext upgradetypes, NoConfig),
      (Ext distrtypes, NoConfig),
      (Ext evidencetypes, NoConfig),
      (Ext minttypes, NoConfig),
      (Ext group_module, GroupConfig \<lparr>MaxExecutionPeriod = 1000000000 * 1209600, MaxMetadataLen = 255\<rparr>),
      (Ext nft, NoConfig),
      (Ext feegrant, NoConfig),
      (Ext govtypes, NoConfig),
      (Ext consensustypes, NoConfig),
      (Ext circuittypes, NoConfig),
      (Ext paramstypes, NoConfig),
      (Ext epochstypes, NoConfig),
      (Feicoin, FeicoinConfig Module_zero)]"

text \<open>The whole of it, and the modules it declares, in order.\<close>

definition appConfig_modules :: "(cfg_name \<times> module_config) list" where
  "appConfig_modules = (Ext runtime_module, RuntimeConfig runtime_cfg) # module_configs"

definition app_modules :: "cfg_name list" where
  "app_modules = map fst appConfig_modules"

lemma app_modules_eq:
  "app_modules =
     [Ext runtime_module, Ext authtypes, Ext vestingtypes, Ext banktypes, Ext stakingtypes,
      Ext slashingtypes, Lit ''tx'', Ext genutiltypes, Ext authz, Ext upgradetypes,
      Ext distrtypes, Ext evidencetypes, Ext minttypes, Ext group_module, Ext nft, Ext feegrant,
      Ext govtypes, Ext consensustypes, Ext circuittypes, Ext paramstypes, Ext epochstypes,
      Feicoin]"
  by (simp add: app_modules_def appConfig_modules_def module_configs_def)

lemma feicoin_config: "(Feicoin, c) \<in> set appConfig_modules \<longleftrightarrow> c = FeicoinConfig Module_zero"
  by (auto simp: appConfig_modules_def module_configs_def)

section \<open>GetMaccPerms and BlockedAddresses\<close>

definition GetMaccPerms :: "(sdk_name \<Rightarrow> string) \<Rightarrow> (string \<rightharpoonup> string list)" where
  "GetMaccPerms nm =
     fold (\<lambda>(account, permissions) dup. dup(name_value nm account \<mapsto> map nm permissions))
       moduleAccPerms (\<lambda>a. None)"

text \<open>The keys that map to true; the \<open>else\<close> branch ranges over the map's keys.\<close>

definition blocked_of :: "(sdk_name \<Rightarrow> string) \<Rightarrow> cfg_name list \<Rightarrow> string \<Rightarrow> bool" where
  "blocked_of nm addrs =
     (if len addrs > 0 then fold (\<lambda>addr result. result(name_value nm addr := True)) addrs (\<lambda>a. False)
      else (\<lambda>a. GetMaccPerms nm a \<noteq> None))"

definition BlockedAddresses :: "(sdk_name \<Rightarrow> string) \<Rightarrow> string \<Rightarrow> bool" where
  "BlockedAddresses nm = blocked_of nm blockAccAddrs"

text \<open>The other packages' constants are pairwise different, and none is this module's name.\<close>

definition names_ok :: "(sdk_name \<Rightarrow> string) \<Rightarrow> bool" where
  "names_ok nm \<longleftrightarrow> inj nm \<and> ModuleName \<notin> range nm"

lemma names_ok_eq:
  "names_ok nm \<Longrightarrow> nm n = nm m \<longleftrightarrow> n = m"
  "names_ok nm \<Longrightarrow> nm n \<noteq> ModuleName"
  "names_ok nm \<Longrightarrow> ModuleName \<noteq> nm n"
proof -
  assume ok: "names_ok nm"
  then show "nm n = nm m \<longleftrightarrow> n = m" by (simp add: names_ok_def inj_eq)
  show "nm n \<noteq> ModuleName" "ModuleName \<noteq> nm n"
    using ok unfolding names_ok_def by (metis rangeI)+
qed

text \<open>What the two functions tell is what the modules are configured with.\<close>

lemma functions_tell_config:
  "\<exists>as c. map_of appConfig_modules (Ext banktypes) = Some (BankConfig as) \<and>
     map_of appConfig_modules (Ext authtypes) = Some (AuthConfig c) \<and>
     (\<forall>a. BlockedAddresses nm a \<longleftrightarrow> a \<in> name_value nm ` set as) \<and>
     (\<forall>a. GetMaccPerms nm a \<noteq> None \<longleftrightarrow> a \<in> name_value nm ` fst ` set (ModuleAccountPermissions c))"
proof -
  have f: "fold (\<lambda>addr result. result(name_value nm addr := True)) as m = (\<lambda>a. m a \<or> a \<in> name_value nm ` set as)" for as m
    by (induction as arbitrary: m) auto
  have g: "fold (\<lambda>(account, permissions) dup. dup(name_value nm account \<mapsto> map nm permissions)) ps m a \<noteq> None \<longleftrightarrow>
      m a \<noteq> None \<or> a \<in> name_value nm ` fst ` set ps" for ps a and m :: "string \<rightharpoonup> string list"
    by (induction ps arbitrary: m) auto
  have b: "BlockedAddresses nm a \<longleftrightarrow> a \<in> name_value nm ` set blockAccAddrs" for a
    unfolding BlockedAddresses_def blocked_of_def f by (simp add: blockAccAddrs_def len_def)
  have p: "GetMaccPerms nm a \<noteq> None \<longleftrightarrow> a \<in> name_value nm ` fst ` set moduleAccPerms" for a
    unfolding GetMaccPerms_def g by simp
  show ?thesis
    by (rule exI [of _ blockAccAddrs], rule exI [of _ auth_cfg])
      (use b p in \<open>simp add: appConfig_modules_def module_configs_def auth_cfg_def\<close>)
qed

text \<open>The constants' values in the packages' documentation satisfy this.\<close>

fun sdk_names :: "sdk_name \<Rightarrow> string" where
  "sdk_names FeeCollectorName = ''fee_collector''"
| "sdk_names distrtypes = ''distribution''"
| "sdk_names minttypes = ''mint''"
| "sdk_names BondedPoolName = ''bonded_tokens_pool''"
| "sdk_names NotBondedPoolName = ''not_bonded_tokens_pool''"
| "sdk_names stakingtypes = ''staking''"
| "sdk_names govtypes = ''gov''"
| "sdk_names nft = ''nft''"
| "sdk_names ibctransfertypes = ''transfer''"
| "sdk_names icatypes = ''interchainaccounts''"
| "sdk_names upgradetypes = ''upgrade''"
| "sdk_names authtypes = ''auth''"
| "sdk_names slashingtypes = ''slashing''"
| "sdk_names evidencetypes = ''evidence''"
| "sdk_names authz = ''authz''"
| "sdk_names epochstypes = ''epochs''"
| "sdk_names ibcexported = ''ibc''"
| "sdk_names feegrant = ''feegrant''"
| "sdk_names group_module = ''group''"
| "sdk_names consensustypes = ''consensus''"
| "sdk_names banktypes = ''bank''"
| "sdk_names genutiltypes = ''genutil''"
| "sdk_names vestingtypes = ''vesting''"
| "sdk_names circuittypes = ''circuit''"
| "sdk_names paramstypes = ''params''"
| "sdk_names runtime_module = ''runtime''"
| "sdk_names Minter = ''minter''"
| "sdk_names Burner = ''burner''"

definition all_names :: "sdk_name list" where
  "all_names =
     [FeeCollectorName, distrtypes, minttypes, BondedPoolName, NotBondedPoolName, stakingtypes,
      govtypes, nft, ibctransfertypes, icatypes, upgradetypes, authtypes, slashingtypes,
      evidencetypes, authz, epochstypes, ibcexported, feegrant, group_module, consensustypes,
      banktypes, genutiltypes, vestingtypes, circuittypes, paramstypes, runtime_module, Minter,
      Burner]"

lemma all_names: "UNIV = set all_names"
proof -
  have "n \<in> set all_names" for n by (cases n) (simp_all add: all_names_def)
  then show ?thesis by blast
qed

lemma sdk_names_ok: "names_ok sdk_names"
proof -
  have "distinct (map sdk_names all_names)" "ModuleName \<notin> set (map sdk_names all_names)" by code_simp+
  then show ?thesis by (simp add: names_ok_def all_names distinct_map)
qed

text \<open>Orders: one module's entry comes before another's.\<close>

definition precedes :: "'a list \<Rightarrow> 'a \<Rightarrow> 'a \<Rightarrow> bool" where
  "precedes xs a b \<longleftrightarrow> b \<in> set xs \<and> a \<in> set (takeWhile (\<lambda>x. x \<noteq> b) xs)"

lemma distinct_names:
  assumes "names_ok nm" "distinct ms" "list_all (\<lambda>m. \<forall>t. m \<noteq> Lit t) ms"
  shows "distinct (map (name_value nm) ms)"
proof -
  have "inj_on (name_value nm) (set ms)"
  proof (rule inj_onI)
    fix x y
    assume "x \<in> set ms" "y \<in> set ms" "name_value nm x = name_value nm y"
    with assms(3) names_ok_eq [OF assms(1)] show "x = y"
      by (cases x; cases y) (auto simp: list_all_iff)
  qed
  with assms(2) show ?thesis by (simp add: distinct_map)
qed

section \<open>Genesis accounts\<close>

record ('base, 'coins) GenesisAccount =
  ga_BaseAccount :: 'base
  ga_OriginalVesting :: 'coins
  ga_DelegatedFree :: 'coins
  ga_DelegatedVesting :: 'coins
  ga_StartTime :: goint
  ga_EndTime :: goint
  ga_ModuleName :: string
  ga_ModulePermissions :: "string list"

text \<open>\<open>Coins.IsZero\<close>, \<open>ModuleAccount.Validate\<close> and \<open>BaseAccount.Validate\<close> of the SDK.\<close>

record ('base, 'coins) account_ops =
  Coins_IsZero :: "'coins \<Rightarrow> bool"
  ModuleAccount_Validate :: "'base \<Rightarrow> string \<Rightarrow> string list \<Rightarrow> goerr option"
  BaseAccount_Validate :: "'base \<Rightarrow> goerr option"

definition GenesisAccount_Validate ::
    "('base, 'coins) account_ops \<Rightarrow> ('base, 'coins) GenesisAccount \<Rightarrow> goerr option" where
  "GenesisAccount_Validate ops sga =
     (if \<not> Coins_IsZero ops (ga_OriginalVesting sga) \<and> ga_StartTime sga \<ge> ga_EndTime sga then
        Some (Msg ''vesting start-time cannot be before end-time'')
      else
        let ma_err = (if ga_ModuleName sga \<noteq> '''' then
            ModuleAccount_Validate ops (ga_BaseAccount sga) (ga_ModuleName sga) (ga_ModulePermissions sga)
          else None)
        in case ma_err of Some err \<Rightarrow> Some err | None \<Rightarrow> BaseAccount_Validate ops (ga_BaseAccount sga))"

lemma GenesisAccount_Validate_None:
  "GenesisAccount_Validate ops sga = None \<longleftrightarrow>
     (Coins_IsZero ops (ga_OriginalVesting sga) \<or> ga_StartTime sga < ga_EndTime sga) \<and>
     (ga_ModuleName sga = '''' \<or>
      ModuleAccount_Validate ops (ga_BaseAccount sga) (ga_ModuleName sga) (ga_ModulePermissions sga) = None) \<and>
     BaseAccount_Validate ops (ga_BaseAccount sga) = None"
  by (auto simp: GenesisAccount_Validate_def Let_def split: option.split)

end
