(* ===== verification/Testnet.thy ===== *)
theory Testnet
  imports Minting Digits
begin

text \<open>
  \<open>cmd/feicoind/cmd/testnet.go\<close>: the arguments of the \<open>in-place-testnet\<close> command and the rewriting
  of the application's state for it: the old validators are removed, a new one is installed,
  and the listed accounts are funded. The keepers of the SDK are arguments. An error that
  \<open>handleErr\<close> meets ends the process; here that is the outcome \<open>Fail\<close>.
\<close>

section \<open>Arguments\<close>

definition valVotingPower :: goint where
  "valVotingPower = 900000000000000"

definition flagAccountsToFund :: string where
  "flagAccountsToFund = ''accounts-to-fund''"

text \<open>The flag \<open>NewInPlaceTestnetCmd\<close> adds to the server's command, with its default.\<close>

definition in_place_flags :: "(string \<times> string) list" where
  "in_place_flags = [(flagAccountsToFund, '''')]"

text \<open>The keys of the options, most of them constants of other packages, and their values.\<close>

datatype opt_key =
    KeyNewValAddr | KeyUserPubKey | KeyNewOpAddr | KeyTriggerTestnetUpgrade | FlagHome | OptFlag string

datatype 'pk opt_value = HexBytes "byte list" | CryptoPubKey 'pk | StringValue string | OtherValue

record 'pk valArgs =
  newValAddr :: "byte list"
  newOperatorAddress :: string
  newValPubKey :: 'pk
  accountsToFund :: "string list"
  upgradeToTrigger :: string
  homeDir :: string

text \<open>\<open>cast.ToString\<close> is the argument \<open>toString\<close>.\<close>

definition getCommandArgs ::
    "('pk opt_value \<Rightarrow> string) \<Rightarrow> (opt_key \<Rightarrow> 'pk opt_value) \<Rightarrow> goerr + 'pk valArgs" where
  "getCommandArgs toString get =
     (case get KeyNewValAddr of
        HexBytes addr \<Rightarrow>
     (case get KeyUserPubKey of
        CryptoPubKey pk \<Rightarrow>
     (case get KeyNewOpAddr of
        StringValue op \<Rightarrow>
     (case get KeyTriggerTestnetUpgrade of
        StringValue upgrade \<Rightarrow>
          (let accounts = [] @ split_at CHR '','' (toString (get (OptFlag flagAccountsToFund)));
               home = toString (get FlagHome)
           in if home = '''' then Inl (Msg ''invalid home dir'')
              else Inr \<lparr>newValAddr = addr, newOperatorAddress = op, newValPubKey = pk,
                accountsToFund = accounts, upgradeToTrigger = upgrade, homeDir = home\<rparr>)
      | _ \<Rightarrow> Inl (Msg ''upgradeToTrigger is not of type string''))
      | _ \<Rightarrow> Inl (Msg ''newOperatorAddress is not of type string''))
      | _ \<Rightarrow> Inl (Msg ''newValPubKey is not of type crypto.PubKey''))
      | _ \<Rightarrow> Inl (Msg ''newValAddr is not of type bytes.HexBytes''))"

section \<open>The keepers\<close>

text \<open>The validator the code builds; decimals are the strings it parses them from.\<close>

record 'any testnet_validator =
  v_OperatorAddress :: string
  v_ConsensusPubkey :: 'any
  v_Jailed :: bool
  v_Bonded :: bool
  v_Tokens :: int
  v_DelegatorShares :: string
  v_Moniker :: string
  v_Rate :: string
  v_MaxRate :: string
  v_MaxChangeRate :: string
  v_MinSelfDelegation :: int

datatype distr_record = HistoricalRewards | CurrentRewards | AccumulatedCommission | OutstandingRewards

datatype store_range = PowerIndex | LastValidators | ValidatorsKey | ValidatorQueueKey

text \<open>
  \<open>Keys\<close> are the keys an iterator over a part of the staking store goes through; \<open>Open\<close> is the error
  of \<open>ValidatorsPowerStoreIterator\<close> or \<open>LastValidatorsIterator\<close>, if any (\<open>stakingStore.Iterator\<close>
  has none). The deletions run over the keys the iterator had when it was opened.
  \<open>NewAnyWithValue\<close> packs the \<open>ed25519\<close> key of the public key's bytes. \<open>SetDistribution\<close> stands for the four setters of the distribution keeper, which
  the code calls with the initial values it fixes.
\<close>

record ('s, 'pk, 'any, 'key) testnet_ops =
  NewAnyWithValue :: "'pk \<Rightarrow> goerr + 'any"
  ValidatorStringToBytes :: "string \<Rightarrow> goerr + byte list"
  AccountStringToBytes :: "string \<Rightarrow> goerr + byte list"
  Open :: "'s \<Rightarrow> store_range \<Rightarrow> goerr option"
  Keys :: "'s \<Rightarrow> store_range \<Rightarrow> 'key list"
  DeleteKey :: "'key \<Rightarrow> 's \<Rightarrow> 's"
  SetValidator :: "'s \<Rightarrow> 'any testnet_validator \<Rightarrow> 's \<times> goerr option"
  SetValidatorByConsAddr :: "'s \<Rightarrow> 'any testnet_validator \<Rightarrow> 's \<times> goerr option"
  SetValidatorByPowerIndex :: "'s \<Rightarrow> 'any testnet_validator \<Rightarrow> 's \<times> goerr option"
  SetLastValidatorPower :: "'s \<Rightarrow> byte list \<Rightarrow> goint \<Rightarrow> 's \<times> goerr option"
  AfterValidatorCreated :: "'s \<Rightarrow> byte list \<Rightarrow> 's \<times> goerr option"
  SetDistribution :: "'s \<Rightarrow> distr_record \<Rightarrow> byte list \<Rightarrow> 's \<times> goerr option"
  LastBlockHeight :: "'s \<Rightarrow> goint"
  SetValidatorSigningInfo :: "'s \<Rightarrow> byte list \<Rightarrow> goint \<Rightarrow> 's \<times> goerr option"
  BondDenom :: "'s \<Rightarrow> goerr + string"

section \<open>The rewriting\<close>

definition handleErr :: "'s \<times> goerr option \<Rightarrow> 's \<times> unit outcome" where
  "handleErr r = (case r of (s, None) \<Rightarrow> (s, Return ()) | (s, Some err) \<Rightarrow> (s, Fail err))"

definition handle_sum :: "'s \<Rightarrow> goerr + 'a \<Rightarrow> 's \<times> 'a outcome" where
  "handle_sum s r = (s, to_outcome r)"

definition delete_range :: "('s, 'pk, 'any, 'key) testnet_ops \<Rightarrow> store_range \<Rightarrow> 's \<Rightarrow> 's" where
  "delete_range ops part s = fold (DeleteKey ops) (Keys ops s part) s"

definition newVal :: "string \<Rightarrow> 'any \<Rightarrow> 'any testnet_validator" where
  "newVal operator pubkeyAny = \<lparr>
     v_OperatorAddress = operator, v_ConsensusPubkey = pubkeyAny, v_Jailed = False, v_Bonded = True,
     v_Tokens = valVotingPower, v_DelegatorShares = ''10000000'', v_Moniker = ''Testnet Validator'',
     v_Rate = ''0.05'', v_MaxRate = ''0.1'', v_MaxChangeRate = ''0.05'', v_MinSelfDelegation = 1\<rparr>"

definition remove_validators :: "('s, 'pk, 'any, 'key) testnet_ops \<Rightarrow> 's \<Rightarrow> 's \<times> unit outcome" where
  "remove_validators ops s =
     after (handleErr (s, Open ops s PowerIndex)) (\<lambda>s _.
     let s = delete_range ops PowerIndex s in
     after (handleErr (s, Open ops s LastValidators)) (\<lambda>s _.
     let s = delete_range ops LastValidators s;
         s = delete_range ops ValidatorsKey s;
         s = delete_range ops ValidatorQueueKey s
     in (s, Return ())))"

definition add_validator ::
    "('s, 'pk, 'any, 'key) testnet_ops \<Rightarrow> 'any testnet_validator \<Rightarrow> byte list \<Rightarrow> 's \<Rightarrow> 's \<times> unit outcome" where
  "add_validator ops val validator s =
     after (handleErr (SetValidator ops s val)) (\<lambda>s _.
     after (handleErr (SetValidatorByConsAddr ops s val)) (\<lambda>s _.
     after (handleErr (SetValidatorByPowerIndex ops s val)) (\<lambda>s _.
     after (handleErr (SetLastValidatorPower ops s validator 0)) (\<lambda>s _.
     after (handleErr (AfterValidatorCreated ops s validator)) (\<lambda>s _.
     after (handleErr (SetDistribution ops s HistoricalRewards validator)) (\<lambda>s _.
     after (handleErr (SetDistribution ops s CurrentRewards validator)) (\<lambda>s _.
     after (handleErr (SetDistribution ops s AccumulatedCommission validator)) (\<lambda>s _.
     handleErr (SetDistribution ops s OutstandingRewards validator)))))))))"

text \<open>The loop over the accounts: mint to the mint module, decode the address, send.\<close>

fun fund_accounts ::
    "('s, 'pk, 'any, 'key) testnet_ops \<Rightarrow> ('s, 'coins) BankKeeper \<Rightarrow> string \<Rightarrow> 'coins \<Rightarrow> string list \<Rightarrow> 's
     \<Rightarrow> 's \<times> unit outcome" where
  "fund_accounts ops bk mintModule coins [] s = (s, Return ())"
| "fund_accounts ops bk mintModule coins (accountStr # accounts) s =
     after (MintCoins bk s mintModule coins) (\<lambda>s _.
     after (handle_sum s (AccountStringToBytes ops accountStr)) (\<lambda>s account.
     after (SendCoinsFromModuleToAccount bk s mintModule account coins) (\<lambda>s _.
     fund_accounts ops bk mintModule coins accounts s)))"

text \<open>
  The whole rewriting. The error of setting the signing info is ignored; \<open>defaultCoins\<close> is
  \<open>sdk.NewCoins(sdk.NewInt64Coin(bondDenom, 1000000000))\<close>, which may panic.
\<close>

definition initAppForTestnet ::
    "('s, 'pk, 'any, 'key) testnet_ops \<Rightarrow> ('s, 'coins) BankKeeper \<Rightarrow> string
     \<Rightarrow> (string \<Rightarrow> int \<Rightarrow> goerr + 'coins) \<Rightarrow> 'pk valArgs \<Rightarrow> 's \<Rightarrow> 's \<times> unit outcome" where
  "initAppForTestnet ops bk mintModule newCoins args s =
     after (handle_sum s (NewAnyWithValue ops (newValPubKey args))) (\<lambda>s pubkeyAny.
     let val = newVal (newOperatorAddress args) pubkeyAny in
     after (handle_sum s (ValidatorStringToBytes ops (v_OperatorAddress val))) (\<lambda>s validator.
     after (remove_validators ops s) (\<lambda>s _.
     after (add_validator ops val validator s) (\<lambda>s _.
     let s = fst (SetValidatorSigningInfo ops s (newValAddr args) (LastBlockHeight ops s - 1)) in
     after (handle_sum s (BondDenom ops s)) (\<lambda>s bondDenom.
     case newCoins bondDenom 1000000000 of
       Inl p \<Rightarrow> (s, Panic p)
     | Inr defaultCoins \<Rightarrow> fund_accounts ops bk mintModule defaultCoins (accountsToFund args) s)))))"

text \<open>
  \<open>newApp\<close> of \<open>commands.go\<close> is an argument here; it makes an \<open>*app.App\<close>, so that the cast of its
  result does not fail. The keepers are those of that application, which is the result.
\<close>

definition newTestnetApp ::
    "('s \<Rightarrow> 's \<times> 'app outcome) \<Rightarrow> ('app \<Rightarrow> ('s, 'pk, 'any, 'key) testnet_ops) \<Rightarrow> ('app \<Rightarrow> ('s, 'coins) BankKeeper)
     \<Rightarrow> string \<Rightarrow> (string \<Rightarrow> int \<Rightarrow> goerr + 'coins) \<Rightarrow> ('pk opt_value \<Rightarrow> string) \<Rightarrow> (opt_key \<Rightarrow> 'pk opt_value)
     \<Rightarrow> 's \<Rightarrow> 's \<times> 'app outcome" where
  "newTestnetApp newApp ops bk mintModule newCoins toString appOpts s =
     after (newApp s) (\<lambda>s testApp.
     case getCommandArgs toString appOpts of
       Inl err \<Rightarrow> (s, Panic err)
     | Inr args \<Rightarrow>
         after (initAppForTestnet (ops testApp) (bk testApp) mintModule newCoins args s) (\<lambda>s _. (s, Return testApp)))"

section \<open>Lemmas\<close>

lemma handle_sum_Return [simp]: "handle_sum s r = (s', Return x) \<longleftrightarrow> s' = s \<and> r = Inr x"
  by (cases r) (auto simp: handle_sum_def)

lemma handleErr_Return [simp]: "handleErr (s, e) = (s', Return u) \<longleftrightarrow> s' = s \<and> e = None"
  by (cases e) (auto simp: handleErr_def)

text \<open>Deleting a key removes it from every part of the store and nothing else.\<close>

definition delete_law :: "('s, 'pk, 'any, 'key) testnet_ops \<Rightarrow> bool" where
  "delete_law ops \<longleftrightarrow>
     (\<forall>s part k. Keys ops (DeleteKey ops k s) part = filter (\<lambda>k'. k' \<noteq> k) (Keys ops s part))"

lemma fold_DeleteKey:
  "delete_law ops \<Longrightarrow>
   Keys ops (fold (DeleteKey ops) ds s) part = filter (\<lambda>k. k \<notin> set ds) (Keys ops s part)"
  by (induction ds arbitrary: s) (simp_all add: delete_law_def conj_commute)

lemma delete_range_keys:
  assumes "delete_law ops"
  shows "Keys ops (delete_range ops part s) part = []"
    and "Keys ops s part' = [] \<Longrightarrow> Keys ops (delete_range ops part s) part' = []"
  by (simp_all add: delete_range_def fold_DeleteKey [OF assms])

lemma remove_validators_effect:
  assumes "delete_law ops" "remove_validators ops s = (s', Return ())"
  shows "Keys ops s' part = []"
  using assms(2) by (cases part)
    (auto simp: remove_validators_def after_Return Let_def delete_range_keys [OF assms(1)])

lemma fund_accounts_step:
  assumes "mint_law v bk" "send_law v bk"
    and "MintCoins bk s mm cs = (s1, Return ())"
    and "SendCoinsFromModuleToAccount bk s1 mm b cs = (s2, Return ())"
  shows "total_supply v s2 d = total_supply v s d + coins_of v cs d"
    and "bal v s2 a d = bal v s a d + (if b = a then coins_of v cs d else 0)"
  using assms unfolding mint_law_def send_law_def by auto

lemma fund_accounts_effect:
  assumes "mint_law v bk" "send_law v bk" "fund_accounts ops bk mm cs accounts s = (s', Return ())"
  shows "total_supply v s' d = total_supply v s d + len accounts * coins_of v cs d"
    and "bal v s' a d = bal v s a d +
      len (filter (\<lambda>t. AccountStringToBytes ops t = Inr a) accounts) * coins_of v cs d"
  using assms(3)
proof (induction accounts arbitrary: s)
  case (Cons t accounts)
  {
    case 1
    then obtain s1 s2 b where f: "MintCoins bk s mm cs = (s1, Return ())"
      "SendCoinsFromModuleToAccount bk s1 mm b cs = (s2, Return ())"
      "fund_accounts ops bk mm cs accounts s2 = (s', Return ())"
      by (auto simp: after_Return)
    show ?case using Cons.IH(1) [OF f(3)] fund_accounts_step(1) [OF assms(1,2) f(1,2), of d]
      by (simp add: algebra_simps)
  next
    case 2
    then obtain s1 s2 b where f: "MintCoins bk s mm cs = (s1, Return ())"
      "SendCoinsFromModuleToAccount bk s1 mm b cs = (s2, Return ())"
      "fund_accounts ops bk mm cs accounts s2 = (s', Return ())"
      and b: "AccountStringToBytes ops t = Inr b"
      by (auto simp: after_Return)
    show ?case using Cons.IH(2) [OF f(3)] fund_accounts_step(2) [OF assms(1,2) f(1,2), of a d] b
      by (simp add: algebra_simps)
  }
qed simp_all

lemma fund_accounts_undecodable:
  assumes "t \<in> set accounts" "AccountStringToBytes ops t = Inl e"
  shows "fund_accounts ops bk mm cs accounts s \<noteq> (s', Return ())"
  using assms
proof (induction accounts arbitrary: s)
  case (Cons u accounts)
  then show ?case by (auto simp: after_Return)
qed simp

lemma initAppForTestnet_Return:
  assumes "initAppForTestnet ops bk mm newCoins args s = (s', Return ())"
  obtains any validator s1 s2 d cs where
    "NewAnyWithValue ops (newValPubKey args) = Inr any"
    "ValidatorStringToBytes ops (newOperatorAddress args) = Inr validator"
    "remove_validators ops s = (s1, Return ())"
    "add_validator ops (newVal (newOperatorAddress args) any) validator s1 = (s2, Return ())"
    "BondDenom ops (fst (SetValidatorSigningInfo ops s2 (newValAddr args) (LastBlockHeight ops s2 - 1))) = Inr d"
    "newCoins d 1000000000 = Inr cs"
    "fund_accounts ops bk mm cs (accountsToFund args)
      (fst (SetValidatorSigningInfo ops s2 (newValAddr args) (LastBlockHeight ops s2 - 1))) = (s', Return ())"
proof -
  note r = assms [unfolded initAppForTestnet_def Let_def after_Return handle_sum_Return]
  from r obtain any validator s1 s2 d where f: "NewAnyWithValue ops (newValPubKey args) = Inr any"
    "ValidatorStringToBytes ops (newOperatorAddress args) = Inr validator"
    "remove_validators ops s = (s1, Return ())"
    "add_validator ops (newVal (newOperatorAddress args) any) validator s1 = (s2, Return ())"
    "BondDenom ops (fst (SetValidatorSigningInfo ops s2 (newValAddr args) (LastBlockHeight ops s2 - 1))) = Inr d"
    and g: "(case newCoins d 1000000000 of
        Inl p \<Rightarrow> (fst (SetValidatorSigningInfo ops s2 (newValAddr args) (LastBlockHeight ops s2 - 1)), Panic p)
      | Inr cs \<Rightarrow> fund_accounts ops bk mm cs (accountsToFund args)
          (fst (SetValidatorSigningInfo ops s2 (newValAddr args) (LastBlockHeight ops s2 - 1)))) = (s', Return ())"
    by (fastforce simp: newVal_def)
  from g obtain cs where "newCoins d 1000000000 = Inr cs"
    "fund_accounts ops bk mm cs (accountsToFund args)
      (fst (SetValidatorSigningInfo ops s2 (newValAddr args) (LastBlockHeight ops s2 - 1))) = (s', Return ())"
    by (cases "newCoins d 1000000000") auto
  with f show thesis by (rule that)
qed

section \<open>What a successful rewriting leaves\<close>

text \<open>Coins of one denomination.\<close>

definition new_coins_law :: "('s, 'amt, 'coins) bank_view \<Rightarrow> (string \<Rightarrow> int \<Rightarrow> goerr + 'coins) \<Rightarrow> bool" where
  "new_coins_law v newCoins \<longleftrightarrow>
     (\<forall>d n cs d'. newCoins d n = Inr cs \<longrightarrow> coins_of v cs d' = (if d' = d then n else 0))"

definition funded :: "('s, 'pk, 'any, 'key) testnet_ops \<Rightarrow> 'pk valArgs \<Rightarrow> byte list \<Rightarrow> goint" where
  "funded ops args a = len (filter (\<lambda>t. AccountStringToBytes ops t = Inr a) (accountsToFund args))"

lemma initAppForTestnet_effect:
  assumes "delete_law ops" "mint_law v bk" "send_law v bk" "new_coins_law v newCoins"
    and "initAppForTestnet ops bk mm newCoins args s = (s', Return ())"
  shows "\<exists>any validator s1 s2 s3 denom.
    remove_validators ops s = (s1, Return ()) \<and> (\<forall>part. Keys ops s1 part = []) \<and>
    NewAnyWithValue ops (newValPubKey args) = Inr any \<and>
    ValidatorStringToBytes ops (newOperatorAddress args) = Inr validator \<and>
    add_validator ops (newVal (newOperatorAddress args) any) validator s1 = (s2, Return ()) \<and>
    s3 = fst (SetValidatorSigningInfo ops s2 (newValAddr args) (LastBlockHeight ops s2 - 1)) \<and>
    BondDenom ops s3 = Inr denom \<and>
    (\<forall>d. total_supply v s' d =
      total_supply v s3 d + (if d = denom then 1000000000 * len (accountsToFund args) else 0)) \<and>
    (\<forall>a d. bal v s' a d = bal v s3 a d + (if d = denom then 1000000000 * funded ops args a else 0))"
proof -
  from assms(5) obtain any validator s1 s2 denom cs where
    n: "NewAnyWithValue ops (newValPubKey args) = Inr any" "ValidatorStringToBytes ops (newOperatorAddress args) = Inr validator"
    and r: "remove_validators ops s = (s1, Return ())"
      "add_validator ops (newVal (newOperatorAddress args) any) validator s1 = (s2, Return ())"
    and d: "BondDenom ops (fst (SetValidatorSigningInfo ops s2 (newValAddr args) (LastBlockHeight ops s2 - 1))) = Inr denom"
    and cs: "newCoins denom 1000000000 = Inr cs"
    and f: "fund_accounts ops bk mm cs (accountsToFund args)
      (fst (SetValidatorSigningInfo ops s2 (newValAddr args) (LastBlockHeight ops s2 - 1))) = (s', Return ())"
    by (rule initAppForTestnet_Return)
  have c: "coins_of v cs d' = (if d' = denom then 1000000000 else 0)" for d'
    using assms(4) cs by (simp add: new_coins_law_def)
  note e = fund_accounts_effect [OF assms(2,3) f]
  show ?thesis
    by (rule exI [of _ any], rule exI [of _ validator], rule exI [of _ s1], rule exI [of _ s2],
        rule exI [of _ "fst (SetValidatorSigningInfo ops s2 (newValAddr args) (LastBlockHeight ops s2 - 1))"],
        rule exI [of _ denom])
      (use remove_validators_effect [OF assms(1) r(1)] n r d e c in
        \<open>simp add: funded_def\<close>)
qed

lemma initAppForTestnet_undecodable:
  assumes "t \<in> set (accountsToFund args)" "AccountStringToBytes ops t = Inl e"
  shows "initAppForTestnet ops bk mm newCoins args s \<noteq> (s', Return ())"
proof
  assume "initAppForTestnet ops bk mm newCoins args s = (s', Return ())"
  then show False
    by (rule initAppForTestnet_Return) (rule fund_accounts_undecodable [OF assms, THEN notE])
qed

lemma newTestnetApp_Return:
  "newTestnetApp create ops bk mm newCoins toString appOpts s = (s', Return app) \<longleftrightarrow>
     (\<exists>s0 args. create s = (s0, Return app) \<and> getCommandArgs toString appOpts = Inr args \<and>
        initAppForTestnet (ops app) (bk app) mm newCoins args s0 = (s', Return ()))"
  by (cases "getCommandArgs toString appOpts") (auto simp: newTestnetApp_def after_Return)

lemma getCommandArgs_accounts:
  "getCommandArgs toString get = Inr args \<Longrightarrow>
   accountsToFund args = split_at CHR '','' (toString (get (OptFlag flagAccountsToFund)))"
  by (auto simp: getCommandArgs_def Let_def split: opt_value.splits if_splits)

end
