(* ===== verification/Multi_Node.thy ===== *)
theory Multi_Node
  imports Results Digits
begin

text \<open>
  \<open>cmd/feicoind/cmd/testnet_multi_node.go\<close>: the arguments of the \<open>multi-node\<close> command, from its
  flags, and what each node's configuration gets from them: its name, its stake, its addresses
  and the list of peers. What the command does with them is in \<open>Multi_Node_Files\<close>.
\<close>

section \<open>Flags\<close>

text \<open>The flags this file names itself, and those named by constants of other packages.\<close>

datatype flag = Flag string | FlagKeyringBackend | FlagChainID | FlagMinGasPrices | FlagKeyType

definition flagNodeDirPrefix :: flag where "flagNodeDirPrefix = Flag ''node-dir-prefix''"
definition flagPorts :: flag where "flagPorts = Flag ''list-ports''"
definition flagNumValidators :: flag where "flagNumValidators = Flag ''v''"
definition flagOutputDir :: flag where "flagOutputDir = Flag ''output-dir''"
definition flagValidatorsStakeAmount :: flag where
  "flagValidatorsStakeAmount = Flag ''validators-stake-amount''"
definition flagStartingIPAddress :: flag where "flagStartingIPAddress = Flag ''starting-ip-address''"

text \<open>\<open>pflag\<close>'s getters: a value beside an error.\<close>

record flags =
  GetString :: "flag \<Rightarrow> string \<times> goerr option"
  GetInt :: "flag \<Rightarrow> goint \<times> goerr option"

record 'coin initArgs =
  a_algo :: string
  a_chainID :: string
  a_keyringBackend :: string
  a_minGasPrices :: string
  a_nodeDirPrefix :: string
  a_numValidators :: goint
  a_outputDir :: string
  a_startingIPAddress :: string
  a_validatorsStakesAmount :: "goint \<rightharpoonup> 'coin"
  a_ports :: "goint \<rightharpoonup> string"

section \<open>Parsing\<close>

text \<open>
  The loop over the stake amounts. \<open>math.NewIntFromString\<close> and \<open>sdk.NewCoin\<close> with the bond
  denomination are arguments; the latter panics on a negative amount.
\<close>

fun parse_stakes ::
    "(string \<Rightarrow> 'int option) \<Rightarrow> ('int \<Rightarrow> goerr + 'coin) \<Rightarrow> string list \<Rightarrow> (goint \<rightharpoonup> 'coin) \<times> goint
     \<Rightarrow> goerr + ((goint \<rightharpoonup> 'coin) \<times> goint)" where
  "parse_stakes newInt newCoin [] (m, n) = Inr (m, n)"
| "parse_stakes newInt newCoin (amount # amounts) (m, n) =
     (case newInt amount of
        None \<Rightarrow> parse_stakes newInt newCoin amounts (m, n)
      | Some a \<Rightarrow>
          bind_err (newCoin a) (\<lambda>c. parse_stakes newInt newCoin amounts (m(n \<mapsto> c), n + 1)))"

definition stakes_of_flag ::
    "(string \<Rightarrow> 'int option) \<Rightarrow> ('int \<Rightarrow> goerr + 'coin) \<Rightarrow> string \<times> goerr option
     \<Rightarrow> goerr + (goint \<rightharpoonup> 'coin)" where
  "stakes_of_flag newInt newCoin f =
     (case f of
        (s, None) \<Rightarrow>
          bind_err (parse_stakes newInt newCoin (split_at CHR '','' s) (\<lambda>i. None, 0)) (\<lambda>(m, n). Inr m)
      | (s, Some err) \<Rightarrow> Inr (\<lambda>i. None))"

definition put_port :: "string \<Rightarrow> (goint \<rightharpoonup> string) \<times> goint \<Rightarrow> (goint \<rightharpoonup> string) \<times> goint" where
  "put_port port = (\<lambda>(m, n). (m(n \<mapsto> port), n + 1))"

definition ports_of_flag :: "goint \<Rightarrow> string \<times> goerr option \<Rightarrow> (goint \<rightharpoonup> string)" where
  "ports_of_flag numValidators f =
     (case f of
        (s, None) \<Rightarrow>
          fst (if s = '''' then
                 fold (\<lambda>i. put_port (Itoa (26657 - 3 * int i))) [0..<nat numValidators] (\<lambda>i. None, 0)
               else fold put_port (split_at CHR '','' s) (\<lambda>i. None, 0))
      | (s, Some err) \<Rightarrow> (\<lambda>i. None))"

definition parse_args ::
    "(string \<Rightarrow> 'int option) \<Rightarrow> ('int \<Rightarrow> goerr + 'coin) \<Rightarrow> flags \<Rightarrow> goerr + 'coin initArgs" where
  "parse_args newInt newCoin f =
     (let numValidators = fst (GetInt f flagNumValidators) in
      bind_err (stakes_of_flag newInt newCoin (GetString f flagValidatorsStakeAmount)) (\<lambda>stakes.
        Inr \<lparr>a_algo = fst (GetString f FlagKeyType),
             a_chainID = fst (GetString f FlagChainID),
             a_keyringBackend = fst (GetString f FlagKeyringBackend),
             a_minGasPrices = fst (GetString f FlagMinGasPrices),
             a_nodeDirPrefix = fst (GetString f flagNodeDirPrefix),
             a_numValidators = numValidators,
             a_outputDir = fst (GetString f flagOutputDir),
             a_startingIPAddress = fst (GetString f flagStartingIPAddress),
             a_validatorsStakesAmount = stakes,
             a_ports = ports_of_flag numValidators (GetString f flagPorts)\<rparr>))"

section \<open>What a node gets\<close>

definition nodeDirName :: "'coin initArgs \<Rightarrow> goint \<Rightarrow> string" where
  "nodeDirName args i = a_nodeDirPrefix args @ Itoa i"

text \<open>Reading a Go map gives the zero value for a key it does not have.\<close>

definition port_of :: "'coin initArgs \<Rightarrow> goint \<Rightarrow> string" where
  "port_of args i = (case a_ports args i of Some p \<Rightarrow> p | None \<Rightarrow> '''')"

definition valTokens :: "'coin \<Rightarrow> 'coin initArgs \<Rightarrow> goint \<Rightarrow> 'coin" where
  "valTokens dflt args i =
     (case a_validatorsStakesAmount args i of Some c \<Rightarrow> c | None \<Rightarrow> dflt)"

definition memo :: "'coin initArgs \<Rightarrow> (goint \<Rightarrow> string) \<Rightarrow> goint \<Rightarrow> string" where
  "memo args nodeIDs i = nodeIDs i @ ''@'' @ a_startingIPAddress args @ '':'' @ Itoa (26656 - 3 * i)"

definition persistentPeers :: "'coin initArgs \<Rightarrow> (goint \<Rightarrow> string) \<Rightarrow> string" where
  "persistentPeers args nodeIDs =
     fold (\<lambda>i peers. if peers = '''' then memo args nodeIDs (int i)
                     else peers @ '','' @ memo args nodeIDs (int i))
       [0..<nat (a_numValidators args)] ''''"

record node_addresses =
  RPC_ListenAddress :: string
  P2P_ListenAddress :: string
  ProxyApp :: string
  PrometheusListenAddr :: string

record app_addresses =
  GRPC_Address :: string
  API_Address :: string

text \<open>
  The addresses in the node's \<open>config.toml\<close>, as \<open>collectGenFiles\<close> leaves it, and those in its
  \<open>app.toml\<close>.
\<close>

definition node_config :: "'coin initArgs \<Rightarrow> goint \<Rightarrow> node_addresses" where
  "node_config args i = \<lparr>
     RPC_ListenAddress = ''tcp://127.0.0.1:'' @ port_of args i,
     P2P_ListenAddress = ''tcp://0.0.0.0:'' @ Itoa (26656 - 3 * i),
     ProxyApp = ''tcp://127.0.0.1:'' @ Itoa (26658 - 3 * i),
     PrometheusListenAddr = '':'' @ Itoa (26660 + i)\<rparr>"

definition node_app_config :: "'coin initArgs \<Rightarrow> goint \<Rightarrow> app_addresses" where
  "node_app_config args i = \<lparr>
     GRPC_Address = a_startingIPAddress args @ '':'' @ Itoa (9090 - 2 * i),
     API_Address = ''tcp://localhost:'' @ Itoa (1317 - i)\<rparr>"

section \<open>Lemmas\<close>

text \<open>The stakes are the valid amounts, counted from 0: an invalid one moves the later ones up.\<close>

definition valid_amounts :: "(string \<Rightarrow> 'int option) \<Rightarrow> string list \<Rightarrow> 'int list" where
  "valid_amounts newInt amounts = List.map_filter newInt amounts"

definition indexed :: "goint \<Rightarrow> 'a list \<Rightarrow> (goint \<rightharpoonup> 'a) \<Rightarrow> (goint \<rightharpoonup> 'a)" where
  "indexed n xs m i = (if n \<le> i \<and> i < n + len xs then Some (xs ! nat (i - n)) else m i)"

lemma indexed_Nil [simp]: "indexed n [] m = m"
  by (auto simp: indexed_def fun_eq_iff)

lemma indexed_Cons: "indexed (n + 1) xs (m(n \<mapsto> x)) = indexed n (x # xs) m"
proof
  fix i
  have "nat (i - n) = Suc (nat (i - (n + 1)))" if "n + 1 \<le> i" using that by simp
  then show "indexed (n + 1) xs (m(n \<mapsto> x)) i = indexed n (x # xs) m i"
    using len_nonneg [of xs] by (auto simp: indexed_def simp del: len_nonneg)
qed

lemma parse_stakes_indexed:
  assumes "\<And>a. a \<in> set (valid_amounts newInt amounts) \<Longrightarrow> newCoin a = Inr (mk a)"
  shows "parse_stakes newInt newCoin amounts (m, n) =
    Inr (indexed n (map mk (valid_amounts newInt amounts)) m, n + len (valid_amounts newInt amounts))"
  using assms
proof (induction amounts arbitrary: m n)
  case (Cons t amounts)
  then show ?case
    by (cases "newInt t") (simp_all add: valid_amounts_def List.map_filter_simps indexed_Cons)
qed (simp add: valid_amounts_def List.map_filter_simps)

lemma fold_put_port: "fold put_port ps (m, n) = (indexed n ps m, n + len ps)"
  by (induction ps arbitrary: m n) (simp_all add: put_port_def indexed_Cons)

lemma fold_default_ports:
  "fold (\<lambda>i. put_port (f i)) xs (m, n) = fold put_port (map f xs) (m, n)"
  by (simp add: fold_map comp_def)

lemma persistentPeers_fold:
  assumes "\<And>i. f i \<noteq> ''''"
  shows "fold (\<lambda>i peers. if peers = '''' then f i else peers @ '','' @ f i) xs p =
    (if p = '''' then join '','' (map f xs) else join '','' (p # map f xs))"
proof (induction xs arbitrary: p)
  case (Cons x xs)
  then show ?case using assms by (cases xs) auto
qed simp

text \<open>The numbers of the ports node \<open>i\<close> listens on when none are listed.\<close>

definition node_ports :: "goint \<Rightarrow> goint list" where
  "node_ports i = [26657 - 3 * i, 26656 - 3 * i, 26658 - 3 * i, 26660 + i, 9090 - 2 * i, 1317 - i]"

lemma node_ports_range:
  "0 \<le> i \<Longrightarrow> i < 1317 \<Longrightarrow> p \<in> set (node_ports i) \<Longrightarrow> 1 \<le> p \<and> p \<le> 65535"
  by (auto simp: node_ports_def)

lemma node_ports_distinct: "0 \<le> i \<Longrightarrow> i < 1317 \<Longrightarrow> distinct (node_ports i)"
  by (auto simp: node_ports_def)

text \<open>A port tells its node.\<close>

definition port_owner :: "goint \<Rightarrow> goint" where
  "port_owner p =
     (if 26658 < p then p - 26660
      else if 10000 < p then (26658 - p) div 3
      else if 1317 < p then (9090 - p) div 2
      else 1317 - p)"

lemma node_ports_owner: "0 \<le> i \<Longrightarrow> i < 1317 \<Longrightarrow> p \<in> set (node_ports i) \<Longrightarrow> port_owner p = i"
  by (auto simp: node_ports_def port_owner_def)

lemma node_ports_disjoint:
  assumes "0 \<le> i" "i < 1317" "0 \<le> j" "j < 1317" "p \<in> set (node_ports i)" "p \<in> set (node_ports j)"
  shows "i = j"
  using node_ports_owner [OF assms(1,2,5)] node_ports_owner [OF assms(3,4,6)] by simp

section \<open>What the flags give\<close>

lemma parse_args_Inr:
  "parse_args newInt newCoin f = Inr args \<longleftrightarrow>
   (\<exists>stakes. stakes_of_flag newInt newCoin (GetString f flagValidatorsStakeAmount) = Inr stakes \<and>
      args = \<lparr>a_algo = fst (GetString f FlagKeyType), a_chainID = fst (GetString f FlagChainID),
        a_keyringBackend = fst (GetString f FlagKeyringBackend),
        a_minGasPrices = fst (GetString f FlagMinGasPrices),
        a_nodeDirPrefix = fst (GetString f flagNodeDirPrefix),
        a_numValidators = fst (GetInt f flagNumValidators),
        a_outputDir = fst (GetString f flagOutputDir),
        a_startingIPAddress = fst (GetString f flagStartingIPAddress),
        a_validatorsStakesAmount = stakes,
        a_ports = ports_of_flag (fst (GetInt f flagNumValidators)) (GetString f flagPorts)\<rparr>)"
  by (auto simp: parse_args_def Let_def bind_err_eq_Inr)

lemma stakes_of_flag_join:
  assumes "amounts \<noteq> []" "list_all (\<lambda>t. CHR '','' \<notin> set t) amounts"
    and "\<And>a. a \<in> set (valid_amounts newInt amounts) \<Longrightarrow> newCoin a = Inr (mk a)"
  shows "stakes_of_flag newInt newCoin (join '','' amounts, None) =
    Inr (indexed 0 (map mk (valid_amounts newInt amounts)) (\<lambda>i. None))"
  using split_at_join [OF assms(1,2)] parse_stakes_indexed [where newInt = newInt and amounts = amounts
      and newCoin = newCoin and mk = mk and m = "\<lambda>i. None" and n = 0] assms(3)
  by (simp add: stakes_of_flag_def)

lemma default_ports:
  "ports_of_flag n ('''', None) =
     indexed 0 (map (\<lambda>i. Itoa (26657 - 3 * int i)) [0..<nat n]) (\<lambda>i. None)"
  using fold_default_ports [of "\<lambda>i. Itoa (26657 - 3 * int i)" "[0..<nat n]" "\<lambda>i. None" 0]
  by (simp add: ports_of_flag_def fold_put_port)

lemma listed_ports:
  assumes "ps \<noteq> []" "list_all (\<lambda>t. CHR '','' \<notin> set t) ps" "join '','' ps \<noteq> ''''"
  shows "ports_of_flag n (join '','' ps, None) = indexed 0 ps (\<lambda>i. None)"
  using split_at_join [OF assms(1,2)] assms(3) by (simp add: ports_of_flag_def fold_put_port)

lemma memo_nonempty: "memo args nodeIDs i \<noteq> ''''"
  by (simp add: memo_def)

lemma persistentPeers_join:
  "persistentPeers args nodeIDs =
     join '','' (map (\<lambda>i. memo args nodeIDs (int i)) [0..<nat (a_numValidators args)])"
  unfolding persistentPeers_def
  by (subst persistentPeers_fold) (simp_all add: memo_nonempty)

lemma distinct_node_ports:
  "n \<le> 1317 \<Longrightarrow> distinct (concat (map (\<lambda>i. node_ports (int i)) [0..<n]))"
proof (induction n)
  case (Suc n)
  have "p \<notin> set (node_ports (int n))" if "i < n" "p \<in> set (node_ports (int i))" for i p
    using node_ports_disjoint [of "int i" "int n" p] that Suc.prems by auto
  with Suc node_ports_distinct [of "int n"] show ?case by auto
qed simp

end
