(* ===== verification/Testnet_World.thy ===== *)
theory Testnet_World
  imports Testnet Multi_Node Ledger
begin

text \<open>
  A concrete world for the interfaces of \<open>Testnet\<close> and \<open>Multi_Node\<close>: a staking store that is a
  list of keys beside the bank of \<open>Ledger\<close>, and flags that are set in a list. The laws hold in
  it, and the witnesses compute in it.
\<close>

section \<open>The staking store beside the ledger\<close>

type_synonym world = "(store_range \<times> nat) list \<times> ledger"

definition world_bank :: "(world, (string \<times> int) list) BankKeeper" where
  "world_bank = \<lparr>
     SpendableCoins = (\<lambda>w a. []),
     MintCoins = (\<lambda>w m cs. case MintCoins (ledger_bank []) (snd w) m cs of (s, r) \<Rightarrow> ((fst w, s), r)),
     SendCoinsFromModuleToAccount = (\<lambda>w m a cs.
       case SendCoinsFromModuleToAccount (ledger_bank []) (snd w) m a cs of (s, r) \<Rightarrow> ((fst w, s), r))\<rparr>"

definition world_view :: "(world, int, (string \<times> int) list) bank_view" where
  "world_view = \<lparr>bal = (\<lambda>w. l_bal (snd w)), total_supply = (\<lambda>w. l_supply (snd w)),
     module_address = ledger_module_address, coins_of = ledger_coins_of, int_of = (\<lambda>a. a)\<rparr>"

definition world_coins :: "string \<Rightarrow> int \<Rightarrow> goerr + (string \<times> int) list" where
  "world_coins d n = Inr [(d, n)]"

definition world_set :: "store_range \<Rightarrow> world \<Rightarrow> world \<times> goerr option" where
  "world_set part w = (((part, 1) # fst w, snd w), None)"

definition world_ops :: "(world, byte list, byte list, store_range \<times> nat) testnet_ops" where
  "world_ops = \<lparr>
     NewAnyWithValue = Inr,
     ValidatorStringToBytes = ledger_address,
     AccountStringToBytes = ledger_address,
     Open = (\<lambda>w part. None),
     Keys = (\<lambda>w part. filter (\<lambda>k. fst k = part) (fst w)),
     DeleteKey = (\<lambda>k w. (filter (\<lambda>k'. k' \<noteq> k) (fst w), snd w)),
     SetValidator = (\<lambda>w val. world_set ValidatorsKey w),
     SetValidatorByConsAddr = (\<lambda>w val. (w, None)),
     SetValidatorByPowerIndex = (\<lambda>w val. world_set PowerIndex w),
     SetLastValidatorPower = (\<lambda>w a n. world_set LastValidators w),
     AfterValidatorCreated = (\<lambda>w a. (w, None)),
     SetDistribution = (\<lambda>w r a. (w, None)),
     LastBlockHeight = (\<lambda>w. 7),
     SetValidatorSigningInfo = (\<lambda>w a h. (w, None)),
     BondDenom = (\<lambda>w. Inr ''stake'')\<rparr>"

definition world_start :: world where
  "world_start = ([(PowerIndex, 3), (LastValidators, 3), (ValidatorsKey, 3), (ValidatorsKey, 4)], empty_ledger)"

lemma world_delete_law: "delete_law world_ops"
  by (auto simp: delete_law_def world_ops_def intro: filter_cong)

lemma world_bank_laws: "mint_law world_view world_bank \<and> send_law world_view world_bank"
  by (auto simp: mint_law_def send_law_def world_view_def world_bank_def ledger_bank_def
      ledger_add_def split: if_splits)

lemma world_coins_law: "new_coins_law world_view world_coins"
  by (simp add: new_coins_law_def world_coins_def world_view_def ledger_coins_of_def)

text \<open>Options that fund an account, and the defaults.\<close>

definition world_options :: "string \<Rightarrow> opt_key \<Rightarrow> byte list opt_value" where
  "world_options accounts k =
     (case k of
        KeyNewValAddr \<Rightarrow> HexBytes [1]
      | KeyUserPubKey \<Rightarrow> CryptoPubKey [2]
      | KeyNewOpAddr \<Rightarrow> StringValue ''feic1op''
      | KeyTriggerTestnetUpgrade \<Rightarrow> StringValue ''''
      | FlagHome \<Rightarrow> StringValue ''/home''
      | OptFlag f \<Rightarrow> StringValue accounts)"

definition world_string :: "'pk opt_value \<Rightarrow> string" where
  "world_string x = (case x of StringValue t \<Rightarrow> t | _ \<Rightarrow> '''')"

definition world_args :: "byte list valArgs" where
  "world_args = \<lparr>newValAddr = [1], newOperatorAddress = ''feic1op'', newValPubKey = [2],
     accountsToFund = [''feic1alice''], upgradeToTrigger = '''', homeDir = ''/home''\<rparr>"

lemma world_getCommandArgs:
  "getCommandArgs world_string (world_options ''feic1alice'') = Inr world_args"
  by code_simp

text \<open>The rewriting of that world, one part after the other.\<close>

lemma world_removes: "remove_validators world_ops world_start = (([], empty_ledger), Return ())"
  by (simp add: remove_validators_def delete_range_def world_ops_def world_start_def handleErr_def)

lemma world_adds:
  "\<exists>ks. add_validator world_ops val validator ([], l) = ((ks, l), Return ())"
  by (simp add: add_validator_def world_ops_def world_set_def handleErr_def)

lemma world_fund:
  "\<exists>l'. fund_accounts world_ops world_bank ModuleName [(''stake'', 1000000000)] [''feic1alice''] (ks, empty_ledger)
     = ((ks, l'), Return ())"
  by (simp add: world_ops_def world_bank_def ledger_bank_def ledger_address_def handle_sum_def
      ledger_add_def empty_ledger_def ledger_module_address_def ledger_coins_of_def)

lemma world_funds:
  "\<exists>s'. initAppForTestnet world_ops world_bank ModuleName world_coins world_args world_start = (s', Return ())"
proof -
  have v: "ValidatorStringToBytes world_ops ''feic1op'' = Inr (str_bytes ''op'')" by code_simp
  have f: "NewAnyWithValue world_ops x = Inr x" "BondDenom world_ops w = Inr ''stake''"
    "fst (SetValidatorSigningInfo world_ops w a h) = w" for x w a h
    by (simp_all add: world_ops_def)
  obtain ks where "add_validator world_ops (newVal ''feic1op'' [2]) (str_bytes ''op'') ([], empty_ledger) =
      ((ks, empty_ledger), Return ())"
    using world_adds by blast
  with world_fund [of ks] show ?thesis
    by (auto simp: initAppForTestnet_def world_removes world_args_def v f Let_def handle_sum_def world_coins_def
        newVal_def simp del: fund_accounts.simps)
qed

section \<open>Flags\<close>

definition set_flags :: "(flag \<times> string) list \<Rightarrow> goint \<Rightarrow> flags" where
  "set_flags fs n = \<lparr>
     GetString = (\<lambda>f. case map_of fs f of Some t \<Rightarrow> (t, None) | None \<Rightarrow> ('''', None)),
     GetInt = (\<lambda>f. (n, None))\<rparr>"

lemma digit_chars: "map (\<lambda>n. char_of (unat (digit n))) [2, 3, 5, 6] = ''2356''"
  by code_simp

lemma peer_ports: "Itoa 26656 = ''26656''" "Itoa 26653 = ''26653''"
  using digit_chars by (simp_all add: Itoa_def decimal_enc_def digits.simps bytes_str_def)

end
