(* ===== verification/Loops.thy ===== *)
theory Loops
  imports Results
begin

text \<open>
  Loops over a slice whose body calls into the state, the two ways the commands and the export
  treat an error (\<open>panic(err)\<close> and ignoring it), and the rules the proofs about such loops share.
\<close>

section \<open>Loops with effects\<close>

text \<open>\<open>for _, x := range xs { body }\<close>: an iteration that fails or panics leaves the loop.\<close>

fun for_each :: "('a \<Rightarrow> 's \<Rightarrow> 's \<times> unit outcome) \<Rightarrow> 'a list \<Rightarrow> 's \<Rightarrow> 's \<times> unit outcome" where
  "for_each body [] s = (s, Return ())"
| "for_each body (x # xs) s = after (body x s) (\<lambda>s _. for_each body xs s)"

lemma for_each_append:
  "for_each body (xs @ ys) s = after (for_each body xs s) (\<lambda>s _. for_each body ys s)"
proof (induction xs arbitrary: s)
  case (Cons x xs)
  obtain s1 r where "body x s = (s1, r)" by (cases "body x s")
  with Cons show ?case by (cases r) simp_all
qed simp

lemma for_each_Cons_Return:
  "for_each body (x # xs) s = (s', Return ()) \<longleftrightarrow>
     (\<exists>s1. body x s = (s1, Return ()) \<and> for_each body xs s1 = (s', Return ()))"
  by (simp add: after_Return)

lemma for_each_cong [cong]:
  "xs = ys \<Longrightarrow> (\<And>x s. x \<in> set ys \<Longrightarrow> f x s = g x s) \<Longrightarrow> s = t \<Longrightarrow> for_each f xs s = for_each g ys t"
proof (induction xs arbitrary: ys s t)
  case (Cons x xs)
  obtain s1 r where r: "f x t = (s1, r)" by (cases "f x t")
  have "for_each f xs s1 = for_each g xs s1" by (rule Cons.IH) (use Cons.prems in auto)
  with Cons.prems r show ?case by (cases r) auto
qed simp

lemma for_each_map: "for_each body (map f xs) s = for_each (\<lambda>x. body (f x)) xs s"
proof (induction xs arbitrary: s)
  case (Cons x xs)
  obtain s1 r where "body (f x) s = (s1, r)" by (cases "body (f x) s")
  with Cons show ?case by (cases r) simp_all
qed simp

text \<open>The invariant rule: what every iteration that returns keeps holds after the loop.\<close>

lemma for_each_invariant:
  assumes "for_each body xs s = (s', Return ())" "P s"
    and "\<And>x s s'. x \<in> set xs \<Longrightarrow> P s \<Longrightarrow> body x s = (s', Return ()) \<Longrightarrow> P s'"
  shows "P s'"
  using assms
proof (induction xs arbitrary: s)
  case (Cons x xs)
  from Cons.prems(1) obtain s1 where s1: "body x s = (s1, Return ())" "for_each body xs s1 = (s', Return ())"
    by (auto simp: after_Return)
  show ?case by (rule Cons.IH [OF s1(2)]) (use Cons.prems(2,3) s1(1) in auto)
qed simp

text \<open>A loop whose iterations all return, returns.\<close>

lemma for_each_returns:
  assumes "\<And>x s. x \<in> set xs \<Longrightarrow> P s \<Longrightarrow> \<exists>s'. body x s = (s', Return ()) \<and> P s'" and "P s"
  shows "\<exists>s'. for_each body xs s = (s', Return ()) \<and> P s'"
  using assms
proof (induction xs arbitrary: s)
  case (Cons x xs)
  from Cons.prems(1) [of x s] Cons.prems(2) obtain s1 where s1: "body x s = (s1, Return ())" "P s1" by auto
  from Cons.IH [of s1] Cons.prems(1) s1(2) obtain s' where "for_each body xs s1 = (s', Return ()) \<and> P s'"
    by auto
  with s1(1) show ?case by auto
qed simp

text \<open>The same by the index, for what holds after \<open>i\<close> iterations.\<close>

lemma for_each_upto:
  assumes "P 0 s" "\<And>i s. i < n \<Longrightarrow> P i s \<Longrightarrow> \<exists>s'. body i s = (s', Return ()) \<and> P (Suc i) s'"
  shows "\<exists>s'. for_each body [0..<n] s = (s', Return ()) \<and> P n s'"
  using assms(2)
proof (induction n)
  case (Suc n)
  then obtain s1 where s1: "for_each body [0..<n] s = (s1, Return ())" "P n s1" by (meson less_SucI)
  with Suc.prems [of n s1] obtain s' where "body n s1 = (s', Return ())" "P (Suc n) s'" by auto
  with s1(1) show ?case by (auto simp: for_each_append)
qed (use assms(1) in simp)

section \<open>Errors\<close>

text \<open>\<open>if err != nil { panic(err) }\<close>, after a call with a value and after one without.\<close>

definition must :: "'s \<Rightarrow> goerr + 'a \<Rightarrow> 's \<times> 'a outcome" where
  "must s r = (s, case r of Inl err \<Rightarrow> Panic err | Inr x \<Rightarrow> Return x)"

definition must_do :: "'s \<times> goerr option \<Rightarrow> 's \<times> unit outcome" where
  "must_do r = (fst r, case snd r of Some err \<Rightarrow> Panic err | None \<Rightarrow> Return ())"

text \<open>\<open>if err != nil { return err }\<close>, likewise.\<close>

definition check :: "'s \<Rightarrow> goerr + 'a \<Rightarrow> 's \<times> 'a outcome" where
  "check s r = (s, to_outcome r)"

definition check_do :: "'s \<times> goerr option \<Rightarrow> 's \<times> unit outcome" where
  "check_do r = (fst r, case snd r of Some err \<Rightarrow> Fail err | None \<Rightarrow> Return ())"

text \<open>\<open>_ = call\<close>.\<close>

definition ignore :: "'s \<times> 'e \<Rightarrow> 's \<times> unit outcome" where
  "ignore r = (fst r, Return ())"

lemma must_Return [simp]: "must s r = (s', Return x) \<longleftrightarrow> s' = s \<and> r = Inr x"
  by (cases r) (auto simp: must_def)

lemma must_do_Return [simp]: "must_do r = (s', Return u) \<longleftrightarrow> r = (s', None)"
  by (cases r; cases "snd r") (auto simp: must_do_def)

lemma check_Return [simp]: "check s r = (s', Return x) \<longleftrightarrow> s' = s \<and> r = Inr x"
  by (cases r) (auto simp: check_def)

lemma check_do_Return [simp]: "check_do r = (s', Return u) \<longleftrightarrow> r = (s', None)"
  by (cases r; cases "snd r") (auto simp: check_do_def)

lemma ignore_Return [simp]: "ignore r = (s', Return u) \<longleftrightarrow> fst r = s'"
  by (simp add: ignore_def)

lemma must_simps [simp]: "must s (Inr x) = (s, Return x)" "must s (Inl e) = (s, Panic e)"
  by (simp_all add: must_def)

lemma check_simps [simp]: "check s (Inr x) = (s, Return x)" "check s (Inl e) = (s, Fail e)"
  by (simp_all add: check_def)

lemma do_simps [simp]:
  "must_do (s, None) = (s, Return ())" "must_do (s, Some e) = (s, Panic e)"
  "check_do (s, None) = (s, Return ())" "check_do (s, Some e) = (s, Fail e)"
  by (simp_all add: must_do_def check_do_def)

section \<open>Rewriting every entry of a store\<close>

text \<open>
  A part of a store that can be iterated over and whose entries can be set: setting an entry
  that is there replaces the one with its key and leaves the others. A loop over the entries
  that sets each to \<open>f\<close> of it leaves the image of the entries under \<open>f\<close>.
\<close>

definition entries_law ::
    "('s \<Rightarrow> goerr + 'x list) \<Rightarrow> ('s \<Rightarrow> 'x \<Rightarrow> 's \<times> goerr option) \<Rightarrow> ('x \<Rightarrow> 'k) \<Rightarrow> bool" where
  "entries_law iter put key \<longleftrightarrow>
     (\<forall>s xs. iter s = Inr xs \<longrightarrow> distinct (map key xs)) \<and>
     (\<forall>s x s' xs. iter s = Inr xs \<longrightarrow> key x \<in> key ` set xs \<longrightarrow> put s x = (s', None) \<longrightarrow>
        iter s' = Inr (map (\<lambda>y. if key y = key x then x else y) xs))"

lemma map_replace_other:
  "k \<notin> key ` set xs \<Longrightarrow> map (\<lambda>y. if key y = k then z else y) xs = xs"
  by (induction xs) auto

lemma map_replace:
  "distinct (map key (ys @ x # xs)) \<Longrightarrow> key z = key x \<Longrightarrow>
   map (\<lambda>y. if key y = key z then z else y) (ys @ x # xs) = ys @ z # xs"
  by (simp add: map_replace_other)

lemma for_each_put:
  assumes "entries_law iter put key" "\<And>x. key (f x) = key x"
    and "for_each (\<lambda>x s. must_do (put s (f x))) xs s = (s', Return ())"
    and "iter s = Inr (ys @ xs)"
  shows "iter s' = Inr (ys @ map f xs)"
  using assms(3,4)
proof (induction xs arbitrary: s ys)
  case (Cons x xs)
  then obtain s1 where s1: "put s (f x) = (s1, None)"
      "for_each (\<lambda>x s. must_do (put s (f x))) xs s1 = (s', Return ())"
    by (auto simp: after_Return)
  have d: "distinct (map key (ys @ x # xs))"
    using assms(1) Cons.prems(2) unfolding entries_law_def by blast
  have "iter s1 = Inr (map (\<lambda>y. if key y = key (f x) then f x else y) (ys @ x # xs))"
    using assms(1) [unfolded entries_law_def, THEN conjunct2, rule_format, OF Cons.prems(2) _ s1(1)]
    by (simp add: assms(2))
  also have "map (\<lambda>y. if key y = key (f x) then f x else y) (ys @ x # xs) = (ys @ [f x]) @ xs"
    using map_replace [OF d assms(2)] by simp
  finally show ?case using Cons.IH [OF s1(2), of "ys @ [f x]"] by simp
qed simp

lemmas for_each_put_all = for_each_put [where ys = "[]", unfolded append_Nil]

end
