(* ===== verification/App_Wiring.thy ===== *)
theory App_Wiring
  imports App_Config Loops
begin

text \<open>
  The construction of the application: \<open>New\<close>, the accessors and the API routes of \<open>app/app.go\<close>,
  \<open>registerIBCModules\<close> and \<open>RegisterIBC\<close> of \<open>app/ibc.go\<close>, the prefixes of \<open>app/config.go\<close> and the
  documentation routes of \<open>docs/docs.go\<close>. The SDK, the dependency injection and the IBC packages
  are arguments; the values they make (codecs, keepers, modules, routers) have one type \<open>'v\<close>, and
  what their calls change is the state \<open>'s\<close>.
\<close>

section \<open>Names\<close>

text \<open>\<open>Name\<close> and \<open>AccountAddressPrefix\<close> are in \<open>App_Config\<close>.\<close>

definition ChainCoinType :: nat where "ChainCoinType = 118"

text \<open>Constants of the IBC packages; their module names are in \<open>sdk_name\<close>.\<close>

datatype ibc_name =
    IBC_StoreKey | Transfer_StoreKey | ICAHost_StoreKey | ICAController_StoreKey
  | ICAController_SubModuleName | ICAHost_SubModuleName | Transfer_PortID
  | IBCTM_ModuleName | Solomachine_ModuleName

section \<open>Global configuration\<close>

text \<open>\<open>sdk.Config\<close>; a setter panics when the configuration is sealed.\<close>

record 'c sdk_config =
  SetCoinType :: "'c \<Rightarrow> nat \<Rightarrow> goerr + 'c"
  SetBech32PrefixForAccount :: "'c \<Rightarrow> string \<Rightarrow> string \<Rightarrow> goerr + 'c"
  SetBech32PrefixForValidator :: "'c \<Rightarrow> string \<Rightarrow> string \<Rightarrow> goerr + 'c"
  SetBech32PrefixForConsensusNode :: "'c \<Rightarrow> string \<Rightarrow> string \<Rightarrow> goerr + 'c"
  Seal :: "'c \<Rightarrow> 'c"

definition bech32_prefixes :: "string list" where
  "bech32_prefixes =
     [AccountAddressPrefix, AccountAddressPrefix @ ''pub'',
      AccountAddressPrefix @ ''valoper'', AccountAddressPrefix @ ''valoperpub'',
      AccountAddressPrefix @ ''valcons'', AccountAddressPrefix @ ''valconspub'']"

definition init_prefixes :: "'c sdk_config \<Rightarrow> 'c \<Rightarrow> goerr + 'c" where
  "init_prefixes ops config =
     (let accountPubKeyPrefix = AccountAddressPrefix @ ''pub'';
          validatorAddressPrefix = AccountAddressPrefix @ ''valoper'';
          validatorPubKeyPrefix = AccountAddressPrefix @ ''valoperpub'';
          consNodeAddressPrefix = AccountAddressPrefix @ ''valcons'';
          consNodePubKeyPrefix = AccountAddressPrefix @ ''valconspub'' in
      bind_err (SetCoinType ops config ChainCoinType) (\<lambda>config.
      bind_err (SetBech32PrefixForAccount ops config AccountAddressPrefix accountPubKeyPrefix) (\<lambda>config.
      bind_err (SetBech32PrefixForValidator ops config validatorAddressPrefix validatorPubKeyPrefix) (\<lambda>config.
      bind_err (SetBech32PrefixForConsensusNode ops config consNodeAddressPrefix consNodePubKeyPrefix) (\<lambda>config.
      Inr (Seal ops config))))))"

text \<open>The variables \<open>init\<close> of \<open>app.go\<close> sets; it panics when there is no home directory.\<close>

record globals =
  g_DefaultBondDenom :: string
  g_EnvPrefix :: string
  g_DefaultNodeHome :: string

definition init_globals :: "(string \<Rightarrow> string \<Rightarrow> goerr + string) \<Rightarrow> globals outcome" where
  "init_globals GetNodeHomeDirectory =
     (case GetNodeHomeDirectory Name (''.'' @ Name) of
        Inl err \<Rightarrow> Panic err
      | Inr home \<Rightarrow> Return \<lparr>g_DefaultBondDenom = ''stake'', g_EnvPrefix = Name, g_DefaultNodeHome = home\<rparr>)"

section \<open>The application\<close>

record 'v App =
  legacyAmino :: 'v
  appCodec :: 'v
  txConfig :: 'v
  interfaceRegistry :: 'v
  AuthKeeper :: 'v
  BankKeeper :: 'v
  StakingKeeper :: 'v
  SlashingKeeper :: 'v
  MintKeeper :: 'v
  DistrKeeper :: 'v
  GovKeeper :: 'v
  UpgradeKeeper :: 'v
  AuthzKeeper :: 'v
  ConsensusParamsKeeper :: 'v
  CircuitBreakerKeeper :: 'v
  ParamsKeeper :: 'v
  IBCKeeper :: 'v
  ICAControllerKeeper :: 'v
  ICAHostKeeper :: 'v
  TransferKeeper :: 'v
  FeicoinKeeper :: 'v
  sm :: 'v

text \<open>What the dependency injection fills in.\<close>

record 'v injected =
  i_appBuilder :: 'v
  i_appModules :: 'v
  i_appCodec :: 'v
  i_legacyAmino :: 'v
  i_txConfig :: 'v
  i_interfaceRegistry :: 'v
  i_AuthKeeper :: 'v
  i_BankKeeper :: 'v
  i_StakingKeeper :: 'v
  i_SlashingKeeper :: 'v
  i_MintKeeper :: 'v
  i_DistrKeeper :: 'v
  i_GovKeeper :: 'v
  i_UpgradeKeeper :: 'v
  i_AuthzKeeper :: 'v
  i_ConsensusParamsKeeper :: 'v
  i_CircuitBreakerKeeper :: 'v
  i_ParamsKeeper :: 'v
  i_FeicoinKeeper :: 'v

text \<open>A configuration for the injection: the modules' declarations, supplied values, or several.\<close>

datatype 'v di_config = DeclaredModules "(cfg_name \<times> module_config) list" | SupplyBasics "string \<Rightarrow> 'v option"
  | SupplyValues "'v list" | Configs "'v di_config list"

datatype store_key = KVStoreKey string | OtherKey string

fun key_name :: "store_key \<Rightarrow> string" where
  "key_name (KVStoreKey n) = n"
| "key_name (OtherKey n) = n"

text \<open>
  The constructors of the IBC packages, and an argument of one: a value or a text. A constructor
  may panic, and may change the state.
\<close>

datatype ctor =
    IBC_NewKeeper | Transfer_NewKeeper | ICAHost_NewKeeper | ICAController_NewKeeper
  | Transfer_NewIBCModule | TransferV2_NewIBCModule | ICAController_NewIBCMiddleware | ICAHost_NewIBCModule
  | IBCTM_NewLightClientModule | Solomachine_NewLightClientModule
  | IBC_NewAppModule | Transfer_NewAppModule | ICA_NewAppModule | IBCTM_NewAppModule | Solomachine_NewAppModule

datatype 'v arg = V 'v | T string

datatype param_table = ClientParams | TransferParams | ICAControllerParams | ICAHostParams

record ('s, 'v, 'req, 'resp) wiring_ops =
  genutil_basic :: 'v
  SetOptimisticExecution :: 'v
  Inject :: "'s \<Rightarrow> 'v di_config \<Rightarrow> 's \<times> (goerr + 'v injected)"
  AppBuilder_Build :: "'s \<Rightarrow> 'v \<Rightarrow> 'v \<Rightarrow> 'v \<Rightarrow> 'v list \<Rightarrow> 's \<times> goerr option"
  NewKVStoreKey :: "string \<Rightarrow> goerr + store_key"
  RegisterStores :: "'s \<Rightarrow> store_key list \<Rightarrow> 's \<times> goerr option"
  UnsafeFindStoreKey :: "'s \<Rightarrow> string \<Rightarrow> store_key option"
  ParamKeyTable :: "param_table \<Rightarrow> 'v"
  RegisterConnectionParams :: "'v \<Rightarrow> 'v"
  Params_Subspace :: "'s \<Rightarrow> 'v \<Rightarrow> string \<Rightarrow> 's \<times> (goerr + 'v)"
  WithKeyTable :: "'s \<Rightarrow> 'v \<Rightarrow> 'v \<Rightarrow> 's \<times> goerr option"
  Params_GetSubspace :: "'s \<Rightarrow> 'v \<Rightarrow> string \<Rightarrow> 'v \<times> bool"
  Auth_AddressCodec :: "'v \<Rightarrow> address_codec"
  Auth_NewModuleAddress :: "string \<Rightarrow> byte list"
  NewKVStoreService :: "string option \<Rightarrow> 'v"
  construct :: "'s \<Rightarrow> ctor \<Rightarrow> 'v arg list \<Rightarrow> 's \<times> (goerr + 'v)"
  ChannelKeeper :: "'v \<Rightarrow> 'v"
  ClientKeeper :: "'v \<Rightarrow> 'v"
  GetStoreProvider :: "'v \<Rightarrow> 'v"
  MsgServiceRouter :: "'s \<Rightarrow> 'v"
  GRPCQueryRouter :: "'s \<Rightarrow> 'v"
  NewRouter :: 'v
  AddRoute :: "'v \<Rightarrow> string \<Rightarrow> 'v \<Rightarrow> goerr + 'v"
  NewRouterV2 :: 'v
  AddRouteV2 :: "'v \<Rightarrow> string \<Rightarrow> 'v \<Rightarrow> goerr + 'v"
  SetRouter :: "'s \<Rightarrow> 'v \<Rightarrow> 'v \<Rightarrow> 's \<times> goerr option"
  SetRouterV2 :: "'s \<Rightarrow> 'v \<Rightarrow> 'v \<Rightarrow> 's \<times> goerr option"
  Client_AddRoute :: "'s \<Rightarrow> 'v \<Rightarrow> string \<Rightarrow> 'v \<Rightarrow> 's \<times> goerr option"
  RegisterModules :: "'s \<Rightarrow> 'v list \<Rightarrow> 's \<times> goerr option"
  Auth_NewAppModule :: "'v \<Rightarrow> 'v \<Rightarrow> 'v"
  ModuleManager_Modules :: "'s \<Rightarrow> (string \<rightharpoonup> 'v)"
  NewSimulationManager :: "(string \<rightharpoonup> 'v) \<Rightarrow> (string \<rightharpoonup> 'v) \<Rightarrow> goerr + 'v"
  RegisterStoreDecoders :: "'s \<Rightarrow> 'v \<Rightarrow> 's"
  GetVersionMap :: "'s \<Rightarrow> (string \<rightharpoonup> uint64)"
  SetModuleVersionMap :: "'s \<Rightarrow> 'v \<Rightarrow> (string \<rightharpoonup> uint64) \<Rightarrow> 's \<times> goerr option"
  Runtime_InitChainer :: "'s \<Rightarrow> 'req \<Rightarrow> 's \<times> 'resp outcome"
  SetInitChainer :: "'s \<Rightarrow> ('s \<Rightarrow> 'req \<Rightarrow> 's \<times> 'resp outcome) \<Rightarrow> 's \<times> goerr option"
  Load :: "'s \<Rightarrow> bool \<Rightarrow> 's \<times> goerr option"

section \<open>Accessors\<close>

definition App_LegacyAmino :: "'v App \<Rightarrow> 'v" where "App_LegacyAmino app = legacyAmino app"
definition App_AppCodec :: "'v App \<Rightarrow> 'v" where "App_AppCodec app = appCodec app"
definition App_InterfaceRegistry :: "'v App \<Rightarrow> 'v" where "App_InterfaceRegistry app = interfaceRegistry app"
definition App_TxConfig :: "'v App \<Rightarrow> 'v" where "App_TxConfig app = txConfig app"
definition App_SimulationManager :: "'v App \<Rightarrow> 'v" where "App_SimulationManager app = sm app"

definition GetSubspace :: "('s, 'v, 'req, 'resp) wiring_ops \<Rightarrow> 'v App \<Rightarrow> 's \<Rightarrow> string \<Rightarrow> 'v" where
  "GetSubspace ops app s moduleName = fst (Params_GetSubspace ops s (ParamsKeeper app) moduleName)"

text \<open>\<open>None\<close> is the nil pointer, for a key that is not found or is of another type.\<close>

definition GetKey :: "('s, 'v, 'req, 'resp) wiring_ops \<Rightarrow> 's \<Rightarrow> string \<Rightarrow> string option" where
  "GetKey ops s storeKey =
     (case UnsafeFindStoreKey ops s storeKey of
        Some (KVStoreKey n) \<Rightarrow> Some n
      | _ \<Rightarrow> None)"

section \<open>The IBC modules\<close>

definition register_subspace ::
    "('s, 'v, 'req, 'resp) wiring_ops \<Rightarrow> 'v App \<Rightarrow> string \<Rightarrow> 'v \<Rightarrow> 's \<Rightarrow> 's \<times> unit outcome" where
  "register_subspace ops app name table s =
     (case Params_Subspace ops s (ParamsKeeper app) name of
        (s, Inl p) \<Rightarrow> (s, Panic p)
      | (s, Inr subspace) \<Rightarrow> must_do (WithKeyTable ops s subspace table))"

definition construct_or_panic :: "('s, 'v, 'req, 'resp) wiring_ops \<Rightarrow> ctor \<Rightarrow> 'v arg list \<Rightarrow> 's \<Rightarrow> 's \<times> 'v outcome" where
  "construct_or_panic ops c args s = (case construct ops s c args of (s, Inl p) \<Rightarrow> (s, Panic p) | (s, Inr x) \<Rightarrow> (s, Return x))"

fun new_keys :: "('s, 'v, 'req, 'resp) wiring_ops \<Rightarrow> string list \<Rightarrow> goerr + store_key list" where
  "new_keys ops [] = Inr []"
| "new_keys ops (n # ns) =
     bind_err (NewKVStoreKey ops n) (\<lambda>k. bind_err (new_keys ops ns) (\<lambda>ks. Inr (k # ks)))"

text \<open>Store keys and parameter subspaces.\<close>

definition ibc_stores ::
    "('s, 'v, 'req, 'resp) wiring_ops \<Rightarrow> (ibc_name \<Rightarrow> string) \<Rightarrow> 's \<Rightarrow> 's \<times> unit outcome" where
  "ibc_stores ops inm s =
     after (must s (new_keys ops (map inm [IBC_StoreKey, Transfer_StoreKey, ICAHost_StoreKey, ICAController_StoreKey])))
       (\<lambda>s keys. check_do (RegisterStores ops s keys))"

definition ibc_subspaces ::
    "('s, 'v, 'req, 'resp) wiring_ops \<Rightarrow> (sdk_name \<Rightarrow> string) \<Rightarrow> (ibc_name \<Rightarrow> string) \<Rightarrow> 'v App \<Rightarrow> 's
     \<Rightarrow> 's \<times> unit outcome" where
  "ibc_subspaces ops nm inm app s =
     (let keyTable = RegisterConnectionParams ops (ParamKeyTable ops ClientParams) in
      after (register_subspace ops app (nm ibcexported) keyTable s) (\<lambda>s _.
      after (register_subspace ops app (nm ibctransfertypes) (ParamKeyTable ops TransferParams) s) (\<lambda>s _.
      after (register_subspace ops app (inm ICAController_SubModuleName) (ParamKeyTable ops ICAControllerParams) s) (\<lambda>s _.
      register_subspace ops app (inm ICAHost_SubModuleName) (ParamKeyTable ops ICAHostParams) s))))"

text \<open>The four keepers, each on its own store key and subspace.\<close>

definition ibc_keepers ::
    "('s, 'v, 'req, 'resp) wiring_ops \<Rightarrow> (sdk_name \<Rightarrow> string) \<Rightarrow> (ibc_name \<Rightarrow> string) \<Rightarrow> 'v App \<Rightarrow> 's
     \<Rightarrow> 's \<times> 'v App outcome" where
  "ibc_keepers ops nm inm app s =
     (let govModuleAddr = fst (BytesToString (Auth_AddressCodec ops (AuthKeeper app))
            (Auth_NewModuleAddress ops (nm govtypes)));
          service = (\<lambda>s n. V (NewKVStoreService ops (GetKey ops s n)));
          subspace = (\<lambda>s n. V (GetSubspace ops app s n)) in
      after (construct_or_panic ops IBC_NewKeeper
        [V (appCodec app), service s (inm IBC_StoreKey), subspace s (nm ibcexported), V (UpgradeKeeper app),
         T govModuleAddr] s) (\<lambda>s k.
      let app = app\<lparr>IBCKeeper := k\<rparr>; channel = V (ChannelKeeper ops k) in
      after (construct_or_panic ops Transfer_NewKeeper
        [V (appCodec app), service s (inm Transfer_StoreKey), subspace s (nm ibctransfertypes), channel, channel,
         V (MsgServiceRouter ops s), V (AuthKeeper app), V (BankKeeper app), T govModuleAddr] s) (\<lambda>s k.
      let app = app\<lparr>TransferKeeper := k\<rparr> in
      after (construct_or_panic ops ICAHost_NewKeeper
        [V (appCodec app), service s (inm ICAHost_StoreKey), subspace s (inm ICAHost_SubModuleName), channel, channel,
         V (AuthKeeper app), V (MsgServiceRouter ops s), V (GRPCQueryRouter ops s), T govModuleAddr] s) (\<lambda>s k.
      let app = app\<lparr>ICAHostKeeper := k\<rparr> in
      after (construct_or_panic ops ICAController_NewKeeper
        [V (appCodec app), service s (inm ICAController_StoreKey), subspace s (inm ICAController_SubModuleName),
         channel, channel, V (MsgServiceRouter ops s), T govModuleAddr] s) (\<lambda>s k.
      (s, Return (app\<lparr>ICAControllerKeeper := k\<rparr>)))))))"

text \<open>The stacks, the two routers and the light clients' routes; the light clients are returned.\<close>

definition ibc_routes ::
    "('s, 'v, 'req, 'resp) wiring_ops \<Rightarrow> (sdk_name \<Rightarrow> string) \<Rightarrow> (ibc_name \<Rightarrow> string) \<Rightarrow> 'v App \<Rightarrow> 's
     \<Rightarrow> 's \<times> ('v \<times> 'v) outcome" where
  "ibc_routes ops nm inm app s =
     after (construct_or_panic ops Transfer_NewIBCModule [V (TransferKeeper app)] s) (\<lambda>s transferStack.
     after (construct_or_panic ops TransferV2_NewIBCModule [V (TransferKeeper app)] s) (\<lambda>s transferStackV2.
     after (construct_or_panic ops ICAController_NewIBCMiddleware [V (ICAControllerKeeper app)] s) (\<lambda>s icaControllerStack.
     after (construct_or_panic ops ICAHost_NewIBCModule [V (ICAHostKeeper app)] s) (\<lambda>s icaHostStack.
     after (must s (bind_err (AddRoute ops (NewRouter ops) (nm ibctransfertypes) transferStack) (\<lambda>r.
       bind_err (AddRoute ops r (inm ICAController_SubModuleName) icaControllerStack) (\<lambda>r.
       AddRoute ops r (inm ICAHost_SubModuleName) icaHostStack)))) (\<lambda>s ibcRouter.
     after (must s (AddRouteV2 ops (NewRouterV2 ops) (inm Transfer_PortID) transferStackV2)) (\<lambda>s ibcv2Router.
     after (must_do (SetRouter ops s (IBCKeeper app) ibcRouter)) (\<lambda>s _.
     after (must_do (SetRouterV2 ops s (IBCKeeper app) ibcv2Router)) (\<lambda>s _.
     let clientKeeper = ClientKeeper ops (IBCKeeper app);
         storeProvider = GetStoreProvider ops clientKeeper in
     after (construct_or_panic ops IBCTM_NewLightClientModule [V (appCodec app), V storeProvider] s) (\<lambda>s tmLightClientModule.
     after (must_do (Client_AddRoute ops s clientKeeper (inm IBCTM_ModuleName) tmLightClientModule)) (\<lambda>s _.
     after (construct_or_panic ops Solomachine_NewLightClientModule [V (appCodec app), V storeProvider] s) (\<lambda>s soloLightClientModule.
     after (must_do (Client_AddRoute ops s clientKeeper (inm Solomachine_ModuleName) soloLightClientModule)) (\<lambda>s _.
     (s, Return (tmLightClientModule, soloLightClientModule))))))))))))))"

definition ibc_modules ::
    "('s, 'v, 'req, 'resp) wiring_ops \<Rightarrow> 'v App \<Rightarrow> 'v \<times> 'v \<Rightarrow> 's \<Rightarrow> 's \<times> unit outcome" where
  "ibc_modules ops app lc s =
     after (construct_or_panic ops IBC_NewAppModule [V (IBCKeeper app)] s) (\<lambda>s m1.
     after (construct_or_panic ops Transfer_NewAppModule [V (TransferKeeper app)] s) (\<lambda>s m2.
     after (construct_or_panic ops ICA_NewAppModule [V (ICAControllerKeeper app), V (ICAHostKeeper app)] s) (\<lambda>s m3.
     after (construct_or_panic ops IBCTM_NewAppModule [V (fst lc)] s) (\<lambda>s m4.
     after (construct_or_panic ops Solomachine_NewAppModule [V (snd lc)] s) (\<lambda>s m5.
     check_do (RegisterModules ops s [m1, m2, m3, m4, m5]))))))"

text \<open>A failure keeps the application as it was, which \<open>New\<close>, its only caller, then gives up.\<close>

definition registerIBCModules ::
    "('s, 'v, 'req, 'resp) wiring_ops \<Rightarrow> (sdk_name \<Rightarrow> string) \<Rightarrow> (ibc_name \<Rightarrow> string) \<Rightarrow> 'v App \<Rightarrow> 's
     \<Rightarrow> 's \<times> 'v App outcome" where
  "registerIBCModules ops nm inm app s =
     after (ibc_stores ops inm s) (\<lambda>s _.
     after (ibc_subspaces ops nm inm app s) (\<lambda>s _.
     after (ibc_keepers ops nm inm app s) (\<lambda>s app.
     after (ibc_routes ops nm inm app s) (\<lambda>s lc.
     after (ibc_modules ops app lc s) (\<lambda>s _.
     (s, Return app))))))"

text \<open>
  On the client side the modules are made from empty keepers (\<open>zero\<close>), for their interfaces. The
  registration goes through Go's map in some order: \<open>order\<close> lists its keys.
\<close>

datatype zero_of =
    Zero_Keeper | Zero_TransferKeeper | Zero_ControllerKeeper | Zero_HostKeeper | Zero_StoreProvider

record ('c, 'v, 'reg) client_ops =
  zero_value :: "zero_of \<Rightarrow> 'v"
  client_construct :: "ctor \<Rightarrow> 'v arg list \<Rightarrow> 'v"
  codec_value :: "'c \<Rightarrow> 'v"
  is_AppModuleBasic :: "'v \<Rightarrow> bool"
  RegisterInterfaces :: "'v \<Rightarrow> 'reg \<Rightarrow> 'reg"

definition ibc_module_names :: "(sdk_name \<Rightarrow> string) \<Rightarrow> (ibc_name \<Rightarrow> string) \<Rightarrow> (string \<times> ctor) list" where
  "ibc_module_names nm inm =
     [(nm ibcexported, IBC_NewAppModule), (nm ibctransfertypes, Transfer_NewAppModule), (nm icatypes, ICA_NewAppModule),
      (inm IBCTM_ModuleName, IBCTM_NewAppModule), (inm Solomachine_ModuleName, Solomachine_NewAppModule)]"

fun client_module_args :: "('c, 'v, 'reg) client_ops \<Rightarrow> 'c \<Rightarrow> ctor \<Rightarrow> 'v arg list" where
  "client_module_args ops cdc IBC_NewAppModule = [V (zero_value ops Zero_Keeper)]"
| "client_module_args ops cdc Transfer_NewAppModule = [V (zero_value ops Zero_TransferKeeper)]"
| "client_module_args ops cdc ICA_NewAppModule =
     [V (zero_value ops Zero_ControllerKeeper), V (zero_value ops Zero_HostKeeper)]"
| "client_module_args ops cdc IBCTM_NewAppModule =
     [V (client_construct ops IBCTM_NewLightClientModule [V (codec_value ops cdc), V (zero_value ops Zero_StoreProvider)])]"
| "client_module_args ops cdc Solomachine_NewAppModule =
     [V (client_construct ops Solomachine_NewLightClientModule [V (codec_value ops cdc), V (zero_value ops Zero_StoreProvider)])]"
| "client_module_args ops cdc _ = []"

definition client_modules ::
    "('c, 'v, 'reg) client_ops \<Rightarrow> (sdk_name \<Rightarrow> string) \<Rightarrow> (ibc_name \<Rightarrow> string) \<Rightarrow> 'c \<Rightarrow> (string \<rightharpoonup> 'v)" where
  "client_modules ops nm inm cdc =
     map_of (map (\<lambda>(n, c). (n, client_construct ops c (client_module_args ops cdc c))) (ibc_module_names nm inm))"

definition RegisterIBC ::
    "('c, 'v, 'reg) client_ops \<Rightarrow> (sdk_name \<Rightarrow> string) \<Rightarrow> (ibc_name \<Rightarrow> string) \<Rightarrow> string list \<Rightarrow> 'c \<Rightarrow> 'reg
     \<Rightarrow> 'reg \<times> (string \<rightharpoonup> 'v)" where
  "RegisterIBC ops nm inm order cdc reg =
     (let modules = client_modules ops nm inm cdc in
      (fold (\<lambda>n reg. case modules n of
           Some m \<Rightarrow> if is_AppModuleBasic ops m then RegisterInterfaces ops m reg else reg
         | None \<Rightarrow> reg) order reg,
       modules))"

section \<open>New\<close>

definition AppConfig :: "('s, 'v, 'req, 'resp) wiring_ops \<Rightarrow> (sdk_name \<Rightarrow> string) \<Rightarrow> 'v di_config" where
  "AppConfig ops nm =
     Configs [DeclaredModules appConfig_modules, SupplyBasics [nm genutiltypes \<mapsto> genutil_basic ops]]"

text \<open>The application's own \<open>InitChainer\<close>: the versions of all modules, then the runtime's.\<close>

definition app_InitChainer ::
    "('s, 'v, 'req, 'resp) wiring_ops \<Rightarrow> 'v App \<Rightarrow> 's \<Rightarrow> 'req \<Rightarrow> 's \<times> 'resp outcome" where
  "app_InitChainer ops app s req =
     after (check_do (SetModuleVersionMap ops s (UpgradeKeeper app) (GetVersionMap ops s))) (\<lambda>s _.
     Runtime_InitChainer ops s req)"

text \<open>The fields of a new application are \<open>zero\<close> until they are set.\<close>

definition App_zero :: "'v \<Rightarrow> 'v App" where
  "App_zero z = \<lparr>legacyAmino = z, appCodec = z, txConfig = z, interfaceRegistry = z, AuthKeeper = z, BankKeeper = z,
     StakingKeeper = z, SlashingKeeper = z, MintKeeper = z, DistrKeeper = z, GovKeeper = z, UpgradeKeeper = z,
     AuthzKeeper = z, ConsensusParamsKeeper = z, CircuitBreakerKeeper = z, ParamsKeeper = z, IBCKeeper = z,
     ICAControllerKeeper = z, ICAHostKeeper = z, TransferKeeper = z, FeicoinKeeper = z, sm = z\<rparr>"

definition inject_into :: "'v injected \<Rightarrow> 'v App \<Rightarrow> 'v App" where
  "inject_into i app = app\<lparr>appCodec := i_appCodec i, legacyAmino := i_legacyAmino i, txConfig := i_txConfig i,
     interfaceRegistry := i_interfaceRegistry i, AuthKeeper := i_AuthKeeper i, BankKeeper := i_BankKeeper i,
     StakingKeeper := i_StakingKeeper i, SlashingKeeper := i_SlashingKeeper i, MintKeeper := i_MintKeeper i,
     DistrKeeper := i_DistrKeeper i, GovKeeper := i_GovKeeper i, UpgradeKeeper := i_UpgradeKeeper i,
     AuthzKeeper := i_AuthzKeeper i, ConsensusParamsKeeper := i_ConsensusParamsKeeper i,
     CircuitBreakerKeeper := i_CircuitBreakerKeeper i, ParamsKeeper := i_ParamsKeeper i,
     FeicoinKeeper := i_FeicoinKeeper i\<rparr>"

text \<open>\<open>if err := registerIBCModules(...); err != nil { panic(err) }\<close>.\<close>

definition fail_to_panic :: "'s \<times> 'a outcome \<Rightarrow> 's \<times> 'a outcome" where
  "fail_to_panic r = (case r of (s, Fail err) \<Rightarrow> (s, Panic err) | _ \<Rightarrow> r)"

definition New ::
    "('s, 'v, 'req, 'resp) wiring_ops \<Rightarrow> 'v \<Rightarrow> (sdk_name \<Rightarrow> string) \<Rightarrow> (ibc_name \<Rightarrow> string) \<Rightarrow> 'v \<Rightarrow> 'v \<Rightarrow> 'v \<Rightarrow> bool \<Rightarrow> 'v
     \<Rightarrow> 'v list \<Rightarrow> 's \<Rightarrow> 's \<times> 'v App outcome" where
  "New ops zero nm inm logger db traceStore loadLatest appOpts baseAppOptions s =
     (let config = Configs [AppConfig ops nm, SupplyValues [appOpts, logger]] in
      case Inject ops s config of
        (s, Inl err) \<Rightarrow> (s, Panic err)
      | (s, Inr injected) \<Rightarrow>
      let app = inject_into injected (App_zero zero);
          baseAppOptions = baseAppOptions @ [SetOptimisticExecution ops] in
      after (must_do (AppBuilder_Build ops s (i_appBuilder injected) db traceStore baseAppOptions)) (\<lambda>s _.
      after (fail_to_panic (registerIBCModules ops nm inm app s)) (\<lambda>s app.
      let overrideModules = [nm authtypes \<mapsto> Auth_NewAppModule ops (appCodec app) (AuthKeeper app)] in
      after (must s (NewSimulationManager ops (ModuleManager_Modules ops s) overrideModules)) (\<lambda>s m.
      let app = app\<lparr>sm := m\<rparr>;
          s = RegisterStoreDecoders ops s m in
      after (must_do (SetInitChainer ops s (app_InitChainer ops app))) (\<lambda>s _.
      after (must_do (Load ops s loadLatest)) (\<lambda>s _.
      (s, Return app)))))))"

section \<open>API routes\<close>

text \<open>
  \<open>docs.go\<close>: the two routes, one for the embedded files and one for a page made of a template
  with a title and the specification's URL. Routes are a list; an error of the template is ignored.
\<close>

datatype 'page route_handler = FileServer | Page "'page"

definition apiFile :: string where "apiFile = ''/static/openapi.json''"
definition indexFile :: string where "indexFile = ''template/index.tpl''"

definition docs_handler :: "(string \<Rightarrow> goerr + 't) \<Rightarrow> ('t \<Rightarrow> string \<Rightarrow> string \<Rightarrow> 'page) \<Rightarrow> string \<Rightarrow> goerr + 'page" where
  "docs_handler ParseFS Execute title =
     map_sum (\<lambda>_. NilDereference) (\<lambda>t. Execute t title apiFile) (ParseFS indexFile)"

definition RegisterOpenAPIService ::
    "(string \<Rightarrow> goerr + 't) \<Rightarrow> ('t \<Rightarrow> string \<Rightarrow> string \<Rightarrow> 'page) \<Rightarrow> string
     \<Rightarrow> (string \<times> (goerr + 'page) route_handler) list \<Rightarrow> (string \<times> (goerr + 'page) route_handler) list" where
  "RegisterOpenAPIService ParseFS Execute appName rtr =
     rtr @ [(apiFile, FileServer), (''/'', Page (docs_handler ParseFS Execute appName))]"

record ('page, 'x) api_server =
  Router :: "(string \<times> (goerr + 'page) route_handler) list"
  server_rest :: 'x

definition RegisterAPIRoutes ::
    "(('page, 'x) api_server \<Rightarrow> ('page, 'x) api_server)
     \<Rightarrow> (('page, 'x) api_server \<Rightarrow> bool \<Rightarrow> ('page, 'x) api_server \<times> goerr option)
     \<Rightarrow> (string \<Rightarrow> goerr + 't) \<Rightarrow> ('t \<Rightarrow> string \<Rightarrow> string \<Rightarrow> 'page) \<Rightarrow> bool \<Rightarrow> ('page, 'x) api_server
     \<Rightarrow> ('page, 'x) api_server \<times> unit outcome" where
  "RegisterAPIRoutes runtime_routes RegisterSwaggerAPI ParseFS Execute swagger apiSvr =
     (let apiSvr = runtime_routes apiSvr in
      after (must_do (RegisterSwaggerAPI apiSvr swagger)) (\<lambda>apiSvr _.
      (apiSvr\<lparr>Router := RegisterOpenAPIService ParseFS Execute Name (Router apiSvr)\<rparr>, Return ())))"

end
