(* ===== verification/Filepath.thy ===== *)
theory Filepath
  imports Digits
begin

text \<open>
  What the commands use of Go's \<open>path/filepath\<close> on Unix: \<open>Clean\<close>, \<open>Join\<close>, \<open>Base\<close>, \<open>IsAbs\<close>, \<open>Abs\<close>,
  and \<open>Rel\<close> between absolute paths. A path is a string; its elements are what the separators
  divide it into, and cleaning works on them.
\<close>

section \<open>Elements\<close>

type_synonym elems = "string list"

definition path_elems :: "string \<Rightarrow> elems" where
  "path_elems p = filter (\<lambda>e. e \<noteq> '''' \<and> e \<noteq> ''.'') (split_at CHR ''/'' p)"

definition IsAbs :: "string \<Rightarrow> bool" where
  "IsAbs p = (case p of [] \<Rightarrow> False | c # _ \<Rightarrow> c = CHR ''/'')"

text \<open>
  One element after the cleaned ones, which are kept in reverse: \<open>..\<close> takes the last one back, is
  dropped at the root, and stays at the start of a relative path.
\<close>

definition clean_step :: "bool \<Rightarrow> string \<Rightarrow> elems \<Rightarrow> elems" where
  "clean_step rooted e acc =
     (if e = ''..'' then
        (case acc of
           [] \<Rightarrow> if rooted then [] else [''..'']
         | a # acc' \<Rightarrow> if a = ''..'' then ''..'' # acc else acc')
      else e # acc)"

definition clean_elems :: "bool \<Rightarrow> elems \<Rightarrow> elems" where
  "clean_elems rooted es = rev (fold (clean_step rooted) es [])"

definition Clean :: "string \<Rightarrow> string" where
  "Clean p =
     (if IsAbs p then ''/'' @ join ''/'' (clean_elems True (path_elems p))
      else case clean_elems False (path_elems p) of [] \<Rightarrow> ''.'' | es \<Rightarrow> join ''/'' es)"

text \<open>\<open>Join\<close> starts at the first element that is not empty.\<close>

definition Join :: "string list \<Rightarrow> string" where
  "Join es = (case dropWhile (\<lambda>e. e = '''') es of [] \<Rightarrow> '''' | es' \<Rightarrow> Clean (join ''/'' es'))"

definition Base :: "string \<Rightarrow> string" where
  "Base p =
     (if p = '''' then ''.''
      else case filter (\<lambda>e. e \<noteq> '''') (split_at CHR ''/'' p) of [] \<Rightarrow> ''/'' | es \<Rightarrow> last es)"

text \<open>\<open>Abs\<close> in a working directory.\<close>

definition Abs_path :: "string \<Rightarrow> string \<Rightarrow> string" where
  "Abs_path wd p = (if IsAbs p then Clean p else Join [wd, p])"

text \<open>The element lists without what they have in common at the start.\<close>

fun strip_common :: "elems \<Rightarrow> elems \<Rightarrow> elems \<times> elems" where
  "strip_common (b # bs) (t # ts) = (if b = t then strip_common bs ts else (b # bs, t # ts))"
| "strip_common bs ts = (bs, ts)"

text \<open>
  \<open>Rel\<close> of two cleaned absolute paths: up once for every element of the base that is left, then
  down. It has no error for these.
\<close>

definition Rel_abs :: "string \<Rightarrow> string \<Rightarrow> string" where
  "Rel_abs base targ =
     (if targ = base then ''.''
      else case strip_common (path_elems base) (path_elems targ) of
        (bs, ts) \<Rightarrow> join ''/'' (replicate (length bs) ''..'' @ ts))"

section \<open>Lemmas\<close>

definition plain_elem :: "string \<Rightarrow> bool" where
  "plain_elem e \<longleftrightarrow> e \<noteq> '''' \<and> e \<noteq> ''.'' \<and> e \<noteq> ''..'' \<and> CHR ''/'' \<notin> set e"

lemma split_at_join_any:
  "es \<noteq> [] \<Longrightarrow> split_at c (join [c] es) = concat (map (split_at c) es)"
proof (induction "[c]" es rule: join.induct)
  case (3 p q ps)
  have "split_at c (p @ c # s) = split_at c p @ split_at c s" for s
  proof (induction p)
    case (Cons x p)
    obtain r rs where "split_at c p = r # rs" by (cases "split_at c p") auto
    with Cons show ?case by auto
  qed simp
  with 3 show ?case by simp
qed simp_all

lemma path_elems_join: "path_elems (join ''/'' es) = concat (map path_elems es)"
proof (cases "es = []")
  case False
  have "filter P (concat xss) = concat (map (filter P) xss)" for P :: "string \<Rightarrow> bool" and xss
    by (simp add: filter_concat)
  then show ?thesis
    using split_at_join_any [OF False, of "CHR ''/''"] by (simp add: path_elems_def [abs_def] comp_def)
qed (simp add: path_elems_def)

lemma path_elems_plain: "plain_elem e \<Longrightarrow> path_elems e = [e]"
  by (simp add: plain_elem_def path_elems_def split_at_other)

lemma path_elems_Nil [simp]: "path_elems [] = []"
  by (simp add: path_elems_def)

lemma path_elems_no_sep: "e \<in> set (path_elems p) \<Longrightarrow> CHR ''/'' \<notin> set e \<and> e \<noteq> '''' \<and> e \<noteq> ''.''"
proof -
  have "e \<in> set (split_at c p) \<Longrightarrow> c \<notin> set e" for c
    by (induction p arbitrary: e) (auto split: list.splits if_splits)
  then show "e \<in> set (path_elems p) \<Longrightarrow> CHR ''/'' \<notin> set e \<and> e \<noteq> '''' \<and> e \<noteq> ''.''"
    by (auto simp: path_elems_def)
qed

text \<open>Cleaned rooted paths have no \<open>..\<close> left.\<close>

lemma clean_step_rooted: "''..'' \<notin> set acc \<Longrightarrow> ''..'' \<notin> set (clean_step True e acc)"
  by (cases acc) (auto simp: clean_step_def)

lemma fold_clean_rooted: "''..'' \<notin> set acc \<Longrightarrow> ''..'' \<notin> set (fold (clean_step True) es acc)"
  by (induction es arbitrary: acc) (simp_all add: clean_step_rooted)

lemma clean_elems_rooted: "''..'' \<notin> set (clean_elems True es)"
  by (simp add: clean_elems_def fold_clean_rooted)

lemma clean_step_subset: "set (clean_step True e acc) \<subseteq> insert e (set acc)"
  by (cases acc) (auto simp: clean_step_def)

lemma clean_elems_subset: "set (clean_elems True es) \<subseteq> set es"
proof -
  have "set (fold (clean_step True) es acc) \<subseteq> set es \<union> set acc" for acc
    using clean_step_subset by (induction es arbitrary: acc) fastforce+
  from this [of "[]"] show ?thesis by (simp add: clean_elems_def)
qed

lemma clean_elems_append_plain:
  "e \<noteq> ''..'' \<Longrightarrow> clean_elems r (es @ [e]) = clean_elems r es @ [e]"
  by (simp add: clean_elems_def clean_step_def)

lemma clean_elems_append_plains:
  "list_all plain_elem fs \<Longrightarrow> clean_elems r (es @ fs) = clean_elems r es @ fs"
proof (induction fs arbitrary: es)
  case (Cons f fs)
  then show ?case
    using clean_elems_append_plain [of f r es] Cons.IH [of "es @ [f]"] by (simp add: plain_elem_def)
qed simp

text \<open>A cleaned absolute path is given back by its elements, and they are plain.\<close>

definition of_elems :: "elems \<Rightarrow> string" where
  "of_elems es = ''/'' @ join ''/'' es"

lemma path_elems_slash: "path_elems (CHR ''/'' # p) = path_elems p"
  by (simp add: path_elems_def)

lemma concat_path_elems: "list_all plain_elem es \<Longrightarrow> concat (map path_elems es) = es"
  by (induction es) (simp_all add: path_elems_plain)

lemma path_elems_of_elems: "list_all plain_elem es \<Longrightarrow> path_elems (of_elems es) = es"
  by (simp add: of_elems_def path_elems_slash path_elems_join concat_path_elems)

lemma of_elems_inject:
  "list_all plain_elem es \<Longrightarrow> list_all plain_elem fs \<Longrightarrow> of_elems es = of_elems fs \<longleftrightarrow> es = fs"
  using path_elems_of_elems by metis

lemma IsAbs_of_elems [simp]: "IsAbs (of_elems es)"
  by (simp add: IsAbs_def of_elems_def)

lemma plain_clean_elems: "list_all plain_elem (clean_elems True (path_elems p))"
  using clean_elems_subset [of "path_elems p"] clean_elems_rooted [of "path_elems p"]
  by (auto simp: list_all_iff plain_elem_def dest: path_elems_no_sep)

lemma Clean_abs: "IsAbs p \<Longrightarrow> Clean p = of_elems (clean_elems True (path_elems p))"
  by (simp add: Clean_def of_elems_def)

lemma IsAbs_append: "IsAbs p \<Longrightarrow> IsAbs (p @ q)"
  by (cases p) (simp_all add: IsAbs_def)

text \<open>The elements of an absolute path in an absolute working directory.\<close>

definition abs_elems :: "string \<Rightarrow> string \<Rightarrow> elems" where
  "abs_elems wd p = clean_elems True (if IsAbs p then path_elems p else path_elems wd @ path_elems p)"

lemma IsAbs_join: "IsAbs p \<Longrightarrow> IsAbs (join ''/'' (p # ps))"
  by (cases ps) (simp_all add: IsAbs_append)

lemma Abs_path_eq: "IsAbs wd \<Longrightarrow> Abs_path wd p = of_elems (abs_elems wd p)"
proof -
  assume wd: "IsAbs wd"
  then have "wd \<noteq> ''''" by (auto simp: IsAbs_def)
  with wd show ?thesis
    using Clean_abs [OF IsAbs_join [OF wd, of "[p]"]] path_elems_join [of "[wd, p]"]
    by (simp add: Abs_path_def abs_elems_def Clean_abs Join_def)
qed

lemma plain_abs_elems: "list_all plain_elem (abs_elems wd p)"
proof (cases "IsAbs p")
  case False
  have "path_elems wd @ path_elems p = path_elems (join ''/'' [wd, p])"
    by (simp only: path_elems_join) simp
  with False plain_clean_elems show ?thesis by (simp add: abs_elems_def)
qed (simp add: abs_elems_def plain_clean_elems)

lemma strip_common_append: "strip_common bs (bs @ ts) = ([], ts)"
  by (induction bs) auto

lemma strip_common_Nil: "fst (strip_common bs ts) = [] \<Longrightarrow> ts = bs @ snd (strip_common bs ts)"
  by (induction bs ts rule: strip_common.induct) (auto split: if_splits)

section \<open>Numbered directories\<close>

lemma split_at_snoc:
  "c \<notin> set t \<Longrightarrow> split_at c (s @ t) = butlast (split_at c s) @ [last (split_at c s) @ t]"
proof (induction s)
  case (Cons x s)
  obtain p ps where p: "split_at c s = p # ps" by (cases "split_at c s") auto
  with Cons show ?case by (cases ps) auto
qed (simp add: split_at_other)

lemma Itoa_not_special:
  assumes "0 \<le> n"
  shows "CHR ''/'' \<notin> set (Itoa n)" "CHR ''.'' \<notin> set (Itoa n)"
  using Itoa_digits(2) [OF assms, of "CHR ''/''"] Itoa_digits(2) [OF assms, of "CHR ''.''"] by auto

lemma plain_numbered:
  assumes "0 \<le> n" "CHR ''/'' \<notin> set q"
  shows "plain_elem (q @ Itoa n)"
proof -
  have l: "last (q @ Itoa n) \<in> set (Itoa n)" using Itoa_digits(1) [OF assms(1)] by simp
  have "last (q @ Itoa n) \<noteq> CHR ''.''" using l Itoa_not_special(2) [OF assms(1)] by metis
  then have "q @ Itoa n \<noteq> ''.''" "q @ Itoa n \<noteq> ''..''" by (metis last.simps list.distinct(1))+
  then show ?thesis
    using assms Itoa_digits(1) [OF assms(1)] Itoa_not_special(1) [OF assms(1)] by (simp add: plain_elem_def)
qed

text \<open>A prefix with a number after it: the elements of the prefix, the last one with the number.\<close>

lemma path_elems_numbered:
  "\<exists>es q. CHR ''/'' \<notin> set q \<and> (\<forall>n\<ge>0. path_elems (pre @ Itoa n) = es @ [q @ Itoa n])"
proof -
  let ?s = "split_at CHR ''/'' pre"
  have "e \<in> set (split_at c p) \<Longrightarrow> c \<notin> set e" for c e p
    by (induction p arbitrary: e) (auto split: list.splits if_splits)
  from this [of "last ?s" "CHR ''/''" pre] have q: "CHR ''/'' \<notin> set (last ?s)" by simp
  have "path_elems (pre @ Itoa n) = filter (\<lambda>e. e \<noteq> '''' \<and> e \<noteq> ''.'') (butlast ?s) @ [last ?s @ Itoa n]"
    if "0 \<le> n" for n
    using plain_numbered [OF that q] Itoa_not_special(1) [OF that]
    by (simp add: path_elems_def split_at_snoc plain_elem_def)
  with q show ?thesis by blast
qed

end
