(* ===== verification/File_System.thy ===== *)
theory File_System
  imports Loops Filepath
begin

text \<open>
  What the multi-node command uses of Go's \<open>os\<close> package, and its own helpers \<open>writeFile\<close>,
  \<open>copyFile\<close> and \<open>isSubDir\<close>. A file system maps the elements of an absolute path to a directory
  or to a file's contents; the root is a directory. Symbolic links are not modelled. A call may
  also fail for reasons outside this model (permissions, a full disk): \<open>fault\<close> tells, for the
  name of a call and its path, whether it does.
\<close>

section \<open>The calls\<close>

datatype fs_entry = Dir | File "byte list"

type_synonym file_system = "elems \<rightharpoonup> fs_entry"

record os =
  working_dir :: "goerr + string"
  fault :: "string \<Rightarrow> elems \<Rightarrow> goerr option"

definition lookup :: "file_system \<Rightarrow> elems \<Rightarrow> fs_entry option" where
  "lookup fs es = (if es = [] then Some Dir else fs es)"

definition filepath_Abs :: "os \<Rightarrow> string \<Rightarrow> goerr + string" where
  "filepath_Abs os p =
     (if IsAbs p then Inr (Clean p)
      else bind_err (working_dir os) (\<lambda>wd. Inr (Join [wd, p])))"

text \<open>The elements a path stands for; the process has a working directory, or relative paths fail.\<close>

definition resolve :: "os \<Rightarrow> string \<Rightarrow> goerr + elems" where
  "resolve os p =
     (if IsAbs p then Inr (abs_elems '''' p)
      else bind_err (working_dir os) (\<lambda>wd. Inr (abs_elems wd p)))"

definition not_dir :: goerr where "not_dir = Msg ''not a directory''"
definition not_exist :: goerr where "not_exist = Msg ''no such file or directory''"
definition is_dir :: goerr where "is_dir = Msg ''is a directory''"

text \<open>\<open>os.MkdirAll\<close>: the directories on the way, from the root down.\<close>

fun mkdir_from :: "os \<Rightarrow> elems \<Rightarrow> elems \<Rightarrow> file_system \<Rightarrow> file_system \<times> goerr option" where
  "mkdir_from os pre [] fs = (fs, None)"
| "mkdir_from os pre (e # es) fs =
     (case lookup fs (pre @ [e]) of
        Some Dir \<Rightarrow> mkdir_from os (pre @ [e]) es fs
      | Some (File c) \<Rightarrow> (fs, Some not_dir)
      | None \<Rightarrow>
          (case fault os ''mkdir'' (pre @ [e]) of
             Some err \<Rightarrow> (fs, Some err)
           | None \<Rightarrow> mkdir_from os (pre @ [e]) es (fs(pre @ [e] \<mapsto> Dir))))"

definition MkdirAll :: "os \<Rightarrow> string \<Rightarrow> file_system \<Rightarrow> file_system \<times> goerr option" where
  "MkdirAll os p fs =
     (case resolve os p of Inl err \<Rightarrow> (fs, Some err) | Inr es \<Rightarrow> mkdir_from os [] es fs)"

text \<open>Creating or truncating a file, as \<open>os.Create\<close> and \<open>os.WriteFile\<close> open it.\<close>

definition create_at :: "os \<Rightarrow> elems \<Rightarrow> file_system \<Rightarrow> file_system \<times> goerr option" where
  "create_at os es fs =
     (if lookup fs es = Some Dir then (fs, Some is_dir)
      else case lookup fs (butlast es) of
        None \<Rightarrow> (fs, Some not_exist)
      | Some (File c) \<Rightarrow> (fs, Some not_dir)
      | Some Dir \<Rightarrow>
          (case fault os ''open'' es of
             Some err \<Rightarrow> (fs, Some err)
           | None \<Rightarrow> (fs(es \<mapsto> File []), None)))"

text \<open>\<open>os.WriteFile\<close>; a write that fails leaves the file truncated.\<close>

definition write_at :: "os \<Rightarrow> elems \<Rightarrow> byte list \<Rightarrow> file_system \<Rightarrow> file_system \<times> goerr option" where
  "write_at os es contents fs =
     (case create_at os es fs of
        (fs, Some err) \<Rightarrow> (fs, Some err)
      | (fs, None) \<Rightarrow>
          (case fault os ''write'' es of
             Some err \<Rightarrow> (fs, Some err)
           | None \<Rightarrow> (fs(es \<mapsto> File contents), None)))"

definition WriteFile :: "os \<Rightarrow> string \<Rightarrow> byte list \<Rightarrow> file_system \<Rightarrow> file_system \<times> goerr option" where
  "WriteFile os p contents fs =
     (case resolve os p of Inl err \<Rightarrow> (fs, Some err) | Inr es \<Rightarrow> write_at os es contents fs)"

text \<open>\<open>os.RemoveAll\<close>: the path and everything below it, unless it fails.\<close>

definition RemoveAll :: "os \<Rightarrow> string \<Rightarrow> file_system \<Rightarrow> file_system \<times> goerr option" where
  "RemoveAll os p fs =
     (case resolve os p of
        Inl err \<Rightarrow> (fs, Some err)
      | Inr es \<Rightarrow>
          (case fault os ''remove'' es of
             Some err \<Rightarrow> (fs, Some err)
           | None \<Rightarrow> (\<lambda>q. if take (length es) q = es then None else fs q, None)))"

section \<open>The command's helpers\<close>

text \<open>The error quotes the directory; escapes in the quoted text are not modelled.\<close>

definition writeFile :: "os \<Rightarrow> string \<Rightarrow> string \<Rightarrow> byte list \<Rightarrow> file_system \<Rightarrow> file_system \<times> goerr option" where
  "writeFile os file dir contents fs =
     (case MkdirAll os dir fs of
        (fs, Some err) \<Rightarrow> (fs, Some (Wrapped err (''could not create directory '' @ [CHR 0x22] @ dir @ [CHR 0x22])))
      | (fs, None) \<Rightarrow>
          (case WriteFile os file contents fs of
             (fs, Some err) \<Rightarrow> (fs, Some err)
           | (fs, None) \<Rightarrow> (fs, None)))"

text \<open>
  \<open>copyFile\<close>: the source is opened, then the destination is created, which truncates it, and only
  then the source is read; of an empty source nothing is written. The result is the number of bytes
  beside an error.
\<close>

definition copyFile :: "os \<Rightarrow> string \<Rightarrow> string \<Rightarrow> file_system \<Rightarrow> file_system \<times> (goint \<times> goerr option)" where
  "copyFile os src dstDir fs =
     (let fileName = Base src;
          dst = Join [dstDir, fileName]
      in case resolve os src of
        Inl err \<Rightarrow> (fs, 0, Some err)
      | Inr s \<Rightarrow>
      case (lookup fs s, fault os ''open'' s) of
        (None, _) \<Rightarrow> (fs, 0, Some not_exist)
      | (Some x, Some err) \<Rightarrow> (fs, 0, Some err)
      | (Some x, None) \<Rightarrow>
      case resolve os dst of
        Inl err \<Rightarrow> (fs, 0, Some err)
      | Inr d \<Rightarrow>
      case create_at os d fs of
        (fs, Some err) \<Rightarrow> (fs, 0, Some err)
      | (fs, None) \<Rightarrow>
      case lookup fs s of
        Some (File contents) \<Rightarrow>
          (case (if contents = [] then None else fault os ''write'' d) of
             Some err \<Rightarrow> (fs, 0, Some err)
           | None \<Rightarrow>
          let fs = fs(d \<mapsto> File contents) in
          case fault os ''sync'' d of
             Some err \<Rightarrow> (fs, 0, Some err)
           | None \<Rightarrow> (fs, len contents, None))
      | _ \<Rightarrow> (fs, 0, Some is_dir))"

text \<open>\<open>filepath.Rel\<close> has no error here: both its arguments are absolute.\<close>

definition isSubDir :: "os \<Rightarrow> string \<Rightarrow> string \<Rightarrow> goerr + bool" where
  "isSubDir os src dstDir =
     bind_err (filepath_Abs os src) (\<lambda>absSrc.
     bind_err (filepath_Abs os dstDir) (\<lambda>absDstDir.
     let relativePath = Rel_abs absDstDir absSrc;
         isInside = (take 2 relativePath \<noteq> ''..'' \<and> \<not> IsAbs relativePath)
     in Inr isInside))"

section \<open>Paths\<close>

text \<open>The working directory, when there is one, is an absolute path.\<close>

definition os_ok :: "os \<Rightarrow> bool" where
  "os_ok os \<longleftrightarrow> (\<forall>wd. working_dir os = Inr wd \<longrightarrow> IsAbs wd)"

lemma filepath_Abs_resolve:
  "os_ok os \<Longrightarrow> filepath_Abs os p = map_sum (\<lambda>e. e) of_elems (resolve os p)"
  using Abs_path_eq [where p = p]
  by (cases "working_dir os")
    (auto simp: filepath_Abs_def resolve_def os_ok_def Clean_abs abs_elems_def Abs_path_def)

lemma resolve_plain: "resolve os p = Inr es \<Longrightarrow> list_all plain_elem es"
  using plain_abs_elems by (auto simp: resolve_def bind_err_eq_Inr split: if_splits)

lemma IsAbs_plain: "plain_elem e \<Longrightarrow> \<not> IsAbs (e @ s)"
  by (cases e) (auto simp: plain_elem_def IsAbs_def)

lemma join_head: "es \<noteq> [] \<Longrightarrow> \<exists>s. join ''/'' es = hd es @ s"
  by (cases es rule: list.exhaust; cases "tl es") auto

text \<open>
  \<open>isSubDir\<close> decides whether the directory's elements begin the file's, with one exception: it
  also says no when the next element begins with two dots.
\<close>

lemma isSubDir_iff:
  assumes "os_ok os" "resolve os src = Inr s" "resolve os dstDir = Inr d"
  shows "isSubDir os src dstDir = Inr (\<exists>rest. s = d @ rest \<and> (rest = [] \<or> take 2 (hd rest) \<noteq> ''..''))"
proof -
  have p: "list_all plain_elem s" "list_all plain_elem d"
    using resolve_plain assms(2,3) by blast+
  obtain bs ts where c: "strip_common d s = (bs, ts)" by (cases "strip_common d s")
  have eq: "of_elems s = of_elems d \<longleftrightarrow> s = d" by (rule of_elems_inject [OF p])
  have rel: "Rel_abs (of_elems d) (of_elems s) = (if s = d then ''.'' else join ''/'' (replicate (length bs) ''..'' @ ts))"
    using c by (simp add: Rel_abs_def eq path_elems_of_elems [OF p(1)] path_elems_of_elems [OF p(2)])
  have sub: "isSubDir os src dstDir = Inr (take 2 (Rel_abs (of_elems d) (of_elems s)) \<noteq> ''..'' \<and>
      \<not> IsAbs (Rel_abs (of_elems d) (of_elems s)))"
    by (simp add: isSubDir_def filepath_Abs_resolve [OF assms(1)] assms(2,3) Let_def)
  show ?thesis
  proof (cases "\<exists>rest. s = d @ rest")
    case True
    then obtain rest where s: "s = d @ rest" by blast
    with c have r: "bs = []" "ts = rest" by (simp_all add: strip_common_append)
    show ?thesis
    proof (cases rest)
      case Nil
      with s rel show ?thesis by (simp add: sub IsAbs_def)
    next
      case (Cons e es)
      with p(1) s have e: "plain_elem e" by simp
      obtain t where t: "join ''/'' rest = e @ t" using join_head [of rest] Cons by auto
      have abs: "\<not> IsAbs (join ''/'' rest)" using IsAbs_plain [OF e] t by simp
      have tk: "take 2 (e @ t) = ''..'' \<longleftrightarrow> take 2 e = ''..''" if "t = [] \<or> hd t = CHR ''/''"
        using that e by (cases e; cases "tl e"; cases t) (auto simp: plain_elem_def numeral_2_eq_2)
      have "t = [] \<or> hd t = CHR ''/''"
        using t Cons by (cases es) auto
      then show ?thesis using s Cons rel r abs tk t by (simp add: sub)
    qed
  next
    case False
    then have "bs \<noteq> []" using strip_common_Nil [of d s] c by auto
    then obtain n where n: "length bs = Suc n" by (cases bs) auto
    from False have "s \<noteq> d" by auto
    then have "\<exists>t. Rel_abs (of_elems d) (of_elems s) = ''..'' @ t"
      using rel n join_head [of "''..'' # replicate n ''..'' @ ts"] by simp
    then show ?thesis using False by (auto simp: sub)
  qed
qed

section \<open>Joined paths\<close>

text \<open>Cleaning a relative path first changes nothing about where it leads.\<close>

lemma clean_elems_absorb:
  "fold (clean_step True) (clean_elems False es) acc = fold (clean_step True) es acc"
proof (induction es rule: rev_induct)
  case (snoc e es)
  obtain A where A: "fold (clean_step False) es [] = A" by simp
  with snoc have IH: "fold (clean_step True) (rev A) acc = fold (clean_step True) es acc"
    by (simp add: clean_elems_def)
  show ?case
  proof (cases "e = ''..'' \<and> A \<noteq> [] \<and> hd A \<noteq> ''..''")
    case True
    then obtain a A' where a: "A = a # A'" "a \<noteq> ''..''" "e = ''..''" by (cases A) auto
    with IH have "fold (clean_step True) es acc = a # fold (clean_step True) (rev A') acc"
      by (simp add: clean_step_def)
    moreover have "clean_step False e (a # A') = A'" "clean_step True e (a # X) = X" for X
      using a by (simp_all add: clean_step_def)
    ultimately show ?thesis using a(1) A by (simp add: clean_elems_def)
  next
    case False
    then have "clean_step False e A = e # A" by (cases A) (auto simp: clean_step_def)
    with IH A show ?thesis by (simp add: clean_elems_def)
  qed
qed (simp add: clean_elems_def)

lemma concat_path_elems_id:
  "(\<And>e. e \<in> set es \<Longrightarrow> CHR ''/'' \<notin> set e \<and> e \<noteq> '''' \<and> e \<noteq> ''.'') \<Longrightarrow> concat (map path_elems es) = es"
  by (induction es) (auto simp: path_elems_def split_at_other)

lemma clean_elems_relative:
  assumes "e \<in> set (clean_elems False es)"
  shows "e \<in> set es"
proof -
  have step: "set (clean_step False e acc) \<subseteq> insert e (set acc)" for e acc
    by (cases acc) (auto simp: clean_step_def)
  have "set (fold (clean_step False) es acc) \<subseteq> set es \<union> set acc" for acc
    using step by (induction es arbitrary: acc) fastforce+
  from this [of "[]"] assms show ?thesis by (auto simp: clean_elems_def)
qed

lemma path_elems_Clean_relative:
  assumes "\<not> IsAbs p"
  shows "path_elems (Clean p) = clean_elems False (path_elems p)" "\<not> IsAbs (Clean p)"
proof -
  let ?es = "clean_elems False (path_elems p)"
  have e: "CHR ''/'' \<notin> set e \<and> e \<noteq> '''' \<and> e \<noteq> ''.''" if "e \<in> set ?es" for e
    using clean_elems_relative [OF that] by (rule path_elems_no_sep)
  have c: "Clean p = (if ?es = [] then ''.'' else join ''/'' ?es)"
    using assms by (simp add: Clean_def split: list.split)
  show "path_elems (Clean p) = ?es"
  proof (cases "?es = []")
    case False
    then have "path_elems (Clean p) = concat (map path_elems ?es)" by (simp only: c path_elems_join if_False)
    also have "\<dots> = ?es" using e by (rule concat_path_elems_id)
    finally show ?thesis .
  qed (simp add: c path_elems_def)
  show "\<not> IsAbs (Clean p)"
  proof (cases ?es)
    case (Cons x xs)
    then obtain t where "join ''/'' ?es = x @ t" using join_head [of ?es] by auto
    moreover obtain ch x' where "x = ch # x'" "ch \<noteq> CHR ''/''"
      using e [of x] Cons by (cases x) auto
    ultimately show ?thesis using c Cons by (simp add: IsAbs_def)
  qed (simp add: c IsAbs_def)
qed

lemma resolve_Clean: "resolve os (Clean p) = resolve os p"
proof (cases "IsAbs p")
  case True
  have "clean_elems True (clean_elems True (path_elems p)) = clean_elems True (path_elems p)"
    using clean_elems_append_plains [OF plain_clean_elems [of p], of True "[]"] by (simp add: clean_elems_def)
  with True show ?thesis
    by (simp add: resolve_def Clean_abs abs_elems_def path_elems_of_elems plain_clean_elems)
next
  case False
  then show ?thesis
    by (simp add: resolve_def abs_elems_def path_elems_Clean_relative clean_elems_def [of True]
        clean_elems_absorb)
qed

text \<open>Plain elements joined to a path come after its elements.\<close>

lemma resolve_join:
  assumes "p \<noteq> ''''"
  shows "resolve os (Join (p # qs)) = resolve os (join ''/'' (p # qs))"
    and "resolve os p = Inr es \<Longrightarrow> list_all plain_elem qs \<Longrightarrow> resolve os (Join (p # qs)) = Inr (es @ qs)"
proof -
  show j: "resolve os (Join (p # qs)) = resolve os (join ''/'' (p # qs))"
    using assms by (simp add: Join_def resolve_Clean)
  have abs: "IsAbs (join ''/'' (p # qs)) = IsAbs p"
    using join_head [of "p # qs"] assms by (cases p) (auto simp: IsAbs_def)
  have e: "path_elems (join ''/'' (p # qs)) = path_elems p @ qs" if "list_all plain_elem qs"
    using path_elems_join [of "p # qs"] concat_path_elems [OF that] by simp
  show "resolve os (Join (p # qs)) = Inr (es @ qs)" if "resolve os p = Inr es" "list_all plain_elem qs"
    using that unfolding j
    by (auto simp: resolve_def abs abs_elems_def e bind_err_eq_Inr clean_elems_append_plains append.assoc [symmetric]
        split: if_splits simp del: append_assoc)
qed

lemma path_elems_join_plain:
  "plain_elem b \<Longrightarrow> path_elems (join ''/'' (ps @ [b])) = concat (map path_elems ps) @ [b]"
  by (simp add: path_elems_join path_elems_plain)

lemma Base_join:
  assumes "\<And>e. e \<in> set es \<Longrightarrow> CHR ''/'' \<notin> set e \<and> e \<noteq> '''' \<and> e \<noteq> ''.''" "es \<noteq> []"
  shows "Base (join ''/'' es) = last es" "Base (CHR ''/'' # join ''/'' es) = last es"
proof -
  have "split_at CHR ''/'' (join ''/'' es) = es"
    using assms by (intro split_at_join) (auto simp: list_all_iff)
  moreover have "filter (\<lambda>e. e \<noteq> '''') es = es" using assms(1) by (intro filter_True) auto
  moreover obtain e es' where "es = e # es'" using assms(2) by (cases es) auto
  moreover obtain t where "join ''/'' es = hd es @ t" using join_head [OF assms(2)] by blast
  ultimately show "Base (join ''/'' es) = last es" "Base (CHR ''/'' # join ''/'' es) = last es"
    using assms(1) [of e] by (auto simp: Base_def)
qed

text \<open>The last element of a joined path is the last one joined, when that is plain.\<close>

lemma Base_Join:
  assumes "p \<noteq> ''''" "plain_elem b"
  shows "Base (Join (p # qs @ [b])) = b"
proof -
  let ?j = "join ''/'' (p # qs @ [b])"
  have e: "path_elems ?j = concat (map path_elems (p # qs)) @ [b]"
    using path_elems_join_plain [OF assms(2), of "p # qs"] by simp
  have c: "clean_elems r (path_elems ?j) = clean_elems r (concat (map path_elems (p # qs))) @ [b]" for r
    unfolding e by (rule clean_elems_append_plain) (use assms(2) in \<open>simp add: plain_elem_def\<close>)
  have plain: "CHR ''/'' \<notin> set x \<and> x \<noteq> '''' \<and> x \<noteq> ''.''" if "x \<in> set (clean_elems r (path_elems ?j))" for x r
  proof -
    have "x \<in> set (path_elems ?j)"
      using that clean_elems_relative [of x "path_elems ?j"] clean_elems_subset [of "path_elems ?j"]
      by (cases r) auto
    then show ?thesis by (rule path_elems_no_sep)
  qed
  have "Join (p # qs @ [b]) = Clean ?j" using assms(1) by (simp add: Join_def)
  moreover have "Base (Clean ?j) = b"
  proof (cases "IsAbs ?j")
    case True
    then show ?thesis
      using Base_join(2) [of "clean_elems True (path_elems ?j)"] plain [of _ True] c [of True]
      by (simp add: Clean_def del: join.simps)
  next
    case False
    have "clean_elems False (path_elems ?j) \<noteq> []" using c [of False] by simp
    with False have "Clean ?j = join ''/'' (clean_elems False (path_elems ?j))"
      by (simp add: Clean_def split: list.split del: join.simps)
    then show ?thesis
      using Base_join(1) [of "clean_elems False (path_elems ?j)"] plain [of _ False] c [of False]
      by (simp del: join.simps)
  qed
  ultimately show ?thesis by simp
qed

section \<open>Effects of the helpers\<close>

lemma create_at_ok:
  "create_at os es fs = (fs', None) \<Longrightarrow> fs' = fs(es \<mapsto> File []) \<and> es \<noteq> [] \<and> lookup fs es \<noteq> Some Dir"
  by (auto simp: create_at_def lookup_def split: if_splits option.splits fs_entry.splits)

lemma write_at_ok: "write_at os es c fs = (fs', None) \<Longrightarrow> fs' = fs(es \<mapsto> File c)"
  by (auto simp: write_at_def split: prod.splits option.splits dest!: create_at_ok)

text \<open>A copy to another place copies the contents; a copy to itself empties the file.\<close>

lemma copyFile_ok:
  assumes "copyFile os src dstDir fs = (fs', n, None)"
    and "resolve os src = Inr s" "resolve os (Join [dstDir, Base src]) = Inr d"
  shows "s \<noteq> d \<Longrightarrow> \<exists>c. lookup fs s = Some (File c) \<and> fs' = fs(d \<mapsto> File c) \<and> n = len c"
    and "s = d \<Longrightarrow> fs' = fs(d \<mapsto> File [])"
proof -
  obtain fs1 x where x: "lookup fs s = Some x" "create_at os d fs = (fs1, None)"
    using assms by (auto simp: copyFile_def Let_def split: option.splits prod.splits)
  from create_at_ok [OF x(2)] have fs1: "fs1 = fs(d \<mapsto> File [])" "d \<noteq> []" by auto
  from assms x obtain c where c: "lookup fs1 s = Some (File c)" "fs' = fs1(d \<mapsto> File c)" "n = len c"
    by (auto simp: copyFile_def Let_def split: option.splits fs_entry.splits)
  show "s \<noteq> d \<Longrightarrow> \<exists>c. lookup fs s = Some (File c) \<and> fs' = fs(d \<mapsto> File c) \<and> n = len c"
    using c fs1 by (auto simp: lookup_def split: if_splits)
  show "s = d \<Longrightarrow> fs' = fs(d \<mapsto> File [])" using c fs1 by (simp add: lookup_def)
qed

end
