(* ===== verification/Multi_Node_Files.thy ===== *)
theory Multi_Node_Files
  imports File_System Multi_Node
begin

text \<open>
  \<open>initTestnetFiles\<close>, \<open>initGenFiles\<close> and \<open>collectGenFiles\<close> of \<open>testnet_multi_node.go\<close>: the loops
  that set up the nodes' directories, keys, genesis transactions and configurations, distribute
  the transactions among the nodes and write one genesis for all of them. The state is the
  machine: its files and whatever else the SDK's calls change. The SDK's and CometBFT's calls are
  arguments; their values (keys, keyrings, messages, transactions, accounts) have one type \<open>'v\<close>.
\<close>

section \<open>The machine and the configurations\<close>

record 'e machine =
  files :: file_system
  others :: 'e

text \<open>The fields of CometBFT's configuration the code sets, and the others.\<close>

record 'rest node_cfg =
  RootDir :: string
  Moniker :: string
  Addresses :: node_addresses
  PersistentPeers :: string
  AllowDuplicateIP :: bool
  Prometheus :: bool
  cfg_rest :: 'rest

text \<open>
  Those of the application's. \<open>MinGasPrices\<close> is a field of the embedded \<open>BaseConfig\<close>, so
  \<open>appConfig.MinGasPrices\<close> and \<open>appConfig.BaseConfig.MinGasPrices\<close> are one field.
\<close>

record 'arest app_cfg =
  MinGasPrices :: string
  API_Enable :: bool
  EnableHostnameLabel :: bool
  Telemetry_Enabled :: bool
  PrometheusRetentionTime :: goint
  AppAddresses :: app_addresses
  app_rest :: 'arest

definition init_app_cfg :: "string \<Rightarrow> 'coin initArgs \<Rightarrow> 'arest app_cfg \<Rightarrow> 'arest app_cfg" where
  "init_app_cfg bondDenom args appConfig =
     (let appConfig = appConfig\<lparr>MinGasPrices := a_minGasPrices args\<rparr>;
          appConfig = appConfig\<lparr>API_Enable := False\<rparr>;
          appConfig = appConfig\<lparr>MinGasPrices := ''0.0001'' @ bondDenom\<rparr>
      in appConfig\<lparr>EnableHostnameLabel := False, Telemetry_Enabled := False, PrometheusRetentionTime := 0\<rparr>)"

record 'coin balance =
  balance_Address :: string
  balance_Coins :: "'coin list"

record ('coin, 'v) bank_genesis =
  Balances :: "'coin balance list"
  Supply :: "'coin list"
  bank_rest :: 'v

record genesis_doc =
  doc_ChainID :: string
  doc_AppState :: "byte list"

section \<open>The calls of other packages\<close>

text \<open>
  \<open>GenAppStateFromConfig\<close> gets pointers to the configuration and returns it changed.
  \<open>WriteAppConfig\<close> and \<open>WriteCmtConfig\<close> panic when the file cannot be written, with the error
  given here. \<open>Intn\<close> is the seeded source of random numbers: the value of its \<open>i\<close>-th call.
\<close>

record ('e, 'coin, 'v, 'rest, 'arest) node_ops =
  DefaultAppConfig :: "'arest app_cfg"
  DefaultBondDenom :: string
  Intn :: "nat \<Rightarrow> goint \<Rightarrow> goint"
  GenesisFile :: "'rest node_cfg \<Rightarrow> string"
  InitializeNodeValidatorFiles :: "'e machine \<Rightarrow> 'rest node_cfg \<Rightarrow> 'e machine \<times> (goerr + string \<times> 'v)"
  keyring_New :: "'e machine \<Rightarrow> string \<Rightarrow> string \<Rightarrow> 'e machine \<times> (goerr + 'v)"
  SupportedAlgorithms :: "'v \<Rightarrow> 'v"
  NewSigningAlgoFromString :: "string \<Rightarrow> 'v \<Rightarrow> goerr + 'v"
  GenerateSaveCoinKey :: "'e machine \<Rightarrow> 'v \<Rightarrow> string \<Rightarrow> 'v \<Rightarrow> 'e machine \<times> (goerr + 'v \<times> string)"
  json_Marshal :: "(string \<times> string) list \<Rightarrow> goerr + byte list"
  TokensFromConsensusPower :: "int \<Rightarrow> int"
  Coin_New :: "string \<Rightarrow> int \<Rightarrow> goerr + 'coin"
  Coins_Sort :: "'coin list \<Rightarrow> 'coin list"
  Coins_Add :: "'coin list \<Rightarrow> 'coin list \<Rightarrow> 'coin list"
  AccAddress_String :: "'v \<Rightarrow> string"
  ValAddress_String :: "'v \<Rightarrow> string"
  NewBaseAccount :: "'v \<Rightarrow> 'v"
  NewMsgCreateValidator :: "string \<Rightarrow> 'v \<Rightarrow> 'coin \<Rightarrow> string \<Rightarrow> goerr + 'v"
  SetMsgs :: "'v \<Rightarrow> goerr + 'v"
  SetMemo :: "'v \<Rightarrow> string \<Rightarrow> 'v"
  tx_Sign :: "'e machine \<Rightarrow> string \<Rightarrow> string \<Rightarrow> 'v \<Rightarrow> string \<Rightarrow> 'v \<Rightarrow> 'e machine \<times> (goerr + 'v)"
  TxJSONEncoder :: "'v \<Rightarrow> goerr + byte list"
  WriteAppConfig :: "'e machine \<Rightarrow> string \<Rightarrow> 'arest app_cfg \<Rightarrow> 'e machine \<times> goerr option"
  BasicDefaultGenesis :: "string \<rightharpoonup> byte list"
  auth_UnmarshalJSON :: "byte list \<Rightarrow> goerr + 'v"
  auth_SetAccounts :: "'v \<Rightarrow> 'v \<Rightarrow> 'v"
  auth_MarshalJSON :: "'v \<Rightarrow> goerr + byte list"
  PackAccounts :: "'v list \<Rightarrow> goerr + 'v"
  bank_UnmarshalJSON :: "byte list \<Rightarrow> goerr + ('coin, 'v) bank_genesis"
  bank_MarshalJSON :: "('coin, 'v) bank_genesis \<Rightarrow> goerr + byte list"
  SanitizeGenesisBalances :: "'coin balance list \<Rightarrow> 'coin balance list"
  json_MarshalIndent :: "(string \<rightharpoonup> byte list) \<Rightarrow> goerr + byte list"
  SaveAs :: "'e machine \<Rightarrow> genesis_doc \<Rightarrow> string \<Rightarrow> 'e machine \<times> goerr option"
  Now :: 'v
  AppGenesisFromFile :: "'e machine \<Rightarrow> string \<Rightarrow> goerr + 'v"
  GenAppStateFromConfig :: "'e machine \<Rightarrow> 'rest node_cfg \<Rightarrow> string \<times> string \<times> string \<times> 'v \<Rightarrow> 'v
    \<Rightarrow> 'e machine \<times> 'rest node_cfg \<times> (goerr + byte list)"
  WriteCmtConfig :: "'e machine \<Rightarrow> string \<Rightarrow> 'rest node_cfg \<Rightarrow> 'e machine \<times> goerr option"
  ExportGenesisFileWithTime :: "'e machine \<Rightarrow> string \<Rightarrow> string \<Rightarrow> byte list \<Rightarrow> 'v \<Rightarrow> 'e machine \<times> goerr option"

section \<open>Plumbing\<close>

text \<open>
  The state of the loops: what they have collected, beside the machine. \<open>call\<close> is
  \<open>if err != nil { return err }\<close> after a call on the machine, \<open>call_or_panic\<close> after one that
  panics itself, \<open>call_or_clean\<close> removes the output directory first, ignoring that call's error.
\<close>

definition on_files :: "'e machine \<Rightarrow> (file_system \<Rightarrow> file_system \<times> 'x) \<Rightarrow> 'e machine \<times> 'x" where
  "on_files h f = (h\<lparr>files := fst (f (files h))\<rparr>, snd (f (files h)))"

definition err_sum :: "goerr option \<Rightarrow> goerr + unit" where
  "err_sum e = (case e of None \<Rightarrow> Inr () | Some err \<Rightarrow> Inl err)"

definition call :: "'a \<Rightarrow> 'h \<times> (goerr + 'x) \<Rightarrow> ('a \<times> 'h) \<times> 'x outcome" where
  "call acc r = ((acc, fst r), to_outcome (snd r))"

definition call_or_panic :: "'a \<Rightarrow> 'h \<times> goerr option \<Rightarrow> ('a \<times> 'h) \<times> unit outcome" where
  "call_or_panic acc r = ((acc, fst r), snd (must_do ((), snd r)))"

definition call_or_clean ::
    "os \<Rightarrow> string \<Rightarrow> 'a \<Rightarrow> 'e machine \<times> (goerr + 'x) \<Rightarrow> ('a \<times> 'e machine) \<times> 'x outcome" where
  "call_or_clean os outputDir acc r =
     (case r of
        (h, Inl err) \<Rightarrow> ((acc, fst (on_files h (RemoveAll os outputDir))), Fail err)
      | (h, Inr x) \<Rightarrow> ((acc, h), Return x))"

section \<open>The node's files\<close>

definition charset :: string where
  "charset = ''abcdefghijklmnopqrstuvwxyz0123456789''"

definition generateRandomString :: "(nat \<Rightarrow> goint \<Rightarrow> goint) \<Rightarrow> nat \<Rightarrow> string" where
  "generateRandomString intn n = map (\<lambda>i. charset ! nat (intn i (len charset))) [0..<n]"

record ('coin, 'v, 'rest, 'arest) init_acc =
  nodeIDs :: "string list"
  valPubKeys :: "'v option list"
  nodeConfig :: "'rest node_cfg"
  appConfig :: "'arest app_cfg"
  genAccounts :: "'v list"
  genBalances :: "'coin balance list"
  genFiles :: "string list"
  peers :: string
  gentxsFiles :: "string list"

definition nodeDir :: "'coin initArgs \<Rightarrow> goint \<Rightarrow> string" where
  "nodeDir args i = Join [a_outputDir args, nodeDirName args i]"

definition gentxsDir :: "'coin initArgs \<Rightarrow> goint \<Rightarrow> string" where
  "gentxsDir args i = Join [a_outputDir args, nodeDirName args i, ''config'', ''gentx'']"

text \<open>The account's coins: both constructors may panic.\<close>

definition account_coins :: "('e, 'coin, 'v, 'rest, 'arest) node_ops \<Rightarrow> goerr + 'coin list" where
  "account_coins ops =
     bind_err (Coin_New ops ''testtoken'' (TokensFromConsensusPower ops 1000)) (\<lambda>tokens.
     bind_err (Coin_New ops (DefaultBondDenom ops) (TokensFromConsensusPower ops 500)) (\<lambda>stake.
     Inr (Coins_Sort ops [tokens, stake])))"

text \<open>
  The default stake is made only when none was given, and may panic. \<open>valTokens\<close> reads the map.
\<close>

definition node_stake ::
    "('e, 'coin, 'v, 'rest, 'arest) node_ops \<Rightarrow> 'coin initArgs \<Rightarrow> goint \<Rightarrow> goerr + 'coin" where
  "node_stake ops args i =
     (case a_validatorsStakesAmount args i of
        Some c \<Rightarrow> Inr c
      | None \<Rightarrow> map_sum (\<lambda>e. e) (\<lambda>c. valTokens c args i)
          (Coin_New ops (DefaultBondDenom ops) (TokensFromConsensusPower ops 100)))"

text \<open>The signed creation transaction of a node's validator, as JSON.\<close>

definition node_gentx ::
    "('e, 'coin, 'v, 'rest, 'arest) node_ops \<Rightarrow> string \<Rightarrow> string \<Rightarrow> 'v \<Rightarrow> string \<Rightarrow> 'v \<Rightarrow> 'v \<Rightarrow> 'coin
     \<Rightarrow> 'a \<Rightarrow> 'e machine \<Rightarrow> ('a \<times> 'e machine) \<times> byte list outcome" where
  "node_gentx ops chainID m kb name addr pk stake acc h =
     after (call acc (h, NewMsgCreateValidator ops (ValAddress_String ops addr) pk stake name)) (\<lambda>(acc, h) msg.
     after (call acc (h, SetMsgs ops msg)) (\<lambda>(acc, h) txBuilder.
     after (call acc (tx_Sign ops h chainID m kb name (SetMemo ops txBuilder m))) (\<lambda>(acc, h) signed.
     call acc (h, TxJSONEncoder ops signed))))"

definition init_node ::
    "os \<Rightarrow> ('e, 'coin, 'v, 'rest, 'arest) node_ops \<Rightarrow> 'coin initArgs \<Rightarrow> nat
     \<Rightarrow> ('coin, 'v, 'rest, 'arest) init_acc \<times> 'e machine
     \<Rightarrow> (('coin, 'v, 'rest, 'arest) init_acc \<times> 'e machine) \<times> unit outcome" where
  "init_node os ops args j = (\<lambda>(acc, h).
     let i = int j;
         name = nodeDirName args i;
         dir = nodeDir args i;
         cfg = (nodeConfig acc)\<lparr>RootDir := dir, Moniker := name,
           Addresses := (Addresses (nodeConfig acc))\<lparr>RPC_ListenAddress := ''tcp://0.0.0.0:'' @ port_of args i\<rparr>\<rparr>;
         acc = acc\<lparr>nodeConfig := cfg\<rparr> in
     after (call_or_clean os (a_outputDir args) acc
       (apsnd err_sum (on_files h (MkdirAll os (Join [dir, ''config'']))))) (\<lambda>(acc, h) _.
     after (call_or_clean os (a_outputDir args) acc (InitializeNodeValidatorFiles ops h cfg)) (\<lambda>(acc, h) (nodeID, pk).
     let m = memo args (\<lambda>_. nodeID) i;
         acc = acc\<lparr>nodeIDs := (nodeIDs acc)[j := nodeID], valPubKeys := (valPubKeys acc)[j := Some pk],
           peers := (if peers acc = '''' then m else peers acc @ '','' @ m),
           genFiles := genFiles acc @ [GenesisFile ops cfg]\<rparr> in
     after (call acc (keyring_New ops h (a_keyringBackend args) dir)) (\<lambda>(acc, h) kb.
     after (call acc (h, NewSigningAlgoFromString ops (a_algo args) (SupportedAlgorithms ops kb))) (\<lambda>(acc, h) algo.
     after (call_or_clean os (a_outputDir args) acc (GenerateSaveCoinKey ops h kb name algo)) (\<lambda>(acc, h) (addr, secret).
     after (call acc (h, json_Marshal ops [(''secret'', secret)])) (\<lambda>(acc, h) cliPrint.
     after (call acc (apsnd err_sum (on_files h
       (writeFile os (Join [dir, ''key_seed.json'']) dir cliPrint)))) (\<lambda>(acc, h) _.
     after (must (acc, h) (account_coins ops)) (\<lambda>(acc, h) coins.
     let acc = acc\<lparr>genBalances := genBalances acc @
             [\<lparr>balance_Address = AccAddress_String ops addr, balance_Coins = coins\<rparr>],
           genAccounts := genAccounts acc @ [NewBaseAccount ops addr]\<rparr> in
     after (must (acc, h) (node_stake ops args i)) (\<lambda>(acc, h) stake.
     after (node_gentx ops (a_chainID args) m kb name addr pk stake acc h) (\<lambda>(acc, h) txBz.
     let file = Join [gentxsDir args i, ''gentx-'' @ nodeID @ ''.json''];
         acc = acc\<lparr>gentxsFiles := gentxsFiles acc @ [file]\<rparr> in
     after (call acc (apsnd err_sum (on_files h (writeFile os file (gentxsDir args i) txBz)))) (\<lambda>(acc, h) _.
     let appCfg = (appConfig acc)\<lparr>AppAddresses := node_app_config args i\<rparr>;
         acc = acc\<lparr>appConfig := appCfg\<rparr> in
     call_or_panic acc (WriteAppConfig ops h (Join [dir, ''config'', ''app.toml'']) appCfg)))))))))))))"

section \<open>The genesis files\<close>

text \<open>Looking a module up in the map gives nothing, an empty slice, when it is not there.\<close>

definition raw_state :: "(string \<rightharpoonup> byte list) \<Rightarrow> string \<Rightarrow> byte list" where
  "raw_state m k = (case m k of Some bz \<Rightarrow> bz | None \<Rightarrow> [])"

definition total_supply_of :: "('e, 'coin, 'v, 'rest, 'arest) node_ops \<Rightarrow> ('coin, 'v) bank_genesis \<Rightarrow> ('coin, 'v) bank_genesis" where
  "total_supply_of ops bank =
     fold (\<lambda>bal b. b\<lparr>Supply := Coins_Add ops (Supply b) (balance_Coins bal)\<rparr>) (Balances bank) bank"

definition initGenFiles ::
    "('e, 'coin, 'v, 'rest, 'arest) node_ops \<Rightarrow> string \<Rightarrow> string \<Rightarrow> string \<Rightarrow> 'v list \<Rightarrow> 'coin balance list
     \<Rightarrow> string list \<Rightarrow> goint \<Rightarrow> 'e machine \<Rightarrow> 'e machine \<times> unit outcome" where
  "initGenFiles ops authName bankName chainID accounts balances docs numValidators h =
     (let appGenState = BasicDefaultGenesis ops in
      after (must h (auth_UnmarshalJSON ops (raw_state appGenState authName))) (\<lambda>h authGenState.
      after (check h (PackAccounts ops accounts)) (\<lambda>h packed.
      after (must h (auth_MarshalJSON ops (auth_SetAccounts ops authGenState packed))) (\<lambda>h authJSON.
      let appGenState = appGenState(authName \<mapsto> authJSON) in
      after (must h (bank_UnmarshalJSON ops (raw_state appGenState bankName))) (\<lambda>h bankGenState.
      let bankGenState = total_supply_of ops (bankGenState\<lparr>Balances := SanitizeGenesisBalances ops balances\<rparr>) in
      after (must h (bank_MarshalJSON ops bankGenState)) (\<lambda>h bankJSON.
      let appGenState = appGenState(bankName \<mapsto> bankJSON) in
      after (check h (json_MarshalIndent ops appGenState)) (\<lambda>h appGenStateJSON.
      for_each (\<lambda>i h. check_do (SaveAs ops h \<lparr>doc_ChainID = chainID, doc_AppState = appGenStateJSON\<rparr> (docs ! i)))
        [0..<nat numValidators] h)))))))"

section \<open>Distributing the transactions\<close>

definition copy_gentx :: "os \<Rightarrow> 'coin initArgs \<Rightarrow> nat \<Rightarrow> string \<Rightarrow> file_system \<Rightarrow> file_system \<times> unit outcome" where
  "copy_gentx os args j file fs =
     (let i = int j;
          gentxs = Join [nodeDir args i, ''config'', ''gentx'']
      in case isSubDir os file gentxs of
        Inl err \<Rightarrow> (fs, Return ())
      | Inr yes \<Rightarrow>
          if yes then (fs, Return ())
          else check_do (apsnd snd (copyFile os file gentxs fs)))"

definition copy_gentxs :: "os \<Rightarrow> 'coin initArgs \<Rightarrow> string list \<Rightarrow> file_system \<Rightarrow> file_system \<times> unit outcome" where
  "copy_gentxs os args gentxs =
     for_each (\<lambda>i. for_each (copy_gentx os args i) gentxs) [0..<nat (a_numValidators args)]"

section \<open>Collecting\<close>

definition collect_cfg :: "'coin initArgs \<Rightarrow> goint \<Rightarrow> string \<Rightarrow> 'rest node_cfg \<Rightarrow> 'rest node_cfg" where
  "collect_cfg args i plist cfg =
     cfg\<lparr>PersistentPeers := plist, AllowDuplicateIP := True, Addresses := node_config args i, Prometheus := True\<rparr>"

text \<open>
  One node. The loop carries the configuration and the canonical application state, the one of
  the first node.
\<close>

definition collect_node ::
    "('e, 'coin, 'v, 'rest, 'arest) node_ops \<Rightarrow> 'coin initArgs \<Rightarrow> string list \<Rightarrow> 'v list \<Rightarrow> string \<Rightarrow> 'v \<Rightarrow> nat
     \<Rightarrow> ('rest node_cfg \<times> byte list option) \<times> 'e machine
     \<Rightarrow> (('rest node_cfg \<times> byte list option) \<times> 'e machine) \<times> unit outcome" where
  "collect_node ops args ids pks plist genTime j = (\<lambda>((cfg, appState), h).
     let i = int j;
         name = nodeDirName args i;
         dir = nodeDir args i;
         gentxs = Join [dir, ''config'', ''gentx''];
         cfg = cfg\<lparr>Moniker := name, RootDir := dir\<rparr>;
         initCfg = (a_chainID args, gentxs, ids ! j, pks ! j) in
     after (call (cfg, appState) (h, AppGenesisFromFile ops h (GenesisFile ops cfg))) (\<lambda>((cfg, appState), h) appGenesis.
     case GenAppStateFromConfig ops h cfg initCfg appGenesis of (h, cfg, r) \<Rightarrow>
     after (call (cfg, appState) (h, r)) (\<lambda>((cfg, appState), h) nodeAppState.
     let cfg = collect_cfg args i plist cfg in
     after (call_or_panic (cfg, appState) (WriteCmtConfig ops h (Join [RootDir cfg, ''config'', ''config.toml'']) cfg))
       (\<lambda>((cfg, appState), h) _.
     let state = (case appState of None \<Rightarrow> nodeAppState | Some st \<Rightarrow> st) in
     call (cfg, Some state)
       (apsnd err_sum (ExportGenesisFileWithTime ops h (GenesisFile ops cfg) (a_chainID args) state genTime))))))"

definition collectGenFiles ::
    "('e, 'coin, 'v, 'rest, 'arest) node_ops \<Rightarrow> 'coin initArgs \<Rightarrow> 'rest node_cfg \<Rightarrow> string list \<Rightarrow> 'v list \<Rightarrow> string
     \<Rightarrow> 'e machine \<Rightarrow> (('rest node_cfg \<times> byte list option) \<times> 'e machine) \<times> unit outcome" where
  "collectGenFiles ops args cfg ids pks plist h =
     for_each (collect_node ops args ids pks plist (Now ops))
       [0..<nat (a_numValidators args)] ((cfg, None), h)"

section \<open>The command\<close>

definition with_chain_id :: "('e, 'coin, 'v, 'rest, 'arest) node_ops \<Rightarrow> 'coin initArgs \<Rightarrow> 'coin initArgs" where
  "with_chain_id ops args =
     (if a_chainID args = '''' then args\<lparr>a_chainID := ''chain-'' @ generateRandomString (Intn ops) 6\<rparr> else args)"

definition init_acc_zero ::
    "('e, 'coin, 'v, 'rest, 'arest) node_ops \<Rightarrow> 'coin initArgs \<Rightarrow> 'rest node_cfg
     \<Rightarrow> ('coin, 'v, 'rest, 'arest) init_acc" where
  "init_acc_zero ops args cfg =
     \<lparr>nodeIDs = replicate (nat (a_numValidators args)) '''', valPubKeys = replicate (nat (a_numValidators args)) None,
      nodeConfig = cfg, appConfig = init_app_cfg (DefaultBondDenom ops) args (DefaultAppConfig ops),
      genAccounts = [], genBalances = [], genFiles = [], peers = '''', gentxsFiles = []\<rparr>"

text \<open>What follows the loop over the nodes, with what the loop has collected.\<close>

definition finish_testnet ::
    "os \<Rightarrow> ('e, 'coin, 'v, 'rest, 'arest) node_ops \<Rightarrow> string \<Rightarrow> string \<Rightarrow> 'coin initArgs
     \<Rightarrow> ('coin, 'v, 'rest, 'arest) init_acc \<Rightarrow> 'e machine \<Rightarrow> 'e machine \<times> unit outcome" where
  "finish_testnet os ops authName bankName args acc h =
     after (initGenFiles ops authName bankName (a_chainID args) (genAccounts acc) (genBalances acc)
       (genFiles acc) (a_numValidators args) h) (\<lambda>h _.
     after (on_files h (copy_gentxs os args (gentxsFiles acc))) (\<lambda>h _.
     apfst snd (collectGenFiles ops args (nodeConfig acc) (nodeIDs acc) (map the (valPubKeys acc)) (peers acc) h)))"

text \<open>\<open>make\<close> panics on a negative length.\<close>

definition initTestnetFiles ::
    "os \<Rightarrow> ('e, 'coin, 'v, 'rest, 'arest) node_ops \<Rightarrow> string \<Rightarrow> string \<Rightarrow> 'rest node_cfg \<Rightarrow> 'coin initArgs
     \<Rightarrow> 'e machine \<Rightarrow> 'e machine \<times> unit outcome" where
  "initTestnetFiles os ops authName bankName cfg args h =
     (let args = with_chain_id ops args in
      if a_numValidators args < 0 then (h, Panic (Msg ''runtime error: makeslice: len out of range''))
      else
      case for_each (init_node os ops args) [0..<nat (a_numValidators args)] (init_acc_zero ops args cfg, h) of
        ((acc, h), Fail err) \<Rightarrow> (h, Fail err)
      | ((acc, h), Panic p) \<Rightarrow> (h, Panic p)
      | ((acc, h), Return _) \<Rightarrow> finish_testnet os ops authName bankName args acc h)"

end
