(* ===== verification/Export.thy ===== *)
theory Export
  imports Loops
begin

text \<open>
  \<open>app/export.go\<close>: the export of the application's state for a genesis file, and its preparation
  for a start at height zero, which withdraws rewards and rewrites the records of the distribution,
  staking and slashing modules. The command that calls it is in \<open>Commands\<close>.
  The keepers of the SDK are arguments. A \<open>panic\<close> is the outcome \<open>Panic\<close>.
\<close>

section \<open>The records the code changes\<close>

text \<open>
  Only the fields the code reads or writes are named; the others are one field of the record.
\<close>

record 'v validator =
  OperatorAddress :: string
  UnbondingHeight :: goint
  Jailed :: bool
  validator_rest :: 'v

record delegation =
  DelegatorAddress :: string
  ValidatorAddress :: string

record 'e entry =
  CreationHeight :: goint
  entry_rest :: 'e

text \<open>A redelegation or an unbonding delegation: its entries, and what identifies it.\<close>

record ('k, 'e) unbonding =
  unbonding_key :: 'k
  Entries :: "'e entry list"

record 'i signing_info =
  StartHeight :: goint
  info_rest :: 'i

record 'd fee_pool =
  CommunityPool :: 'd

section \<open>The keepers\<close>

text \<open>
  An iteration with a callback is the list of what it goes through, or the error of opening it;
  it goes through the entries that were there when it was opened. Calls whose effect depends on
  the height of the context take it as an argument. The results of the withdrawals are ignored
  by the code and not represented.
\<close>

record ('s, 'v, 'r, 're, 'u, 'ue, 'i, 'd) export_keepers =
  Registry_ValidatorAddressCodec :: address_codec
  Registry_AddressCodec :: address_codec
  Staking_ValidatorAddressCodec :: address_codec
  IterateValidators :: "'s \<Rightarrow> goerr + 'v validator list"
  GetAllDelegations :: "'s \<Rightarrow> goerr + delegation list"
  GetValidator :: "'s \<Rightarrow> byte list \<Rightarrow> goerr + 'v validator"
  PutValidator :: "'s \<Rightarrow> 'v validator \<Rightarrow> 's \<times> goerr option"
  ReverseValidatorKeys :: "'s \<Rightarrow> byte list list"
  AddressFromValidatorsKey :: "byte list \<Rightarrow> byte list"
  CloseIterator :: "'s \<Rightarrow> goerr option"
  ApplyAndReturnValidatorSetUpdates :: "'s \<Rightarrow> 's \<times> goerr option"
  IterateRedelegations :: "'s \<Rightarrow> goerr + ('r, 're) unbonding list"
  SetRedelegation :: "'s \<Rightarrow> ('r, 're) unbonding \<Rightarrow> 's \<times> goerr option"
  IterateUnbondingDelegations :: "'s \<Rightarrow> goerr + ('u, 'ue) unbonding list"
  SetUnbondingDelegation :: "'s \<Rightarrow> ('u, 'ue) unbonding \<Rightarrow> 's \<times> goerr option"
  WithdrawValidatorCommission :: "'s \<Rightarrow> goint \<Rightarrow> byte list \<Rightarrow> 's \<times> goerr option"
  WithdrawDelegationRewards :: "'s \<Rightarrow> goint \<Rightarrow> byte list \<Rightarrow> byte list \<Rightarrow> 's \<times> goerr option"
  DeleteAllValidatorSlashEvents :: "'s \<Rightarrow> 's"
  DeleteAllValidatorHistoricalRewards :: "'s \<Rightarrow> 's"
  GetValidatorOutstandingRewardsCoins :: "'s \<Rightarrow> byte list \<Rightarrow> goerr + 'd"
  FeePool_Get :: "'s \<Rightarrow> goerr + 'd fee_pool"
  FeePool_Set :: "'s \<Rightarrow> 'd fee_pool \<Rightarrow> 's \<times> goerr option"
  DecCoins_Add :: "'d \<Rightarrow> 'd \<Rightarrow> 'd"
  Distr_AfterValidatorCreated :: "'s \<Rightarrow> goint \<Rightarrow> byte list \<Rightarrow> 's \<times> goerr option"
  BeforeDelegationCreated :: "'s \<Rightarrow> goint \<Rightarrow> byte list \<Rightarrow> byte list \<Rightarrow> 's \<times> goerr option"
  AfterDelegationModified :: "'s \<Rightarrow> goint \<Rightarrow> byte list \<Rightarrow> byte list \<Rightarrow> 's \<times> goerr option"
  IterateValidatorSigningInfos :: "'s \<Rightarrow> goerr + (byte list \<times> 'i signing_info) list"
  PutValidatorSigningInfo :: "'s \<Rightarrow> byte list \<times> 'i signing_info \<Rightarrow> 's \<times> goerr option"

section \<open>Preparing for height zero\<close>

text \<open>The map of the allowed addresses; one that does not decode is an error.\<close>

fun allowed_addrs :: "address_codec \<Rightarrow> string list \<Rightarrow> (string \<Rightarrow> bool) \<Rightarrow> goerr + (string \<Rightarrow> bool)" where
  "allowed_addrs codec [] m = Inr m"
| "allowed_addrs codec (addr # addrs) m =
     (case StringToBytes codec addr of
        Inl err \<Rightarrow> Inl err
      | Inr _ \<Rightarrow> allowed_addrs codec addrs (m(addr := True)))"

definition withdraw_commission ::
    "('s, 'v, 'r, 're, 'u, 'ue, 'i, 'd) export_keepers \<Rightarrow> goint \<Rightarrow> 'v validator \<Rightarrow> 's \<Rightarrow> 's \<times> unit outcome" where
  "withdraw_commission ks height val s =
     after (must s (StringToBytes (Staking_ValidatorAddressCodec ks) (OperatorAddress val))) (\<lambda>s valBz.
       ignore (WithdrawValidatorCommission ks s height valBz))"

text \<open>The two addresses of a delegation, decoded in the order the code does.\<close>

definition delegation_addrs ::
    "('s, 'v, 'r, 're, 'u, 'ue, 'i, 'd) export_keepers \<Rightarrow> delegation \<Rightarrow> 's \<Rightarrow> 's \<times> (byte list \<times> byte list) outcome" where
  "delegation_addrs ks del s =
     after (must s (StringToBytes (Registry_ValidatorAddressCodec ks) (ValidatorAddress del))) (\<lambda>s valAddr.
     after (must s (StringToBytes (Registry_AddressCodec ks) (DelegatorAddress del))) (\<lambda>s delAddr.
     (s, Return (valAddr, delAddr))))"

definition withdraw_rewards ::
    "('s, 'v, 'r, 're, 'u, 'ue, 'i, 'd) export_keepers \<Rightarrow> goint \<Rightarrow> delegation \<Rightarrow> 's \<Rightarrow> 's \<times> unit outcome" where
  "withdraw_rewards ks height del s =
     after (delegation_addrs ks del s) (\<lambda>s (valAddr, delAddr).
       ignore (WithdrawDelegationRewards ks s height delAddr valAddr))"

text \<open>The outstanding rewards go to the community pool, and the validator is created anew.\<close>

definition reinit_validator ::
    "('s, 'v, 'r, 're, 'u, 'ue, 'i, 'd) export_keepers \<Rightarrow> goint \<Rightarrow> 'v validator \<Rightarrow> 's \<Rightarrow> 's \<times> unit outcome" where
  "reinit_validator ks height val s =
     after (must s (StringToBytes (Staking_ValidatorAddressCodec ks) (OperatorAddress val))) (\<lambda>s valBz.
     after (must s (GetValidatorOutstandingRewardsCoins ks s valBz)) (\<lambda>s rewards.
     after (must s (FeePool_Get ks s)) (\<lambda>s feePool.
     let feePool = feePool\<lparr>CommunityPool := DecCoins_Add ks (CommunityPool feePool) rewards\<rparr> in
     after (must_do (FeePool_Set ks s feePool)) (\<lambda>s _.
     must_do (Distr_AfterValidatorCreated ks s height valBz)))))"

definition wrap_panic :: "string \<Rightarrow> 's \<times> goerr option \<Rightarrow> 's \<times> unit outcome" where
  "wrap_panic t r = must_do (fst r, map_option (\<lambda>err. Wrapped err t) (snd r))"

definition reinit_delegation ::
    "('s, 'v, 'r, 're, 'u, 'ue, 'i, 'd) export_keepers \<Rightarrow> goint \<Rightarrow> delegation \<Rightarrow> 's \<Rightarrow> 's \<times> unit outcome" where
  "reinit_delegation ks height del s =
     after (delegation_addrs ks del s) (\<lambda>s (valAddr, delAddr).
     after (wrap_panic ''error while incrementing period''
         (BeforeDelegationCreated ks s height delAddr valAddr)) (\<lambda>s _.
     wrap_panic ''error while creating a new delegation period record''
         (AfterDelegationModified ks s height delAddr valAddr)))"

text \<open>The loop over the indices of the entries.\<close>

definition reset_entries :: "('k, 'e) unbonding \<Rightarrow> ('k, 'e) unbonding" where
  "reset_entries red =
     red\<lparr>Entries := fold (\<lambda>i es. es[i := (es ! i)\<lparr>CreationHeight := 0\<rparr>]) [0..<length (Entries red)] (Entries red)\<rparr>"

definition reset_validator ::
    "('s, 'v, 'r, 're, 'u, 'ue, 'i, 'd) export_keepers \<Rightarrow> bool \<Rightarrow> (string \<Rightarrow> bool) \<Rightarrow> byte list \<Rightarrow> 's
     \<Rightarrow> 's \<times> unit outcome" where
  "reset_validator ks applyAllowedAddrs allowedAddrsMap key s =
     (let addr = AddressFromValidatorsKey ks key in
      case GetValidator ks s addr of
        Inl err \<Rightarrow> (s, Panic (Msg ''expected validator, not found''))
      | Inr validator \<Rightarrow>
      case BytesToString (Staking_ValidatorAddressCodec ks) addr of
        (valAddr, Some err) \<Rightarrow> (s, Panic err)
      | (valAddr, None) \<Rightarrow>
          let validator = validator\<lparr>UnbondingHeight := 0\<rparr>;
              validator = (if applyAllowedAddrs \<and> \<not> allowedAddrsMap valAddr
                           then validator\<lparr>Jailed := True\<rparr> else validator)
          in must_do (PutValidator ks s validator))"

definition reset_signing_info ::
    "('s, 'v, 'r, 're, 'u, 'ue, 'i, 'd) export_keepers \<Rightarrow> byte list \<times> 'i signing_info \<Rightarrow> 's \<Rightarrow> 's \<times> unit outcome" where
  "reset_signing_info ks ai s =
     (case ai of (addr, info) \<Rightarrow> ignore (PutValidatorSigningInfo ks s (addr, info\<lparr>StartHeight := 0\<rparr>)))"

text \<open>Fee distribution: everything before the context's height is reset.\<close>

definition prep_distribution ::
    "('s, 'v, 'r, 're, 'u, 'ue, 'i, 'd) export_keepers \<Rightarrow> goint \<Rightarrow> 's \<Rightarrow> 's \<times> unit outcome" where
  "prep_distribution ks height s =
     after (must s (IterateValidators ks s)) (\<lambda>s vals.
     after (for_each (withdraw_commission ks height) vals s) (\<lambda>s _.
     after (must s (GetAllDelegations ks s)) (\<lambda>s dels.
     after (for_each (withdraw_rewards ks height) dels s) (\<lambda>s _.
     let s = DeleteAllValidatorSlashEvents ks s;
         s = DeleteAllValidatorHistoricalRewards ks s in
     after (must s (IterateValidators ks s)) (\<lambda>s vals.
     after (for_each (reinit_validator ks 0) vals s) (\<lambda>s _.
     for_each (reinit_delegation ks 0) dels s))))))"

definition reset_redelegations ::
    "('s, 'v, 'r, 're, 'u, 'ue, 'i, 'd) export_keepers \<Rightarrow> 's \<Rightarrow> 's \<times> unit outcome" where
  "reset_redelegations ks s =
     after (must s (IterateRedelegations ks s)) (\<lambda>s reds.
     for_each (\<lambda>red s. must_do (SetRedelegation ks s (reset_entries red))) reds s)"

definition reset_unbonding_delegations ::
    "('s, 'v, 'r, 're, 'u, 'ue, 'i, 'd) export_keepers \<Rightarrow> 's \<Rightarrow> 's \<times> unit outcome" where
  "reset_unbonding_delegations ks s =
     after (must s (IterateUnbondingDelegations ks s)) (\<lambda>s ubds.
     for_each (\<lambda>ubd s. must_do (SetUnbondingDelegation ks s (reset_entries ubd))) ubds s)"

definition reset_signing_infos ::
    "('s, 'v, 'r, 're, 'u, 'ue, 'i, 'd) export_keepers \<Rightarrow> 's \<Rightarrow> 's \<times> unit outcome" where
  "reset_signing_infos ks s =
     after (must s (IterateValidatorSigningInfos ks s)) (\<lambda>s infos.
     for_each (reset_signing_info ks) infos s)"

text \<open>The end of the preparation; an error of closing the iterator is logged and ends it early.\<close>

definition prep_validators ::
    "('s, 'v, 'r, 're, 'u, 'ue, 'i, 'd) export_keepers \<Rightarrow> bool \<Rightarrow> (string \<Rightarrow> bool) \<Rightarrow> 's \<Rightarrow> 's \<times> unit outcome" where
  "prep_validators ks applyAllowedAddrs allowedAddrsMap s =
     after (for_each (reset_validator ks applyAllowedAddrs allowedAddrsMap) (ReverseValidatorKeys ks s) s) (\<lambda>s _.
     case CloseIterator ks s of
       Some err \<Rightarrow> (s, Return ())
     | None \<Rightarrow>
         after (must_do (ApplyAndReturnValidatorSetUpdates ks s)) (\<lambda>s _.
         reset_signing_infos ks s))"

text \<open>The whole preparation.\<close>

definition prepForZeroHeightGenesis ::
    "('s, 'v, 'r, 're, 'u, 'ue, 'i, 'd) export_keepers \<Rightarrow> goint \<Rightarrow> string list \<Rightarrow> 's \<Rightarrow> 's \<times> unit outcome" where
  "prepForZeroHeightGenesis ks height jailAllowedAddrs s =
     (let applyAllowedAddrs = (0 < len jailAllowedAddrs) in
      after (must s (allowed_addrs (Registry_ValidatorAddressCodec ks) jailAllowedAddrs (\<lambda>addr. False)))
        (\<lambda>s allowedAddrsMap.
      after (prep_distribution ks height s) (\<lambda>s _.
      after (reset_redelegations ks s) (\<lambda>s _.
      after (reset_unbonding_delegations ks s) (\<lambda>s _.
      prep_validators ks applyAllowedAddrs allowedAddrsMap s)))))"

section \<open>The export\<close>

record ('gv, 'cp) ExportedApp =
  AppState :: string
  Validators :: "'gv list"
  Height :: goint
  ConsensusParams :: 'cp

definition ExportedApp_zero :: "'cp \<Rightarrow> ('gv, 'cp) ExportedApp" where
  "ExportedApp_zero cp = \<lparr>AppState = '''', Validators = [], Height = 0, ConsensusParams = cp\<rparr>"

text \<open>
  What the export itself calls of the application: \<open>zero_ConsensusParams\<close> is the zero value of
  its type, \<open>WriteValidators\<close> returns its validators also beside an error.
\<close>

record ('s, 'gs, 'gv, 'cp) export_app =
  app_LastBlockHeight :: "'s \<Rightarrow> goint"
  ExportGenesisForModules :: "'s \<Rightarrow> string list \<Rightarrow> goerr + 'gs"
  MarshalIndent :: "'gs \<Rightarrow> goerr + string"
  WriteValidators :: "'s \<Rightarrow> 'gv list \<times> goerr option"
  GetConsensusParams :: "'s \<Rightarrow> 'cp"
  zero_ConsensusParams :: 'cp

text \<open>
  The result is a value beside an error, so an outcome returns both. The context's height is the
  last block's.
\<close>

definition ExportAppStateAndValidators ::
    "('s, 'v, 'r, 're, 'u, 'ue, 'i, 'd) export_keepers \<Rightarrow> ('s, 'gs, 'gv, 'cp) export_app
     \<Rightarrow> bool \<Rightarrow> string list \<Rightarrow> string list \<Rightarrow> 's
     \<Rightarrow> 's \<times> (('gv, 'cp) ExportedApp \<times> goerr option) outcome" where
  "ExportAppStateAndValidators ks app forZeroHeight jailAllowedAddrs modulesToExport s =
     (let ctxHeight = app_LastBlockHeight app s;
          height = (if forZeroHeight then 0 else wrap64 (app_LastBlockHeight app s + 1)) in
      after (if forZeroHeight then prepForZeroHeightGenesis ks ctxHeight jailAllowedAddrs s
             else (s, Return ())) (\<lambda>s _.
      case ExportGenesisForModules app s modulesToExport of
        Inl err \<Rightarrow> (s, Return (ExportedApp_zero (zero_ConsensusParams app), Some err))
      | Inr genState \<Rightarrow>
      case MarshalIndent app genState of
        Inl err \<Rightarrow> (s, Return (ExportedApp_zero (zero_ConsensusParams app), Some err))
      | Inr appState \<Rightarrow>
      case WriteValidators app s of (validators, err) \<Rightarrow>
        (s, Return (\<lparr>AppState = appState, Validators = validators, Height = height,
                     ConsensusParams = GetConsensusParams app s\<rparr>, err))))"

section \<open>The pieces\<close>

text \<open>The loop over the indices is a map over the entries.\<close>

definition zero_heights :: "('k, 'e) unbonding \<Rightarrow> ('k, 'e) unbonding" where
  "zero_heights red = red\<lparr>Entries := map (\<lambda>e. e\<lparr>CreationHeight := 0\<rparr>) (Entries red)\<rparr>"

lemma fold_list_update:
  "fold (\<lambda>i es. es[i := f (es ! i)]) [0..<n] es = map f (take n es) @ drop n es" if "n \<le> length es"
  using that
proof (induction n)
  case (Suc n)
  then have n: "n < length es" by simp
  have "map f (take n es) @ drop n es = map f (take n es) @ es ! n # drop (Suc n) es"
    using n by (simp add: Cons_nth_drop_Suc)
  with Suc n show ?case
    by (simp add: take_Suc_conv_app_nth list_update_append nth_append min_def)
qed simp

lemma reset_entries_eq: "reset_entries red = zero_heights red"
  using fold_list_update [of "length (Entries red)" "Entries red" "\<lambda>e. e\<lparr>CreationHeight := 0\<rparr>"]
  by (simp add: reset_entries_def zero_heights_def)

lemma zero_heights_key [simp]: "unbonding_key (zero_heights red) = unbonding_key red"
  by (simp add: zero_heights_def)

lemma allowed_addrs_eq:
  "allowed_addrs codec addrs m =
     (case List.find (\<lambda>a. \<exists>e. StringToBytes codec a = Inl e) addrs of
        Some a \<Rightarrow> Inl (projl (StringToBytes codec a))
      | None \<Rightarrow> Inr (\<lambda>a. m a \<or> a \<in> set addrs))"
proof (induction addrs arbitrary: m)
  case (Cons a addrs)
  show ?case
    by (cases "StringToBytes codec a")
      (simp_all add: Cons fun_eq_iff split: option.split)
qed simp

lemma allowed_addrs_Inr:
  "allowed_addrs codec addrs (\<lambda>a. False) = Inr m \<Longrightarrow> m a \<longleftrightarrow> a \<in> set addrs"
  by (auto simp: allowed_addrs_eq split: option.splits)

section \<open>Frames of the preparation\<close>

text \<open>A view of the state that no operation of the distribution module's changes.\<close>

definition distribution_frame ::
    "('s \<Rightarrow> 'x) \<Rightarrow> ('s, 'v, 'r, 're, 'u, 'ue, 'i, 'd) export_keepers \<Rightarrow> bool" where
  "distribution_frame f ks \<longleftrightarrow>
     (\<forall>s h a b p. f (fst (WithdrawValidatorCommission ks s h a)) = f s \<and>
        f (fst (WithdrawDelegationRewards ks s h a b)) = f s \<and>
        f (DeleteAllValidatorSlashEvents ks s) = f s \<and>
        f (DeleteAllValidatorHistoricalRewards ks s) = f s \<and>
        f (fst (FeePool_Set ks s p)) = f s \<and>
        f (fst (Distr_AfterValidatorCreated ks s h a)) = f s \<and>
        f (fst (BeforeDelegationCreated ks s h a b)) = f s \<and>
        f (fst (AfterDelegationModified ks s h a b)) = f s)"

lemma for_each_frame:
  assumes "for_each body xs s = (s', Return ())"
    and "\<And>x s s'. x \<in> set xs \<Longrightarrow> body x s = (s', Return ()) \<Longrightarrow> f s' = f s"
  shows "f s' = f s"
  by (rule for_each_invariant [OF assms(1), where P = "\<lambda>t. f t = f s"]) (use assms(2) in auto)

lemma delegation_addrs_Return:
  "delegation_addrs ks del s = (s', Return ab) \<Longrightarrow> s' = s"
  by (auto simp: delegation_addrs_def after_Return)

lemma wrap_panic_Return: "wrap_panic t r = (s', Return u) \<longleftrightarrow> r = (s', None)"
  by (cases r) (auto simp: wrap_panic_def)

lemma distribution_frame_steps:
  assumes "distribution_frame f ks"
  shows "withdraw_commission ks h val s = (s', Return ()) \<Longrightarrow> f s' = f s"
    and "withdraw_rewards ks h del s = (s', Return ()) \<Longrightarrow> f s' = f s"
    and "reinit_validator ks h val s = (s', Return ()) \<Longrightarrow> f s' = f s"
    and "reinit_delegation ks h del s = (s', Return ()) \<Longrightarrow> f s' = f s"
proof -
  note a = assms [unfolded distribution_frame_def, rule_format]
  show "withdraw_commission ks h val s = (s', Return ()) \<Longrightarrow> f s' = f s"
    using a by (auto simp: withdraw_commission_def after_Return)
  show "withdraw_rewards ks h del s = (s', Return ()) \<Longrightarrow> f s' = f s"
    using a by (auto simp: withdraw_rewards_def after_Return dest!: delegation_addrs_Return)
  have b: "f s' = f s" if "FeePool_Set ks s p = (s', None)" for s s' p
    using a [of s] that by (metis fst_conv)
  have c: "f s' = f s" if "Distr_AfterValidatorCreated ks s h v = (s', None)" for s s' h v
    using a [of s] that by (metis fst_conv)
  have d: "f s' = f s" if "BeforeDelegationCreated ks s h v w = (s', None)" for s s' h v w
    using a [of s] that by (metis fst_conv)
  have e: "f s' = f s" if "AfterDelegationModified ks s h v w = (s', None)" for s s' h v w
    using a [of s] that by (metis fst_conv)
  show "reinit_validator ks h val s = (s', Return ()) \<Longrightarrow> f s' = f s"
    by (auto simp: reinit_validator_def after_Return Let_def dest!: b c)
  show "reinit_delegation ks h del s = (s', Return ()) \<Longrightarrow> f s' = f s"
    by (auto simp: reinit_delegation_def after_Return wrap_panic_Return dest!: delegation_addrs_Return d e)
qed

lemma prep_distribution_frame:
  assumes "distribution_frame f ks" "prep_distribution ks h s = (s', Return ())"
  shows "f s' = f s"
proof -
  note steps = distribution_frame_steps [OF assms(1)]
  from assms(2) obtain vals dels vals' s1 s2 s3 where
    l: "for_each (withdraw_commission ks h) vals s = (s1, Return ())"
      "for_each (withdraw_rewards ks h) dels s1 = (s2, Return ())"
      "for_each (reinit_validator ks 0) vals'
         (DeleteAllValidatorHistoricalRewards ks (DeleteAllValidatorSlashEvents ks s2)) = (s3, Return ())"
      "for_each (reinit_delegation ks 0) dels s3 = (s', Return ())"
    by (auto simp: prep_distribution_def after_Return Let_def)
  have "f s1 = f s" "f s2 = f s1" "f s' = f s3"
    "f s3 = f (DeleteAllValidatorHistoricalRewards ks (DeleteAllValidatorSlashEvents ks s2))"
    by (rule for_each_frame [OF l(1)], erule steps, rule for_each_frame [OF l(2)], erule steps,
        rule for_each_frame [OF l(4)], erule steps, rule for_each_frame [OF l(3)], erule steps)
  then show ?thesis using assms(1) by (simp add: distribution_frame_def)
qed

lemma prepForZeroHeightGenesis_Return:
  assumes "prepForZeroHeightGenesis ks h addrs s = (s', Return ())"
  obtains m s1 s2 s3 s4 where
    "allowed_addrs (Registry_ValidatorAddressCodec ks) addrs (\<lambda>a. False) = Inr m"
    "prep_distribution ks h s = (s1, Return ())"
    "reset_redelegations ks s1 = (s2, Return ())"
    "reset_unbonding_delegations ks s2 = (s3, Return ())"
    "for_each (reset_validator ks (0 < len addrs) m) (ReverseValidatorKeys ks s3) s3 = (s4, Return ())"
    "case CloseIterator ks s4 of
       Some err \<Rightarrow> s' = s4
     | None \<Rightarrow> \<exists>s5. ApplyAndReturnValidatorSetUpdates ks s4 = (s5, None) \<and> reset_signing_infos ks s5 = (s', Return ())"
proof -
  from assms obtain m s1 s2 s3 s4 where
    f: "allowed_addrs (Registry_ValidatorAddressCodec ks) addrs (\<lambda>a. False) = Inr m"
    "prep_distribution ks h s = (s1, Return ())"
    "reset_redelegations ks s1 = (s2, Return ())"
    "reset_unbonding_delegations ks s2 = (s3, Return ())"
    "for_each (reset_validator ks (0 < len addrs) m) (ReverseValidatorKeys ks s3) s3 = (s4, Return ())"
    and c: "(case CloseIterator ks s4 of Some err \<Rightarrow> (s4, Return ())
      | None \<Rightarrow> after (must_do (ApplyAndReturnValidatorSetUpdates ks s4)) (\<lambda>s _. reset_signing_infos ks s))
      = (s', Return ())"
    by (auto simp: prepForZeroHeightGenesis_def prep_validators_def after_Return Let_def)
  from c have "case CloseIterator ks s4 of
       Some err \<Rightarrow> s' = s4
     | None \<Rightarrow> \<exists>s5. ApplyAndReturnValidatorSetUpdates ks s4 = (s5, None) \<and> reset_signing_infos ks s5 = (s', Return ())"
    by (auto simp: after_Return split: option.splits)
  with f show thesis by (rule that)
qed

section \<open>The staking and slashing records\<close>

text \<open>
  What the preparation relies on of the stores. \<open>unbonding_laws\<close>: redelegations and unbonding
  delegations are stored under their keys, and only their own setter changes them.
\<close>

definition unbonding_frame ::
    "('s \<Rightarrow> 'x) \<Rightarrow> ('s, 'v, 'r, 're, 'u, 'ue, 'i, 'd) export_keepers \<Rightarrow> bool" where
  "unbonding_frame f ks \<longleftrightarrow> distribution_frame f ks \<and>
     (\<forall>s v. f (fst (PutValidator ks s v)) = f s) \<and>
     (\<forall>s. f (fst (ApplyAndReturnValidatorSetUpdates ks s)) = f s) \<and>
     (\<forall>s x. f (fst (PutValidatorSigningInfo ks s x)) = f s)"

definition unbonding_laws :: "('s, 'v, 'r, 're, 'u, 'ue, 'i, 'd) export_keepers \<Rightarrow> bool" where
  "unbonding_laws ks \<longleftrightarrow>
     entries_law (IterateRedelegations ks) (SetRedelegation ks) unbonding_key \<and>
     entries_law (IterateUnbondingDelegations ks) (SetUnbondingDelegation ks) unbonding_key \<and>
     unbonding_frame (IterateRedelegations ks) ks \<and> unbonding_frame (IterateUnbondingDelegations ks) ks \<and>
     (\<forall>s x. IterateRedelegations ks (fst (SetUnbondingDelegation ks s x)) = IterateRedelegations ks s) \<and>
     (\<forall>s x. IterateUnbondingDelegations ks (fst (SetRedelegation ks s x)) = IterateUnbondingDelegations ks s)"

definition signing_laws :: "('s, 'v, 'r, 're, 'u, 'ue, 'i, 'd) export_keepers \<Rightarrow> bool" where
  "signing_laws ks \<longleftrightarrow>
     entries_law (IterateValidatorSigningInfos ks) (PutValidatorSigningInfo ks) fst \<and>
     (\<forall>s x. snd (PutValidatorSigningInfo ks s x) = None)"

lemma fst_frame:
  assumes "\<forall>s x. f (fst (p s x)) = f s" "p s x = (s', e)"
  shows "f s' = f s"
  using assms(1) [rule_format, of s x] by (simp add: assms(2))

lemma reset_redelegations_effect:
  assumes "unbonding_laws ks" "reset_redelegations ks s = (s', Return ())"
  shows "\<exists>reds. IterateRedelegations ks s = Inr reds \<and> IterateRedelegations ks s' = Inr (map zero_heights reds)"
    and "IterateUnbondingDelegations ks s' = IterateUnbondingDelegations ks s"
proof -
  from assms(2) obtain reds where r: "IterateRedelegations ks s = Inr reds"
    and l: "for_each (\<lambda>red s. must_do (SetRedelegation ks s (zero_heights red))) reds s = (s', Return ())"
    by (auto simp: reset_redelegations_def after_Return reset_entries_eq)
  have e: "entries_law (IterateRedelegations ks) (SetRedelegation ks) unbonding_key"
    using assms(1) by (simp add: unbonding_laws_def)
  show "\<exists>reds. IterateRedelegations ks s = Inr reds \<and> IterateRedelegations ks s' = Inr (map zero_heights reds)"
    using for_each_put_all [OF e _ l r] r by simp
  show "IterateUnbondingDelegations ks s' = IterateUnbondingDelegations ks s"
    by (rule for_each_frame [OF l])
      (use assms(1) in \<open>auto simp: unbonding_laws_def dest: fst_frame [where f = "IterateUnbondingDelegations ks" and p = "SetRedelegation ks", rotated]\<close>)
qed

lemma reset_unbonding_delegations_effect:
  assumes "unbonding_laws ks" "reset_unbonding_delegations ks s = (s', Return ())"
  shows "\<exists>ubds. IterateUnbondingDelegations ks s = Inr ubds \<and>
      IterateUnbondingDelegations ks s' = Inr (map zero_heights ubds)"
    and "IterateRedelegations ks s' = IterateRedelegations ks s"
proof -
  from assms(2) obtain ubds where r: "IterateUnbondingDelegations ks s = Inr ubds"
    and l: "for_each (\<lambda>ubd s. must_do (SetUnbondingDelegation ks s (zero_heights ubd))) ubds s = (s', Return ())"
    by (auto simp: reset_unbonding_delegations_def after_Return reset_entries_eq)
  have e: "entries_law (IterateUnbondingDelegations ks) (SetUnbondingDelegation ks) unbonding_key"
    using assms(1) by (simp add: unbonding_laws_def)
  show "\<exists>ubds. IterateUnbondingDelegations ks s = Inr ubds \<and>
      IterateUnbondingDelegations ks s' = Inr (map zero_heights ubds)"
    using for_each_put_all [OF e _ l r] r by simp
  show "IterateRedelegations ks s' = IterateRedelegations ks s"
    by (rule for_each_frame [OF l])
      (use assms(1) in \<open>auto simp: unbonding_laws_def dest: fst_frame [where f = "IterateRedelegations ks" and p = "SetUnbondingDelegation ks", rotated]\<close>)
qed

lemma reset_validator_frame:
  assumes "\<forall>s v. f (fst (PutValidator ks s v)) = f s" "reset_validator ks b m key s = (s', Return ())"
  shows "f s' = f s"
  using assms(2) by (auto simp: reset_validator_def Let_def split: sum.splits prod.splits option.splits
      dest: fst_frame [where f = f, OF assms(1)])

lemma reset_signing_info_eq:
  assumes "signing_laws ks"
  shows "reset_signing_info ks x s = must_do (PutValidatorSigningInfo ks s (apsnd (StartHeight_update (\<lambda>_. 0)) x))"
proof -
  have "snd (PutValidatorSigningInfo ks s y) = None" for y
    using assms unfolding signing_laws_def by blast
  then show ?thesis by (cases x) (simp add: reset_signing_info_def ignore_def must_do_def)
qed

lemma reset_signing_infos_effect:
  assumes "signing_laws ks" "reset_signing_infos ks s = (s', Return ())"
  shows "\<exists>infos. IterateValidatorSigningInfos ks s = Inr infos \<and>
    IterateValidatorSigningInfos ks s' = Inr (map (apsnd (StartHeight_update (\<lambda>_. 0))) infos)"
proof -
  from assms(2) obtain infos where r: "IterateValidatorSigningInfos ks s = Inr infos"
    and l: "for_each (\<lambda>x s. must_do (PutValidatorSigningInfo ks s (apsnd (StartHeight_update (\<lambda>_. 0)) x))) infos s
      = (s', Return ())"
    by (auto simp: reset_signing_infos_def after_Return reset_signing_info_eq [OF assms(1), abs_def] cong: for_each_cong)
  have e: "entries_law (IterateValidatorSigningInfos ks) (PutValidatorSigningInfo ks) fst"
    using assms(1) by (simp add: signing_laws_def)
  show ?thesis using for_each_put_all [OF e _ l r] r by simp
qed

text \<open>What the steps after the unbonding delegations do not touch.\<close>

lemma prep_rest_frame:
  assumes "unbonding_frame g ks"
    and l: "for_each (reset_validator ks b m) keys s3 = (s4, Return ())"
    and c: "case CloseIterator ks s4 of
       Some err \<Rightarrow> s' = s4
     | None \<Rightarrow> \<exists>s5. ApplyAndReturnValidatorSetUpdates ks s4 = (s5, None) \<and> reset_signing_infos ks s5 = (s', Return ())"
  shows "g s' = g s3"
proof -
  note fr = assms(1) [unfolded unbonding_frame_def]
  have v: "g s4 = g s3"
    by (rule for_each_frame [OF l], erule reset_validator_frame [rotated]) (use fr in blast)
  have i: "g t' = g t" if "reset_signing_infos ks t = (t', Return ())" for t t'
  proof -
    from that obtain infos where "for_each (reset_signing_info ks) infos t = (t', Return ())"
      by (auto simp: reset_signing_infos_def after_Return)
    then show ?thesis
      by (rule for_each_frame) (use fr in \<open>auto simp: reset_signing_info_def\<close>)
  qed
  have u: "g t = g s4" if "ApplyAndReturnValidatorSetUpdates ks s4 = (t, None)" for t
    using fr that by (metis fst_conv)
  show ?thesis
  proof (cases "CloseIterator ks s4")
    case None
    with c obtain s5 where "ApplyAndReturnValidatorSetUpdates ks s4 = (s5, None)"
        "reset_signing_infos ks s5 = (s', Return ())"
      by auto
    then show ?thesis using u i v by simp
  qed (use c v in simp)
qed

lemma prep_unbonding:
  assumes "unbonding_laws ks" "prepForZeroHeightGenesis ks h addrs s = (s', Return ())"
  shows "\<exists>reds ubds. IterateRedelegations ks s = Inr reds \<and> IterateRedelegations ks s' = Inr (map zero_heights reds) \<and>
    IterateUnbondingDelegations ks s = Inr ubds \<and> IterateUnbondingDelegations ks s' = Inr (map zero_heights ubds)"
proof -
  from assms(2) obtain m s1 s2 s3 s4 where
    f: "prep_distribution ks h s = (s1, Return ())" "reset_redelegations ks s1 = (s2, Return ())"
      "reset_unbonding_delegations ks s2 = (s3, Return ())"
      "for_each (reset_validator ks (0 < len addrs) m) (ReverseValidatorKeys ks s3) s3 = (s4, Return ())"
    and c: "case CloseIterator ks s4 of
       Some err \<Rightarrow> s' = s4
     | None \<Rightarrow> \<exists>s5. ApplyAndReturnValidatorSetUpdates ks s4 = (s5, None) \<and> reset_signing_infos ks s5 = (s', Return ())"
    by (rule prepForZeroHeightGenesis_Return)
  have fr: "unbonding_frame (IterateRedelegations ks) ks" "unbonding_frame (IterateUnbondingDelegations ks) ks"
    using assms(1) by (simp_all add: unbonding_laws_def)
  have d: "distribution_frame (IterateRedelegations ks) ks" "distribution_frame (IterateUnbondingDelegations ks) ks"
    using fr by (simp_all add: unbonding_frame_def)
  show ?thesis
    using reset_redelegations_effect [OF assms(1) f(2)] reset_unbonding_delegations_effect [OF assms(1) f(3)]
      prep_distribution_frame [OF d(1) f(1)] prep_distribution_frame [OF d(2) f(1)]
      prep_rest_frame [OF fr(1) f(4) c] prep_rest_frame [OF fr(2) f(4) c]
    by auto
qed

lemma prep_signing_infos:
  assumes "signing_laws ks" "\<And>s. CloseIterator ks s = None"
    and "prepForZeroHeightGenesis ks h addrs s = (s', Return ())"
  shows "\<exists>infos. IterateValidatorSigningInfos ks s' = Inr infos \<and> (\<forall>(a, info) \<in> set infos. StartHeight info = 0)"
  using assms(3)
proof (rule prepForZeroHeightGenesis_Return)
  fix s4
  assume "case CloseIterator ks s4 of
       Some err \<Rightarrow> s' = s4
     | None \<Rightarrow> \<exists>s5. ApplyAndReturnValidatorSetUpdates ks s4 = (s5, None) \<and> reset_signing_infos ks s5 = (s', Return ())"
  with assms(2) [of s4] obtain s5 where "reset_signing_infos ks s5 = (s', Return ())" by auto
  from reset_signing_infos_effect [OF assms(1) this] show ?thesis by auto
qed

section \<open>The validators\<close>

text \<open>
  \<open>validators_law\<close>: a validator is stored under the address its operator address decodes to, each
  address once; setting it changes that entry alone. \<open>validators_frame\<close>: no step before the
  validators' loop changes the store of validators.
\<close>

definition validators_law :: "('s, 'v, 'r, 're, 'u, 'ue, 'i, 'd) export_keepers \<Rightarrow> bool" where
  "validators_law ks \<longleftrightarrow>
     (\<forall>s. distinct (map (AddressFromValidatorsKey ks) (ReverseValidatorKeys ks s))) \<and>
     (\<forall>s a v. GetValidator ks s a = Inr v \<longrightarrow>
        StringToBytes (Staking_ValidatorAddressCodec ks) (OperatorAddress v) = Inr a) \<and>
     (\<forall>s s' v a. StringToBytes (Staking_ValidatorAddressCodec ks) (OperatorAddress v) = Inr a \<longrightarrow>
        PutValidator ks s v = (s', None) \<longrightarrow>
        GetValidator ks s' a = Inr v \<and> (\<forall>b. b \<noteq> a \<longrightarrow> GetValidator ks s' b = GetValidator ks s b))"

definition validators_frame :: "('s, 'v, 'r, 're, 'u, 'ue, 'i, 'd) export_keepers \<Rightarrow> bool" where
  "validators_frame ks \<longleftrightarrow>
     distribution_frame (GetValidator ks) ks \<and> distribution_frame (ReverseValidatorKeys ks) ks \<and>
     (\<forall>s x. GetValidator ks (fst (SetRedelegation ks s x)) = GetValidator ks s) \<and>
     (\<forall>s x. ReverseValidatorKeys ks (fst (SetRedelegation ks s x)) = ReverseValidatorKeys ks s) \<and>
     (\<forall>s x. GetValidator ks (fst (SetUnbondingDelegation ks s x)) = GetValidator ks s) \<and>
     (\<forall>s x. ReverseValidatorKeys ks (fst (SetUnbondingDelegation ks s x)) = ReverseValidatorKeys ks s)"

text \<open>The validator the loop leaves under an address.\<close>

definition jailed_by ::
    "('s, 'v, 'r, 're, 'u, 'ue, 'i, 'd) export_keepers \<Rightarrow> string list \<Rightarrow> byte list \<Rightarrow> 'v validator \<Rightarrow> 'v validator" where
  "jailed_by ks allowed a v =
     v\<lparr>UnbondingHeight := 0,
       Jailed := Jailed v \<or> allowed \<noteq> [] \<and> fst (BytesToString (Staking_ValidatorAddressCodec ks) a) \<notin> set allowed\<rparr>"

lemma jailed_by_eq:
  assumes "BytesToString (Staking_ValidatorAddressCodec ks) a = (t, None)" "m t \<longleftrightarrow> t \<in> set allowed"
  shows "(if 0 < len allowed \<and> \<not> m t then v\<lparr>UnbondingHeight := 0, Jailed := True\<rparr> else v\<lparr>UnbondingHeight := 0\<rparr>)
    = jailed_by ks allowed a v"
proof -
  have "v\<lparr>UnbondingHeight := 0, Jailed := Jailed v\<rparr> = v\<lparr>UnbondingHeight := 0\<rparr>" by simp
  then show ?thesis using assms by (simp add: jailed_by_def len_def)
qed

lemma reset_validator_Return:
  assumes "reset_validator ks (0 < len allowed) m key s = (s', Return ())" "\<And>t. m t \<longleftrightarrow> t \<in> set allowed"
  shows "\<exists>v. GetValidator ks s (AddressFromValidatorsKey ks key) = Inr v \<and>
    PutValidator ks s (jailed_by ks allowed (AddressFromValidatorsKey ks key) v) = (s', None)"
proof -
  let ?a = "AddressFromValidatorsKey ks key"
  let ?w = "\<lambda>v t. if 0 < len allowed \<and> \<not> m t then v\<lparr>UnbondingHeight := 0, Jailed := True\<rparr> else v\<lparr>UnbondingHeight := 0\<rparr>"
  obtain v where v: "GetValidator ks s ?a = Inr v"
    using assms(1) by (cases "GetValidator ks s ?a") (simp_all add: reset_validator_def)
  obtain t where t: "BytesToString (Staking_ValidatorAddressCodec ks) ?a = (t, None)"
    using assms(1) v
    by (cases "BytesToString (Staking_ValidatorAddressCodec ks) ?a"; cases "snd (BytesToString (Staking_ValidatorAddressCodec ks) ?a)")
      (simp_all add: reset_validator_def)
  have "PutValidator ks s (?w v t) = (s', None)"
    using assms(1) v t by (simp add: reset_validator_def Let_def)
  moreover have "?w v t = jailed_by ks allowed ?a v"
    by (rule jailed_by_eq [OF t]) (rule assms(2))
  ultimately show ?thesis using v by simp
qed

lemma reset_validators_effect:
  assumes "validators_law ks" "\<And>t. m t \<longleftrightarrow> t \<in> set allowed"
    and "for_each (reset_validator ks (0 < len allowed) m) keys s = (s', Return ())"
    and "distinct (map (AddressFromValidatorsKey ks) keys)"
  shows "GetValidator ks s' a =
    (if a \<in> set (map (AddressFromValidatorsKey ks) keys)
     then map_sum (\<lambda>e. e) (jailed_by ks allowed a) (GetValidator ks s a) else GetValidator ks s a)"
  using assms(3,4)
proof (induction keys arbitrary: s)
  case (Cons key keys)
  let ?b = "AddressFromValidatorsKey ks key"
  from Cons.prems(1) obtain s1 where s1: "reset_validator ks (0 < len allowed) m key s = (s1, Return ())"
      "for_each (reset_validator ks (0 < len allowed) m) keys s1 = (s', Return ())"
    by (auto simp: after_Return)
  from reset_validator_Return [OF s1(1) assms(2)] obtain v where
    v: "GetValidator ks s ?b = Inr v" "PutValidator ks s (jailed_by ks allowed ?b v) = (s1, None)"
    by blast
  have "StringToBytes (Staking_ValidatorAddressCodec ks) (OperatorAddress (jailed_by ks allowed ?b v)) = Inr ?b"
    using assms(1) [unfolded validators_law_def, THEN conjunct2, THEN conjunct1, rule_format, OF v(1)]
    by (simp add: jailed_by_def)
  note this [THEN assms(1) [unfolded validators_law_def, THEN conjunct2, THEN conjunct2, rule_format], OF v(2)]
  then have g: "GetValidator ks s1 ?b = Inr (jailed_by ks allowed ?b v)"
      "\<And>b. b \<noteq> ?b \<Longrightarrow> GetValidator ks s1 b = GetValidator ks s b"
    by simp_all
  show ?case
  proof (cases "a = ?b")
    case True
    with Cons.prems(2) Cons.IH [OF s1(2)] g(1) v(1) show ?thesis by simp
  next
    case False
    with Cons.prems(2) Cons.IH [OF s1(2)] g(2) show ?thesis by simp
  qed
qed simp

lemma prep_validators:
  assumes "validators_law ks" "validators_frame ks"
    and "prepForZeroHeightGenesis ks h allowed s = (s', Return ())"
  shows "\<exists>s4. (\<forall>a v. a \<in> AddressFromValidatorsKey ks ` set (ReverseValidatorKeys ks s) \<longrightarrow>
      GetValidator ks s a = Inr v \<longrightarrow> GetValidator ks s4 a = Inr (jailed_by ks allowed a v)) \<and>
    (CloseIterator ks s4 = None \<longrightarrow> (\<exists>s5. ApplyAndReturnValidatorSetUpdates ks s4 = (s5, None) \<and>
       reset_signing_infos ks s5 = (s', Return ())))"
proof -
  from assms(3) obtain m s1 s2 s3 s4 where
    m: "allowed_addrs (Registry_ValidatorAddressCodec ks) allowed (\<lambda>a. False) = Inr m"
    and f: "prep_distribution ks h s = (s1, Return ())" "reset_redelegations ks s1 = (s2, Return ())"
      "reset_unbonding_delegations ks s2 = (s3, Return ())"
      "for_each (reset_validator ks (0 < len allowed) m) (ReverseValidatorKeys ks s3) s3 = (s4, Return ())"
    and c: "case CloseIterator ks s4 of
       Some err \<Rightarrow> s' = s4
     | None \<Rightarrow> \<exists>s5. ApplyAndReturnValidatorSetUpdates ks s4 = (s5, None) \<and> reset_signing_infos ks s5 = (s', Return ())"
    by (rule prepForZeroHeightGenesis_Return)
  note fr = assms(2) [unfolded validators_frame_def]
  from f(2,3) obtain reds ubds where
    "for_each (\<lambda>red s. must_do (SetRedelegation ks s (reset_entries red))) reds s1 = (s2, Return ())"
    "for_each (\<lambda>ubd s. must_do (SetUnbondingDelegation ks s (reset_entries ubd))) ubds s2 = (s3, Return ())"
    by (auto simp: reset_redelegations_def reset_unbonding_delegations_def after_Return)
  note l = this
  have "GetValidator ks s1 = GetValidator ks s" "ReverseValidatorKeys ks s1 = ReverseValidatorKeys ks s"
    using prep_distribution_frame [OF _ f(1)] fr by blast+
  moreover have "GetValidator ks s2 = GetValidator ks s1" "ReverseValidatorKeys ks s2 = ReverseValidatorKeys ks s1"
    by (rule for_each_frame [OF l(1)],
        use fr in \<open>auto dest: fst_frame [where p = "SetRedelegation ks", rotated]\<close>)+
  moreover have "GetValidator ks s3 = GetValidator ks s2" "ReverseValidatorKeys ks s3 = ReverseValidatorKeys ks s2"
    by (rule for_each_frame [OF l(2)],
        use fr in \<open>auto dest: fst_frame [where p = "SetUnbondingDelegation ks", rotated]\<close>)+
  moreover have "distinct (map (AddressFromValidatorsKey ks) (ReverseValidatorKeys ks s3))"
    using assms(1) by (simp add: validators_law_def)
  from reset_validators_effect [OF assms(1) allowed_addrs_Inr [OF m] f(4) this]
  have "GetValidator ks s4 a =
    (if a \<in> set (map (AddressFromValidatorsKey ks) (ReverseValidatorKeys ks s3))
     then map_sum (\<lambda>e. e) (jailed_by ks allowed a) (GetValidator ks s3 a) else GetValidator ks s3 a)" for a .
  ultimately show ?thesis using c by (intro exI [of _ s4]) auto
qed

section \<open>The community pool\<close>

text \<open>
  The amounts the reinitialisation of the validators moves: the community pool, and the
  outstanding rewards of each validator, by denomination; \<open>amt\<close> reads an amount off some coins.
\<close>

definition pool_laws ::
    "('d \<Rightarrow> string \<Rightarrow> 'n::comm_monoid_add) \<Rightarrow> ('s \<Rightarrow> string \<Rightarrow> 'n) \<Rightarrow> ('s \<Rightarrow> byte list \<Rightarrow> string \<Rightarrow> 'n)
     \<Rightarrow> ('s, 'v, 'r, 're, 'u, 'ue, 'i, 'd) export_keepers \<Rightarrow> bool" where
  "pool_laws amt pool outstanding ks \<longleftrightarrow>
     (\<forall>x y d. amt (DecCoins_Add ks x y) d = amt x d + amt y d) \<and>
     (\<forall>s p d. FeePool_Get ks s = Inr p \<longrightarrow> amt (CommunityPool p) d = pool s d) \<and>
     (\<forall>s a c d. GetValidatorOutstandingRewardsCoins ks s a = Inr c \<longrightarrow> amt c d = outstanding s a d) \<and>
     (\<forall>s p s'. FeePool_Set ks s p = (s', None) \<longrightarrow>
        (\<forall>d. pool s' d = amt (CommunityPool p) d) \<and> outstanding s' = outstanding s) \<and>
     (\<forall>s h a s'. Distr_AfterValidatorCreated ks s h a = (s', None) \<longrightarrow>
        pool s' = pool s \<and> outstanding s' = (outstanding s)(a := \<lambda>d. 0))"

lemma reinit_validator_effect:
  assumes "pool_laws amt pool outstanding ks" "reinit_validator ks h val s = (s', Return ())"
  shows "\<exists>a. StringToBytes (Staking_ValidatorAddressCodec ks) (OperatorAddress val) = Inr a \<and>
    (\<forall>d. pool s' d = pool s d + outstanding s a d) \<and> outstanding s' = (outstanding s)(a := \<lambda>d. 0)"
proof -
  from assms(2) obtain a c p s1 where
    "StringToBytes (Staking_ValidatorAddressCodec ks) (OperatorAddress val) = Inr a"
    "GetValidatorOutstandingRewardsCoins ks s a = Inr c" "FeePool_Get ks s = Inr p"
    "FeePool_Set ks s (p\<lparr>CommunityPool := DecCoins_Add ks (CommunityPool p) c\<rparr>) = (s1, None)"
    "Distr_AfterValidatorCreated ks s1 h a = (s', None)"
    by (auto simp: reinit_validator_def after_Return Let_def)
  with assms(1) show ?thesis unfolding pool_laws_def by (intro exI [of _ a]) fastforce
qed

lemma reinit_validators_effect:
  assumes "pool_laws amt pool outstanding ks" "for_each (reinit_validator ks h) vals s = (s', Return ())"
    and "map (\<lambda>v. StringToBytes (Staking_ValidatorAddressCodec ks) (OperatorAddress v)) vals = map Inr as" "distinct as"
  shows "pool s' d = pool s d + sum_list (map (\<lambda>a. outstanding s a d) as) \<and>
    outstanding s' = (\<lambda>a. if a \<in> set as then (\<lambda>d. 0) else outstanding s a)"
  using assms(2-4)
proof (induction vals arbitrary: s as)
  case (Cons v vals)
  then obtain a as1 where as: "as = a # as1" by (cases as) auto
  from Cons.prems(1) obtain s1 where s1: "reinit_validator ks h v s = (s1, Return ())"
      "for_each (reinit_validator ks h) vals s1 = (s', Return ())"
    by (auto simp: after_Return)
  from reinit_validator_effect [OF assms(1) s1(1)] Cons.prems(2) as
  have e: "pool s1 d = pool s d + outstanding s a d" "outstanding s1 = (outstanding s)(a := \<lambda>d. 0)"
    by auto
  have o: "(\<Sum>b\<leftarrow>as1. outstanding s1 b d) = (\<Sum>b\<leftarrow>as1. outstanding s b d)"
    using Cons.prems(3) as by (intro arg_cong [where f = sum_list] map_cong) (auto simp: e(2))
  have "pool s' d = pool s1 d + (\<Sum>b\<leftarrow>as1. outstanding s1 b d)"
    and f: "outstanding s' = (\<lambda>b. if b \<in> set as1 then (\<lambda>d. 0) else outstanding s1 b)"
    using Cons.IH [OF s1(2), of as1] Cons.prems(2,3) as by simp_all
  then have "pool s' d = pool s d + (\<Sum>b\<leftarrow>as. outstanding s b d)"
    using o e(1) as by (simp add: add.assoc)
  moreover have "outstanding s' = (\<lambda>b. if b \<in> set as then (\<lambda>d. 0) else outstanding s b)"
    using f e(2) as by (auto simp: fun_eq_iff)
  ultimately show ?case ..
qed simp

section \<open>Outcomes of the export\<close>

lemma prep_undecodable:
  assumes "addr \<in> set addrs" "StringToBytes (Registry_ValidatorAddressCodec ks) addr = Inl e"
  shows "\<exists>e. prepForZeroHeightGenesis ks h addrs s = (s, Panic e)"
proof -
  have "List.find (\<lambda>a. \<exists>e. StringToBytes (Registry_ValidatorAddressCodec ks) a = Inl e) addrs \<noteq> None"
    using assms by (auto simp: find_None_iff)
  then obtain a where "List.find (\<lambda>a. \<exists>e. StringToBytes (Registry_ValidatorAddressCodec ks) a = Inl e) addrs = Some a"
    by blast
  then show ?thesis by (simp add: prepForZeroHeightGenesis_def allowed_addrs_eq)
qed

lemma ExportAppStateAndValidators_ok:
  assumes "ExportAppStateAndValidators ks app zero allowed mods s = (s', Return (r, None))"
  shows "(if zero then prepForZeroHeightGenesis ks (app_LastBlockHeight app s) allowed s = (s', Return ()) else s' = s) \<and>
    Height r = (if zero then 0 else wrap64 (app_LastBlockHeight app s + 1)) \<and>
    (\<exists>gs. ExportGenesisForModules app s' mods = Inr gs \<and> MarshalIndent app gs = Inr (AppState r)) \<and>
    WriteValidators app s' = (Validators r, None) \<and> ConsensusParams r = GetConsensusParams app s'"
proof -
  let ?prep = "if zero then prepForZeroHeightGenesis ks (app_LastBlockHeight app s) allowed s else (s, Return ())"
  from assms obtain t u where t: "?prep = (t, Return u)"
    and x: "(case ExportGenesisForModules app t mods of
        Inl err \<Rightarrow> (t, Return (ExportedApp_zero (zero_ConsensusParams app), Some err))
      | Inr genState \<Rightarrow>
      case MarshalIndent app genState of
        Inl err \<Rightarrow> (t, Return (ExportedApp_zero (zero_ConsensusParams app), Some err))
      | Inr appState \<Rightarrow>
      case WriteValidators app t of (validators, err) \<Rightarrow>
        (t, Return (\<lparr>AppState = appState, Validators = validators,
           Height = if zero then 0 else wrap64 (app_LastBlockHeight app s + 1),
           ConsensusParams = GetConsensusParams app t\<rparr>, err))) = (s', Return (r, None))"
    unfolding ExportAppStateAndValidators_def Let_def after_Return by blast
  have "u = ()" by simp
  with x t show ?thesis by (auto split: sum.splits prod.splits if_splits)
qed

end
