(* ===== verification/Commands.thy ===== *)
theory Commands
  imports App_Wiring Multi_Node_Files Service Export Testnet
begin

text \<open>
  The command line of \<open>cmd/feicoind\<close>: the root command and the client context of \<open>root.go\<close>, the
  subcommands of \<open>commands.go\<close> and the creation and the export of the application for them, the
  default configurations of \<open>config.go\<close>, the two test network commands with the flags and the body
  of \<open>multi-node\<close>, the descriptors of the module's own commands (\<open>autocli.go\<close>) and \<open>main.go\<close>. Cobra,
  viper, the SDK's client and server packages are arguments.
\<close>

section \<open>The client's context\<close>

text \<open>The fields of \<open>client.Context\<close> the code sets; \<open>'v\<close> is the type of other packages' values.\<close>

record ('v, 'rest) client_context =
  Codec :: 'v
  InterfaceRegistry :: 'v
  LegacyAmino :: 'v
  Input :: 'v
  AccountRetriever :: 'v
  HomeDir :: string
  Viper_prefix :: string
  TxConfig :: 'v
  CmdContext :: 'v
  context_rest :: 'rest

text \<open>\<open>ReadFromClientConfig\<close> returns a context beside its error.\<close>

record ('v, 'rest, 'cmd) client_pkg =
  empty_context :: "('v, 'rest) client_context"
  Stdin :: 'v
  auth_AccountRetriever :: 'v
  ReadFromClientConfig :: "('v, 'rest) client_context \<Rightarrow> ('v, 'rest) client_context \<times> goerr option"
  ReadPersistentCommandFlags :: "('v, 'rest) client_context \<Rightarrow> 'cmd \<Rightarrow> ('v, 'rest) client_context \<times> goerr option"
  SetCmdClientContextHandler :: "('v, 'rest) client_context \<Rightarrow> 'cmd \<Rightarrow> 'cmd \<times> goerr option"
  NewGRPCCoinMetadataQueryFn :: "('v, 'rest) client_context \<Rightarrow> 'v"
  with_textual_query :: "'v \<Rightarrow> 'v \<Rightarrow> 'v"
  NewTxConfigWithOptions :: "'v \<Rightarrow> 'v \<Rightarrow> goerr + 'v"

definition ProvideClientContext ::
    "('v, 'rest, 'cmd) client_pkg \<Rightarrow> string \<Rightarrow> 'v \<Rightarrow> 'v \<Rightarrow> 'v \<Rightarrow> 'v \<Rightarrow> ('v, 'rest) client_context outcome" where
  "ProvideClientContext pkg home cdc registry txConfigOpts amino =
     (let clientCtx = (empty_context pkg)\<lparr>Codec := cdc, InterfaceRegistry := registry, LegacyAmino := amino,
            Input := Stdin pkg, AccountRetriever := auth_AccountRetriever pkg, HomeDir := home, Viper_prefix := Name\<rparr>;
          clientCtx = fst (ReadFromClientConfig pkg clientCtx);
          txConfigOpts = with_textual_query pkg txConfigOpts (NewGRPCCoinMetadataQueryFn pkg clientCtx) in
      case NewTxConfigWithOptions pkg (Codec clientCtx) txConfigOpts of
        Inl err \<Rightarrow> Panic err
      | Inr txCfg \<Rightarrow> Return (clientCtx\<lparr>TxConfig := txCfg\<rparr>))"

section \<open>Default configurations\<close>

definition initCometBFTConfig :: "'cmt \<Rightarrow> 'cmt" where
  "initCometBFTConfig DefaultConfig = (let cfg = DefaultConfig in cfg)"

text \<open>The custom configuration embeds the server's, squashed into one.\<close>

record 'srv CustomAppConfig =
  Config :: 'srv

definition initAppConfig :: "'srv \<Rightarrow> string \<Rightarrow> string \<times> 'srv CustomAppConfig" where
  "initAppConfig DefaultConfig DefaultConfigTemplate =
     (let srvCfg = DefaultConfig;
          customAppConfig = \<lparr>Config = srvCfg\<rparr>;
          customAppTemplate = DefaultConfigTemplate
      in (customAppTemplate, customAppConfig))"

section \<open>The flags of the multi-node command\<close>

text \<open>What a flag is defined with: a type, and a default value of it.\<close>

datatype flag_value = StringFlag string | IntFlag goint

type_synonym flag_set = "(flag \<times> flag_value) list"

text \<open>The name \<open>algo\<close> is the old one of the key type.\<close>

definition normalize_flag :: "flag \<Rightarrow> flag" where
  "normalize_flag name = (if name = Flag ''algo'' then FlagKeyType else name)"

definition addTestnetFlagsToCmd :: "string \<Rightarrow> string \<Rightarrow> flag_set \<Rightarrow> flag_set" where
  "addTestnetFlagsToCmd secp256k1 bondDenom fs =
     fs @ [(flagNumValidators, IntFlag 4),
           (flagOutputDir, StringFlag ''./.testnets''),
           (FlagChainID, StringFlag ''''),
           (FlagMinGasPrices, StringFlag (''0.0001'' @ bondDenom)),
           (FlagKeyType, StringFlag secp256k1)]"

definition multi_node_flags :: "string \<Rightarrow> string \<Rightarrow> flag_set" where
  "multi_node_flags secp256k1 bondDenom =
     addTestnetFlagsToCmd secp256k1 bondDenom [] @
       [(flagPorts, StringFlag ''''),
        (flagNodeDirPrefix, StringFlag ''validator''),
        (flagValidatorsStakeAmount, StringFlag ''100000000,100000000,100000000,100000000''),
        (flagStartingIPAddress, StringFlag ''localhost''),
        (FlagKeyringBackend, StringFlag ''test'')]"

text \<open>The body of the command; \<open>GetClientQueryContext\<close> may fail, the stakes may panic.\<close>

definition multi_node_RunE ::
    "os \<Rightarrow> ('e, 'coin, 'v, 'rest, 'arest) node_ops \<Rightarrow> (string \<Rightarrow> 'int option) \<Rightarrow> ('int \<Rightarrow> goerr + 'coin)
     \<Rightarrow> string \<Rightarrow> string \<Rightarrow> goerr option \<Rightarrow> 'rest node_cfg \<Rightarrow> flags \<Rightarrow> 'e machine \<Rightarrow> 'e machine \<times> unit outcome" where
  "multi_node_RunE os ops newInt newCoin authName bankName ctx_err config f h =
     (case ctx_err of
        Some err \<Rightarrow> (h, Fail err)
      | None \<Rightarrow>
      case parse_args newInt newCoin f of
        Inl p \<Rightarrow> (h, Panic p)
      | Inr args \<Rightarrow> initTestnetFiles os ops authName bankName config args h)"

section \<open>The test network commands\<close>

text \<open>
  A command as the program fills it in. Its flags have a type and a default; \<open>'run\<close> is what it runs.
  A text of several lines is the list of them, put together by \<open>text_lines\<close>.
\<close>

record 'run network_command =
  nc_Use :: string
  nc_Short :: string
  nc_Long :: string
  nc_Example :: string
  nc_flags :: flag_set
  nc_RunE :: 'run

definition text_lines :: "string list \<Rightarrow> string" where
  "text_lines ls = join [CHR 0x0A] ls"

text \<open>\<open>InPlaceTestnetCreator\<close> of the server makes the command around the function that makes the application.\<close>

definition NewInPlaceTestnetCmd :: "('tc \<Rightarrow> 'run network_command) \<Rightarrow> 'tc \<Rightarrow> 'run network_command" where
  \<open>NewInPlaceTestnetCmd creator newTestnet =
     (let cmd = creator newTestnet;
          cmd = cmd\<lparr>nc_Short := ''Updates chain's application and consensus state with provided validator info and starts the node'',
            nc_Long := text_lines
              [''The test command modifies both application and consensus stores within a local mainnet node and starts the node,'',
               ''with the aim of facilitating testing procedures. This command replaces existing validator data with updated information,'',
               ''thereby removing the old validator set and introducing a new set suitable for local testing purposes. By altering the state extracted from the mainnet node,'',
               ''it enables developers to configure their local environments to reflect mainnet conditions more accurately.''],
            nc_Example := ''feicoin'' @ ''d in-place-testnet testing-1 cosmosvaloper1w7f3xx7e75p4l7qdym5msqem9rd4dyc4mq79dm --home $HOME/.'' @
              ''feicoin'' @ ''d/validator1 --validator-privkey=6dq+/KHNvyiw2TToCgOpUpQKIzrLs69Rb8Az39xvmxPHNoPxY1Cil8FY+4DhT9YwD6s0tFABMlLcpaylzKKBOg== --accounts-to-fund="cosmos1f7twgcq4ypzg7y24wuywy06xmdet8pc4473tnq,cosmos1qvuhm5m644660nd8377d6l7yz9e9hhm9evmx3x"''\<rparr>
      in cmd\<lparr>nc_flags := nc_flags cmd @ map (\<lambda>(n, d). (Flag n, StringFlag d)) in_place_flags\<rparr>)\<close>

text \<open>The multi-node command; \<open>body\<close> is \<open>multi_node_RunE\<close> with the basic manager it is given and the
  SDK's iterator of genesis balances.\<close>

definition NewTestnetMultiNodeCmd :: "string \<Rightarrow> string \<Rightarrow> ('mbm \<Rightarrow> 'run) \<Rightarrow> 'mbm \<Rightarrow> 'run network_command" where
  \<open>NewTestnetMultiNodeCmd secp256k1 bondDenom body mbm =
     \<lparr>nc_Use = ''multi-node'',
      nc_Short = ''Initialize config directories & files for a multi-validator testnet running locally via separate processes (e.g. Docker Compose or similar)'',
      nc_Long = text_lines
        [''multi-node will setup "v" number of directories and populate each with'',
         ''necessary files (private validator, genesis, config, etc.) for running "v" validator nodes.'',
         '''',
         ''Booting up a network with these validator folders is intended to be used with Docker Compose,'',
         ''or a similar setup where each node has a manually configurable IP address.'',
         '''',
         ''Note, strict routability for addresses is turned off in the config file.'',
         '''',
         ''Example:'',
         CHR 0x09 # ''feicoind multi-node --v 4 --output-dir ./.testnets --validators-stake-amount 1000000,200000,300000,400000 --list-ports 47222,50434,52851,44210'',
         [CHR 0x09]],
      nc_Example = '''',
      nc_flags = multi_node_flags secp256k1 bondDenom,
      nc_RunE = body mbm\<rparr>\<close>

section \<open>The subcommands\<close>

text \<open>
  The commands other packages provide, by the function that makes them with its arguments, and this
  program's own two. \<open>'cr\<close> and \<open>'ex\<close> are the types of \<open>newApp\<close> and \<open>appExport\<close>, which other packages
  are given; \<open>ServerCommands\<close> stands for all the commands the server adds. \<open>flags.LineBreak\<close> is an
  empty command.
\<close>

datatype run_function = ValidateCmd

record group_info =
  grp_Use :: string
  Aliases :: "string list"
  grp_Short :: string
  DisableFlagParsing :: bool
  SuggestionsMinimumDistance :: goint
  grp_RunE :: run_function

datatype ('v, 'b, 'cr, 'ex, 'run) command =
    InitCmd "string \<rightharpoonup> 'b" string | OwnCommand "'run network_command" | DebugCmd | ConfixCmd
  | PruningCmd 'cr string | SnapshotCmd 'cr
  | ServerCommands string 'cr 'ex "'run network_command \<Rightarrow> 'run network_command"
  | StatusCommand | GenesisCommands 'v "string \<rightharpoonup> 'b" string | KeysCommands
  | CommandGroup group_info "('v, 'b, 'cr, 'ex, 'run) command list"
  | WaitTxCmd | ValidatorCommand | QueryBlockCmd | QueryTxsByEventsCmd | QueryBlocksCmd | QueryTxCmd | QueryBlockResultsCmd
  | SignCommand | SignBatchCommand | MultiSignCommand | MultiSignBatchCmd | ValidateSignaturesCommand | LineBreak
  | BroadcastCommand | EncodeCommand | DecodeCommand | SimulateCmd

definition queryCommand :: "('v, 'b, 'cr, 'ex, 'run) command" where
  "queryCommand = CommandGroup
     \<lparr>grp_Use = ''query'', Aliases = [''q''], grp_Short = ''Querying subcommands'', DisableFlagParsing = False,
      SuggestionsMinimumDistance = 2, grp_RunE = ValidateCmd\<rparr>
     [WaitTxCmd, ValidatorCommand, QueryBlockCmd, QueryTxsByEventsCmd, QueryBlocksCmd, QueryTxCmd, QueryBlockResultsCmd]"

definition txCommand :: "('v, 'b, 'cr, 'ex, 'run) command" where
  "txCommand = CommandGroup
     \<lparr>grp_Use = ''tx'', Aliases = [], grp_Short = ''Transactions subcommands'', DisableFlagParsing = False,
      SuggestionsMinimumDistance = 2, grp_RunE = ValidateCmd\<rparr>
     [SignCommand, SignBatchCommand, MultiSignCommand, MultiSignBatchCmd, ValidateSignaturesCommand, LineBreak,
      BroadcastCommand, EncodeCommand, DecodeCommand, SimulateCmd]"

definition addModuleInitFlags :: "'cmd \<Rightarrow> 'cmd" where
  "addModuleInitFlags startCmd = startCmd"

text \<open>
  What the commands are given besides the context: the home directory, this program's functions
  (\<open>newApp\<close>, \<open>appExport\<close>, \<open>newTestnetApp\<close> and the body of the multi-node command, each applied to
  the other packages' operations), and what the test network commands take of other packages.
\<close>

record ('b, 'cr, 'ex, 'tc, 'run) command_env =
  DefaultNodeHome :: string
  env_newApp :: 'cr
  env_appExport :: 'ex
  env_newTestnetApp :: 'tc
  env_multi_node :: "(string \<rightharpoonup> 'b) \<Rightarrow> 'run"
  InPlaceTestnetCreator :: "'tc \<Rightarrow> 'run network_command"
  Secp256k1Type :: string
  env_BondDenom :: string

text \<open>A command with its subcommands.\<close>

record ('v, 'b, 'cr, 'ex, 'run, 'pre) cobra_command =
  Use :: string
  Short :: string
  SilenceErrors :: bool
  PersistentPreRunE :: 'pre
  subcommands :: "('v, 'b, 'cr, 'ex, 'run) command list"

definition AddCommand ::
    "('v, 'b, 'cr, 'ex, 'run, 'pre) cobra_command \<Rightarrow> ('v, 'b, 'cr, 'ex, 'run) command list
     \<Rightarrow> ('v, 'b, 'cr, 'ex, 'run, 'pre) cobra_command" where
  "AddCommand c cmds = c\<lparr>subcommands := subcommands c @ cmds\<rparr>"

definition initRootCmd ::
    "('b, 'cr, 'ex, 'tc, 'run) command_env \<Rightarrow> ('v, 'b, 'cr, 'ex, 'run, 'pre) cobra_command \<Rightarrow> 'v \<Rightarrow> (string \<rightharpoonup> 'b)
     \<Rightarrow> ('v, 'b, 'cr, 'ex, 'run, 'pre) cobra_command" where
  "initRootCmd env rootCmd txCfg basicManager =
     (let rootCmd = AddCommand rootCmd
            [InitCmd basicManager (DefaultNodeHome env),
             OwnCommand (NewInPlaceTestnetCmd (InPlaceTestnetCreator env) (env_newTestnetApp env)),
             OwnCommand (NewTestnetMultiNodeCmd (Secp256k1Type env) (env_BondDenom env) (env_multi_node env) basicManager),
             DebugCmd,
             ConfixCmd,
             PruningCmd (env_newApp env) (DefaultNodeHome env),
             SnapshotCmd (env_newApp env)];
          rootCmd = AddCommand rootCmd
            [ServerCommands (DefaultNodeHome env) (env_newApp env) (env_appExport env) addModuleInitFlags]
      in AddCommand rootCmd
           [StatusCommand,
            GenesisCommands txCfg basicManager (DefaultNodeHome env),
            queryCommand,
            txCommand,
            KeysCommands])"

section \<open>Applications\<close>

text \<open>\<open>newApp\<close>: the application with the server's default options for \<open>BaseApp\<close>, at its latest state.\<close>

definition newApp ::
    "('s, 'v, 'req, 'resp) wiring_ops \<Rightarrow> 'v \<Rightarrow> (sdk_name \<Rightarrow> string) \<Rightarrow> (ibc_name \<Rightarrow> string) \<Rightarrow> ('v \<Rightarrow> 'v list)
     \<Rightarrow> 'v \<Rightarrow> 'v \<Rightarrow> 'v \<Rightarrow> 'v \<Rightarrow> 's \<Rightarrow> 's \<times> 'v App outcome" where
  "newApp ops zero nm inm DefaultBaseappOptions logger db traceStore appOpts s =
     (let baseappOptions = DefaultBaseappOptions appOpts in
      New ops zero nm inm logger db traceStore True appOpts baseappOptions s)"

text \<open>
  \<open>appExport\<close>: \<open>appOpts\<close> is a \<open>viper\<close> or another implementation of its interface, and \<open>value\<close> what
  \<open>New\<close> is given of it; a value of an option may be of any type. The application's keepers, its
  \<open>LoadHeight\<close> and the parts of it the export calls are those of the application that was made. It is
  loaded at its latest state exactly when no height is asked for (\<open>-1\<close>).
\<close>

datatype opt_val = OptString string | OptOther

datatype app_options = Viper "string \<Rightarrow> opt_val" | OtherOptions "string \<Rightarrow> opt_val"

fun opts_Get :: "app_options \<Rightarrow> string \<Rightarrow> opt_val" where
  "opts_Get (Viper get) k = get k"
| "opts_Get (OtherOptions get) k = get k"

fun is_viper :: "app_options \<Rightarrow> bool" where
  "is_viper (Viper get) = True"
| "is_viper (OtherOptions get) = False"

record ('s, 'v, 'rest, 'r, 're, 'u, 'ue, 'i, 'd, 'gs, 'gv, 'cp) app_parts =
  LoadHeight :: "'v App \<Rightarrow> 's \<Rightarrow> goint \<Rightarrow> 's \<times> goerr option"
  keepers_of :: "'v App \<Rightarrow> ('s, 'rest, 'r, 're, 'u, 'ue, 'i, 'd) export_keepers"
  export_of :: "'v App \<Rightarrow> ('s, 'gs, 'gv, 'cp) export_app"
  ConsensusParams_zero :: 'cp

definition appExport ::
    "('s, 'v, 'req, 'resp) wiring_ops \<Rightarrow> 'v \<Rightarrow> (sdk_name \<Rightarrow> string) \<Rightarrow> (ibc_name \<Rightarrow> string)
     \<Rightarrow> ('s, 'v, 'rest, 'r, 're, 'u, 'ue, 'i, 'd, 'gs, 'gv, 'cp) app_parts \<Rightarrow> string \<Rightarrow> (app_options \<Rightarrow> 'v)
     \<Rightarrow> 'v \<Rightarrow> 'v \<Rightarrow> 'v \<Rightarrow> goint \<Rightarrow> bool \<Rightarrow> string list \<Rightarrow> app_options \<Rightarrow> string list \<Rightarrow> 's
     \<Rightarrow> 's \<times> (('gv, 'cp) ExportedApp \<times> goerr option) outcome" where
  "appExport ops zero nm inm parts flagHome value logger db traceStore height forZeroHeight jailAllowedAddrs
       appOpts modulesToExport s =
     (let fail = (\<lambda>s err. (s, Return (ExportedApp_zero (ConsensusParams_zero parts), Some err)));
          new = (\<lambda>loadLatest. New ops zero nm inm logger db traceStore loadLatest (value appOpts) [] s);
          export = (\<lambda>bApp s. ExportAppStateAndValidators (keepers_of parts bApp) (export_of parts bApp)
            forZeroHeight jailAllowedAddrs modulesToExport s) in
      case opts_Get appOpts flagHome of
        OptOther \<Rightarrow> fail s (Msg ''application home not set'')
      | OptString homePath \<Rightarrow>
      if homePath = '''' then fail s (Msg ''application home not set'')
      else if \<not> is_viper appOpts then fail s (Msg ''appOpts is not viper.Viper'')
      else if height \<noteq> -1 then
        after (new False) (\<lambda>s bApp.
        case LoadHeight parts bApp s height of
          (s, Some err) \<Rightarrow> fail s err
        | (s, None) \<Rightarrow> export bApp s)
      else after (new True) (\<lambda>s bApp. export bApp s))"

section \<open>The root command\<close>

text \<open>Cobra's streams, and the server's handler that reads the configuration files.\<close>

record ('v, 'rest, 'cmd, 'srv, 'cmt) prerun_pkg =
  cmd_OutOrStdout :: "'cmd \<Rightarrow> 'v"
  cmd_ErrOrStderr :: "'cmd \<Rightarrow> 'v"
  cmd_SetOut :: "'cmd \<Rightarrow> 'v \<Rightarrow> 'cmd"
  cmd_SetErr :: "'cmd \<Rightarrow> 'v \<Rightarrow> 'cmd"
  cmd_Context :: "'cmd \<Rightarrow> 'v"
  srv_DefaultConfig :: 'srv
  srv_DefaultConfigTemplate :: string
  cmt_DefaultConfig :: 'cmt
  InterceptConfigsPreRunHandler :: "'cmd \<Rightarrow> string \<Rightarrow> 'srv CustomAppConfig \<Rightarrow> 'cmt \<Rightarrow> 'cmd \<times> goerr option"

text \<open>
  Before any command. The state is the context of the enclosing function and the command: the
  contexts read from the flags and the configuration shadow the former, which only gets the
  command's context and the prefix.
\<close>

definition preRun ::
    "('v, 'rest, 'cmd) client_pkg \<Rightarrow> ('v, 'rest, 'cmd, 'srv, 'cmt) prerun_pkg
     \<Rightarrow> ('v, 'rest) client_context \<times> 'cmd \<Rightarrow> (('v, 'rest) client_context \<times> 'cmd) \<times> unit outcome" where
  "preRun pkg pre = (\<lambda>(clientCtx, cmd).
     let cmd = cmd_SetOut pre cmd (cmd_OutOrStdout pre cmd);
         cmd = cmd_SetErr pre cmd (cmd_ErrOrStderr pre cmd);
         clientCtx = clientCtx\<lparr>CmdContext := cmd_Context pre cmd, Viper_prefix := Name\<rparr> in
     case ReadPersistentCommandFlags pkg clientCtx cmd of
       (ctx, Some err) \<Rightarrow> ((clientCtx, cmd), Fail err)
     | (ctx, None) \<Rightarrow>
     case ReadFromClientConfig pkg ctx of
       (ctx, Some err) \<Rightarrow> ((clientCtx, cmd), Fail err)
     | (ctx, None) \<Rightarrow>
     case SetCmdClientContextHandler pkg ctx cmd of
       (cmd, Some err) \<Rightarrow> ((clientCtx, cmd), Fail err)
     | (cmd, None) \<Rightarrow>
     let (customAppTemplate, customAppConfig) = initAppConfig (srv_DefaultConfig pre) (srv_DefaultConfigTemplate pre);
         customCMTConfig = initCometBFTConfig (cmt_DefaultConfig pre) in
     case InterceptConfigsPreRunHandler pre cmd customAppTemplate customAppConfig customCMTConfig of
       (cmd, Some err) \<Rightarrow> ((clientCtx, cmd), Fail err)
     | (cmd, None) \<Rightarrow> ((clientCtx, cmd), Return ()))"

text \<open>What the injection gives the root command.\<close>

record ('v, 'b, 'rest, 'a) root_injected =
  auto_Modules :: "string \<rightharpoonup> 'v"
  auto_rest :: 'a
  moduleBasicManager :: "string \<rightharpoonup> 'b"
  clientCtx :: "('v, 'rest) client_context"

text \<open>
  The loop over the IBC modules goes through Go's map in some order, \<open>order\<close>; so does the one in
  \<open>RegisterIBC\<close>, \<open>order'\<close>. \<open>EnhanceRootCommand\<close> adds the module's own commands or fails.
\<close>

definition add_ibc_modules ::
    "(string \<Rightarrow> 'v \<Rightarrow> 'b) \<Rightarrow> (string \<rightharpoonup> 'v) \<Rightarrow> string list \<Rightarrow> (string \<rightharpoonup> 'b) \<times> (string \<rightharpoonup> 'v)
     \<Rightarrow> (string \<rightharpoonup> 'b) \<times> (string \<rightharpoonup> 'v)" where
  "add_ibc_modules CoreAppModuleBasicAdaptor ibcModules order =
     fold (\<lambda>name (basics, mods). case ibcModules name of
         Some m \<Rightarrow> (basics(name \<mapsto> CoreAppModuleBasicAdaptor name m), mods(name \<mapsto> m))
       | None \<Rightarrow> (basics, mods)) order"

definition NewRootCmd ::
    "('b, 'cr, 'ex, 'tc, 'run) command_env \<Rightarrow> ('v, 'v, 'reg) client_ops \<Rightarrow> (sdk_name \<Rightarrow> string) \<Rightarrow> (ibc_name \<Rightarrow> string)
     \<Rightarrow> (string \<Rightarrow> 'v \<Rightarrow> 'b)
     \<Rightarrow> ((string \<rightharpoonup> 'v) \<times> 'a \<Rightarrow> ('v, 'b, 'cr, 'ex, 'run, 'pre) cobra_command
         \<Rightarrow> goerr + ('v, 'b, 'cr, 'ex, 'run, 'pre) cobra_command)
     \<Rightarrow> (('v, 'rest) client_context \<Rightarrow> 'pre) \<Rightarrow> string list \<Rightarrow> string list
     \<Rightarrow> goerr + ('v, 'b, 'rest, 'a) root_injected \<Rightarrow> 'reg \<Rightarrow> 'reg \<times> ('v, 'b, 'cr, 'ex, 'run, 'pre) cobra_command outcome" where
  "NewRootCmd env cops nm inm CoreAppModuleBasicAdaptor EnhanceRootCommand run order order' injected reg =
     (case injected of
        Inl err \<Rightarrow> (reg, Panic err)
      | Inr i \<Rightarrow>
      let rootCmd = \<lparr>Use = Name @ ''d'', Short = ''feicoin node'', SilenceErrors = True,
            PersistentPreRunE = run (clientCtx i), subcommands = []\<rparr> in
      case RegisterIBC cops nm inm order' (Codec (clientCtx i)) reg of (reg, ibcModules) \<Rightarrow>
      case add_ibc_modules CoreAppModuleBasicAdaptor ibcModules order (moduleBasicManager i, auto_Modules i) of (basics, mods) \<Rightarrow>
      (case EnhanceRootCommand (mods, auto_rest i) (initRootCmd env rootCmd (TxConfig (clientCtx i)) basics) of
         Inl err \<Rightarrow> (reg, Panic err)
       | Inr rootCmd \<Rightarrow> (reg, Return rootCmd)))"

text \<open>\<open>main\<close>: the exit code, and the line it prints.\<close>

definition main :: "('root \<Rightarrow> string \<Rightarrow> string \<Rightarrow> goerr option) \<Rightarrow> string \<Rightarrow> string \<Rightarrow> 'root \<Rightarrow> nat \<times> string option" where
  "main Execute EnvPrefix home rootCmd =
     (case Execute rootCmd EnvPrefix home of
        Some err \<Rightarrow> (1, Some (err_text err))
      | None \<Rightarrow> (0, None))"

section \<open>The module's commands\<close>

text \<open>\<open>autocli.go\<close>: for each method of the two services, how it becomes a command.\<close>

record rpc_command =
  RpcMethod :: string
  rpc_Use :: string
  Skip :: bool
  PositionalArgs :: "string list"

definition query_descriptor :: "rpc_command list" where
  "query_descriptor = [\<lparr>RpcMethod = ''Params'', rpc_Use = ''params'', Skip = False, PositionalArgs = []\<rparr>]"

definition tx_descriptor :: "rpc_command list" where
  "tx_descriptor =
     [\<lparr>RpcMethod = ''UpdateParams'', rpc_Use = '''', Skip = True, PositionalArgs = []\<rparr>,
      \<lparr>RpcMethod = ''MintTokens'', rpc_Use = ''mint-tokens [recipient] [amount] [denom]'', Skip = False,
       PositionalArgs = [''recipient'', ''amount'', ''denom'']\<rparr>]"

record service_command =
  cmd_Service :: string
  EnhanceCustomCommand :: bool
  RpcCommandOptions :: "rpc_command list"

text \<open>The descriptors of the query service and of the message service.\<close>

definition AutoCLIOptions :: "service_command \<times> service_command" where
  "AutoCLIOptions =
     (\<lparr>cmd_Service = fst Query_serviceDesc, EnhanceCustomCommand = False, RpcCommandOptions = query_descriptor\<rparr>,
      \<lparr>cmd_Service = fst Msg_serviceDesc, EnhanceCustomCommand = True, RpcCommandOptions = tx_descriptor\<rparr>)"

end
