(* ===== verification/App_Wiring_Facts.thy ===== *)
theory App_Wiring_Facts
  imports App_Wiring "HOL-Library.Multiset"
begin

text \<open>
  What the construction of the application amounts to: each IBC keeper is built on its own store
  key and its own parameter subspace, both registered before; the modules registered with the
  application are the ones the client side knows, under the names the orders use.
\<close>

section \<open>What it relies on\<close>

text \<open>
  A store key is named as asked, registered keys are found under their names, and a subspace is
  found under its name once it was made; no constructor and no other subspace changes that.
\<close>

definition wiring_laws :: "('s, 'v, 'req, 'resp) wiring_ops \<Rightarrow> bool" where
  "wiring_laws ops \<longleftrightarrow>
     (\<forall>n k. NewKVStoreKey ops n = Inr k \<longrightarrow> k = KVStoreKey n) \<and>
     (\<forall>s ks s'. RegisterStores ops s ks = (s', None) \<longrightarrow>
        (\<forall>k \<in> set ks. UnsafeFindStoreKey ops s' (key_name k) = Some k)) \<and>
     (\<forall>s pk n s' x. Params_Subspace ops s pk n = (s', Inr x) \<longrightarrow>
        Params_GetSubspace ops s' pk n = (x, True) \<and>
        (\<forall>m. m \<noteq> n \<longrightarrow> Params_GetSubspace ops s' pk m = Params_GetSubspace ops s pk m))"

definition wiring_frame :: "('s, 'v, 'req, 'resp) wiring_ops \<Rightarrow> bool" where
  "wiring_frame ops \<longleftrightarrow>
     (\<forall>s pk n. UnsafeFindStoreKey ops (fst (Params_Subspace ops s pk n)) = UnsafeFindStoreKey ops s) \<and>
     (\<forall>s x t. UnsafeFindStoreKey ops (fst (WithKeyTable ops s x t)) = UnsafeFindStoreKey ops s) \<and>
     (\<forall>s x t. Params_GetSubspace ops (fst (WithKeyTable ops s x t)) = Params_GetSubspace ops s) \<and>
     (\<forall>s c args. UnsafeFindStoreKey ops (fst (construct ops s c args)) = UnsafeFindStoreKey ops s) \<and>
     (\<forall>s c args. Params_GetSubspace ops (fst (construct ops s c args)) = Params_GetSubspace ops s)"

text \<open>A value a constructor has made of some arguments, and a subspace that was made for a name.\<close>

definition built :: "('s, 'v, 'req, 'resp) wiring_ops \<Rightarrow> ctor \<Rightarrow> 'v arg list \<Rightarrow> 'v \<Rightarrow> bool" where
  "built ops c args x \<longleftrightarrow> (\<exists>s s'. construct ops s c args = (s', Inr x))"

lemma make_Return: "construct_or_panic ops c args s = (s', Return x) \<longleftrightarrow> construct ops s c args = (s', Inr x)"
  by (auto simp: construct_or_panic_def split: prod.splits sum.splits)

lemma make_built: "construct_or_panic ops c args s = (s', Return x) \<Longrightarrow> built ops c args x"
  by (auto simp: make_Return built_def)

lemma make_frame:
  assumes "wiring_frame ops" "construct_or_panic ops c args s = (s', Return x)"
  shows "UnsafeFindStoreKey ops s' = UnsafeFindStoreKey ops s" "Params_GetSubspace ops s' = Params_GetSubspace ops s"
proof -
  have "s' = fst (construct ops s c args)" using assms(2) by (simp add: make_Return)
  then show "UnsafeFindStoreKey ops s' = UnsafeFindStoreKey ops s" "Params_GetSubspace ops s' = Params_GetSubspace ops s"
    using assms(1) unfolding wiring_frame_def by blast+
qed

section \<open>Stores and subspaces\<close>

lemma new_keys_eq: "wiring_laws ops \<Longrightarrow> new_keys ops ns = Inr ks \<Longrightarrow> ks = map KVStoreKey ns"
  by (induction ns arbitrary: ks) (auto simp: bind_err_eq_Inr wiring_laws_def)

lemma ibc_stores_keys:
  assumes "wiring_laws ops" "ibc_stores ops inm s = (s', Return ())"
    and "n \<in> {IBC_StoreKey, Transfer_StoreKey, ICAHost_StoreKey, ICAController_StoreKey}"
  shows "UnsafeFindStoreKey ops s' (inm n) = Some (KVStoreKey (inm n))"
proof -
  let ?ns = "map inm [IBC_StoreKey, Transfer_StoreKey, ICAHost_StoreKey, ICAController_StoreKey]"
  from assms(2) obtain ks where k: "new_keys ops ?ns = Inr ks" "RegisterStores ops s ks = (s', None)"
    by (auto simp: ibc_stores_def after_Return simp del: new_keys.simps)
  have ks: "ks = map KVStoreKey ?ns" using new_keys_eq [OF assms(1) k(1)] .
  have "KVStoreKey (inm n) \<in> set ks" using assms(3) unfolding ks by auto
  with assms(1) k(2) have "UnsafeFindStoreKey ops s' (key_name (KVStoreKey (inm n))) = Some (KVStoreKey (inm n))"
    unfolding wiring_laws_def by blast
  then show ?thesis by simp
qed

lemma register_subspace_effect:
  assumes "wiring_laws ops" "wiring_frame ops" "register_subspace ops app n t s = (s', Return ())"
  shows "UnsafeFindStoreKey ops s' = UnsafeFindStoreKey ops s \<and> snd (Params_GetSubspace ops s' (ParamsKeeper app) n) \<and>
    (\<forall>m. m \<noteq> n \<longrightarrow> Params_GetSubspace ops s' (ParamsKeeper app) m = Params_GetSubspace ops s (ParamsKeeper app) m)"
proof -
  from assms(3) obtain s1 x where x: "Params_Subspace ops s (ParamsKeeper app) n = (s1, Inr x)"
      "WithKeyTable ops s1 x t = (s', None)"
    by (auto simp: register_subspace_def split: prod.splits sum.splits)
  then have f: "s1 = fst (Params_Subspace ops s (ParamsKeeper app) n)" "s' = fst (WithKeyTable ops s1 x t)" by simp_all
  have "UnsafeFindStoreKey ops s' = UnsafeFindStoreKey ops s1" "Params_GetSubspace ops s' = Params_GetSubspace ops s1"
    using assms(2) f(2) unfolding wiring_frame_def by blast+
  moreover have "UnsafeFindStoreKey ops s1 = UnsafeFindStoreKey ops s"
    using assms(2) f(1) unfolding wiring_frame_def by blast
  moreover have "Params_GetSubspace ops s1 (ParamsKeeper app) n = (x, True) \<and>
      (\<forall>m. m \<noteq> n \<longrightarrow> Params_GetSubspace ops s1 (ParamsKeeper app) m = Params_GetSubspace ops s (ParamsKeeper app) m)"
    using assms(1) x(1) unfolding wiring_laws_def by blast
  ultimately show ?thesis by simp
qed

definition subspace_names :: "(sdk_name \<Rightarrow> string) \<Rightarrow> (ibc_name \<Rightarrow> string) \<Rightarrow> string list" where
  "subspace_names nm inm =
     [nm ibcexported, nm ibctransfertypes, inm ICAController_SubModuleName, inm ICAHost_SubModuleName]"

lemma ibc_subspaces_effect:
  assumes "wiring_laws ops" "wiring_frame ops" "distinct (subspace_names nm inm)"
    and "ibc_subspaces ops nm inm app s = (s', Return ())"
  shows "UnsafeFindStoreKey ops s' = UnsafeFindStoreKey ops s \<and>
    (\<forall>n \<in> set (subspace_names nm inm). snd (Params_GetSubspace ops s' (ParamsKeeper app) n))"
proof -
  note r = register_subspace_effect [OF assms(1,2)]
  from assms(4) obtain s1 s2 s3 t where
    s: "register_subspace ops app (nm ibcexported) t s = (s1, Return ())"
      "register_subspace ops app (nm ibctransfertypes) (ParamKeyTable ops TransferParams) s1 = (s2, Return ())"
      "register_subspace ops app (inm ICAController_SubModuleName) (ParamKeyTable ops ICAControllerParams) s2 = (s3, Return ())"
      "register_subspace ops app (inm ICAHost_SubModuleName) (ParamKeyTable ops ICAHostParams) s3 = (s', Return ())"
    by (auto simp: ibc_subspaces_def after_Return Let_def)
  show ?thesis
    using r [OF s(1)] r [OF s(2)] r [OF s(3)] r [OF s(4)] assms(3) by (simp add: subspace_names_def)
qed

section \<open>The keepers\<close>

lemma GetKey_found: "UnsafeFindStoreKey ops s n = Some (KVStoreKey n) \<Longrightarrow> GetKey ops s n = Some n"
  by (simp add: GetKey_def)

text \<open>A subspace that was found, for a name.\<close>

definition found_subspace :: "('s, 'v, 'req, 'resp) wiring_ops \<Rightarrow> 'v App \<Rightarrow> string \<Rightarrow> 'v \<Rightarrow> bool" where
  "found_subspace ops app n x \<longleftrightarrow> (\<exists>s. Params_GetSubspace ops s (ParamsKeeper app) n = (x, True))"

lemma found_GetSubspace:
  "snd (Params_GetSubspace ops s (ParamsKeeper app) n) \<Longrightarrow> found_subspace ops app n (GetSubspace ops app s n)"
  by (cases "Params_GetSubspace ops s (ParamsKeeper app) n") (auto simp: found_subspace_def GetSubspace_def)

text \<open>The wiring of the four keepers.\<close>

definition gov_text :: "('s, 'v, 'req, 'resp) wiring_ops \<Rightarrow> (sdk_name \<Rightarrow> string) \<Rightarrow> 'v App \<Rightarrow> string" where
  "gov_text ops nm app =
     fst (BytesToString (Auth_AddressCodec ops (AuthKeeper app)) (Auth_NewModuleAddress ops (nm govtypes)))"

definition on_key :: "('s, 'v, 'req, 'resp) wiring_ops \<Rightarrow> string \<Rightarrow> 'v arg" where
  "on_key ops n = V (NewKVStoreService ops (Some n))"

definition keepers_wired ::
    "('s, 'v, 'req, 'resp) wiring_ops \<Rightarrow> (sdk_name \<Rightarrow> string) \<Rightarrow> (ibc_name \<Rightarrow> string) \<Rightarrow> 'v App \<Rightarrow> bool" where
  "keepers_wired ops nm inm app \<longleftrightarrow>
     (let channel = V (ChannelKeeper ops (IBCKeeper app)); gov = T (gov_text ops nm app) in
      (\<exists>x. found_subspace ops app (nm ibcexported) x \<and>
         built ops IBC_NewKeeper
           [V (appCodec app), on_key ops (inm IBC_StoreKey), V x, V (UpgradeKeeper app), gov] (IBCKeeper app)) \<and>
      (\<exists>x r. found_subspace ops app (nm ibctransfertypes) x \<and>
         built ops Transfer_NewKeeper
           [V (appCodec app), on_key ops (inm Transfer_StoreKey), V x, channel, channel, r, V (AuthKeeper app),
            V (BankKeeper app), gov] (TransferKeeper app)) \<and>
      (\<exists>x r q. found_subspace ops app (inm ICAHost_SubModuleName) x \<and>
         built ops ICAHost_NewKeeper
           [V (appCodec app), on_key ops (inm ICAHost_StoreKey), V x, channel, channel, V (AuthKeeper app), r, q, gov]
           (ICAHostKeeper app)) \<and>
      (\<exists>x r. found_subspace ops app (inm ICAController_SubModuleName) x \<and>
         built ops ICAController_NewKeeper
           [V (appCodec app), on_key ops (inm ICAController_StoreKey), V x, channel, channel, r, gov]
           (ICAControllerKeeper app)))"

lemma ibc_keepers_wired:
  assumes "wiring_frame ops" "ibc_keepers ops nm inm app s = (s', Return app')"
    and keys: "\<And>n. n \<in> {IBC_StoreKey, Transfer_StoreKey, ICAHost_StoreKey, ICAController_StoreKey} \<Longrightarrow>
      UnsafeFindStoreKey ops s (inm n) = Some (KVStoreKey (inm n))"
    and subs: "\<And>n. n \<in> set (subspace_names nm inm) \<Longrightarrow> snd (Params_GetSubspace ops s (ParamsKeeper app) n)"
  shows "keepers_wired ops nm inm app' \<and>
    app' = app\<lparr>IBCKeeper := IBCKeeper app', TransferKeeper := TransferKeeper app', ICAHostKeeper := ICAHostKeeper app',
      ICAControllerKeeper := ICAControllerKeeper app'\<rparr>"
proof -
  let ?gov = "T (gov_text ops nm app)"
  let ?svc = "\<lambda>s n. V (NewKVStoreService ops (GetKey ops s n))" and ?sub = "\<lambda>s n. V (GetSubspace ops app s n)"
  from assms(2) obtain s1 s2 s3 k1 k2 k3 k4 where
    m: "construct_or_panic ops IBC_NewKeeper
        [V (appCodec app), ?svc s (inm IBC_StoreKey), ?sub s (nm ibcexported), V (UpgradeKeeper app), ?gov] s = (s1, Return k1)"
      "construct_or_panic ops Transfer_NewKeeper
        [V (appCodec app), ?svc s1 (inm Transfer_StoreKey), ?sub s1 (nm ibctransfertypes), V (ChannelKeeper ops k1),
         V (ChannelKeeper ops k1), V (MsgServiceRouter ops s1), V (AuthKeeper app), V (BankKeeper app), ?gov] s1 = (s2, Return k2)"
      "construct_or_panic ops ICAHost_NewKeeper
        [V (appCodec app), ?svc s2 (inm ICAHost_StoreKey), ?sub s2 (inm ICAHost_SubModuleName), V (ChannelKeeper ops k1),
         V (ChannelKeeper ops k1), V (AuthKeeper app), V (MsgServiceRouter ops s2), V (GRPCQueryRouter ops s2), ?gov] s2
        = (s3, Return k3)"
      "construct_or_panic ops ICAController_NewKeeper
        [V (appCodec app), ?svc s3 (inm ICAController_StoreKey), ?sub s3 (inm ICAController_SubModuleName),
         V (ChannelKeeper ops k1), V (ChannelKeeper ops k1), V (MsgServiceRouter ops s3), ?gov] s3 = (s', Return k4)"
    and app': "app' = app\<lparr>IBCKeeper := k1, TransferKeeper := k2, ICAHostKeeper := k3, ICAControllerKeeper := k4\<rparr>"
    by (auto simp: ibc_keepers_def gov_text_def after_Return Let_def GetSubspace_def)
  note f = make_frame [OF assms(1) m(1)] make_frame [OF assms(1) m(2)] make_frame [OF assms(1) m(3)]
  have u: "UnsafeFindStoreKey ops t = UnsafeFindStoreKey ops s" "Params_GetSubspace ops t = Params_GetSubspace ops s"
    if "t \<in> {s, s1, s2, s3}" for t
    using that f by auto
  have svc: "?svc t (inm n) = on_key ops (inm n)"
    if "t \<in> {s, s1, s2, s3}" "n \<in> {IBC_StoreKey, Transfer_StoreKey, ICAHost_StoreKey, ICAController_StoreKey}" for t n
    using GetKey_found [of ops t "inm n"] keys [OF that(2)] u(1) [OF that(1)] by (simp add: on_key_def)
  have sub: "found_subspace ops app n (GetSubspace ops app t n)"
    if "t \<in> {s, s1, s2, s3}" "n \<in> set (subspace_names nm inm)" for t n
    using subs [OF that(2)] u(2) [OF that(1)] by (intro found_GetSubspace) simp
  have eqs: "appCodec app' = appCodec app" "UpgradeKeeper app' = UpgradeKeeper app" "AuthKeeper app' = AuthKeeper app"
    "BankKeeper app' = BankKeeper app" "IBCKeeper app' = k1" "TransferKeeper app' = k2" "ICAHostKeeper app' = k3"
    "ICAControllerKeeper app' = k4" "gov_text ops nm app' = gov_text ops nm app"
    "found_subspace ops app' n x = found_subspace ops app n x" for n x
    by (simp_all add: app' gov_text_def found_subspace_def)
  have 1: "built ops IBC_NewKeeper
      [V (appCodec app), on_key ops (inm IBC_StoreKey), ?sub s (nm ibcexported), V (UpgradeKeeper app), ?gov] k1"
    using make_built [OF m(1)] svc [of s IBC_StoreKey] by simp
  have 2: "built ops Transfer_NewKeeper
      [V (appCodec app), on_key ops (inm Transfer_StoreKey), ?sub s1 (nm ibctransfertypes), V (ChannelKeeper ops k1),
       V (ChannelKeeper ops k1), V (MsgServiceRouter ops s1), V (AuthKeeper app), V (BankKeeper app), ?gov] k2"
    using make_built [OF m(2)] svc [of s1 Transfer_StoreKey] by simp
  have 3: "built ops ICAHost_NewKeeper
      [V (appCodec app), on_key ops (inm ICAHost_StoreKey), ?sub s2 (inm ICAHost_SubModuleName), V (ChannelKeeper ops k1),
       V (ChannelKeeper ops k1), V (AuthKeeper app), V (MsgServiceRouter ops s2), V (GRPCQueryRouter ops s2), ?gov] k3"
    using make_built [OF m(3)] svc [of s2 ICAHost_StoreKey] by simp
  have 4: "built ops ICAController_NewKeeper
      [V (appCodec app), on_key ops (inm ICAController_StoreKey), ?sub s3 (inm ICAController_SubModuleName),
       V (ChannelKeeper ops k1), V (ChannelKeeper ops k1), V (MsgServiceRouter ops s3), ?gov] k4"
    using make_built [OF m(4)] svc [of s3 ICAController_StoreKey] by simp
  have "keepers_wired ops nm inm app'"
    unfolding keepers_wired_def Let_def eqs
    using 1 2 3 4 sub [of s "nm ibcexported"] sub [of s1 "nm ibctransfertypes"] sub [of s2 "inm ICAHost_SubModuleName"]
      sub [of s3 "inm ICAController_SubModuleName"]
    by (auto simp: subspace_names_def intro!: exI)
  then show ?thesis by (simp add: app')
qed

section \<open>The modules\<close>

text \<open>The modules registered are made by the constructors the client side uses, in its order.\<close>

definition modules_registered ::
    "('s, 'v, 'req, 'resp) wiring_ops \<Rightarrow> (sdk_name \<Rightarrow> string) \<Rightarrow> (ibc_name \<Rightarrow> string) \<Rightarrow> bool" where
  "modules_registered ops nm inm \<longleftrightarrow>
     (\<exists>s s' ms. RegisterModules ops s ms = (s', None) \<and>
        list_all2 (\<lambda>(n, c) m. \<exists>args. built ops c args m) (ibc_module_names nm inm) ms)"

lemma ibc_modules_registered:
  assumes "ibc_modules ops app lc s = (s', Return ())"
  shows "modules_registered ops nm inm"
proof -
  from assms obtain s1 s2 s3 s4 s5 m1 m2 m3 m4 m5 where
    m: "construct_or_panic ops IBC_NewAppModule [V (IBCKeeper app)] s = (s1, Return m1)"
      "construct_or_panic ops Transfer_NewAppModule [V (TransferKeeper app)] s1 = (s2, Return m2)"
      "construct_or_panic ops ICA_NewAppModule [V (ICAControllerKeeper app), V (ICAHostKeeper app)] s2 = (s3, Return m3)"
      "construct_or_panic ops IBCTM_NewAppModule [V (fst lc)] s3 = (s4, Return m4)"
      "construct_or_panic ops Solomachine_NewAppModule [V (snd lc)] s4 = (s5, Return m5)"
    and r: "RegisterModules ops s5 [m1, m2, m3, m4, m5] = (s', None)"
    by (auto simp: ibc_modules_def after_Return)
  have "list_all2 (\<lambda>(n, c) m. \<exists>args. built ops c args m) (ibc_module_names nm inm) [m1, m2, m3, m4, m5]"
    using m [THEN make_built] by (auto simp: ibc_module_names_def)
  with r show ?thesis unfolding modules_registered_def by blast
qed

lemma registerIBCModules_effect:
  assumes "wiring_laws ops" "wiring_frame ops" "distinct (subspace_names nm inm)"
    and "registerIBCModules ops nm inm app s = (s', Return app')"
  shows "keepers_wired ops nm inm app' \<and> modules_registered ops nm inm \<and>
    app' = app\<lparr>IBCKeeper := IBCKeeper app', TransferKeeper := TransferKeeper app', ICAHostKeeper := ICAHostKeeper app',
      ICAControllerKeeper := ICAControllerKeeper app'\<rparr>"
proof -
  from assms(4) obtain s1 s2 s3 s4 lc where
    s: "ibc_stores ops inm s = (s1, Return ())" "ibc_subspaces ops nm inm app s1 = (s2, Return ())"
      "ibc_keepers ops nm inm app s2 = (s3, Return app')" "ibc_modules ops app' lc s4 = (s', Return ())"
    by (auto simp: registerIBCModules_def after_Return)
  note sub = ibc_subspaces_effect [OF assms(1-3) s(2)]
  have "keepers_wired ops nm inm app' \<and>
    app' = app\<lparr>IBCKeeper := IBCKeeper app', TransferKeeper := TransferKeeper app', ICAHostKeeper := ICAHostKeeper app',
      ICAControllerKeeper := ICAControllerKeeper app'\<rparr>"
    by (rule ibc_keepers_wired [OF assms(2) s(3)])
      (use ibc_stores_keys [OF assms(1) s(1)] sub in auto)
  with ibc_modules_registered [OF s(4)] show ?thesis by blast
qed

text \<open>
  Which module is initialised at genesis comes from the configuration or is one of those; the
  light clients have no genesis.
\<close>

lemma orders_covered:
  "set (map (name_value nm) (PreBlockers @ BeginBlockers @ EndBlockers @ InitGenesis_order)) \<subseteq>
     set (map (name_value nm) app_modules) \<union> fst ` set (ibc_module_names nm inm)"
  by (auto simp: PreBlockers_def BeginBlockers_def EndBlockers_def InitGenesis_order_def app_modules_eq
      ibc_module_names_def)

lemma orders_cover_ibc:
  "{n \<in> fst ` set (ibc_module_names nm inm). n \<notin> set (map (name_value nm) InitGenesis_order)} \<subseteq>
     {inm IBCTM_ModuleName, inm Solomachine_ModuleName}"
  by (auto simp: InitGenesis_order_def ibc_module_names_def)

section \<open>New\<close>

lemma fail_to_panic_Return [simp]: "fail_to_panic r = (s, Return x) \<longleftrightarrow> r = (s, Return x)"
  by (cases r; cases "snd r") (auto simp: fail_to_panic_def)

lemma New_Return:
  assumes "New ops zero nm inm logger db trace latest opts bopts s = (s', Return app)"
  obtains s1 i s2 s3 app1 m s4 s5 where
    "Inject ops s (Configs [AppConfig ops nm, SupplyValues [opts, logger]]) = (s1, Inr i)"
    "AppBuilder_Build ops s1 (i_appBuilder i) db trace (bopts @ [SetOptimisticExecution ops]) = (s2, None)"
    "registerIBCModules ops nm inm (inject_into i (App_zero zero)) s2 = (s3, Return app1)"
    "app = app1\<lparr>sm := m\<rparr>" "SetInitChainer ops s4 (app_InitChainer ops app) = (s5, None)" "Load ops s5 latest = (s', None)"
proof -
  obtain s1 r where i: "Inject ops s (Configs [AppConfig ops nm, SupplyValues [opts, logger]]) = (s1, r)"
    by (cases "Inject ops s (Configs [AppConfig ops nm, SupplyValues [opts, logger]])")
  with assms obtain i where r: "r = Inr i" by (cases r) (simp_all add: New_def)
  from assms i r obtain s2 s3 app1 m s4 s5 where
    n: "AppBuilder_Build ops s1 (i_appBuilder i) db trace (bopts @ [SetOptimisticExecution ops]) = (s2, None)"
    "registerIBCModules ops nm inm (inject_into i (App_zero zero)) s2 = (s3, Return app1)"
    "app = app1\<lparr>sm := m\<rparr>" "SetInitChainer ops s4 (app_InitChainer ops (app1\<lparr>sm := m\<rparr>)) = (s5, None)" "Load ops s5 latest = (s', None)"
    by (auto simp: New_def after_Return Let_def)
  with that i r show thesis by simp
qed

lemma New_wired:
  assumes "wiring_laws ops" "wiring_frame ops" "distinct (subspace_names nm inm)"
    and "New ops zero nm inm logger db trace latest opts bopts s = (s', Return app)"
  shows "keepers_wired ops nm inm app \<and> modules_registered ops nm inm \<and>
    (\<exists>s1 i. Inject ops s (Configs [AppConfig ops nm, SupplyValues [opts, logger]]) = (s1, Inr i) \<and>
       FeicoinKeeper app = i_FeicoinKeeper i \<and> appCodec app = i_appCodec i \<and> UpgradeKeeper app = i_UpgradeKeeper i) \<and>
    (\<exists>s2 s3. SetInitChainer ops s2 (app_InitChainer ops app) = (s3, None) \<and> Load ops s3 latest = (s', None))"
  using assms(4)
proof (rule New_Return)
  fix s1 i s2 s3 app1 m s4 s5
  assume n: "Inject ops s (Configs [AppConfig ops nm, SupplyValues [opts, logger]]) = (s1, Inr i)"
    "registerIBCModules ops nm inm (inject_into i (App_zero zero)) s2 = (s3, Return app1)"
    "app = app1\<lparr>sm := m\<rparr>" "SetInitChainer ops s4 (app_InitChainer ops app) = (s5, None)" "Load ops s5 latest = (s', None)"
  from registerIBCModules_effect [OF assms(1-3) n(2)] have w: "keepers_wired ops nm inm app1" "modules_registered ops nm inm"
    and a: "app1 = (inject_into i (App_zero zero))\<lparr>IBCKeeper := IBCKeeper app1, TransferKeeper := TransferKeeper app1,
      ICAHostKeeper := ICAHostKeeper app1, ICAControllerKeeper := ICAControllerKeeper app1\<rparr>"
    by blast+
  have "keepers_wired ops nm inm app"
    using w(1) by (simp add: keepers_wired_def found_subspace_def gov_text_def n(3))
  moreover have "FeicoinKeeper app1 = i_FeicoinKeeper i" "appCodec app1 = i_appCodec i" "UpgradeKeeper app1 = i_UpgradeKeeper i"
    by (subst a, simp add: inject_into_def)+
  ultimately show ?thesis using w(2) n by auto
qed

text \<open>Every failure of a step is a panic: \<open>New\<close> never returns an error.\<close>

lemma New_panics: "New ops zero nm inm logger db trace latest opts bopts s \<noteq> (s', Fail e)"
proof
  have f: "after r k \<noteq> (t, Fail err)" if "\<And>u. r \<noteq> (u, Fail err)" "\<And>u x. k u x \<noteq> (t, Fail err)"
    for r :: "'x \<times> 'y outcome" and k :: "'x \<Rightarrow> 'y \<Rightarrow> 'x \<times> 'z outcome" and t err
    using that by (cases r; cases "snd r") auto
  have d: "must_do r \<noteq> (t, Fail err)" "must u x \<noteq> (t, Fail err)" "fail_to_panic y \<noteq> (t, Fail err)"
    for r t err u and x :: "goerr + 'q" and y :: "'x \<times> 'p outcome"
    by (auto simp: must_do_def must_def fail_to_panic_def split: option.splits sum.splits prod.splits outcome.splits)
  assume "New ops zero nm inm logger db trace latest opts bopts s = (s', Fail e)"
  then show False
    by (auto simp: New_def Let_def f d split: prod.splits sum.splits)
qed

section \<open>The prefixes\<close>

lemma bech32_prefixes_distinct: "distinct bech32_prefixes \<and> list_all (\<lambda>p. take 4 p = AccountAddressPrefix) bech32_prefixes"
  by code_simp

section \<open>The order of a map\<close>

text \<open>
  The registration of the interfaces does not depend on the order in which Go's map yields the
  modules, when registering two modules commutes.
\<close>

lemma RegisterIBC_order:
  assumes "\<And>m m' reg. RegisterInterfaces ops m (RegisterInterfaces ops m' reg) =
      RegisterInterfaces ops m' (RegisterInterfaces ops m reg)"
    and "mset order = mset order'"
  shows "RegisterIBC ops nm inm order cdc reg = RegisterIBC ops nm inm order' cdc reg"
proof -
  let ?f = "\<lambda>n reg. case client_modules ops nm inm cdc n of
       Some m \<Rightarrow> if is_AppModuleBasic ops m then RegisterInterfaces ops m reg else reg | None \<Rightarrow> reg"
  have "?f x \<circ> ?f y = ?f y \<circ> ?f x" for x y
    using assms(1) by (auto simp: fun_eq_iff split: option.split)
  then have "fold ?f order = fold ?f order'"
    by (intro fold_multiset_equiv) (use assms(2) in auto)
  then show ?thesis by (simp add: RegisterIBC_def Let_def)
qed

end
