(* ===== verification/Commands_Facts.thy ===== *)
theory Commands_Facts
  imports Commands App_Wiring_Facts Service
begin

text \<open>
  The command line: the flags the multi-node command reads are the ones it defines, with their
  types; what it does without any flag; the descriptors of the module's commands match its
  services; and the root command does not depend on the order of Go's maps.
\<close>

section \<open>Flags\<close>

text \<open>
  What \<open>pflag\<close> promises of the flags a command defines: a getter of a flag's type succeeds, and
  gives the default of a flag that was not set.
\<close>

definition typed_flags :: "flag_set \<Rightarrow> flags \<Rightarrow> bool" where
  "typed_flags defs f \<longleftrightarrow>
     (\<forall>(n, v) \<in> set defs. case v of
        StringFlag t \<Rightarrow> snd (GetString f n) = None | IntFlag k \<Rightarrow> snd (GetInt f n) = None)"

definition default_flags :: "flag_set \<Rightarrow> flags \<Rightarrow> bool" where
  "default_flags defs f \<longleftrightarrow>
     (\<forall>(n, v) \<in> set defs. case v of
        StringFlag t \<Rightarrow> GetString f n = (t, None) | IntFlag k \<Rightarrow> GetInt f n = (k, None))"

lemmas flag_names = flagNodeDirPrefix_def flagPorts_def flagNumValidators_def flagOutputDir_def
  flagValidatorsStakeAmount_def flagStartingIPAddress_def

lemmas flag_defs = multi_node_flags_def addTestnetFlagsToCmd_def

lemma flags_read_are_defined:
  assumes "typed_flags (multi_node_flags algo denom) f"
  shows "(\<forall>n \<in> {FlagKeyType, FlagChainID, FlagKeyringBackend, FlagMinGasPrices, flagNodeDirPrefix, flagOutputDir,
      flagStartingIPAddress, flagValidatorsStakeAmount, flagPorts}. snd (GetString f n) = None) \<and>
    snd (GetInt f flagNumValidators) = None \<and> distinct (map fst (multi_node_flags algo denom)) \<and>
    normalize_flag (Flag ''algo'') \<in> fst ` set (multi_node_flags algo denom)"
proof -
  have "distinct (map fst (multi_node_flags algo denom))"
    by (simp add: flag_defs flag_names)
  moreover have "normalize_flag (Flag ''algo'') \<in> fst ` set (multi_node_flags algo denom)"
    by (simp add: flag_defs normalize_flag_def)
  moreover have "snd (GetInt f flagNumValidators) = None" using assms by (simp add: typed_flags_def flag_defs)
  ultimately show ?thesis using assms by (simp add: typed_flags_def flag_defs)
qed

lemma default_stakes: "split_at CHR '','' ''100000000,100000000,100000000,100000000'' = replicate 4 ''100000000''"
  by code_simp

lemma multi_node_defaults:
  assumes "default_flags (multi_node_flags algo denom) f" "newInt ''100000000'' = Some a" "newCoin a = Inr c"
  shows "\<exists>args. parse_args newInt newCoin f = Inr args \<and> a_numValidators args = 4 \<and>
    (\<forall>i \<in> {0, 1, 2, 3}. valTokens dflt args i = c \<and> port_of args i = Itoa (26657 - 3 * i)) \<and>
    a_outputDir args = ''./.testnets'' \<and> a_nodeDirPrefix args = ''validator'' \<and> a_algo args = algo \<and>
    a_chainID args = '''' \<and> MinGasPrices (init_app_cfg denom args cfg) = a_minGasPrices args"
proof -
  have g: "GetString f FlagKeyType = (algo, None)" "GetString f FlagChainID = ('''', None)"
    "GetString f FlagKeyringBackend = (''test'', None)" "GetString f FlagMinGasPrices = (''0.0001'' @ denom, None)"
    "GetString f flagNodeDirPrefix = (''validator'', None)" "GetString f flagOutputDir = (''./.testnets'', None)"
    "GetString f flagStartingIPAddress = (''localhost'', None)" "GetString f flagPorts = ('''', None)"
    "GetString f flagValidatorsStakeAmount = (''100000000,100000000,100000000,100000000'', None)"
    "GetInt f flagNumValidators = (4, None)"
    using assms(1) by (simp_all add: default_flags_def flag_defs)
  define stakes where "stakes = (((((\<lambda>i. None)(0 \<mapsto> c))(1 \<mapsto> c))(2 \<mapsto> c))(3 \<mapsto> c) :: goint \<rightharpoonup> 'b)"
  have s: "stakes_of_flag newInt newCoin (''100000000,100000000,100000000,100000000'', None) = Inr stakes"
    by (simp add: stakes_of_flag_def default_stakes numeral_eq_Suc assms(2,3) stakes_def)
  have p: "ports_of_flag 4 ('''', None) i = Some (Itoa (26657 - 3 * i))" if "i \<in> {0, 1, 2, 3}" for i
    using that unfolding default_ports by (auto simp: indexed_def len_def nat_less_iff upt_rec)
  show ?thesis
    using p by (auto simp: parse_args_Inr g s stakes_def valTokens_def port_of_def init_app_cfg_def Let_def)
qed

definition flags_of :: "flag_set \<Rightarrow> flags" where
  "flags_of fs = \<lparr>
     GetString = (\<lambda>f. case map_of fs f of Some (StringFlag t) \<Rightarrow> (t, None) | _ \<Rightarrow> ('''', Some (Msg ''flag''))),
     GetInt = (\<lambda>f. case map_of fs f of Some (IntFlag n) \<Rightarrow> (n, None) | _ \<Rightarrow> (0, Some (Msg ''flag'')))\<rparr>"

lemma flags_of_default: "distinct (map fst defs) \<Longrightarrow> default_flags defs (flags_of defs)"
  by (auto simp: default_flags_def flags_of_def split: flag_value.split)

lemma default_typed: "default_flags defs f \<Longrightarrow> typed_flags defs f"
  by (auto simp: default_flags_def typed_flags_def split: flag_value.splits)

section \<open>The module's commands\<close>

definition capitalize :: "string \<Rightarrow> string" where
  "capitalize t = (case t of [] \<Rightarrow> [] | c # cs \<Rightarrow> char_of (of_char c - (32 :: nat)) # cs)"

lemma descriptors_match:
  "map RpcMethod query_descriptor = snd Query_serviceDesc \<and> map RpcMethod tx_descriptor = snd Msg_serviceDesc \<and>
   map RpcMethod (filter (\<lambda>c. \<not> Skip c) tx_descriptor) = [''MintTokens''] \<and>
   map (\<lambda>i. map_option fst (MsgMintTokens_fields ac i)) [2, 3, 4] =
     map (Some \<circ> capitalize) (PositionalArgs (tx_descriptor ! 1)) \<and>
   rpc_Use (tx_descriptor ! 1) = ''mint-tokens'' @ concat (map (\<lambda>a. '' ['' @ a @ '']'') (PositionalArgs (tx_descriptor ! 1)))"
proof -
  have "map RpcMethod query_descriptor = snd Query_serviceDesc \<and> map RpcMethod tx_descriptor = snd Msg_serviceDesc"
    by code_simp
  moreover have "map RpcMethod (filter (\<lambda>c. \<not> Skip c) tx_descriptor) = [''MintTokens'']" by code_simp
  moreover have "PositionalArgs (tx_descriptor ! 1) = [''recipient'', ''amount'', ''denom'']"
    "map capitalize [''recipient'', ''amount'', ''denom''] = [''Recipient'', ''Amount'', ''Denom'']"
    "rpc_Use (tx_descriptor ! 1) = ''mint-tokens'' @ concat (map (\<lambda>a. '' ['' @ a @ '']'') [''recipient'', ''amount'', ''denom''])"
    by code_simp+
  moreover have "map (\<lambda>i. map_option fst (MsgMintTokens_fields ac i)) [2, 3, 4] = map Some [''Recipient'', ''Amount'', ''Denom'']"
    by (simp add: MsgMintTokens_fields_def)
  ultimately show ?thesis by (simp flip: map_map)
qed

section \<open>The root command\<close>

text \<open>The loop overrides both maps with the IBC modules, in whatever order it meets them.\<close>

lemma add_ibc_modules_eq:
  assumes "set order = dom ibc"
  shows "add_ibc_modules adaptor ibc order (basics, mods) =
    (basics ++ (\<lambda>n. map_option (adaptor n) (ibc n)), mods ++ ibc)"
proof -
  have "add_ibc_modules adaptor ibc ns (b, m) =
      (b ++ (\<lambda>n. if n \<in> set ns then map_option (adaptor n) (ibc n) else None),
       m ++ (\<lambda>n. if n \<in> set ns then ibc n else None))" for ns b m
  proof (induction ns arbitrary: b m)
    case (Cons n ns)
    have "add_ibc_modules adaptor ibc (n # ns) (b, m) =
        (case ibc n of Some x \<Rightarrow> add_ibc_modules adaptor ibc ns (b(n \<mapsto> adaptor n x), m(n \<mapsto> x))
         | None \<Rightarrow> add_ibc_modules adaptor ibc ns (b, m))"
      by (simp add: add_ibc_modules_def split: option.split)
    then show ?case
      by (auto simp: Cons fun_eq_iff map_add_def split: option.split)
  qed (simp add: add_ibc_modules_def fun_eq_iff map_add_def)
  moreover have "(\<lambda>n. if n \<in> set order then map_option (adaptor n) (ibc n) else None) = (\<lambda>n. map_option (adaptor n) (ibc n))"
    "(\<lambda>n. if n \<in> set order then ibc n else None) = ibc"
    using assms by (auto simp: fun_eq_iff dom_def)
  ultimately show ?thesis by simp
qed

lemma dom_client_modules: "dom (client_modules ops nm inm cdc) = fst ` set (ibc_module_names nm inm)"
  by (simp add: client_modules_def dom_map_of_conv_image_fst image_image case_prod_beta)

lemma NewRootCmd_Return:
  assumes "NewRootCmd env cops nm inm adaptor enhance run order order' (Inr i) reg = (reg', Return cmd)"
    and "set order = fst ` set (ibc_module_names nm inm)"
    and "ibc = client_modules cops nm inm (Codec (clientCtx i))"
  shows "enhance (auto_Modules i ++ ibc, auto_rest i)
      (initRootCmd env \<lparr>Use = Name @ ''d'', Short = ''feicoin node'', SilenceErrors = True,
          PersistentPreRunE = run (clientCtx i), subcommands = []\<rparr> (TxConfig (clientCtx i))
        (moduleBasicManager i ++ (\<lambda>n. map_option (adaptor n) (ibc n)))) = Inr cmd"
  using assms(1) add_ibc_modules_eq [of order ibc adaptor] assms(2) dom_client_modules [of cops nm inm] assms(3)
  by (auto simp: NewRootCmd_def RegisterIBC_def Let_def split: sum.splits)

text \<open>So the orders do not matter.\<close>

lemma NewRootCmd_order:
  assumes "\<And>m m' r. RegisterInterfaces cops m (RegisterInterfaces cops m' r) =
      RegisterInterfaces cops m' (RegisterInterfaces cops m r)"
    and "set order1 = fst ` set (ibc_module_names nm inm)" "set order2 = fst ` set (ibc_module_names nm inm)"
    and "mset order3 = mset order4"
  shows "NewRootCmd env cops nm inm adaptor enhance run order1 order3 inp reg =
    NewRootCmd env cops nm inm adaptor enhance run order2 order4 inp reg"
proof (cases inp)
  case (Inr i)
  let ?ibc = "client_modules cops nm inm (Codec (clientCtx i))"
  have "RegisterIBC cops nm inm order3 (Codec (clientCtx i)) reg = RegisterIBC cops nm inm order4 (Codec (clientCtx i)) reg"
    by (rule RegisterIBC_order [OF assms(1,4)])
  moreover have "add_ibc_modules adaptor ?ibc order1 x = add_ibc_modules adaptor ?ibc order2 x" for x
    using add_ibc_modules_eq [of order1 ?ibc adaptor] add_ibc_modules_eq [of order2 ?ibc adaptor]
      assms(2,3) dom_client_modules [of cops nm inm] by (cases x) simp
  moreover obtain reg2 where "RegisterIBC cops nm inm order4 (Codec (clientCtx i)) reg = (reg2, ?ibc)"
    by (simp add: RegisterIBC_def Let_def)
  ultimately show ?thesis by (simp add: NewRootCmd_def Inr Let_def)
qed (simp add: NewRootCmd_def)

section \<open>The export command\<close>

text \<open>What a result without an error tells of the options, the application and its state.\<close>

lemma appExport_ok:
  assumes "appExport ops zero nm inm parts home value logger db trace height zh allowed opts mods s = (s', Return (r, None))"
  obtains path s0 s1 app where "opts_Get opts home = OptString path" "path \<noteq> ''''" "is_viper opts"
    "New ops zero nm inm logger db trace (height = -1) (value opts) [] s = (s0, Return app)"
    "if height = -1 then s1 = s0 else LoadHeight parts app s0 height = (s1, None)"
    "ExportAppStateAndValidators (keepers_of parts app) (export_of parts app) zh allowed mods s1 = (s', Return (r, None))"
proof (cases "opts_Get opts home")
  case (OptString path)
  with assms have o: "path \<noteq> ''''" "is_viper opts"
    by (auto simp: appExport_def Let_def split: if_splits)
  show thesis
  proof (cases "height = -1")
    case True
    with assms OptString o obtain s0 app where
      "New ops zero nm inm logger db trace True (value opts) [] s = (s0, Return app)"
      "ExportAppStateAndValidators (keepers_of parts app) (export_of parts app) zh allowed mods s0 = (s', Return (r, None))"
      by (auto simp: appExport_def Let_def after_Return)
    with that [OF OptString o, of s0 app s0] True show thesis by simp
  next
    case False
    with assms OptString o obtain s0 app where
      n: "New ops zero nm inm logger db trace False (value opts) [] s = (s0, Return app)"
      and e: "(case LoadHeight parts app s0 height of
          (s, Some err) \<Rightarrow> (s, Return (ExportedApp_zero (ConsensusParams_zero parts), Some err))
        | (s, None) \<Rightarrow> ExportAppStateAndValidators (keepers_of parts app) (export_of parts app) zh allowed mods s)
        = (s', Return (r, None))"
      by (auto simp: appExport_def Let_def after_Return)
    then obtain s1 where "LoadHeight parts app s0 height = (s1, None)"
      "ExportAppStateAndValidators (keepers_of parts app) (export_of parts app) zh allowed mods s1 = (s', Return (r, None))"
      by (auto split: prod.splits option.splits)
    with that [OF OptString o, of s0 app s1] n False show thesis by simp
  qed
qed (use assms in \<open>simp add: appExport_def Let_def\<close>)

end
