(* ===== verification/App_Wiring_World.thy ===== *)
theory App_Wiring_World
  imports Commands_Facts
begin

text \<open>
  A concrete world for \<open>App_Wiring\<close> and \<open>Commands\<close>: store keys and subspaces in maps, values that are
  texts, constructors that succeed. The laws hold in it, and the witnesses compute in it.
\<close>

record wire_state =
  w_keys :: "string \<rightharpoonup> store_key"
  w_subspaces :: "string list"
  w_modules :: "string list"
  w_loaded :: bool

definition wire_start :: wire_state where
  "wire_start = \<lparr>w_keys = (\<lambda>n. None), w_subspaces = [], w_modules = [], w_loaded = False\<rparr>"

fun ibc_names :: "ibc_name \<Rightarrow> string" where
  "ibc_names IBC_StoreKey = ''ibc''"
| "ibc_names Transfer_StoreKey = ''transfer''"
| "ibc_names ICAHost_StoreKey = ''icahost''"
| "ibc_names ICAController_StoreKey = ''icacontroller''"
| "ibc_names ICAController_SubModuleName = ''icacontroller''"
| "ibc_names ICAHost_SubModuleName = ''icahost''"
| "ibc_names Transfer_PortID = ''transfer''"
| "ibc_names IBCTM_ModuleName = ''07-tendermint''"
| "ibc_names Solomachine_ModuleName = ''06-solomachine''"

lemma subspace_names_distinct: "distinct (subspace_names sdk_names ibc_names)"
  by (simp add: subspace_names_def)

text \<open>The name of a constructor's result.\<close>

fun ctor_text :: "ctor \<Rightarrow> string" where
  "ctor_text IBC_NewKeeper = ''ibc keeper''"
| "ctor_text Transfer_NewKeeper = ''transfer keeper''"
| "ctor_text ICAHost_NewKeeper = ''host keeper''"
| "ctor_text ICAController_NewKeeper = ''controller keeper''"
| "ctor_text _ = ''module''"

definition wire_injected :: "string injected" where
  "wire_injected = \<lparr>i_appBuilder = ''builder'', i_appModules = ''modules'', i_appCodec = ''codec'', i_legacyAmino = ''amino'',
     i_txConfig = ''tx'', i_interfaceRegistry = ''registry'', i_AuthKeeper = ''auth'', i_BankKeeper = ''bank'',
     i_StakingKeeper = ''staking'', i_SlashingKeeper = ''slashing'', i_MintKeeper = ''mint'', i_DistrKeeper = ''distr'',
     i_GovKeeper = ''gov'', i_UpgradeKeeper = ''upgrade'', i_AuthzKeeper = ''authz'', i_ConsensusParamsKeeper = ''consensus'',
     i_CircuitBreakerKeeper = ''circuit'', i_ParamsKeeper = ''params'', i_FeicoinKeeper = ''feicoin''\<rparr>"

definition wire_ops :: "('a wire_state_scheme, string, unit, unit) wiring_ops" where
  "wire_ops = \<lparr>
     genutil_basic = ''genutil'', SetOptimisticExecution = ''optimistic'',
     Inject = (\<lambda>s c. (s, Inr wire_injected)),
     AppBuilder_Build = (\<lambda>s b db t opts. (s, None)),
     NewKVStoreKey = (\<lambda>n. if n = '''' then Inl (Msg ''empty key name not allowed'') else Inr (KVStoreKey n)),
     RegisterStores = (\<lambda>s ks. if distinct (map key_name ks)
       then (s\<lparr>w_keys := w_keys s ++ map_of (map (\<lambda>k. (key_name k, k)) ks)\<rparr>, None)
       else (s, Some (Msg ''duplicate store key''))),
     UnsafeFindStoreKey = w_keys,
     ParamKeyTable = (\<lambda>t. ''table''), RegisterConnectionParams = (\<lambda>t. t),
     Params_Subspace = (\<lambda>s k n. if n \<in> set (w_subspaces s) then (s, Inl (Msg ''subspace already occupied''))
       else (s\<lparr>w_subspaces := n # w_subspaces s\<rparr>, Inr n)),
     WithKeyTable = (\<lambda>s x t. (s, None)),
     Params_GetSubspace = (\<lambda>s k n. (n, n \<in> set (w_subspaces s))),
     Auth_AddressCodec = (\<lambda>k. \<lparr>StringToBytes = (\<lambda>t. Inl (Msg ''address'')), BytesToString = (\<lambda>b. (''feic1gov'', None))\<rparr>),
     Auth_NewModuleAddress = str_bytes,
     NewKVStoreService = (\<lambda>k. case k of Some n \<Rightarrow> n | None \<Rightarrow> ''nil''),
     construct = (\<lambda>s c args. (s, Inr (ctor_text c))),
     ChannelKeeper = (\<lambda>k. ''channel''), ClientKeeper = (\<lambda>k. ''client''), GetStoreProvider = (\<lambda>k. ''provider''),
     MsgServiceRouter = (\<lambda>s. ''msg router''), GRPCQueryRouter = (\<lambda>s. ''query router''),
     NewRouter = '''', AddRoute = (\<lambda>r n x. Inr (r @ n)), NewRouterV2 = '''', AddRouteV2 = (\<lambda>r n x. Inr (r @ n)),
     SetRouter = (\<lambda>s k r. (s, None)), SetRouterV2 = (\<lambda>s k r. (s, None)), Client_AddRoute = (\<lambda>s k n x. (s, None)),
     RegisterModules = (\<lambda>s ms. (s\<lparr>w_modules := w_modules s @ ms\<rparr>, None)),
     Auth_NewAppModule = (\<lambda>c k. ''auth module''), ModuleManager_Modules = (\<lambda>s n. None),
     NewSimulationManager = (\<lambda>ms os. Inr ''simulation''), RegisterStoreDecoders = (\<lambda>s m. s),
     GetVersionMap = (\<lambda>s n. None), SetModuleVersionMap = (\<lambda>s k m. (s, None)),
     Runtime_InitChainer = (\<lambda>s r. (s, Return ())), SetInitChainer = (\<lambda>s f. (s, None)),
     Load = (\<lambda>s latest. (s\<lparr>w_loaded := latest\<rparr>, None))\<rparr>"

lemma map_of_keys:
  assumes "distinct (map key_name ks)" "k \<in> set ks"
  shows "map_of (map (\<lambda>k. (key_name k, k)) ks) (key_name k) = Some k"
  by (rule map_of_is_SomeI) (use assms in \<open>auto simp: comp_def\<close>)

lemma wire_laws: "wiring_laws wire_ops"
  by (auto simp: wiring_laws_def wire_ops_def map_add_def map_of_keys split: if_splits option.splits)

lemma wire_frame: "wiring_frame wire_ops"
  by (simp add: wiring_frame_def wire_ops_def)

text \<open>A new application in a world without stores and subspaces: the rest of the world stays.\<close>

lemma wire_New:
  assumes "w_keys s = Map.empty" "w_subspaces s = []"
  shows "\<exists>ks sub mods app. New wire_ops '''' sdk_names ibc_names logger db trace latest opts bopts s =
    (s\<lparr>w_keys := ks, w_subspaces := sub, w_modules := mods, w_loaded := latest\<rparr>, Return app)"
  using assms
  by (simp add: New_def wire_ops_def Let_def registerIBCModules_def ibc_stores_def ibc_subspaces_def register_subspace_def
      ibc_keepers_def ibc_routes_def ibc_modules_def construct_or_panic_def GetKey_def GetSubspace_def
      fail_to_panic_def check_do_def) (intro exI, rule refl)

text \<open>The client side.\<close>

definition wire_client :: "(string, string, string set) client_ops" where
  "wire_client = \<lparr>zero_value = (\<lambda>z. ''zero''), client_construct = (\<lambda>c args. ctor_text c), codec_value = (\<lambda>c. c),
     is_AppModuleBasic = (\<lambda>m. True), RegisterInterfaces = insert\<rparr>"

definition wire_root :: "(string, string, unit, unit) root_injected" where
  "wire_root = \<lparr>auto_Modules = [''bank'' \<mapsto> ''bank module''], auto_rest = (),
     moduleBasicManager = [''bank'' \<mapsto> ''bank basic''],
     clientCtx = \<lparr>Codec = ''codec'', InterfaceRegistry = '''', LegacyAmino = '''', Input = '''', AccountRetriever = '''',
       HomeDir = '''', Viper_prefix = '''', TxConfig = '''', CmdContext = '''', context_rest = ()\<rparr>\<rparr>"

definition wire_env :: "(string, unit, unit, unit, unit) command_env" where
  "wire_env = \<lparr>DefaultNodeHome = ''/root/.feicoin'', env_newApp = (), env_appExport = (), env_newTestnetApp = (),
     env_multi_node = (\<lambda>mbm. ()),
     InPlaceTestnetCreator = (\<lambda>create. \<lparr>nc_Use = ''in-place-testnet'', nc_Short = '''', nc_Long = '''', nc_Example = '''',
       nc_flags = [], nc_RunE = create\<rparr>),
     Secp256k1Type = ''secp256k1'', env_BondDenom = ''stake''\<rparr>"

definition wire_order :: "string list" where
  "wire_order = map fst (ibc_module_names sdk_names ibc_names)"

end
