(* ===== verification/Export_World.thy ===== *)
theory Export_World
  imports App_Wiring_World Ledger
begin

text \<open>
  A concrete world for the keepers of \<open>Export\<close>: to the world of \<open>App_Wiring_World\<close>, in which the
  application is made, it adds lists of validators, redelegations, unbonding delegations and signing
  infos, a community pool and outstanding rewards. The laws hold in it, and the witnesses compute
  in it.
\<close>

record chain_state = wire_state +
  x_validators :: "unit validator list"
  x_redelegations :: "(nat, string) unbonding list"
  x_unbondings :: "(nat, string) unbonding list"
  x_infos :: "(byte list \<times> unit signing_info) list"
  x_pool :: int
  x_outstanding :: "byte list \<Rightarrow> int"

text \<open>A list of entries with distinct keys, and setting one of them.\<close>

definition entries :: "('x \<Rightarrow> 'k) \<Rightarrow> 'x list \<Rightarrow> goerr + 'x list" where
  "entries key xs = (if distinct (map key xs) then Inr xs else Inl (Msg ''store''))"

definition put_entry :: "('x \<Rightarrow> 'k) \<Rightarrow> 'x \<Rightarrow> 'x list \<Rightarrow> 'x list" where
  "put_entry key x xs = map (\<lambda>y. if key y = key x then x else y) xs"

lemma entries_put:
  assumes "entries key xs = Inr ys"
  shows "entries key (put_entry key x xs) = Inr (put_entry key x ys)" "distinct (map key ys)"
proof -
  have "map key (put_entry key x xs) = map key xs" by (simp add: put_entry_def)
  with assms show "entries key (put_entry key x xs) = Inr (put_entry key x ys)" "distinct (map key ys)"
    by (auto simp: entries_def split: if_splits)
qed

text \<open>Validators, found by the address their operator address decodes to.\<close>

definition find_validator :: "'v validator list \<Rightarrow> byte list \<Rightarrow> goerr + 'v validator" where
  "find_validator vs a =
     (case List.find (\<lambda>v. ledger_address (OperatorAddress v) = Inr a) vs of
        Some v \<Rightarrow> Inr v | None \<Rightarrow> Inl (Msg ''validator does not exist''))"

definition put_validator :: "'v validator \<Rightarrow> 'v validator list \<Rightarrow> 'v validator list" where
  "put_validator v vs = v # filter (\<lambda>w. ledger_address (OperatorAddress w) \<noteq> ledger_address (OperatorAddress v)) vs"

definition validator_keys :: "'v validator list \<Rightarrow> byte list list" where
  "validator_keys vs =
     rev (map (\<lambda>a. 33 # 20 # a) (remdups (map projr (filter (\<lambda>r. \<not> isl r) (map (ledger_address \<circ> OperatorAddress) vs)))))"

lemma find_put_other:
  "x \<noteq> y \<Longrightarrow> List.find (\<lambda>v. f v = x) (filter (\<lambda>w. f w \<noteq> y) vs) = List.find (\<lambda>v. f v = x) vs"
  by (induction vs) auto

lemma find_validator_put:
  assumes "ledger_address (OperatorAddress v) = Inr a"
  shows "find_validator (put_validator v vs) a = Inr v"
    and "b \<noteq> a \<Longrightarrow> find_validator (put_validator v vs) b = find_validator vs b"
  using assms
  by (simp_all add: find_validator_def put_validator_def
      find_put_other [where f = "\<lambda>v. ledger_address (OperatorAddress v)" and x = "Inr b" and y = "Inr a"])

lemma find_validator_address:
  "find_validator vs a = Inr v \<Longrightarrow> ledger_address (OperatorAddress v) = Inr a"
  by (auto simp: find_validator_def find_Some_iff split: option.splits)

definition world_keepers ::
    "(chain_state, unit, nat, string, nat, string, unit, int) export_keepers" where
  "world_keepers = \<lparr>
     Registry_ValidatorAddressCodec = ledger_codec,
     Registry_AddressCodec = ledger_codec,
     Staking_ValidatorAddressCodec = ledger_codec,
     IterateValidators = (\<lambda>s. Inr (x_validators s)),
     GetAllDelegations = (\<lambda>s. Inr [\<lparr>DelegatorAddress = ''feic1alice'', ValidatorAddress = ''feic1val''\<rparr>]),
     GetValidator = (\<lambda>s. find_validator (x_validators s)),
     PutValidator = (\<lambda>s v. (s\<lparr>x_validators := put_validator v (x_validators s)\<rparr>, None)),
     ReverseValidatorKeys = (\<lambda>s. validator_keys (x_validators s)),
     AddressFromValidatorsKey = drop 2,
     CloseIterator = (\<lambda>s. None),
     ApplyAndReturnValidatorSetUpdates = (\<lambda>s. (s, None)),
     IterateRedelegations = (\<lambda>s. entries unbonding_key (x_redelegations s)),
     SetRedelegation = (\<lambda>s x. (s\<lparr>x_redelegations := put_entry unbonding_key x (x_redelegations s)\<rparr>, None)),
     IterateUnbondingDelegations = (\<lambda>s. entries unbonding_key (x_unbondings s)),
     SetUnbondingDelegation = (\<lambda>s x. (s\<lparr>x_unbondings := put_entry unbonding_key x (x_unbondings s)\<rparr>, None)),
     WithdrawValidatorCommission = (\<lambda>s h a. (s, Some (Msg ''no validator commission to withdraw''))),
     WithdrawDelegationRewards = (\<lambda>s h a b. (s, None)),
     DeleteAllValidatorSlashEvents = (\<lambda>s. s),
     DeleteAllValidatorHistoricalRewards = (\<lambda>s. s),
     GetValidatorOutstandingRewardsCoins = (\<lambda>s a. Inr (x_outstanding s a)),
     FeePool_Get = (\<lambda>s. Inr \<lparr>CommunityPool = x_pool s\<rparr>),
     FeePool_Set = (\<lambda>s p. (s\<lparr>x_pool := CommunityPool p\<rparr>, None)),
     DecCoins_Add = (+),
     Distr_AfterValidatorCreated = (\<lambda>s h a. (s\<lparr>x_outstanding := (x_outstanding s)(a := 0)\<rparr>, None)),
     BeforeDelegationCreated = (\<lambda>s h a b. (s, None)),
     AfterDelegationModified = (\<lambda>s h a b. (s, None)),
     IterateValidatorSigningInfos = (\<lambda>s. entries fst (x_infos s)),
     PutValidatorSigningInfo = (\<lambda>s x. (s\<lparr>x_infos := put_entry fst x (x_infos s)\<rparr>, None))\<rparr>"

lemma world_entries_law:
  assumes "\<And>s x. items (put s x) = put_entry key x (items s)"
  shows "entries_law (\<lambda>s. entries key (items s)) (\<lambda>s x. (put s x, None)) key"
  unfolding entries_law_def
proof (intro conjI allI impI)
  show "distinct (map key xs)" if "entries key (items s) = Inr xs" for s xs
    using that by (rule entries_put(2))
  show "entries key (items s') = Inr (map (\<lambda>y. if key y = key x then x else y) xs)"
    if "entries key (items s) = Inr xs" "(put s x, None) = (s', None)" for s x s' xs
    using entries_put(1) [OF that(1), of x] that(2) assms by (auto simp: put_entry_def)
qed

lemma world_unbonding_laws: "unbonding_laws world_keepers"
  by (simp add: unbonding_laws_def unbonding_frame_def distribution_frame_def world_keepers_def world_entries_law)

lemma world_signing_laws: "signing_laws world_keepers"
  by (simp add: signing_laws_def world_keepers_def world_entries_law)

lemma world_validators_frame: "validators_frame world_keepers"
  by (simp add: validators_frame_def distribution_frame_def world_keepers_def)

lemma world_validators_law: "validators_law world_keepers"
  by (auto simp: validators_law_def world_keepers_def ledger_codec_def find_validator_put validator_keys_def
      comp_def rev_map [symmetric] dest: find_validator_address)

definition stake_only :: "int \<Rightarrow> string \<Rightarrow> int" where
  "stake_only n d = (if d = ''stake'' then n else 0)"

lemma world_pool_laws:
  "pool_laws stake_only (\<lambda>s. stake_only (x_pool s)) (\<lambda>s a. stake_only (x_outstanding s a)) world_keepers"
  by (auto simp: pool_laws_def world_keepers_def stake_only_def fun_eq_iff)

text \<open>Two validators, of which one is on the list of those that stay.\<close>

definition world_chain :: chain_state where
  "world_chain = \<lparr>w_keys = Map.empty, w_subspaces = [], w_modules = [], w_loaded = False,
     x_validators = [
       \<lparr>OperatorAddress = ''feic1val'', UnbondingHeight = 7, Jailed = False, validator_rest = ()\<rparr>,
       \<lparr>OperatorAddress = ''feic1other'', UnbondingHeight = 9, Jailed = False, validator_rest = ()\<rparr>],
     x_redelegations = [\<lparr>unbonding_key = 1, Entries = [\<lparr>CreationHeight = 5, entry_rest = ''a''\<rparr>]\<rparr>],
     x_unbondings = [],
     x_infos = [([1], \<lparr>StartHeight = 3, info_rest = ()\<rparr>)],
     x_pool = 10,
     x_outstanding = (\<lambda>a. 0)\<rparr>"

lemma world_prep:
  assumes "\<exists>ks sub mods l. s = world_chain\<lparr>w_keys := ks, w_subspaces := sub, w_modules := mods, w_loaded := l\<rparr>"
  shows "\<exists>s'. prepForZeroHeightGenesis world_keepers 12 [''feic1val''] s = (s', Return ())"
  using assms
  by (elim exE) (simp add: prepForZeroHeightGenesis_def prep_validators_def prep_distribution_def withdraw_commission_def
      withdraw_rewards_def delegation_addrs_def reinit_validator_def reinit_delegation_def wrap_panic_def
      reset_redelegations_def reset_unbonding_delegations_def reset_validator_def reset_signing_infos_def
      reset_signing_info_def ignore_def must_do_def world_keepers_def world_chain_def ledger_codec_def
      ledger_address_def entries_def validator_keys_def find_validator_def Let_def
      put_entry_def put_validator_def)

lemma world_prep_chain:
  "\<exists>s'. prepForZeroHeightGenesis world_keepers 12 [''feic1val''] world_chain = (s', Return ())"
  by (rule world_prep) (intro exI [of _ Map.empty] exI [of _ "[]"] exI [of _ False], simp add: world_chain_def)

lemma world_addr: "ledger_address ''feic1val'' = Inr (str_bytes ''val'')"
    "ledger_address ''feic1other'' = Inr (str_bytes ''other'')"
  by code_simp+

lemma world_keys:
  "str_bytes ''val'' \<in> AddressFromValidatorsKey world_keepers ` set (ReverseValidatorKeys world_keepers world_chain)"
  "str_bytes ''other'' \<in> AddressFromValidatorsKey world_keepers ` set (ReverseValidatorKeys world_keepers world_chain)"
  by (simp_all add: world_keepers_def world_chain_def validator_keys_def world_addr)

lemma world_get:
  "GetValidator world_keepers world_chain (str_bytes ''val'') =
     Inr \<lparr>OperatorAddress = ''feic1val'', UnbondingHeight = 7, Jailed = False, validator_rest = ()\<rparr>"
  "GetValidator world_keepers world_chain (str_bytes ''other'') =
     Inr \<lparr>OperatorAddress = ''feic1other'', UnbondingHeight = 9, Jailed = False, validator_rest = ()\<rparr>"
proof -
  have "str_bytes ''val'' \<noteq> str_bytes ''other''" by code_simp
  then show "GetValidator world_keepers world_chain (str_bytes ''val'') =
     Inr \<lparr>OperatorAddress = ''feic1val'', UnbondingHeight = 7, Jailed = False, validator_rest = ()\<rparr>"
    "GetValidator world_keepers world_chain (str_bytes ''other'') =
     Inr \<lparr>OperatorAddress = ''feic1other'', UnbondingHeight = 9, Jailed = False, validator_rest = ()\<rparr>"
    by (simp_all add: world_keepers_def world_chain_def find_validator_def world_addr)
qed

lemma world_text:
  "fst (BytesToString (Staking_ValidatorAddressCodec world_keepers) (str_bytes ''val'')) = ''feic1val''"
  "fst (BytesToString (Staking_ValidatorAddressCodec world_keepers) (str_bytes ''other'')) = ''feic1other''"
  by (simp_all add: world_keepers_def ledger_codec_def)

lemma world_redelegations:
  "IterateRedelegations world_keepers world_chain =
     Inr [\<lparr>unbonding_key = 1, Entries = [\<lparr>CreationHeight = 5, entry_rest = ''a''\<rparr>]\<rparr>]"
  by (simp add: world_keepers_def world_chain_def entries_def)

lemma world_reinit:
  "\<exists>s'. for_each (reinit_validator world_keepers 0) (x_validators world_chain) (world_chain\<lparr>x_outstanding := \<lambda>a. 4\<rparr>)
     = (s', Return ())"
  by (simp add: world_chain_def reinit_validator_def world_keepers_def ledger_codec_def world_addr must_do_def Let_def)

lemma world_addresses:
  "map (\<lambda>v. StringToBytes (Staking_ValidatorAddressCodec world_keepers) (OperatorAddress v)) (x_validators world_chain) =
     map Inr [str_bytes ''val'', str_bytes ''other'']"
  by (simp add: world_chain_def world_keepers_def ledger_codec_def world_addr)

text \<open>The application around it, and the command's options.\<close>

definition world_app :: "(chain_state, string, string, unit) export_app" where
  "world_app = \<lparr>app_LastBlockHeight = (\<lambda>s. 12), ExportGenesisForModules = (\<lambda>s mods. Inr ''genesis''),
     MarshalIndent = Inr, WriteValidators = (\<lambda>s. (map OperatorAddress (x_validators s), None)),
     GetConsensusParams = (\<lambda>s. ()), zero_ConsensusParams = ()\<rparr>"

definition world_parts ::
    "(chain_state, string, unit, nat, string, nat, string, unit, int, string, string, unit) app_parts" where
  "world_parts = \<lparr>LoadHeight = (\<lambda>app s h. (s, None)), keepers_of = (\<lambda>app. world_keepers),
     export_of = (\<lambda>app. world_app), ConsensusParams_zero = ()\<rparr>"

definition world_viper :: app_options where
  "world_viper = Viper (\<lambda>k. OptString ''/root/.feicoin'')"

lemma world_export:
  "\<exists>s' r. appExport wire_ops '''' sdk_names ibc_names world_parts ''home'' (\<lambda>opts. ''viper'') ''logger'' ''db'' ''trace''
     7 True [''feic1val''] world_viper [] world_chain = (s', Return (r, None))"
proof -
  have "w_keys world_chain = Map.empty" "w_subspaces world_chain = []" by (simp_all add: world_chain_def)
  from wire_New [OF this, of "''logger''" "''db''" "''trace''" False "''viper''" "[]"] obtain s1 app where
    n: "New wire_ops '''' sdk_names ibc_names ''logger'' ''db'' ''trace'' False ''viper'' [] world_chain = (s1, Return app)"
      "\<exists>ks sub mods l. s1 = world_chain\<lparr>w_keys := ks, w_subspaces := sub, w_modules := mods, w_loaded := l\<rparr>"
    by blast
  then obtain s' where "prepForZeroHeightGenesis world_keepers 12 [''feic1val''] s1 = (s', Return ())"
    using world_prep by blast
  with n(1) show ?thesis
    by (simp add: appExport_def world_parts_def world_viper_def world_app_def ExportAppStateAndValidators_def Let_def)
qed

lemma world_undecodable:
  "StringToBytes (Registry_ValidatorAddressCodec world_keepers) ''cosmos1x'' = Inl (Msg ''decoding bech32 failed'')"
  by (simp add: world_keepers_def ledger_codec_def ledger_address_def)

end
