(* ===== verification/Multi_Node_Facts.thy ===== *)
theory Multi_Node_Facts
  imports Multi_Node_Files
begin

text \<open>
  What the multi-node command does: where the nodes' directories are, what the loop over the
  nodes collects, that every node ends up with every node's genesis transaction and with the same
  genesis file, that the supply in the genesis is the sum of its balances, and what a failure
  leaves behind.
\<close>

section \<open>Directories\<close>

text \<open>
  The nodes' directories: they are in one place, and the last element of each ends in the node's
  number. \<open>dirs_at\<close> says so of some place and prefix.
\<close>

definition node_elems :: "elems \<Rightarrow> string \<Rightarrow> nat \<Rightarrow> elems" where
  "node_elems base q i = base @ [q @ Itoa (int i)]"

definition dirs_at :: "os \<Rightarrow> 'coin initArgs \<Rightarrow> elems \<Rightarrow> string \<Rightarrow> bool" where
  "dirs_at os args base q \<longleftrightarrow>
     (\<forall>i es. list_all plain_elem es \<longrightarrow>
        resolve os (Join (nodeDir args (int i) # es)) = Inr (node_elems base q i @ es) \<and>
        resolve os (Join ([a_outputDir args, nodeDirName args (int i)] @ es)) = Inr (node_elems base q i @ es) \<and>
        nodeDir args (int i) \<noteq> '''')"

lemma node_elems_inject: "node_elems base q i @ es = node_elems base q j @ fs \<longleftrightarrow> i = j \<and> es = fs"
  by (auto simp: node_elems_def)

lemma node_elems_eq: "node_elems base q i = node_elems base q j \<longleftrightarrow> i = j"
  using node_elems_inject [of base q i "[]" j "[]"] by simp

lemma Clean_nonempty: "Clean p \<noteq> ''''"
proof (cases "IsAbs p")
  case False
  show ?thesis
  proof (cases "clean_elems False (path_elems p)")
    case (Cons x xs)
    then have "x \<noteq> ''''" using clean_elems_relative [of x "path_elems p"] path_elems_no_sep [of x p] by auto
    with False Cons show ?thesis by (cases xs) (simp_all add: Clean_def)
  qed (simp add: False Clean_def)
qed (simp add: Clean_def)

lemma dirs_exist:
  assumes "a_outputDir args \<noteq> ''''" "resolve os (a_outputDir args) = Inr out"
  shows "\<exists>base q. dirs_at os args base q"
proof -
  let ?out = "a_outputDir args"
  obtain es q where q: "CHR ''/'' \<notin> set q" "\<forall>n\<ge>0. path_elems (a_nodeDirPrefix args @ Itoa n) = es @ [q @ Itoa n]"
    using path_elems_numbered by blast
  define root where "root = (if IsAbs ?out then [] else path_elems (projr (working_dir os))) @ path_elems ?out"
  have root: "resolve os p = Inr (clean_elems True (root @ p'))"
    if "path_elems p = path_elems ?out @ p'" "IsAbs p = IsAbs ?out" for p p'
    using assms(2) that by (auto simp: root_def resolve_def abs_elems_def bind_err_eq_Inr split: if_splits)
  define base where "base = clean_elems True (root @ es)"
  have r: "resolve os (join ''/'' (?out # nodeDirName args (int i) # fs)) = Inr (node_elems base q i @ fs)"
    if "list_all plain_elem fs" for i fs
  proof -
    have abs: "IsAbs (join ''/'' (?out # nodeDirName args (int i) # fs)) = IsAbs ?out"
      using assms(1) by (cases ?out) (auto simp: IsAbs_def)
    have "path_elems (join ''/'' (?out # nodeDirName args (int i) # fs)) =
        path_elems ?out @ es @ [q @ Itoa (int i)] @ fs"
      using q(2) concat_path_elems [OF that]
        path_elems_join [of "?out # nodeDirName args (int i) # fs"] by (simp add: nodeDirName_def)
    from root [OF this abs] show ?thesis
      using clean_elems_append_plains [of "[q @ Itoa (int i)] @ fs" True "root @ es"] that
        plain_numbered [of "int i" q] q(1)
      by (simp add: base_def node_elems_def)
  qed
  have "nodeDir args (int i) \<noteq> ''''" for i
    using assms(1) by (simp add: nodeDir_def Join_def Clean_nonempty)
  moreover have "resolve os (Join ([?out, nodeDirName args (int i)] @ fs)) = Inr (node_elems base q i @ fs)"
    if "list_all plain_elem fs" for i fs
    using r [OF that] resolve_join(1) [OF assms(1)] by simp
  moreover have "resolve os (Join (nodeDir args (int i) # fs)) = Inr (node_elems base q i @ fs)"
    if "list_all plain_elem fs" for i fs
  proof (rule resolve_join(2) [OF _ _ that])
    show "nodeDir args (int i) \<noteq> ''''" by fact
    show "resolve os (nodeDir args (int i)) = Inr (node_elems base q i)"
      using r [of "[]" i] resolve_join(1) [OF assms(1), of os "[nodeDirName args (int i)]"] by (simp add: nodeDir_def)
  qed
  ultimately show ?thesis unfolding dirs_at_def by blast
qed

section \<open>Loops\<close>

lemma call_Return [simp]: "call acc r = ((acc', h'), Return x) \<longleftrightarrow> acc' = acc \<and> r = (h', Inr x)"
  by (cases r; cases "snd r") (auto simp: call_def)

lemma call_or_clean_Return [simp]:
  "call_or_clean os out acc r = ((acc', h'), Return x) \<longleftrightarrow> acc' = acc \<and> r = (h', Inr x)"
  by (cases r; cases "snd r") (auto simp: call_or_clean_def)

lemma call_or_panic_Return [simp]:
  "call_or_panic acc r = ((acc', h'), Return u) \<longleftrightarrow> acc' = acc \<and> r = (h', None)"
  by (cases r; cases "snd r") (auto simp: call_or_panic_def)

lemma must_pair_Return [simp]:
  "must (acc, h) r = ((acc', h'), Return x) \<longleftrightarrow> acc' = acc \<and> h' = h \<and> r = Inr x"
  by auto

lemma call_simp: "after (call acc (h, Inr x)) k = k (acc, h) x"
  by (simp add: call_def)

lemma err_sum_Inr [simp]: "apsnd err_sum r = (h, Inr u) \<longleftrightarrow> r = (h, None)"
  by (cases r; cases "snd r") (auto simp: err_sum_def)

lemma for_each_upt_Suc:
  "for_each body [0..<Suc n] s = (s', Return ()) \<longleftrightarrow>
     (\<exists>s1. for_each body [0..<n] s = (s1, Return ()) \<and> body n s1 = (s', Return ()))"
  by (simp add: for_each_append after_Return)

section \<open>What the loop collects\<close>

definition gentx_file :: "'coin initArgs \<Rightarrow> string list \<Rightarrow> nat \<Rightarrow> string" where
  "gentx_file args ids j = Join [gentxsDir args (int j), ''gentx-'' @ ids ! j @ ''.json'']"

lemma node_gentx_acc: "node_gentx ops c m kb name addr pk st acc h = ((acc', h'), Return bz) \<Longrightarrow> acc' = acc"
  by (auto simp: node_gentx_def after_Return)

lemma init_node_acc:
  assumes "init_node os ops args j (acc, h) = ((acc', h'), Return ())"
  shows "\<exists>nodeID coins. account_coins ops = Inr coins \<and> nodeIDs acc' = (nodeIDs acc)[j := nodeID] \<and>
    peers acc' = (if peers acc = '''' then memo args (\<lambda>_. nodeID) (int j)
                  else peers acc @ '','' @ memo args (\<lambda>_. nodeID) (int j)) \<and>
    length (genFiles acc') = Suc (length (genFiles acc)) \<and>
    gentxsFiles acc' = gentxsFiles acc @ [Join [gentxsDir args (int j), ''gentx-'' @ nodeID @ ''.json'']] \<and>
    length (genAccounts acc') = Suc (length (genAccounts acc)) \<and>
    map balance_Coins (genBalances acc') = map balance_Coins (genBalances acc) @ [coins]"
  using assms
  by (auto simp: init_node_def after_Return Let_def dest!: node_gentx_acc)

lemma map_Inr_balance: "map (\<lambda>b. Inr (balance_Coins b)) bs = map Inr (map balance_Coins bs)"
  by simp

lemma join_snoc: "xs \<noteq> [] \<Longrightarrow> join c (xs @ [x]) = join c xs @ c @ x"
  by (induction c xs rule: join.induct) auto

lemma init_nodes_acc:
  assumes "for_each (init_node os ops args) [0..<n] (acc0, h) = ((acc, h'), Return ())"
    and "nodeIDs acc0 = replicate m '''' " "n \<le> m" "peers acc0 = ''''" "genFiles acc0 = []" "gentxsFiles acc0 = []"
      "genAccounts acc0 = []" "genBalances acc0 = []"
  shows "length (nodeIDs acc) = m \<and>
    peers acc = join '','' (map (\<lambda>j. memo args (\<lambda>_. nodeIDs acc ! j) (int j)) [0..<n]) \<and>
    gentxsFiles acc = map (gentx_file args (nodeIDs acc)) [0..<n] \<and>
    length (genFiles acc) = n \<and> length (genAccounts acc) = n \<and>
    map (\<lambda>b. Inr (balance_Coins b)) (genBalances acc) = replicate n (account_coins ops)"
  using assms(1,3)
proof (induction n arbitrary: acc h')
  case (Suc n)
  from Suc.prems(1) obtain acc1 h1 where
    l: "for_each (init_node os ops args) [0..<n] (acc0, h) = ((acc1, h1), Return ())"
      "init_node os ops args n (acc1, h1) = ((acc, h'), Return ())"
    by (auto simp: for_each_upt_Suc simp del: upt_Suc)
  from Suc.IH [OF l(1)] Suc.prems(2) have IH: "length (nodeIDs acc1) = m"
    "peers acc1 = join '','' (map (\<lambda>j. memo args (\<lambda>_. nodeIDs acc1 ! j) (int j)) [0..<n])"
    "gentxsFiles acc1 = map (gentx_file args (nodeIDs acc1)) [0..<n]" "length (genFiles acc1) = n"
    "length (genAccounts acc1) = n"
    "map (\<lambda>b. Inr (balance_Coins b)) (genBalances acc1) = replicate n (account_coins ops)"
    by simp_all
  from init_node_acc [OF l(2)] obtain nodeID coins where s: "account_coins ops = Inr coins"
    "nodeIDs acc = (nodeIDs acc1)[n := nodeID]"
    "peers acc = (if peers acc1 = '''' then memo args (\<lambda>_. nodeID) (int n)
                  else peers acc1 @ '','' @ memo args (\<lambda>_. nodeID) (int n))"
    "length (genFiles acc) = Suc (length (genFiles acc1))"
    "gentxsFiles acc = gentxsFiles acc1 @ [Join [gentxsDir args (int n), ''gentx-'' @ nodeID @ ''.json'']]"
    "length (genAccounts acc) = Suc (length (genAccounts acc1))"
    and b: "map balance_Coins (genBalances acc) = map balance_Coins (genBalances acc1) @ [coins]"
    by blast
  have i: "nodeIDs acc ! n = nodeID" "\<And>j. j < n \<Longrightarrow> nodeIDs acc ! j = nodeIDs acc1 ! j"
    using s(2) IH(1) Suc.prems(2) by auto
  have g: "gentxsFiles acc = map (gentx_file args (nodeIDs acc)) [0..<Suc n]"
    using s(5) IH(3) i by (simp add: gentx_file_def)
  have ms: "map (\<lambda>j. memo args (\<lambda>_. nodeIDs acc ! j) (int j)) [0..<n] =
      map (\<lambda>j. memo args (\<lambda>_. nodeIDs acc1 ! j) (int j)) [0..<n]"
    using i(2) by simp
  have p: "peers acc = join '','' (map (\<lambda>j. memo args (\<lambda>_. nodeIDs acc ! j) (int j)) [0..<Suc n])"
  proof (cases "n = 0")
    case False
    let ?ms = "map (\<lambda>j. memo args (\<lambda>_. nodeIDs acc1 ! j) (int j)) [0..<n]"
    have ne: "?ms \<noteq> []" using False by simp
    obtain t where "join '','' ?ms = hd ?ms @ t"
      using ne by (cases ?ms; cases "tl ?ms") auto
    moreover have "hd ?ms \<noteq> ''''" using False by (simp add: hd_map memo_def)
    ultimately have "peers acc1 \<noteq> ''''" using IH(2) by simp
    moreover have "map (\<lambda>j. memo args (\<lambda>_. nodeIDs acc ! j) (int j)) [0..<Suc n] =
        ?ms @ [memo args (\<lambda>_. nodeID) (int n)]"
      by (simp only: upt_Suc_append [OF le0] map_append ms list.map i(1))
    ultimately show ?thesis using s(3) by (simp only: join_snoc [OF ne] IH(2) if_False)
  qed (use s(3) IH(2) i(1) in simp)
  have "map (\<lambda>b. Inr (balance_Coins b)) (genBalances acc) =
      map (\<lambda>b. Inr (balance_Coins b)) (genBalances acc1) @ [account_coins ops]"
    by (simp only: map_Inr_balance b map_append list.map s(1))
  also have "\<dots> = replicate (Suc n) (account_coins ops)"
    by (simp only: IH(6)) (simp add: replicate_append_same)
  finally have "map (\<lambda>b. Inr (balance_Coins b)) (genBalances acc) = replicate (Suc n) (account_coins ops)" .
  then show ?case using IH s g p by simp
qed (use assms in simp)

section \<open>The supply in the genesis\<close>

lemma total_supply_of_sum:
  assumes "\<And>x y d. amt (Coins_Add ops x y) d = amt x d + (amt y d :: 'n::comm_monoid_add)"
  shows "Balances (total_supply_of ops bank) = Balances bank \<and>
    amt (Supply (total_supply_of ops bank)) d =
      amt (Supply bank) d + sum_list (map (\<lambda>b. amt (balance_Coins b) d) (Balances bank))"
proof -
  have "Balances (fold (\<lambda>bal b. b\<lparr>Supply := Coins_Add ops (Supply b) (balance_Coins bal)\<rparr>) bs bank) = Balances bank \<and>
      amt (Supply (fold (\<lambda>bal b. b\<lparr>Supply := Coins_Add ops (Supply b) (balance_Coins bal)\<rparr>) bs bank)) d =
      amt (Supply bank) d + sum_list (map (\<lambda>b. amt (balance_Coins b) d) bs)" for bs
    by (induction bs arbitrary: bank) (simp_all add: assms add.assoc)
  then show ?thesis by (simp add: total_supply_of_def)
qed

section \<open>Distributing the transactions\<close>

lemma for_each_product:
  "for_each (\<lambda>i. for_each (body i) ys) xs s = for_each (\<lambda>(i, y). body i y) (List.product xs ys) s"
proof (induction xs arbitrary: s)
  case (Cons x xs)
  have "for_each (body x) ys s = for_each (\<lambda>(i, y). body i y) (map (Pair x) ys) s" for s
    by (induction ys arbitrary: s) simp_all
  then show ?case by (simp add: for_each_append Cons)
qed simp

text \<open>
  \<open>gentxs_at\<close>: the transaction files, each in its own node's directory under a plain name that
  does not begin with two dots, the names distinct; \<open>gentx_elems\<close> is the place of node \<open>i\<close>'s copy
  of the \<open>j\<close>-th.
\<close>

definition gentx_elems :: "elems \<Rightarrow> string \<Rightarrow> string list \<Rightarrow> nat \<Rightarrow> nat \<Rightarrow> elems" where
  "gentx_elems base q names i j = node_elems base q i @ [''config'', ''gentx'', names ! j]"

definition gentxs_at :: "os \<Rightarrow> elems \<Rightarrow> string \<Rightarrow> string list \<Rightarrow> string list \<Rightarrow> bool" where
  "gentxs_at os base q names gentxs \<longleftrightarrow>
     length gentxs = length names \<and> distinct names \<and>
     (\<forall>j < length names. plain_elem (names ! j) \<and> take 2 (names ! j) \<noteq> ''..'' \<and> Base (gentxs ! j) = names ! j \<and>
        resolve os (gentxs ! j) = Inr (gentx_elems base q names j j))"

lemma gentx_elems_inject:
  "distinct names \<Longrightarrow> j < length names \<Longrightarrow> l < length names \<Longrightarrow>
   gentx_elems base q names i j = gentx_elems base q names k l \<longleftrightarrow> i = k \<and> j = l"
  by (auto simp: gentx_elems_def node_elems_inject nth_eq_iff_index_eq)

lemma copy_gentx_step:
  assumes "os_ok os" "dirs_at os args base q" "gentxs_at os base q names gentxs" "j < length names"
    and "copy_gentx os args i (gentxs ! j) fs = (fs', Return ())"
  shows "if i = j then fs' = fs
    else \<exists>c. fs (gentx_elems base q names j j) = Some (File c) \<and> fs' = fs(gentx_elems base q names i j \<mapsto> File c)"
proof -
  let ?dir = "Join [nodeDir args (int i), ''config'', ''gentx'']"
  have pl: "list_all plain_elem [''config'', ''gentx'', names ! j]" "list_all plain_elem [''config'', ''gentx'']"
    using assms(3,4) by (auto simp: gentxs_at_def plain_elem_def)
  have src: "resolve os (gentxs ! j) = Inr (gentx_elems base q names j j)" and b: "Base (gentxs ! j) = names ! j"
    using assms(3,4) by (simp_all add: gentxs_at_def)
  have dir: "resolve os ?dir = Inr (node_elems base q i @ [''config'', ''gentx''])"
    using assms(2) pl(2) unfolding dirs_at_def by metis
  have "?dir \<noteq> ''''" using assms(2) by (simp add: dirs_at_def Join_def Clean_nonempty)
  then have dst: "resolve os (Join [?dir, Base (gentxs ! j)]) = Inr (gentx_elems base q names i j)"
    using resolve_join(2) [OF _ dir, of "[names ! j]"] pl(1) by (simp add: b gentx_elems_def)
  have sub: "isSubDir os (gentxs ! j) ?dir = Inr (i = j)"
  proof -
    have "(\<exists>rest. gentx_elems base q names j j = (node_elems base q i @ [''config'', ''gentx'']) @ rest \<and>
        (rest = [] \<or> take 2 (hd rest) \<noteq> ''..'')) \<longleftrightarrow> i = j"
      using assms(3,4) by (auto simp: gentx_elems_def gentxs_at_def node_elems_def)
    then show ?thesis using isSubDir_iff [OF assms(1) src dir] by simp
  qed
  show ?thesis
  proof (cases "i = j")
    case True
    then show ?thesis using assms(5) sub by (simp add: copy_gentx_def)
  next
    case False
    with assms(5) sub obtain n where c: "copyFile os (gentxs ! j) ?dir fs = (fs', n, None)"
      by (cases "copyFile os (gentxs ! j) ?dir fs") (auto simp: copy_gentx_def)
    have "gentx_elems base q names j j \<noteq> gentx_elems base q names i j"
      using False assms(3,4) gentx_elems_inject [of names j j base q j i] by (auto simp: gentxs_at_def)
    from copyFile_ok(1) [OF c src dst this] False show ?thesis
      by (auto simp: lookup_def gentx_elems_def)
  qed
qed

text \<open>After any pairs of a node and a transaction: the copies are there, everything else is as before.\<close>

lemma copy_gentxs_pairs:
  assumes "os_ok os" "dirs_at os args base q" "gentxs_at os base q names gentxs"
    and "for_each (\<lambda>(i, j). copy_gentx os args i (gentxs ! j)) ps fs = (fs', Return ())"
    and "\<And>i j. (i, j) \<in> set ps \<Longrightarrow> j < length names"
  shows "(\<And>i j. (i, j) \<in> set ps \<Longrightarrow> i \<noteq> j \<Longrightarrow> p \<noteq> gentx_elems base q names i j) \<Longrightarrow> fs' p = fs p"
    and "(i, j) \<in> set ps \<Longrightarrow> fs (gentx_elems base q names j j) = Some (File c) \<Longrightarrow>
      fs' (gentx_elems base q names i j) = Some (File c)"
  using assms(4,5)
proof (induction ps arbitrary: fs p)
  case (Cons ab ps)
  let ?E = "gentx_elems base q names"
  have inj: "?E x y = ?E x' y' \<longleftrightarrow> x = x' \<and> y = y'" if "y < length names" "y' < length names" for x y x' y'
    using assms(3) that by (intro gentx_elems_inject) (simp add: gentxs_at_def)
  obtain a b where ab: "ab = (a, b)" by (cases ab)
  have body: "\<exists>fs1. copy_gentx os args a (gentxs ! b) fs = (fs1, Return ()) \<and>
      for_each (\<lambda>(i, j). copy_gentx os args i (gentxs ! j)) ps fs1 = (fs', Return ())"
    if "for_each (\<lambda>(i, j). copy_gentx os args i (gentxs ! j)) (ab # ps) fs = (fs', Return ())" for fs
    using that by (auto simp: after_Return ab)
  have step: "if a = b then fs1 = fs else \<exists>c. fs (?E b b) = Some (File c) \<and> fs1 = fs(?E a b \<mapsto> File c)"
    if "copy_gentx os args a (gentxs ! b) fs = (fs1, Return ())" "b < length names" for fs fs1
    by (rule copy_gentx_step [OF assms(1-3) that(2,1)])
  {
    case 1
    from body [OF 1(2)] obtain fs1 where fs1: "copy_gentx os args a (gentxs ! b) fs = (fs1, Return ())"
        "for_each (\<lambda>(i, j). copy_gentx os args i (gentxs ! j)) ps fs1 = (fs', Return ())" by blast
    have "fs' p = fs1 p" by (rule Cons.IH(1) [OF _ fs1(2)]) (use 1(1,3) in auto)
    also have "fs1 p = fs p" using step [OF fs1(1)] 1(1) [of a b] 1(3) [of a b] by (auto simp: ab split: if_splits)
    finally show ?case .
  next
    case 2
    from body [OF 2(3)] obtain fs1 where fs1: "copy_gentx os args a (gentxs ! b) fs = (fs1, Return ())"
        "for_each (\<lambda>(i, j). copy_gentx os args i (gentxs ! j)) ps fs1 = (fs', Return ())" by blast
    have lt: "b < length names" "j < length names" "\<And>x y. (x, y) \<in> set ps \<Longrightarrow> y < length names"
      using 2(1,4) by (auto simp: ab)
    have src: "fs1 (?E j j) = Some (File c)"
      using step [OF fs1(1) lt(1)] 2(2) inj [OF lt(2,1), of j a] by (auto split: if_splits)
    show ?case
    proof (cases "(i, j) \<in> set ps")
      case True
      show ?thesis by (rule Cons.IH(2) [OF True src fs1(2)]) (rule lt(3))
    next
      case False
      with 2(1) have eq: "a = i" "b = j" by (simp_all add: ab)
      have "fs' (?E i j) = fs1 (?E i j)"
        by (rule Cons.IH(1) [OF _ fs1(2)]) (use False inj lt in auto)
      also have "fs1 (?E i j) = Some (File c)"
        using step [OF fs1(1) lt(1)] 2(2) by (auto simp: eq split: if_splits)
      finally show ?thesis .
    qed
  }
qed simp_all

lemma copy_gentxs_effect:
  assumes "os_ok os" "dirs_at os args base q" "gentxs_at os base q names gentxs"
    and "copy_gentxs os args gentxs fs = (fs', Return ())" "length names = nat (a_numValidators args)"
  shows "i < length names \<Longrightarrow> j < length names \<Longrightarrow> fs (gentx_elems base q names j j) = Some (File c) \<Longrightarrow>
      fs' (gentx_elems base q names i j) = Some (File c)"
    and "(\<And>i j. i < length names \<Longrightarrow> j < length names \<Longrightarrow> i \<noteq> j \<Longrightarrow> p \<noteq> gentx_elems base q names i j) \<Longrightarrow>
      fs' p = fs p"
proof -
  let ?ps = "List.product [0..<length names] [0..<length names]"
  have "gentxs = map (\<lambda>j. gentxs ! j) [0..<length names]"
    using assms(3) map_nth [of gentxs] by (simp add: gentxs_at_def)
  then have "for_each (copy_gentx os args i) gentxs = for_each (\<lambda>j. copy_gentx os args i (gentxs ! j)) [0..<length names]" for i
    using for_each_map [of "copy_gentx os args i" "\<lambda>j. gentxs ! j" "[0..<length names]"] by (simp add: fun_eq_iff)
  then have l: "for_each (\<lambda>(i, j). copy_gentx os args i (gentxs ! j)) ?ps fs = (fs', Return ())"
    using assms(4,5) by (simp add: copy_gentxs_def for_each_product [symmetric])
  note e = copy_gentxs_pairs [OF assms(1-3) l]
  show "fs' (gentx_elems base q names i j) = Some (File c)"
    if "i < length names" "j < length names" "fs (gentx_elems base q names j j) = Some (File c)"
    by (rule e(2)) (use that in auto)
  show "fs' p = fs p"
    if "\<And>i j. i < length names \<Longrightarrow> j < length names \<Longrightarrow> i \<noteq> j \<Longrightarrow> p \<noteq> gentx_elems base q names i j"
    by (rule e(1)) (use that in auto)
qed

text \<open>
  The distribution succeeds: nothing fails for reasons outside the model, every node has its
  directory for the transactions, its own transaction is there, and no directory is in the way
  of a copy.
\<close>

definition gentxs_ready :: "elems \<Rightarrow> string \<Rightarrow> string list \<Rightarrow> file_system \<Rightarrow> bool" where
  "gentxs_ready base q names fs \<longleftrightarrow>
     (\<forall>i < length names. fs (node_elems base q i @ [''config'', ''gentx'']) = Some Dir \<and>
        (\<exists>c. fs (gentx_elems base q names i i) = Some (File c)) \<and>
        (\<forall>j < length names. fs (gentx_elems base q names i j) \<noteq> Some Dir))"

lemma copy_gentx_returns:
  assumes "os_ok os" "dirs_at os args base q" "gentxs_at os base q names gentxs" "i < length names" "j < length names"
    and "\<And>c p. fault os c p = None" "gentxs_ready base q names fs"
  shows "\<exists>fs'. copy_gentx os args i (gentxs ! j) fs = (fs', Return ()) \<and> gentxs_ready base q names fs'"
proof -
  let ?dir = "Join [nodeDir args (int i), ''config'', ''gentx'']" and ?E = "gentx_elems base q names"
  have pl: "list_all plain_elem [''config'', ''gentx'']" "plain_elem (names ! j)"
    using assms(3,5) by (auto simp: gentxs_at_def plain_elem_def)
  have src: "resolve os (gentxs ! j) = Inr (?E j j)" and b: "Base (gentxs ! j) = names ! j"
    using assms(3,5) by (simp_all add: gentxs_at_def)
  have dir: "resolve os ?dir = Inr (node_elems base q i @ [''config'', ''gentx''])"
    using assms(2) pl(1) unfolding dirs_at_def by metis
  have "?dir \<noteq> ''''" using assms(2) by (simp add: dirs_at_def Join_def Clean_nonempty)
  then have dst: "resolve os (Join [?dir, names ! j]) = Inr (?E i j)"
    using resolve_join(2) [OF _ dir, of "[names ! j]"] pl(2) by (simp add: gentx_elems_def)
  have sub: "\<exists>y. isSubDir os (gentxs ! j) ?dir = Inr y" using isSubDir_iff [OF assms(1) src dir] by blast
  obtain c where c: "fs (?E j j) = Some (File c)" using assms(5,7) by (auto simp: gentxs_ready_def)
  have ne: "?E x y \<noteq> []" "butlast (?E x y) = node_elems base q x @ [''config'', ''gentx'']" for x y
    by (simp_all add: gentx_elems_def butlast_append)
  have cr: "create_at os (?E i j) fs = (fs(?E i j \<mapsto> File []), None)"
    using assms(4,5,6,7) by (simp add: create_at_def lookup_def ne gentxs_ready_def)
  have rd: "gentxs_ready base q names (fs(?E i j \<mapsto> File c'))" for c'
  proof -
    have "node_elems base q x @ [''config'', ''gentx''] \<noteq> ?E i j" for x
      by (auto simp: gentx_elems_def node_elems_def)
    with assms(7) show ?thesis by (auto simp: gentxs_ready_def)
  qed
  obtain c' where "(fs(?E i j \<mapsto> File [])) (?E j j) = Some (File c')"
    using c by (cases "?E j j = ?E i j") auto
  then have "\<exists>n. copyFile os (gentxs ! j) ?dir fs = (fs(?E i j \<mapsto> File c'), n, None)"
    using src dst b c cr assms(6) by (simp add: copyFile_def Let_def lookup_def ne)
  with sub rd assms(7) show ?thesis by (auto simp: copy_gentx_def Let_def)
qed

lemma copy_gentxs_returns:
  assumes "os_ok os" "dirs_at os args base q" "gentxs_at os base q names gentxs"
    and "length names = nat (a_numValidators args)" "\<And>c p. fault os c p = None" "gentxs_ready base q names fs"
  shows "\<exists>fs'. copy_gentxs os args gentxs fs = (fs', Return ())"
proof -
  have "\<exists>fs'. for_each (copy_gentx os args i) gentxs fs = (fs', Return ()) \<and> gentxs_ready base q names fs'"
    if "i < length names" "gentxs_ready base q names fs" for i fs
  proof (rule for_each_returns [where P = "gentxs_ready base q names", OF _ that(2)])
    fix f fs
    assume f: "f \<in> set gentxs" "gentxs_ready base q names fs"
    then obtain j where "j < length names" "f = gentxs ! j"
      using assms(3) by (auto simp: in_set_conv_nth gentxs_at_def)
    with copy_gentx_returns [OF assms(1-3) that(1) _ assms(5) f(2)]
    show "\<exists>fs'. copy_gentx os args i f fs = (fs', Return ()) \<and> gentxs_ready base q names fs'" by blast
  qed
  then have "\<exists>fs'. copy_gentxs os args gentxs fs = (fs', Return ()) \<and> gentxs_ready base q names fs'"
    unfolding copy_gentxs_def by (intro for_each_returns [where P = "gentxs_ready base q names", OF _ assms(6)]) (use assms(4) in simp)
  then show ?thesis by blast
qed

section \<open>One genesis for all nodes\<close>

text \<open>
  What the collection relies on. The genesis file is at its default place under the root
  directory; generating a node's application state changes files under that node's root
  directory only, and leaves the root directory in the configuration; a configuration file is
  the only file its writing changes; and the exported genesis file has the contents
  \<open>genesis_bytes\<close> of the chain's name, the state and the time.
\<close>

definition collect_laws ::
    "os \<Rightarrow> (string \<Rightarrow> byte list \<Rightarrow> 'v \<Rightarrow> byte list) \<Rightarrow> ('e, 'coin, 'v, 'rest, 'arest) node_ops \<Rightarrow> bool" where
  "collect_laws os genesis_bytes ops \<longleftrightarrow>
     (\<forall>cfg. GenesisFile ops cfg = Join [RootDir cfg, ''config'', ''genesis.json'']) \<and>
     (\<forall>h cfg ic g h' cfg' r root. GenAppStateFromConfig ops h cfg ic g = (h', cfg', r) \<longrightarrow>
        RootDir cfg' = RootDir cfg \<and>
        (resolve os (Join [RootDir cfg]) = Inr root \<longrightarrow>
           (\<forall>p. take (length root) p \<noteq> root \<longrightarrow> files h' p = files h p))) \<and>
     (\<forall>h file cfg h' es. WriteCmtConfig ops h file cfg = (h', None) \<longrightarrow> resolve os file = Inr es \<longrightarrow>
        (\<forall>p. p \<noteq> es \<longrightarrow> files h' p = files h p)) \<and>
     (\<forall>h file chain st t h' es. ExportGenesisFileWithTime ops h file chain st t = (h', None) \<longrightarrow>
        resolve os file = Inr es \<longrightarrow> files h' = (files h)(es \<mapsto> File (genesis_bytes chain st t)))"

definition genesis_elems :: "elems \<Rightarrow> string \<Rightarrow> nat \<Rightarrow> elems" where
  "genesis_elems base q i = node_elems base q i @ [''config'', ''genesis.json'']"

lemma take_node_elems: "take (length base + 1) (node_elems base q j @ es) = node_elems base q i \<longleftrightarrow> i = j"
  by (auto simp: node_elems_def)

lemma collect_node_effect:
  assumes "collect_laws os genesis_bytes ops" "dirs_at os args base q"
    and "collect_node ops args ids pks plist t j ((cfg, st), h) = (((cfg', st'), h'), Return ())"
  shows "\<exists>s. st' = Some s \<and> (case st of None \<Rightarrow> True | Some s0 \<Rightarrow> s = s0) \<and>
    files h' (genesis_elems base q j) = Some (File (genesis_bytes (a_chainID args) s t)) \<and>
    (\<forall>i. i \<noteq> j \<longrightarrow> files h' (genesis_elems base q i) = files h (genesis_elems base q i)) \<and>
    Addresses cfg' = node_config args (int j) \<and> PersistentPeers cfg' = plist"
proof -
  let ?dir = "nodeDir args (int j)"
  let ?cfg = "cfg\<lparr>Moniker := nodeDirName args (int j), RootDir := ?dir\<rparr>"
  let ?ic = "(a_chainID args, Join [?dir, ''config'', ''gentx''], ids ! j, pks ! j)"
  obtain g where g0: "AppGenesisFromFile ops h (GenesisFile ops ?cfg) = Inr g"
    using assms(3)
    by (cases "AppGenesisFromFile ops h (GenesisFile ops ?cfg)") (simp_all add: collect_node_def Let_def call_def)
  obtain h1 cfg1 r where g: "GenAppStateFromConfig ops h ?cfg ?ic g = (h1, cfg1, r)"
    by (cases "GenAppStateFromConfig ops h ?cfg ?ic g")
  let ?cfg1 = "collect_cfg args (int j) plist cfg1"
  let ?st = "\<lambda>s1. case st of None \<Rightarrow> s1 | Some s \<Rightarrow> s"
  from assms(3) g0 g obtain s1 h2 where
    w: "WriteCmtConfig ops h1 (Join [RootDir ?cfg1, ''config'', ''config.toml'']) ?cfg1 = (h2, None)"
    and e: "ExportGenesisFileWithTime ops h2 (GenesisFile ops ?cfg1) (a_chainID args) (?st s1) t = (h', None)"
    and st: "st' = Some (?st s1)" "cfg' = ?cfg1"
    by (auto simp: collect_node_def call_simp after_Return Let_def)
  note l = assms(1) [unfolded collect_laws_def]
  have dir: "resolve os (Join (?dir # es)) = Inr (node_elems base q j @ es)" if "list_all plain_elem es" for es
    using assms(2) that by (simp add: dirs_at_def)
  have root: "RootDir ?cfg1 = ?dir"
    using l [THEN conjunct2, THEN conjunct1, rule_format, OF g] by (simp add: collect_cfg_def)
  have gen: "resolve os (GenesisFile ops ?cfg1) = Inr (genesis_elems base q j)"
    using l dir [of "[''config'', ''genesis.json'']"] by (simp add: root genesis_elems_def plain_elem_def)
  have cfgf: "resolve os (Join [RootDir ?cfg1, ''config'', ''config.toml'']) = Inr (node_elems base q j @ [''config'', ''config.toml''])"
    using dir [of "[''config'', ''config.toml'']"] by (simp add: root plain_elem_def)
  have f1: "files h1 p = files h p" if "take (length base + 1) p \<noteq> node_elems base q j" for p
    using l [THEN conjunct2, THEN conjunct1, rule_format, OF g] dir [of "[]"] that by (simp add: node_elems_def)
  have f2: "files h2 p = files h1 p" if "p \<noteq> node_elems base q j @ [''config'', ''config.toml'']" for p
    using l [THEN conjunct2, THEN conjunct2, THEN conjunct1, rule_format, OF w cfgf that] .
  have f3: "files h' = (files h2)(genesis_elems base q j \<mapsto> File (genesis_bytes (a_chainID args) (?st s1) t))"
    using l [THEN conjunct2, THEN conjunct2, THEN conjunct2, rule_format, OF e gen] .
  have "files h' (genesis_elems base q i) = files h (genesis_elems base q i)" if "i \<noteq> j" for i
  proof -
    have ne: "genesis_elems base q i \<noteq> genesis_elems base q j"
      "genesis_elems base q i \<noteq> node_elems base q j @ [''config'', ''config.toml'']"
      using that by (simp_all add: genesis_elems_def node_elems_inject node_elems_eq)
    have "take (length base + 1) (genesis_elems base q i) \<noteq> node_elems base q j"
      using that take_node_elems [of base q i "[''config'', ''genesis.json'']" j] by (simp add: genesis_elems_def)
    with f1 f2 f3 ne show ?thesis by simp
  qed
  with f3 st show ?thesis
    by (intro exI [of _ "?st s1"]) (simp add: collect_cfg_def split: option.split)
qed

lemma collectGenFiles_effect:
  assumes "collect_laws os genesis_bytes ops" "dirs_at os args base q"
    and "collectGenFiles ops args cfg ids pks plist h = (((cfg', st), h'), Return ())"
    and "0 < a_numValidators args"
  shows "\<exists>s. \<forall>i < nat (a_numValidators args).
    files h' (genesis_elems base q i) = Some (File (genesis_bytes (a_chainID args) s (Now ops)))"
proof -
  have "(n = 0 \<and> st = None) \<or> (\<exists>s. st = Some s \<and> (\<forall>i < n.
      files h' (genesis_elems base q i) = Some (File (genesis_bytes (a_chainID args) s (Now ops)))))"
    if "for_each (collect_node ops args ids pks plist (Now ops)) [0..<n] ((cfg, None), h) = (((cfg', st), h'), Return ())"
    for n cfg' st h'
    using that
  proof (induction n arbitrary: cfg' st h')
    case (Suc n)
    then obtain cfg1 st1 h1 where
      l: "for_each (collect_node ops args ids pks plist (Now ops)) [0..<n] ((cfg, None), h) = (((cfg1, st1), h1), Return ())"
        "collect_node ops args ids pks plist (Now ops) n ((cfg1, st1), h1) = (((cfg', st), h'), Return ())"
      by (auto simp: for_each_upt_Suc simp del: upt_Suc)
    from collect_node_effect [OF assms(1,2) l(2)] obtain s where s: "st = Some s"
      "case st1 of None \<Rightarrow> True | Some s0 \<Rightarrow> s = s0"
      "files h' (genesis_elems base q n) = Some (File (genesis_bytes (a_chainID args) s (Now ops)))"
      "\<forall>i. i \<noteq> n \<longrightarrow> files h' (genesis_elems base q i) = files h1 (genesis_elems base q i)"
      by blast
    from Suc.IH [OF l(1)] s show ?case by (auto simp: less_Suc_eq)
  qed simp
  from this [OF assms(3) [unfolded collectGenFiles_def]] assms(4) show ?thesis by auto
qed

section \<open>The transactions the loop has written\<close>

lemma gentxs_at_files:
  assumes "dirs_at os args base q" "a_outputDir args \<noteq> ''''" "distinct ids" "list_all (\<lambda>t. CHR ''/'' \<notin> set t) ids"
  shows "gentxs_at os base q (map (\<lambda>t. ''gentx-'' @ t @ ''.json'') ids) (map (gentx_file args ids) [0..<length ids])"
proof -
  let ?name = "\<lambda>t. ''gentx-'' @ t @ ''.json''"
  have "inj_on ?name (set ids)" by (rule inj_onI) simp
  then have d: "distinct (map ?name ids)" using assms(3) by (simp add: distinct_map)
  have pl: "plain_elem (?name (ids ! j))" if "j < length ids" for j
    using assms(4) that by (simp add: plain_elem_def list_all_length)
  have e: "resolve os (gentx_file args ids j) = Inr (gentx_elems base q (map ?name ids) j j) \<and>
      Base (gentx_file args ids j) = ?name (ids ! j)" if "j < length ids" for j
  proof -
    have dir: "resolve os (gentxsDir args (int j)) = Inr (node_elems base q j @ [''config'', ''gentx''])"
      using assms(1) unfolding dirs_at_def gentxsDir_def by (simp add: plain_elem_def)
    have ne: "gentxsDir args (int j) \<noteq> ''''"
      using assms(2) by (simp add: gentxsDir_def Join_def Clean_nonempty)
    show ?thesis
      using resolve_join(2) [OF ne dir, of "[?name (ids ! j)]"] Base_Join [OF ne pl [OF that], of "[]"] pl [OF that] that
      by (simp add: gentx_file_def gentx_elems_def)
  qed
  show ?thesis using d pl e by (simp add: gentxs_at_def)
qed

section \<open>The whole command\<close>

lemma RemoveAll_ok:
  "fault os ''remove'' es = None \<Longrightarrow> resolve os p = Inr es \<Longrightarrow>
   RemoveAll os p fs = (\<lambda>q. if take (length es) q = es then None else fs q, None)"
  by (simp add: RemoveAll_def)

lemma call_or_clean_Fail:
  assumes "resolve os out = Inr es" "fault os ''remove'' es = None"
    and "call_or_clean os out acc (h, Inl err) = ((acc', h'), x)"
  shows "x = Fail err \<and> (\<forall>p. take (length es) p = es \<longrightarrow> files h' p = None)"
  using assms by (auto simp: call_or_clean_def on_files_def RemoveAll_ok)

lemma init_node_cleanup:
  assumes "resolve os (a_outputDir args) = Inr es" "fault os ''remove'' es = None"
    and "\<And>h cfg. \<exists>h' e. InitializeNodeValidatorFiles ops h cfg = (h', Inl e)"
  shows "\<exists>acc' h' e. init_node os ops args j (acc, h) = ((acc', h'), Fail e) \<and>
    (\<forall>p. take (length es) p = es \<longrightarrow> files h' p = None)"
proof -
  let ?cfg = "(nodeConfig acc)\<lparr>RootDir := nodeDir args (int j), Moniker := nodeDirName args (int j),
    Addresses := (Addresses (nodeConfig acc))\<lparr>RPC_ListenAddress := ''tcp://0.0.0.0:'' @ port_of args (int j)\<rparr>\<rparr>"
  obtain h1 r where m: "apsnd err_sum (on_files h (MkdirAll os (Join [nodeDir args (int j), ''config'']))) = (h1, r)"
    by (cases "apsnd err_sum (on_files h (MkdirAll os (Join [nodeDir args (int j), ''config''])))")
  obtain h2 e where i: "InitializeNodeValidatorFiles ops h1 ?cfg = (h2, Inl e)" using assms(3) by blast
  show ?thesis
    using m i by (cases r) (auto simp: init_node_def Let_def call_or_clean_def on_files_def RemoveAll_ok [OF assms(2,1)])
qed

lemma initTestnetFiles_Return:
  assumes "initTestnetFiles os ops authName bankName cfg args h = (h', Return ())" "args' = with_chain_id ops args"
  obtains acc h1 h2 h3 cfg' st where "0 \<le> a_numValidators args'"
    "for_each (init_node os ops args') [0..<nat (a_numValidators args')] (init_acc_zero ops args' cfg, h) = ((acc, h1), Return ())"
    "initGenFiles ops authName bankName (a_chainID args') (genAccounts acc) (genBalances acc) (genFiles acc)
       (a_numValidators args') h1 = (h2, Return ())"
    "copy_gentxs os args' (gentxsFiles acc) (files h2) = (files h3, Return ())"
    "collectGenFiles ops args' (nodeConfig acc) (nodeIDs acc) (map the (valPubKeys acc)) (peers acc) h3 =
       (((cfg', st), h'), Return ())"
proof -
  let ?l = "for_each (init_node os ops args') [0..<nat (a_numValidators args')] (init_acc_zero ops args' cfg, h)"
  from assms(1) have n: "0 \<le> a_numValidators args'"
    by (auto simp: initTestnetFiles_def finish_testnet_def Let_def assms(2) split: if_splits)
  obtain acc h1 x where l: "?l = ((acc, h1), x)" by (metis surj_pair)
  from assms(1) n l have "x = Return ()"
    by (cases x) (auto simp: initTestnetFiles_def finish_testnet_def Let_def assms(2))
  with assms(1) n l obtain h2 h3 where
    g: "initGenFiles ops authName bankName (a_chainID args') (genAccounts acc) (genBalances acc) (genFiles acc)
       (a_numValidators args') h1 = (h2, Return ())"
    and c: "on_files h2 (copy_gentxs os args' (gentxsFiles acc)) = (h3, Return ())"
    and f: "apfst snd (collectGenFiles ops args' (nodeConfig acc) (nodeIDs acc) (map the (valPubKeys acc)) (peers acc) h3) =
      (h', Return ())"
    by (auto simp: initTestnetFiles_def finish_testnet_def Let_def assms(2) after_Return)
  from c have c': "copy_gentxs os args' (gentxsFiles acc) (files h2) = (files h3, Return ())"
    by (cases "copy_gentxs os args' (gentxsFiles acc) (files h2)") (auto simp: on_files_def)
  obtain cs hx y where k: "collectGenFiles ops args' (nodeConfig acc) (nodeIDs acc) (map the (valPubKeys acc)) (peers acc) h3 =
      ((cs, hx), y)" by (metis surj_pair)
  obtain cfg' st where "cs = (cfg', st)" by (cases cs)
  with f k have "collectGenFiles ops args' (nodeConfig acc) (nodeIDs acc) (map the (valPubKeys acc)) (peers acc) h3 =
      (((cfg', st), h'), Return ())" by simp
  from that [OF n _ g c' this] l \<open>x = Return ()\<close> show thesis by simp
qed

section \<open>The command, by paths\<close>

text \<open>What is at a path: nothing when it has no place, or nothing is there.\<close>

definition stat :: "os \<Rightarrow> file_system \<Rightarrow> string \<Rightarrow> fs_entry option" where
  "stat os fs p = (case resolve os p of Inl e \<Rightarrow> None | Inr es \<Rightarrow> lookup fs es)"

definition gentx_name :: "string \<Rightarrow> string" where
  "gentx_name t = ''gentx-'' @ t @ ''.json''"

text \<open>The copy of the transaction of the node with the given identity that node \<open>i\<close> gets.\<close>

definition gentx_copy :: "'coin initArgs \<Rightarrow> nat \<Rightarrow> string \<Rightarrow> string" where
  "gentx_copy args i t = Join [gentxsDir args (int i), gentx_name t]"

lemma gentx_file_copy: "gentx_file args ids j = gentx_copy args j (ids ! j)"
  by (simp add: gentx_file_def gentx_copy_def gentx_name_def)

lemma stat_gentx:
  assumes "dirs_at os args base q" "a_outputDir args \<noteq> ''''" "CHR ''/'' \<notin> set t"
  shows "stat os fs (gentx_copy args i t) = fs (node_elems base q i @ [''config'', ''gentx'', gentx_name t])"
    and "stat os fs (gentxsDir args (int i)) = fs (node_elems base q i @ [''config'', ''gentx''])"
proof -
  have dir: "resolve os (gentxsDir args (int i)) = Inr (node_elems base q i @ [''config'', ''gentx''])"
    using assms(1) unfolding dirs_at_def gentxsDir_def by (simp add: plain_elem_def)
  have ne: "gentxsDir args (int i) \<noteq> ''''"
    using assms(2) by (simp add: gentxsDir_def Join_def Clean_nonempty)
  show "stat os fs (gentxsDir args (int i)) = fs (node_elems base q i @ [''config'', ''gentx''])"
    by (simp add: stat_def dir lookup_def)
  have "plain_elem (gentx_name t)" using assms(3) by (simp add: plain_elem_def gentx_name_def)
  then show "stat os fs (gentx_copy args i t) = fs (node_elems base q i @ [''config'', ''gentx'', gentx_name t])"
    using resolve_join(2) [OF ne dir, of "[gentx_name t]"] by (simp add: stat_def gentx_copy_def lookup_def)
qed

text \<open>Every node ends up with every node's transaction.\<close>

lemma copy_gentxs_all:
  assumes "os_ok os" "a_outputDir args \<noteq> ''''" "resolve os (a_outputDir args) = Inr out"
    and ids: "distinct ids" "list_all (\<lambda>t. CHR ''/'' \<notin> set t) ids" "length ids = nat (a_numValidators args)"
    and "\<And>c p. fault os c p = None"
    and ready: "\<And>i. i < length ids \<Longrightarrow> stat os fs (gentxsDir args (int i)) = Some Dir"
      "\<And>i. i < length ids \<Longrightarrow> \<exists>c. stat os fs (gentx_file args ids i) = Some (File c)"
      "\<And>i j. i < length ids \<Longrightarrow> j < length ids \<Longrightarrow> stat os fs (gentx_copy args i (ids ! j)) \<noteq> Some Dir"
  shows "\<exists>fs'. copy_gentxs os args (map (gentx_file args ids) [0..<length ids]) fs = (fs', Return ()) \<and>
    (\<forall>i < length ids. \<forall>j < length ids. stat os fs' (gentx_copy args i (ids ! j)) = stat os fs (gentx_file args ids j))"
proof -
  obtain base q where d: "dirs_at os args base q" using dirs_exist [OF assms(2,3)] by blast
  let ?names = "map gentx_name ids"
  have g: "gentxs_at os base q ?names (map (gentx_file args ids) [0..<length ids])"
    using gentxs_at_files [OF d assms(2) ids(1,2)] by (simp add: gentx_name_def [abs_def])
  have st: "stat os fs (gentx_copy args i (ids ! j)) = fs (gentx_elems base q ?names i j)" if "j < length ids" for fs i j
    using stat_gentx(1) [OF d assms(2)] ids(2) that by (simp add: gentx_elems_def list_all_length)
  have dir: "stat os fs (gentxsDir args (int i)) = fs (node_elems base q i @ [''config'', ''gentx''])" for i
    using stat_gentx(2) [OF d assms(2), of "''''"] by simp
  have "gentxs_ready base q ?names fs"
    using ready by (simp add: gentxs_ready_def gentx_file_copy st dir)
  from copy_gentxs_returns [OF assms(1) d g _ assms(7) this] ids(3)
  obtain fs' where fs': "copy_gentxs os args (map (gentx_file args ids) [0..<length ids]) fs = (fs', Return ())" by auto
  have "stat os fs' (gentx_copy args i (ids ! j)) = stat os fs (gentx_file args ids j)"
    if ij: "i < length ids" "j < length ids" for i j
  proof -
    obtain c where c: "stat os fs (gentx_file args ids j) = Some (File c)" using ready(2) [OF ij(2)] by blast
    then have "fs (gentx_elems base q ?names j j) = Some (File c)" using st ij by (simp add: gentx_file_copy)
    from copy_gentxs_effect(1) [OF assms(1) d g fs' _ _ _ this, of i] ij ids(3) c show ?thesis by (simp add: st)
  qed
  with fs' show ?thesis by blast
qed

lemma nodeDir_chain_id [simp]: "nodeDir (with_chain_id ops args) = nodeDir args"
  by (simp add: with_chain_id_def nodeDir_def nodeDirName_def fun_eq_iff)

lemma with_chain_id_fields [simp]:
  "a_numValidators (with_chain_id ops args) = a_numValidators args"
  "a_outputDir (with_chain_id ops args) = a_outputDir args"
  by (simp_all add: with_chain_id_def)

text \<open>When the command succeeds, all nodes have the same genesis file.\<close>

lemma initTestnetFiles_genesis:
  fixes ops :: "('e, 'coin, 'v, 'rest, 'arest) node_ops"
  assumes "collect_laws os genesis_bytes ops" "a_outputDir args \<noteq> ''''" "resolve os (a_outputDir args) = Inr out"
    and "initTestnetFiles os ops authName bankName cfg args h = (h', Return ())"
  shows "\<exists>s. \<forall>i < nat (a_numValidators args).
    stat os (files h') (Join [nodeDir args (int i), ''config'', ''genesis.json'']) =
      Some (File (genesis_bytes (a_chainID (with_chain_id ops args)) s (Now ops)))"
proof (cases "0 < a_numValidators args")
  case True
  let ?args = "with_chain_id ops args"
  obtain base q where d: "dirs_at os ?args base q"
    using dirs_exist [of ?args os out] assms(2,3) by auto
  have r: "resolve os (Join [nodeDir args (int i), ''config'', ''genesis.json'']) = Inr (genesis_elems base q i)" for i
    using d unfolding dirs_at_def nodeDir_chain_id genesis_elems_def by (simp add: plain_elem_def)
  obtain acc :: "('coin, 'v, 'rest, 'arest) init_acc" and h3 cfg' st where
    "collectGenFiles ops ?args (nodeConfig acc) (nodeIDs acc) (map the (valPubKeys acc)) (peers acc) h3 =
       (((cfg', st), h'), Return ())"
    by (rule initTestnetFiles_Return [OF assms(4) refl])
  from collectGenFiles_effect [OF assms(1) d this] True r show ?thesis
    by (auto simp: stat_def lookup_def genesis_elems_def)
qed simp

text \<open>The loop over the nodes collects what the closed forms say.\<close>

lemma init_nodes_collect:
  assumes "for_each (init_node os ops args) [0..<nat (a_numValidators args)] (init_acc_zero ops args cfg, h) =
      ((acc, h'), Return ())"
  shows "length (nodeIDs acc) = nat (a_numValidators args) \<and>
    peers acc = persistentPeers args (\<lambda>i. nodeIDs acc ! nat i) \<and>
    gentxsFiles acc = map (gentx_file args (nodeIDs acc)) [0..<nat (a_numValidators args)] \<and>
    length (genFiles acc) = nat (a_numValidators args) \<and> length (genAccounts acc) = nat (a_numValidators args) \<and>
    map (\<lambda>b. Inr (balance_Coins b)) (genBalances acc) = replicate (nat (a_numValidators args)) (account_coins ops)"
proof -
  have "map (\<lambda>j. memo args (\<lambda>_. nodeIDs acc ! j) (int j)) [0..<nat (a_numValidators args)] =
      map (\<lambda>i. memo args (\<lambda>i. nodeIDs acc ! nat i) (int i)) [0..<nat (a_numValidators args)]"
    by (simp add: memo_def)
  with init_nodes_acc [OF assms, of "nat (a_numValidators args)"] show ?thesis
    by (simp add: init_acc_zero_def persistentPeers_join)
qed

text \<open>A node whose key files cannot be written: nothing is left of the output directory.\<close>

lemma initTestnetFiles_cleanup:
  assumes "resolve os (a_outputDir args) = Inr es" "fault os ''remove'' es = None" "0 < a_numValidators args"
    and "\<And>h cfg. \<exists>h' e. InitializeNodeValidatorFiles ops h cfg = (h', Inl e)"
  shows "\<exists>h' e. initTestnetFiles os ops authName bankName cfg args h = (h', Fail e) \<and>
    (\<forall>p. take (length es) p = es \<longrightarrow> files h' p = None)"
proof -
  let ?args = "with_chain_id ops args"
  obtain n where n: "nat (a_numValidators args) = Suc n" using assms(3) by (cases "nat (a_numValidators args)") auto
  from init_node_cleanup [OF _ assms(2,4), of ?args 0 "init_acc_zero ops ?args cfg" h] assms(1)
  obtain acc' h' e where "init_node os ops ?args 0 (init_acc_zero ops ?args cfg, h) = ((acc', h'), Fail e)"
    and f: "\<forall>p. take (length es) p = es \<longrightarrow> files h' p = None"
    by auto
  then have "for_each (init_node os ops ?args) [0..<Suc n] (init_acc_zero ops ?args cfg, h) = ((acc', h'), Fail e)"
    by (simp add: upt_conv_Cons del: upt_Suc)
  then have "initTestnetFiles os ops authName bankName cfg args h = (h', Fail e)"
    using assms(3) by (simp add: initTestnetFiles_def finish_testnet_def Let_def n del: upt_Suc)
  with f show ?thesis by blast
qed

end
