(* ===== verification/Multi_Node_World.thy ===== *)
theory Multi_Node_World
  imports Multi_Node_Facts
begin

text \<open>
  A concrete machine for \<open>Multi_Node_Files\<close>: a working directory, no faults, and calls of other
  packages that succeed and write the files the code expects of them. The laws hold in it, and
  the witnesses compute in it.
\<close>

definition world_os :: os where
  "world_os = \<lparr>working_dir = Inr ''/w'', fault = (\<lambda>c p. None)\<rparr>"

lemma world_os_ok: "os_ok world_os"
  by (simp add: os_ok_def world_os_def IsAbs_def)

lemma world_fault [simp]: "fault world_os c p = None"
  by (simp add: world_os_def)

text \<open>Writing a file whose path resolves, as those packages do.\<close>

definition put_file :: "unit machine \<Rightarrow> string \<Rightarrow> byte list \<Rightarrow> unit machine \<times> goerr option" where
  "put_file h file bz =
     (case resolve world_os file of
        Inl e \<Rightarrow> (h, Some e)
      | Inr es \<Rightarrow> (h\<lparr>files := (files h)(es \<mapsto> File bz)\<rparr>, None))"

definition world_genesis :: "string \<Rightarrow> byte list \<Rightarrow> string \<Rightarrow> byte list" where
  "world_genesis chain st t = str_bytes chain @ st @ str_bytes t"

definition world_node_ops :: "(unit, string \<times> int, string, unit, unit) node_ops" where
  "world_node_ops = \<lparr>
     DefaultAppConfig = \<lparr>MinGasPrices = '''', API_Enable = True, EnableHostnameLabel = True,
       Telemetry_Enabled = True, PrometheusRetentionTime = 60,
       AppAddresses = \<lparr>GRPC_Address = '''', API_Address = ''''\<rparr>, app_rest = ()\<rparr>,
     DefaultBondDenom = ''stake'',
     Intn = (\<lambda>i n. 0),
     GenesisFile = (\<lambda>cfg. Join [RootDir cfg, ''config'', ''genesis.json'']),
     InitializeNodeValidatorFiles = (\<lambda>h cfg. (h, Inr (Moniker cfg, Moniker cfg))),
     keyring_New = (\<lambda>h b d. (h, Inr d)),
     SupportedAlgorithms = (\<lambda>kb. kb),
     NewSigningAlgoFromString = (\<lambda>a algos. Inr a),
     GenerateSaveCoinKey = (\<lambda>h kb name algo. (h, Inr (name, ''secret''))),
     json_Marshal = (\<lambda>m. Inr []),
     TokensFromConsensusPower = (\<lambda>p. 1000000 * p),
     Coin_New = (\<lambda>d n. Inr (d, n)),
     Coins_Sort = rev,
     Coins_Add = (@),
     AccAddress_String = (\<lambda>a. a),
     ValAddress_String = (\<lambda>a. a),
     NewBaseAccount = (\<lambda>a. a),
     NewMsgCreateValidator = (\<lambda>a pk c name. Inr a),
     SetMsgs = Inr,
     SetMemo = (\<lambda>tx m. tx @ m),
     tx_Sign = (\<lambda>h c m kb name tx. (h, Inr tx)),
     TxJSONEncoder = (\<lambda>tx. Inr (str_bytes tx)),
     WriteAppConfig = (\<lambda>h file c. put_file h file []),
     BasicDefaultGenesis = (\<lambda>m. None),
     auth_UnmarshalJSON = (\<lambda>bz. Inr ''auth''),
     auth_SetAccounts = (\<lambda>g a. a),
     auth_MarshalJSON = (\<lambda>g. Inr (str_bytes g)),
     PackAccounts = (\<lambda>as. Inr (concat as)),
     bank_UnmarshalJSON = (\<lambda>bz. Inr \<lparr>Balances = [], Supply = [], bank_rest = ''''\<rparr>),
     bank_MarshalJSON = (\<lambda>g. Inr []),
     SanitizeGenesisBalances = (\<lambda>bs. bs),
     json_MarshalIndent = (\<lambda>m. Inr []),
     SaveAs = (\<lambda>h doc file. put_file h file (doc_AppState doc)),
     Now = ''now'',
     AppGenesisFromFile = (\<lambda>h file. Inr file),
     GenAppStateFromConfig = (\<lambda>h cfg ic g. (h, cfg, Inr [1])),
     WriteCmtConfig = (\<lambda>h file cfg. put_file h file []),
     ExportGenesisFileWithTime = (\<lambda>h file chain st t. put_file h file (world_genesis chain st t))\<rparr>"

lemma world_collect_laws: "collect_laws world_os world_genesis world_node_ops"
  by (auto simp: collect_laws_def world_node_ops_def put_file_def split: sum.splits)

definition world_cfg :: "unit node_cfg" where
  "world_cfg = \<lparr>RootDir = '''', Moniker = '''',
     Addresses = \<lparr>RPC_ListenAddress = '''', P2P_ListenAddress = '''', ProxyApp = '''', PrometheusListenAddr = ''''\<rparr>,
     PersistentPeers = '''', AllowDuplicateIP = False, Prometheus = False, cfg_rest = ()\<rparr>"

definition one_node :: "(string \<times> int) initArgs" where
  "one_node = \<lparr>a_algo = ''secp256k1'', a_chainID = ''c'', a_keyringBackend = ''test'', a_minGasPrices = '''',
     a_nodeDirPrefix = ''v'', a_numValidators = 1, a_outputDir = ''t'', a_startingIPAddress = ''localhost'',
     a_validatorsStakesAmount = (\<lambda>i. None), a_ports = (\<lambda>i. None)\<rparr>"

text \<open>The paths the command uses, for node 0.\<close>

lemma Itoa_0: "Itoa 0 = ''0''"
  by code_simp

lemma world_paths:
  "Join [''t'', ''v0''] = ''t/v0''"
  "Join [''t/v0'', ''config''] = ''t/v0/config''"
  "Join [''t/v0'', ''key_seed.json''] = ''t/v0/key_seed.json''"
  "Join [''t'', ''v0'', ''config'', ''gentx''] = ''t/v0/config/gentx''"
  "Join [''t/v0'', ''config'', ''gentx''] = ''t/v0/config/gentx''"
  "Join [''t/v0/config/gentx'', ''gentx-v0.json''] = ''t/v0/config/gentx/gentx-v0.json''"
  "Join [''t/v0'', ''config'', ''app.toml''] = ''t/v0/config/app.toml''"
  "Join [''t/v0'', ''config'', ''config.toml''] = ''t/v0/config/config.toml''"
  "Join [''t/v0'', ''config'', ''genesis.json''] = ''t/v0/config/genesis.json''"
  by code_simp+

lemma world_resolve:
  "resolve world_os ''t/v0'' = Inr [''w'', ''t'', ''v0'']"
  "resolve world_os ''t/v0/config'' = Inr [''w'', ''t'', ''v0'', ''config'']"
  "resolve world_os ''t/v0/key_seed.json'' = Inr [''w'', ''t'', ''v0'', ''key_seed.json'']"
  "resolve world_os ''t/v0/config/gentx'' = Inr [''w'', ''t'', ''v0'', ''config'', ''gentx'']"
  "resolve world_os ''t/v0/config/gentx/gentx-v0.json'' = Inr [''w'', ''t'', ''v0'', ''config'', ''gentx'', ''gentx-v0.json'']"
  "resolve world_os ''t/v0/config/app.toml'' = Inr [''w'', ''t'', ''v0'', ''config'', ''app.toml'']"
  "resolve world_os ''t/v0/config/config.toml'' = Inr [''w'', ''t'', ''v0'', ''config'', ''config.toml'']"
  "resolve world_os ''t/v0/config/genesis.json'' = Inr [''w'', ''t'', ''v0'', ''config'', ''genesis.json'']"
  by code_simp+

lemma world_sub: "isSubDir world_os ''t/v0/config/gentx/gentx-v0.json'' ''t/v0/config/gentx'' = Inr True"
  by code_simp

definition empty_machine :: "unit machine" where
  "empty_machine = \<lparr>files = (\<lambda>p. None), others = ()\<rparr>"

lemma one_node_command:
  "\<exists>h. initTestnetFiles world_os world_node_ops ''auth'' ''bank'' world_cfg one_node empty_machine = (h, Return ())"
  by (simp add: initTestnetFiles_def finish_testnet_def with_chain_id_def one_node_def init_node_def init_acc_zero_def empty_machine_def
      nodeDirName_def nodeDir_def gentxsDir_def Itoa_0 world_paths world_resolve Let_def call_or_clean_def on_files_def
      MkdirAll_def lookup_def err_sum_def world_node_ops_def call_def call_or_panic_def writeFile_def WriteFile_def
      write_at_def create_at_def account_coins_def node_stake_def node_gentx_def put_file_def
      initGenFiles_def raw_state_def total_supply_of_def copy_gentxs_def copy_gentx_def world_sub
      collectGenFiles_def collect_node_def collect_cfg_def check_def)

text \<open>Two nodes whose genesis transactions have been written, each in its own directory.\<close>

definition two_nodes :: "(string \<times> int) initArgs" where
  "two_nodes = one_node\<lparr>a_numValidators := 2\<rparr>"

definition two_files :: file_system where
  "two_files = map_of [
     ([''w'', ''t'', ''v0'', ''config'', ''gentx''], Dir),
     ([''w'', ''t'', ''v1'', ''config'', ''gentx''], Dir),
     ([''w'', ''t'', ''v0'', ''config'', ''gentx'', ''gentx-a.json''], File [1]),
     ([''w'', ''t'', ''v1'', ''config'', ''gentx'', ''gentx-b.json''], File [2])]"

lemma two_nodes_out: "a_outputDir two_nodes = ''t''" "resolve world_os ''t'' = Inr [''w'', ''t'']"
    "nat (a_numValidators two_nodes) = 2"
  by code_simp+

lemma two_files_stat:
  "stat world_os two_files (gentxsDir two_nodes 0) = Some Dir"
  "stat world_os two_files (gentxsDir two_nodes 1) = Some Dir"
  "stat world_os two_files (gentx_copy two_nodes 0 ''a'') = Some (File [1])"
  "stat world_os two_files (gentx_copy two_nodes 1 ''b'') = Some (File [2])"
  "stat world_os two_files (gentx_copy two_nodes 0 ''b'') = None"
  "stat world_os two_files (gentx_copy two_nodes 1 ''a'') = None"
  by code_simp+

lemma two_files_ready:
  "i < length [''a'', ''b''] \<Longrightarrow> stat world_os two_files (gentxsDir two_nodes (int i)) = Some Dir"
  "i < length [''a'', ''b''] \<Longrightarrow> \<exists>c. stat world_os two_files (gentx_file two_nodes [''a'', ''b''] i) = Some (File c)"
  "i < length [''a'', ''b''] \<Longrightarrow> j < length [''a'', ''b''] \<Longrightarrow>
     stat world_os two_files (gentx_copy two_nodes i ([''a'', ''b''] ! j)) \<noteq> Some Dir"
  using two_files_stat by (auto simp: gentx_file_copy less_Suc_eq)

lemma world_loop:
  "\<exists>acc h'. for_each (init_node world_os world_node_ops one_node) [0..<nat (a_numValidators one_node)]
     (init_acc_zero world_node_ops one_node world_cfg, empty_machine) = ((acc, h'), Return ())"
proof -
  obtain h where "initTestnetFiles world_os world_node_ops ''auth'' ''bank'' world_cfg one_node empty_machine = (h, Return ())"
    using one_node_command by blast
  moreover have "with_chain_id world_node_ops one_node = one_node" by (simp add: with_chain_id_def one_node_def)
  ultimately show ?thesis by (rule initTestnetFiles_Return [OF _ sym]) blast
qed

end
