(* ===== verification/Multi_Node_Live.thy ===== *)
theory Multi_Node_Live
  imports Multi_Node_World
begin

text \<open>
  The \<open>multi-node\<close> command returns. Under what the other packages' calls promise of success, and
  when no file is in the way of a directory and no directory in the way of a file, the whole
  command runs to its end, and the nodes' files are there. The proof follows the command: each
  call \<open>advances\<close> the file system, which keeps the places the command uses in order and never
  takes away a directory or a file of its own.
\<close>

section \<open>The places the command uses\<close>

definition own_dirs :: "os \<Rightarrow> 'coin initArgs \<Rightarrow> elems set" where
  "own_dirs os args = {take k es |k i es. i < nat (a_numValidators args) \<and> resolve os (gentxsDir args (int i)) = Inr es}"

definition own_gentxs :: "os \<Rightarrow> 'coin initArgs \<Rightarrow> elems set" where
  "own_gentxs os args =
     {es @ [x] |es x i. i < nat (a_numValidators args) \<and> resolve os (gentxsDir args (int i)) = Inr es}"

definition node_files :: "'coin initArgs \<Rightarrow> nat \<Rightarrow> string list" where
  "node_files args i = map (\<lambda>es. Join (nodeDir args (int i) # es))
     [[''key_seed.json''], [''config'', ''app.toml''], [''config'', ''config.toml''], [''config'', ''genesis.json'']]"

definition own_files :: "os \<Rightarrow> 'coin initArgs \<Rightarrow> elems set" where
  "own_files os args = {es. \<exists>i < nat (a_numValidators args). \<exists>f \<in> set (node_files args i). resolve os f = Inr es}"

text \<open>No file is in the way of a directory, no directory in the way of a file.\<close>

definition room :: "os \<Rightarrow> 'coin initArgs \<Rightarrow> file_system \<Rightarrow> bool" where
  "room os args fs \<longleftrightarrow> (\<forall>p \<in> own_dirs os args. \<forall>c. fs p \<noteq> Some (File c)) \<and>
     (\<forall>p \<in> own_gentxs os args \<union> own_files os args. fs p \<noteq> Some Dir)"

section \<open>What the calls promise\<close>

text \<open>
  \<open>keeps\<close>: a call that makes keys, signs or collects transactions leaves the command's directories
  and its transactions alone, and does not turn one of its files into a directory or remove it.
\<close>

definition keeps :: "os \<Rightarrow> 'coin initArgs \<Rightarrow> file_system \<Rightarrow> file_system \<Rightarrow> bool" where
  "keeps os args fs fs' \<longleftrightarrow>
     (\<forall>p \<in> own_dirs os args \<union> own_gentxs os args. fs' p = fs p) \<and>
     (\<forall>p \<in> own_files os args. (fs p \<noteq> Some Dir \<longrightarrow> fs' p \<noteq> Some Dir) \<and>
        ((\<exists>c. fs p = Some (File c)) \<longrightarrow> (\<exists>c. fs' p = Some (File c))))"

text \<open>A writer puts a file where there is a directory for it and no directory in its place.\<close>

definition writes_file :: "os \<Rightarrow> ('e machine \<Rightarrow> string \<Rightarrow> 'e machine \<times> goerr option) \<Rightarrow> byte list \<Rightarrow> bool" where
  "writes_file os f bz \<longleftrightarrow>
     (\<forall>h file es. resolve os file = Inr es \<longrightarrow> es \<noteq> [] \<longrightarrow> lookup (files h) (butlast es) = Some Dir \<longrightarrow>
        lookup (files h) es \<noteq> Some Dir \<longrightarrow>
        (\<exists>h'. f h file = (h', None) \<and> files h' = (files h)(es \<mapsto> File bz)))"

text \<open>
  The keys of a node: its files are made under its root directory and give it the identity
  \<open>ids ! i\<close>, the keyring opens, the algorithm is known, the key is made and the transaction signed.
\<close>

definition key_laws :: "os \<Rightarrow> 'coin initArgs \<Rightarrow> string list \<Rightarrow> ('e, 'coin, 'v, 'rest, 'arest) node_ops \<Rightarrow> bool" where
  "key_laws os args ids ops \<longleftrightarrow>
     (\<forall>i < nat (a_numValidators args). \<forall>h cfg. RootDir cfg = nodeDir args (int i) \<longrightarrow> Moniker cfg = nodeDirName args (int i) \<longrightarrow>
        (\<exists>h' pk. InitializeNodeValidatorFiles ops h cfg = (h', Inr (ids ! i, pk)) \<and> keeps os args (files h) (files h'))) \<and>
     (\<forall>h b d. \<exists>h' kb. keyring_New ops h b d = (h', Inr kb) \<and> keeps os args (files h) (files h')) \<and>
     (\<forall>kb. \<exists>algo. NewSigningAlgoFromString ops (a_algo args) (SupportedAlgorithms ops kb) = Inr algo) \<and>
     (\<forall>h kb name algo. \<exists>h' addr secret. GenerateSaveCoinKey ops h kb name algo = (h', Inr (addr, secret)) \<and>
        keeps os args (files h) (files h')) \<and>
     (\<forall>h c m kb name tx. \<exists>h' signed. tx_Sign ops h c m kb name tx = (h', Inr signed) \<and> keeps os args (files h) (files h'))"

text \<open>Coins, messages and encodings can be made.\<close>

definition value_laws :: "'coin initArgs \<Rightarrow> ('e, 'coin, 'v, 'rest, 'arest) node_ops \<Rightarrow> bool" where
  "value_laws args ops \<longleftrightarrow>
     (\<exists>coins. account_coins ops = Inr coins) \<and> (\<forall>i. \<exists>stake. node_stake ops args i = Inr stake) \<and>
     (\<forall>m. \<exists>bz. json_Marshal ops m = Inr bz) \<and>
     (\<forall>a pk c name. \<exists>msg. NewMsgCreateValidator ops a pk c name = Inr msg) \<and>
     (\<forall>msg. \<exists>tx. SetMsgs ops msg = Inr tx) \<and> (\<forall>tx. \<exists>bz. TxJSONEncoder ops tx = Inr bz)"

text \<open>The default genesis of the two modules decodes, and what the command makes of it encodes.\<close>

definition genesis_laws :: "string \<Rightarrow> string \<Rightarrow> ('e, 'coin, 'v, 'rest, 'arest) node_ops \<Rightarrow> bool" where
  "genesis_laws authName bankName ops \<longleftrightarrow> authName \<noteq> bankName \<and>
     (\<exists>g. auth_UnmarshalJSON ops (raw_state (BasicDefaultGenesis ops) authName) = Inr g) \<and>
     (\<exists>g. bank_UnmarshalJSON ops (raw_state (BasicDefaultGenesis ops) bankName) = Inr g) \<and>
     (\<forall>as. \<exists>packed. PackAccounts ops as = Inr packed) \<and> (\<forall>g. \<exists>bz. auth_MarshalJSON ops g = Inr bz) \<and>
     (\<forall>g. \<exists>bz. bank_MarshalJSON ops g = Inr bz) \<and> (\<forall>m. \<exists>bz. json_MarshalIndent ops m = Inr bz)"

text \<open>
  The writers write; a saved genesis document can be read back; the application state can be made
  of a node's transactions when their directory is there.
\<close>

definition file_laws ::
    "os \<Rightarrow> 'coin initArgs \<Rightarrow> (genesis_doc \<Rightarrow> byte list) \<Rightarrow> (string \<Rightarrow> byte list \<Rightarrow> 'v \<Rightarrow> byte list)
     \<Rightarrow> ('e, 'coin, 'v, 'rest, 'arest) node_ops \<Rightarrow> bool" where
  "file_laws os args doc_bytes genesis_bytes ops \<longleftrightarrow>
     (\<forall>c. \<exists>bz. writes_file os (\<lambda>h file. WriteAppConfig ops h file c) bz) \<and>
     (\<forall>c. \<exists>bz. writes_file os (\<lambda>h file. WriteCmtConfig ops h file c) bz) \<and>
     (\<forall>doc. writes_file os (\<lambda>h file. SaveAs ops h doc file) (doc_bytes doc)) \<and>
     (\<forall>chain st t. writes_file os (\<lambda>h file. ExportGenesisFileWithTime ops h file chain st t) (genesis_bytes chain st t)) \<and>
     (\<forall>h file doc. stat os (files h) file = Some (File (doc_bytes doc)) \<longrightarrow> (\<exists>g. AppGenesisFromFile ops h file = Inr g)) \<and>
     (\<forall>h cfg chain gentxs nodeID pk g. stat os (files h) gentxs = Some Dir \<longrightarrow>
        (\<exists>h' cfg' st. GenAppStateFromConfig ops h cfg (chain, gentxs, nodeID, pk) g = (h', cfg', Inr st) \<and>
           keeps os args (files h) (files h')))"

definition provision_laws ::
    "os \<Rightarrow> 'coin initArgs \<Rightarrow> string list \<Rightarrow> string \<Rightarrow> string \<Rightarrow> (genesis_doc \<Rightarrow> byte list)
     \<Rightarrow> (string \<Rightarrow> byte list \<Rightarrow> 'v \<Rightarrow> byte list) \<Rightarrow> ('e, 'coin, 'v, 'rest, 'arest) node_ops \<Rightarrow> bool" where
  "provision_laws os args ids authName bankName doc_bytes genesis_bytes ops \<longleftrightarrow>
     key_laws os args ids ops \<and> value_laws args ops \<and> genesis_laws authName bankName ops \<and>
     file_laws os args doc_bytes genesis_bytes ops \<and> collect_laws os genesis_bytes ops"

section \<open>Directories and files\<close>

text \<open>A file system with the directories on the way to \<open>es\<close>.\<close>

definition mkdirs :: "elems \<Rightarrow> file_system \<Rightarrow> file_system" where
  "mkdirs es fs = (\<lambda>p. if p \<noteq> [] \<and> p = take (length p) es then Some Dir else fs p)"

lemma mkdir_from_returns:
  assumes "\<And>c p. fault os c p = None"
    and "\<And>k c. k < length es \<Longrightarrow> fs (pre @ take (Suc k) es) \<noteq> Some (File c)"
  shows "mkdir_from os pre es fs =
    (\<lambda>p. if \<exists>k < length es. p = pre @ take (Suc k) es then Some Dir else fs p, None)"
  using assms(2)
proof (induction es arbitrary: pre fs)
  case (Cons e es)
  have ne: "pre @ [e] \<noteq> []" by simp
  have e: "fs (pre @ [e]) \<noteq> Some (File c)" for c using Cons.prems [of 0 c] by simp
  let ?fs = "fs(pre @ [e] \<mapsto> Dir)"
  have IH: "mkdir_from os (pre @ [e]) es ?fs =
      (\<lambda>p. if \<exists>k < length es. p = (pre @ [e]) @ take (Suc k) es then Some Dir else ?fs p, None)"
  proof (rule Cons.IH)
    show "?fs ((pre @ [e]) @ take (Suc k) es) \<noteq> Some (File c)" if "k < length es" for k c
      using Cons.prems [of "Suc k" c] that by auto
  qed
  have step: "mkdir_from os pre (e # es) fs = mkdir_from os (pre @ [e]) es ?fs"
  proof (cases "fs (pre @ [e])")
    case None
    then show ?thesis by (simp add: lookup_def assms(1))
  next
    case (Some x)
    with e have "x = Dir" by (cases x) auto
    with Some have "?fs = fs" by (simp add: fun_upd_idem)
    then show ?thesis using Some \<open>x = Dir\<close> by (simp add: lookup_def)
  qed
  have ex: "(\<exists>k < length (e # es). p = pre @ take (Suc k) (e # es)) \<longleftrightarrow>
      p = pre @ [e] \<or> (\<exists>k < length es. p = (pre @ [e]) @ take (Suc k) es)" for p
    by (auto simp: less_Suc_eq_0_disj)
  show ?case unfolding step IH by (simp only: ex) (auto simp: fun_eq_iff)
qed simp

lemma MkdirAll_returns:
  assumes "\<And>c p. fault os c p = None" "resolve os p = Inr es" "\<And>k c. fs (take k es) \<noteq> Some (File c)"
  shows "MkdirAll os p fs = (mkdirs es fs, None)"
proof -
  have "(\<exists>k < length es. p = [] @ take (Suc k) es) \<longleftrightarrow> p \<noteq> [] \<and> p = take (length p) es" for p :: elems
  proof
    assume "p \<noteq> [] \<and> p = take (length p) es"
    then have "length p \<le> length es" "0 < length p" by (metis length_take min.cobounded1, simp)
    then have "length p - 1 < length es" "Suc (length p - 1) = length p" by presburger+
    with \<open>p \<noteq> [] \<and> p = take (length p) es\<close> show "\<exists>k < length es. p = [] @ take (Suc k) es"
      by (intro exI [of _ "length p - 1"]) simp
  qed (auto simp: min_def take_Cons')
  with mkdir_from_returns [of os es fs "[]", OF assms(1)] assms(3) show ?thesis
    by (simp add: MkdirAll_def assms(2) mkdirs_def)
qed

lemma writeFile_returns:
  assumes "\<And>c p. fault os c p = None" "resolve os dir = Inr es" "resolve os file = Inr (es @ [x])"
    and "\<And>k c. fs (take k es) \<noteq> Some (File c)" "fs (es @ [x]) \<noteq> Some Dir"
  shows "writeFile os file dir bz fs = ((mkdirs es fs)(es @ [x] \<mapsto> File bz), None)"
proof -
  have "lookup (mkdirs es fs) es = Some Dir" by (simp add: lookup_def mkdirs_def)
  moreover have "lookup (mkdirs es fs) (es @ [x]) \<noteq> Some Dir"
    using assms(5) by (simp add: lookup_def mkdirs_def)
  ultimately show ?thesis
    by (simp add: writeFile_def MkdirAll_returns [where fs = fs, OF assms(1,2,4)] WriteFile_def assms(1,3) write_at_def create_at_def)
qed

section \<open>Places, by elements\<close>

text \<open>With the nodes' directories at \<open>base\<close> and \<open>q\<close>, the places are these.\<close>

definition gentx_dir :: "elems \<Rightarrow> string \<Rightarrow> nat \<Rightarrow> elems" where
  "gentx_dir base q i = node_elems base q i @ [''config'', ''gentx'']"

definition file_elems :: "elems list" where
  "file_elems = [[''key_seed.json''], [''config'', ''app.toml''], [''config'', ''config.toml''], [''config'', ''genesis.json'']]"

lemma node_files_eq: "node_files args i = map (\<lambda>es. Join (nodeDir args (int i) # es)) file_elems"
  by (simp add: node_files_def file_elems_def)

lemma file_elems_plain: "es \<in> set file_elems \<Longrightarrow> list_all plain_elem es"
  by (auto simp: file_elems_def plain_elem_def)

lemma resolve_places:
  assumes "dirs_at os args base q"
  shows "resolve os (gentxsDir args (int i)) = Inr (gentx_dir base q i)"
    and "es \<in> set file_elems \<Longrightarrow> resolve os (Join (nodeDir args (int i) # es)) = Inr (node_elems base q i @ es)"
  using assms file_elems_plain unfolding dirs_at_def gentxsDir_def gentx_dir_def by (simp_all add: plain_elem_def)

lemma own_places:
  assumes "dirs_at os args base q"
  shows "own_dirs os args = {take k (gentx_dir base q i) |k i. i < nat (a_numValidators args)}"
    and "own_gentxs os args = {gentx_dir base q i @ [x] |x i. i < nat (a_numValidators args)}"
    and "own_files os args = {node_elems base q i @ es |es i. i < nat (a_numValidators args) \<and> es \<in> set file_elems}"
proof -
  note r = resolve_places [OF assms]
  show "own_dirs os args = {take k (gentx_dir base q i) |k i. i < nat (a_numValidators args)}"
    by (auto simp: own_dirs_def r(1))
  show "own_gentxs os args = {gentx_dir base q i @ [x] |x i. i < nat (a_numValidators args)}"
    by (auto simp: own_gentxs_def r(1))
  have "resolve os f = Inr p \<longleftrightarrow> (\<exists>es \<in> set file_elems. f = Join (nodeDir args (int i) # es) \<and> p = node_elems base q i @ es)"
    if "f \<in> set (node_files args i)" for f i p
    using that r(2) [where i = i] by (auto simp: node_files_eq)
  then show "own_files os args = {node_elems base q i @ es |es i. i < nat (a_numValidators args) \<and> es \<in> set file_elems}"
    unfolding own_files_def using r(2) by (auto simp: node_files_eq)
qed

text \<open>They are apart: by their lengths, and by their last elements.\<close>

lemma places_apart:
  assumes "dirs_at os args base q" "p \<in> own_gentxs os args \<union> own_files os args"
  shows "p \<noteq> []" "p \<notin> own_dirs os args"
proof -
  show "p \<noteq> []" using assms(2) by (auto simp: own_places [OF assms(1)] node_elems_def)
  have "p \<noteq> take k (gentx_dir base q j)" for k j
  proof
    assume "p = take k (gentx_dir base q j)"
    then have p: "p = take (length p) (base @ [q @ Itoa (int j), ''config'', ''gentx''])"
      by (auto simp: gentx_dir_def node_elems_def min_def)
    from assms(2) consider x i where "p = gentx_dir base q i @ [x]"
      | es i where "es \<in> set file_elems" "p = node_elems base q i @ es"
      by (auto simp: own_places [OF assms(1)])
    then show False
      using p by cases (auto simp: gentx_dir_def node_elems_def file_elems_def)
  qed
  then show "p \<notin> own_dirs os args" by (auto simp: own_places [OF assms(1)])
qed

lemma gentxs_files_apart:
  assumes "dirs_at os args base q"
  shows "own_gentxs os args \<inter> own_files os args = {}"
  by (auto simp: own_places [OF assms] gentx_dir_def node_elems_inject file_elems_def)

section \<open>Advancing\<close>

text \<open>
  \<open>advances\<close> relates a file system to a later one: there is room in the later one, its directories
  on the way and its files are still there; \<open>same_gentxs\<close>: the transactions are untouched.
\<close>

definition is_file :: "fs_entry option \<Rightarrow> bool" where
  "is_file x \<longleftrightarrow> (\<exists>c. x = Some (File c))"

definition advances :: "os \<Rightarrow> 'coin initArgs \<Rightarrow> file_system \<Rightarrow> file_system \<Rightarrow> bool" where
  "advances os args fs fs' \<longleftrightarrow> room os args fs' \<and>
     (\<forall>p \<in> own_dirs os args. fs p = Some Dir \<longrightarrow> fs' p = Some Dir) \<and>
     (\<forall>p \<in> own_gentxs os args \<union> own_files os args. is_file (fs p) \<longrightarrow> is_file (fs' p))"

definition same_gentxs :: "os \<Rightarrow> 'coin initArgs \<Rightarrow> file_system \<Rightarrow> file_system \<Rightarrow> bool" where
  "same_gentxs os args fs fs' \<longleftrightarrow> (\<forall>p \<in> own_gentxs os args. fs' p = fs p)"

lemma advances_refl: "room os args fs \<Longrightarrow> advances os args fs fs"
  by (simp add: advances_def)

lemma advances_trans [trans]:
  "advances os args fs fs1 \<Longrightarrow> advances os args fs1 fs2 \<Longrightarrow> advances os args fs fs2"
  by (simp add: advances_def)

lemma same_gentxs_trans [trans]:
  "same_gentxs os args fs fs1 \<Longrightarrow> same_gentxs os args fs1 fs2 \<Longrightarrow> same_gentxs os args fs fs2"
  by (simp add: same_gentxs_def)

lemma advances_room: "advances os args fs fs' \<Longrightarrow> room os args fs'"
  by (simp add: advances_def)

lemma keeps_advances:
  "room os args fs \<Longrightarrow> keeps os args fs fs' \<Longrightarrow> advances os args fs fs' \<and> same_gentxs os args fs fs'"
  unfolding room_def keeps_def advances_def same_gentxs_def is_file_def by auto

lemma put_advances:
  assumes "dirs_at os args base q" "room os args fs" "p \<in> own_gentxs os args \<union> own_files os args"
  shows "advances os args fs (fs(p \<mapsto> File c))"
    and "p \<in> own_files os args \<Longrightarrow> same_gentxs os args fs (fs(p \<mapsto> File c))"
  using assms(2) places_apart(2) [OF assms(1,3)] gentxs_files_apart [OF assms(1)]
  by (auto simp: room_def advances_def same_gentxs_def is_file_def)

lemma mkdirs_advances:
  assumes "dirs_at os args base q" "room os args fs" "es = take k (gentx_dir base q i)" "i < nat (a_numValidators args)"
  shows "advances os args fs (mkdirs es fs)"
proof -
  have "p \<notin> own_gentxs os args \<union> own_files os args" if "p = take (length p) es" for p
    using that assms(3,4) places_apart(2) [OF assms(1), of p] unfolding own_places(1) [OF assms(1)]
    by (metis (mono_tags, lifting) mem_Collect_eq take_take)
  then show ?thesis
    using assms(2) by (auto simp: room_def advances_def mkdirs_def is_file_def)
qed

section \<open>The calls, one by one\<close>

lemma dirs_advance:
  assumes "dirs_at os args base q" "room os args (files h)" "\<And>c p. fault os c p = None"
    and "resolve os p = Inr es" "es = take k (gentx_dir base q i)" "i < nat (a_numValidators args)"
  shows "\<exists>h'. on_files h (MkdirAll os p) = (h', None) \<and> advances os args (files h) (files h') \<and>
    (\<forall>l \<le> length es. lookup (files h') (take l es) = Some Dir)"
proof -
  have "files h (take l es) \<noteq> Some (File c)" for l c
    using assms(2,5,6) unfolding room_def own_places(1) [OF assms(1)] by (auto simp: min_def)
  from MkdirAll_returns [where fs = "files h", OF assms(3,4) this]
  have "on_files h (MkdirAll os p) = (h\<lparr>files := mkdirs es (files h)\<rparr>, None)" by (simp add: on_files_def)
  moreover have "lookup (mkdirs es (files h)) (take l es) = Some Dir" for l
    by (simp add: lookup_def mkdirs_def min_def)
  ultimately show ?thesis using mkdirs_advances [OF assms(1,2,5,6)] by auto
qed

lemma write_advances:
  assumes "dirs_at os args base q" "room os args (files h)" "\<And>c p. fault os c p = None"
    and "resolve os dir = Inr es" "resolve os file = Inr (es @ [x])" "es = take k (gentx_dir base q i)"
      "i < nat (a_numValidators args)" "es @ [x] \<in> own_gentxs os args \<union> own_files os args"
  shows "\<exists>h'. on_files h (writeFile os file dir bz) = (h', None) \<and> advances os args (files h) (files h') \<and>
    lookup (files h') es = Some Dir \<and> files h' (es @ [x]) = Some (File bz)"
proof -
  have a: "files h (take l es) \<noteq> Some (File c)" for l c
    using assms(2,6,7) unfolding room_def own_places(1) [OF assms(1)] by (auto simp: min_def)
  have b: "files h (es @ [x]) \<noteq> Some Dir" using assms(2,8) by (auto simp: room_def)
  have "on_files h (writeFile os file dir bz) = (h\<lparr>files := (mkdirs es (files h))(es @ [x] \<mapsto> File bz)\<rparr>, None)"
    using writeFile_returns [where fs = "files h", OF assms(3,4,5) a b] by (simp add: on_files_def)
  moreover note mkdirs_advances [OF assms(1,2,6,7)]
  note this and put_advances(1) [OF assms(1) advances_room [OF this] assms(8), of bz]
  moreover have "lookup ((mkdirs es (files h))(es @ [x] \<mapsto> File bz)) es = Some Dir"
    by (simp add: lookup_def mkdirs_def)
  ultimately show ?thesis using advances_trans by fastforce
qed

lemma writer_advances:
  assumes "dirs_at os args base q" "room os args (files h)" "writes_file os f bz"
    and "resolve os file = Inr p" "p \<in> own_files os args" "lookup (files h) (butlast p) = Some Dir"
  shows "\<exists>h'. f h file = (h', None) \<and> files h' = (files h)(p \<mapsto> File bz) \<and>
    advances os args (files h) (files h') \<and> same_gentxs os args (files h) (files h')"
proof -
  have "p \<noteq> []" using places_apart(1) [OF assms(1)] assms(5) by blast
  moreover have "lookup (files h) p \<noteq> Some Dir" using assms(2,5) \<open>p \<noteq> []\<close> by (auto simp: room_def lookup_def)
  ultimately obtain h' where h': "f h file = (h', None)" "files h' = (files h)(p \<mapsto> File bz)"
    using assms(3,4,6) unfolding writes_file_def by blast
  show ?thesis
    by (intro exI [of _ h'] conjI h') (use put_advances [OF assms(1,2)] assms(5) h'(2) in auto)
qed

section \<open>One node\<close>

text \<open>What a node has after its turn in the first loop.\<close>

definition node_made :: "elems \<Rightarrow> string \<Rightarrow> string list \<Rightarrow> nat \<Rightarrow> file_system \<Rightarrow> bool" where
  "node_made base q ids i fs \<longleftrightarrow> fs (gentx_dir base q i) = Some Dir \<and>
     fs (node_elems base q i @ [''config'']) = Some Dir \<and>
     is_file (fs (gentx_dir base q i @ [gentx_name (ids ! i)])) \<and>
     is_file (fs (node_elems base q i @ [''key_seed.json''])) \<and>
     is_file (fs (node_elems base q i @ [''config'', ''app.toml'']))"

lemma node_made_advances:
  assumes "dirs_at os args base q" "i < nat (a_numValidators args)" "node_made base q ids i fs" "advances os args fs fs'"
  shows "node_made base q ids i fs'"
proof -
  have "gentx_dir base q i = take (length (gentx_dir base q i)) (gentx_dir base q i)"
    "node_elems base q i @ [''config''] = take (length base + 2) (gentx_dir base q i)"
    by (simp_all add: gentx_dir_def node_elems_def)
  then have "gentx_dir base q i \<in> own_dirs os args" "node_elems base q i @ [''config''] \<in> own_dirs os args"
    unfolding own_places(1) [OF assms(1)] using assms(2) by blast+
  moreover have "gentx_dir base q i @ [gentx_name (ids ! i)] \<in> own_gentxs os args"
    "node_elems base q i @ [''key_seed.json''] \<in> own_files os args"
    "node_elems base q i @ [''config'', ''app.toml''] \<in> own_files os args"
    unfolding own_places [OF assms(1)] using assms(2) by (auto simp: file_elems_def)
  ultimately show ?thesis using assms(3,4) unfolding node_made_def advances_def by blast
qed

lemma node_places:
  assumes "dirs_at os args base q" "a_outputDir args \<noteq> ''''" "i < nat (a_numValidators args)" "CHR ''/'' \<notin> set t"
  shows "resolve os (nodeDir args (int i)) = Inr (node_elems base q i)"
    and "resolve os (Join [nodeDir args (int i), ''config'']) = Inr (node_elems base q i @ [''config''])"
    and "resolve os (gentx_copy args i t) = Inr (gentx_dir base q i @ [gentx_name t])"
    and "gentx_dir base q i @ [gentx_name t] \<in> own_gentxs os args"
    and "node_elems base q i = take (length base + 1) (gentx_dir base q i)"
    and "node_elems base q i @ [''config''] = take (length base + 2) (gentx_dir base q i)"
    and "gentx_dir base q i = take (length base + 3) (gentx_dir base q i)"
    and "es \<in> set file_elems \<Longrightarrow> node_elems base q i @ es \<in> own_files os args"
proof -
  show "resolve os (nodeDir args (int i)) = Inr (node_elems base q i)"
    using assms(1) [unfolded dirs_at_def, rule_format, of "[]" i] by (simp add: nodeDir_def)
  show "resolve os (Join [nodeDir args (int i), ''config'']) = Inr (node_elems base q i @ [''config''])"
    using assms(1) [unfolded dirs_at_def, rule_format, of "[''config'']" i] by (simp add: plain_elem_def)
  have "gentxsDir args (int i) \<noteq> ''''" using assms(2) by (simp add: gentxsDir_def Join_def Clean_nonempty)
  then show "resolve os (gentx_copy args i t) = Inr (gentx_dir base q i @ [gentx_name t])"
    unfolding gentx_copy_def
    by (rule resolve_join(2) [OF _ resolve_places(1) [OF assms(1)]])
      (use assms(4) in \<open>simp add: gentx_name_def plain_elem_def\<close>)
  show "gentx_dir base q i @ [gentx_name t] \<in> own_gentxs os args"
    unfolding own_places(2) [OF assms(1)] using assms(3) by blast
  show "es \<in> set file_elems \<Longrightarrow> node_elems base q i @ es \<in> own_files os args"
    unfolding own_places(3) [OF assms(1)] using assms(3) by blast
qed (simp_all add: gentx_dir_def node_elems_def)

lemma own_dir_lookup:
  assumes "dirs_at os args base q" "advances os args fs fs'" "i < nat (a_numValidators args)"
    and "lookup fs (take k (gentx_dir base q i)) = Some Dir"
  shows "lookup fs' (take k (gentx_dir base q i)) = Some Dir"
  using assms(2-4) unfolding advances_def own_places(1) [OF assms(1)] lookup_def by (auto split: if_splits)

lemma gentx_returns:
  assumes "key_laws os args ids ops" "value_laws args ops"
  shows "\<exists>h' bz. (\<forall>acc. node_gentx ops chainID m kb name addr pk stake acc h = ((acc, h'), Return bz)) \<and>
    keeps os args (files h) (files h')"
proof -
  obtain msg where msg: "NewMsgCreateValidator ops (ValAddress_String ops addr) pk stake name = Inr msg"
    using assms(2) unfolding value_laws_def by blast
  obtain tx where tx: "SetMsgs ops msg = Inr tx" using assms(2) unfolding value_laws_def by blast
  obtain h' signed where s: "tx_Sign ops h chainID m kb name (SetMemo ops tx m) = (h', Inr signed)"
      "keeps os args (files h) (files h')"
    using assms(1) unfolding key_laws_def by blast
  obtain bz where "TxJSONEncoder ops signed = Inr bz" using assms(2) unfolding value_laws_def by blast
  with msg tx s show ?thesis by (simp add: node_gentx_def call_def)
qed

lemma init_node_returns:
  fixes ops :: "('e, 'coin, 'v, 'rest, 'arest) node_ops" and acc :: "('coin, 'v, 'rest, 'arest) init_acc"
  assumes d: "dirs_at os args base q" "a_outputDir args \<noteq> ''''" and i: "i < nat (a_numValidators args)"
    and laws: "key_laws os args ids ops" "value_laws args ops" "file_laws os args doc_bytes genesis_bytes ops"
      "collect_laws os genesis_bytes ops"
    and os: "\<And>c p. fault os c p = None" and t: "CHR ''/'' \<notin> set (ids ! i)" and r0: "room os args (files h)"
  shows "\<exists>acc' h'. init_node os ops args i (acc, h) = ((acc', h'), Return ()) \<and> advances os args (files h) (files h') \<and>
    node_made base q ids i (files h') \<and> nodeIDs acc' = (nodeIDs acc)[i := ids ! i] \<and>
    genFiles acc' = genFiles acc @ [Join [nodeDir args (int i), ''config'', ''genesis.json'']]"
proof -
  let ?dir = "nodeDir args (int i)" and ?name = "nodeDirName args (int i)"
  let ?cfg = "(nodeConfig acc)\<lparr>RootDir := ?dir, Moniker := ?name,
    Addresses := (Addresses (nodeConfig acc))\<lparr>RPC_ListenAddress := ''tcp://0.0.0.0:'' @ port_of args (int i)\<rparr>\<rparr>"
  note pl = node_places [OF d i t] and res = resolve_places [OF d(1)]
  let ?adv = "advances os args"
  obtain h1 where h1: "on_files h (MkdirAll os (Join [?dir, ''config''])) = (h1, None)" "?adv (files h) (files h1)"
      and dir1: "\<And>l. l \<le> length base + 2 \<Longrightarrow> lookup (files h1) (take l (node_elems base q i @ [''config''])) = Some Dir"
    using dirs_advance [OF d(1) r0 os pl(2,6) i] by (auto simp: node_elems_def)
  obtain h2 pk where h2: "InitializeNodeValidatorFiles ops h1 ?cfg = (h2, Inr (ids ! i, pk))" "keeps os args (files h1) (files h2)"
    using laws(1) [unfolded key_laws_def, THEN conjunct1, rule_format, OF i, of ?cfg h1] by auto
  obtain h3 kb where h3: "keyring_New ops h2 (a_keyringBackend args) ?dir = (h3, Inr kb)" "keeps os args (files h2) (files h3)"
    using laws(1) unfolding key_laws_def by blast
  obtain algo where algo: "NewSigningAlgoFromString ops (a_algo args) (SupportedAlgorithms ops kb) = Inr algo"
    using laws(1) unfolding key_laws_def by blast
  obtain h4 addr secret where h4: "GenerateSaveCoinKey ops h3 kb ?name algo = (h4, Inr (addr, secret))"
      "keeps os args (files h3) (files h4)"
    using laws(1) unfolding key_laws_def by blast
  obtain bz where bz: "json_Marshal ops [(''secret'', secret)] = Inr bz"
    using laws(2) unfolding value_laws_def by blast
  from h1(2) keeps_advances h2(2) h3(2) h4(2) have a4: "?adv (files h1) (files h4)"
    by (meson advances_room advances_trans)
  have k: "[''key_seed.json''] \<in> set file_elems" by (simp add: file_elems_def)
  obtain h5 where h5: "on_files h4 (writeFile os (Join [?dir, ''key_seed.json'']) ?dir bz) = (h5, None)"
      "?adv (files h4) (files h5)" "files h5 (node_elems base q i @ [''key_seed.json'']) = Some (File bz)"
    using write_advances [OF d(1) advances_room [OF a4] os pl(1) res(2) [OF k] pl(5) i, of bz] pl(8) [OF k] by auto
  obtain coins stake where coins: "account_coins ops = Inr coins" "node_stake ops args (int i) = Inr stake"
    using laws(2) unfolding value_laws_def by blast
  let ?m = "memo args (\<lambda>_. ids ! i) (int i)"
  obtain h6 txBz where h6: "\<And>acc :: ('coin, 'v, 'rest, 'arest) init_acc. node_gentx ops (a_chainID args) ?m kb ?name addr pk stake acc h5 =
      ((acc, h6), Return txBz)" "keeps os args (files h5) (files h6)"
    using gentx_returns [OF laws(1,2)] by blast
  have a6: "?adv (files h5) (files h6)" using keeps_advances [OF advances_room [OF h5(2)] h6(2)] by blast
  obtain h7 where h7: "on_files h6 (writeFile os (gentx_copy args i (ids ! i)) (gentxsDir args (int i)) txBz) = (h7, None)"
      "?adv (files h6) (files h7)" "lookup (files h7) (gentx_dir base q i) = Some Dir"
      "files h7 (gentx_dir base q i @ [gentx_name (ids ! i)]) = Some (File txBz)"
    using write_advances [OF d(1) advances_room [OF a6] os res(1) pl(3) pl(7) i] pl(4) by auto
  have a17: "?adv (files h1) (files h7)" using a4 h5(2) a6 h7(2) by (meson advances_trans)
  let ?app = "(appConfig acc)\<lparr>AppAddresses := node_app_config args (int i)\<rparr>"
  obtain bz' where w: "writes_file os (\<lambda>h file. WriteAppConfig ops h file ?app) bz'"
    using laws(3) unfolding file_laws_def by blast
  have f: "[''config'', ''app.toml''] \<in> set file_elems" by (simp add: file_elems_def)
  have conf: "lookup (files h7) (node_elems base q i @ [''config'']) = Some Dir"
    using own_dir_lookup [OF d(1) a17 i, of "length base + 2"] dir1 [of "length base + 2"] pl(6)
    by (simp add: node_elems_def)
  obtain h8 where h8: "WriteAppConfig ops h7 (Join [?dir, ''config'', ''app.toml'']) ?app = (h8, None)"
      "?adv (files h7) (files h8)" "files h8 = (files h7)(node_elems base q i @ [''config'', ''app.toml''] \<mapsto> File bz')"
    using writer_advances [OF d(1) advances_room [OF h7(2)] w res(2) [OF f] pl(8) [OF f]] conf
    by (auto simp: butlast_append)
  have gen: "GenesisFile ops ?cfg = Join [?dir, ''config'', ''genesis.json'']"
    using laws(4) unfolding collect_laws_def by (elim conjE allE [of _ ?cfg]) simp
  let ?acc = "acc\<lparr>nodeConfig := ?cfg, nodeIDs := (nodeIDs acc)[i := ids ! i], valPubKeys := (valPubKeys acc)[i := Some pk],
    peers := (if peers acc = [] then ?m else peers acc @ '','' @ ?m),
    genFiles := genFiles acc @ [Join [?dir, ''config'', ''genesis.json'']],
    genBalances := genBalances acc @ [\<lparr>balance_Address = AccAddress_String ops addr, balance_Coins = coins\<rparr>],
    genAccounts := genAccounts acc @ [NewBaseAccount ops addr], gentxsFiles := gentxsFiles acc @ [gentx_copy args i (ids ! i)],
    appConfig := ?app\<rparr>"
  have run: "init_node os ops args i (acc, h) = ((?acc, h8), Return ())"
    using h1(1) h2(1) h3(1) algo h4(1) bz h5(1) coins h6(1) h7(1) h8(1) gen
    by (simp add: init_node_def Let_def call_or_clean_def call_def call_or_panic_def err_sum_def gentx_copy_def gentx_name_def)
  have "?adv (files h) (files h8)" using h1(2) a17 h8(2) by (meson advances_trans)
  moreover have "?adv (files h5) (files h8)" using a6 h7(2) h8(2) by (meson advances_trans)
  then have "is_file (files h8 (node_elems base q i @ [''key_seed.json'']))"
    using h5(3) pl(8) [OF k] unfolding advances_def is_file_def by blast
  then have "node_made base q ids i (files h8)"
    using h7(3,4) h8(3) conf
    by (auto simp: node_made_def is_file_def lookup_def gentx_dir_def node_elems_def split: if_splits)
  ultimately show ?thesis using run by (intro exI [of _ ?acc] exI [of _ h8]) simp
qed

section \<open>The loops\<close>

lemma init_nodes_return:
  fixes ops :: "('e, 'coin, 'v, 'rest, 'arest) node_ops"
  assumes d: "dirs_at os args base q" "a_outputDir args \<noteq> ''''"
    and laws: "key_laws os args ids ops" "value_laws args ops" "file_laws os args doc_bytes genesis_bytes ops"
      "collect_laws os genesis_bytes ops"
    and os: "\<And>c p. fault os c p = None" and t: "list_all (\<lambda>t. CHR ''/'' \<notin> set t) ids" "length ids = nat (a_numValidators args)"
    and r0: "room os args (files h)"
  shows "\<exists>acc h'. for_each (init_node os ops args) [0..<nat (a_numValidators args)] (init_acc_zero ops args cfg, h) =
      ((acc, h'), Return ()) \<and> advances os args (files h) (files h') \<and>
    (\<forall>i < nat (a_numValidators args). node_made base q ids i (files h')) \<and> nodeIDs acc = ids \<and>
    genFiles acc = map (\<lambda>i. Join [nodeDir args (int i), ''config'', ''genesis.json'']) [0..<nat (a_numValidators args)]"
proof -
  let ?N = "nat (a_numValidators args)" and ?gen = "\<lambda>i. Join [nodeDir args (int i), ''config'', ''genesis.json'']"
  define P :: "nat \<Rightarrow> ('coin, 'v, 'rest, 'arest) init_acc \<times> 'e machine \<Rightarrow> bool" where
    "P n = (\<lambda>(acc, h'). advances os args (files h) (files h') \<and> (\<forall>i < n. node_made base q ids i (files h')) \<and>
       length (nodeIDs acc) = ?N \<and> (\<forall>i < n. nodeIDs acc ! i = ids ! i) \<and> genFiles acc = map ?gen [0..<n])" for n
  have "\<exists>s. for_each (init_node os ops args) [0..<?N] (init_acc_zero ops args cfg, h) = (s, Return ()) \<and> P ?N s"
  proof (rule for_each_upto)
    show "P 0 (init_acc_zero ops args cfg, h)"
      using advances_refl [OF r0] by (simp add: P_def init_acc_zero_def)
  next
    fix i and s :: "('coin, 'v, 'rest, 'arest) init_acc \<times> 'e machine"
    assume i: "i < ?N" and "P i s"
    then obtain acc h1 where s: "s = (acc, h1)" and adv: "advances os args (files h) (files h1)"
      and made: "\<forall>j < i. node_made base q ids j (files h1)"
      and acc: "length (nodeIDs acc) = ?N" "\<forall>j < i. nodeIDs acc ! j = ids ! j" "genFiles acc = map ?gen [0..<i]"
      by (auto simp: P_def)
    have "CHR ''/'' \<notin> set (ids ! i)" using t i by (simp add: list_all_length)
    from init_node_returns [OF d i laws os this advances_room [OF adv]]
    obtain acc' h' where n: "init_node os ops args i (acc, h1) = ((acc', h'), Return ())"
        "advances os args (files h1) (files h')" "node_made base q ids i (files h')"
        "nodeIDs acc' = (nodeIDs acc)[i := ids ! i]" "genFiles acc' = genFiles acc @ [?gen i]"
      by blast
    have "node_made base q ids j (files h')" if "j < i" for j
      using node_made_advances [OF d(1) _ _ n(2)] made i that by auto
    then have "P (Suc i) (acc', h')"
      using n acc i advances_trans [OF adv n(2)] by (auto simp: P_def less_Suc_eq nth_list_update)
    with n(1) s show "\<exists>s'. init_node os ops args i s = (s', Return ()) \<and> P (Suc i) s'" by blast
  qed
  then show ?thesis using t(2) by (auto simp: P_def intro!: nth_equalityI)
qed

lemma initGenFiles_returns:
  fixes ops :: "('e, 'coin, 'v, 'rest, 'arest) node_ops"
  assumes d: "dirs_at os args base q"
    and laws: "genesis_laws authName bankName ops" "file_laws os args doc_bytes genesis_bytes ops"
    and made: "\<And>i. i < nat (a_numValidators args) \<Longrightarrow> node_made base q ids i (files h)" and r0: "room os args (files h)"
    and docs: "docs = map (\<lambda>i. Join [nodeDir args (int i), ''config'', ''genesis.json'']) [0..<nat (a_numValidators args)]"
  shows "\<exists>h' doc. initGenFiles ops authName bankName chainID accts bals docs (a_numValidators args) h = (h', Return ()) \<and>
    advances os args (files h) (files h') \<and>
    (\<forall>i < nat (a_numValidators args). files h' (genesis_elems base q i) = Some (File (doc_bytes doc)))"
proof -
  let ?N = "nat (a_numValidators args)" and ?gs = "BasicDefaultGenesis ops"
  have ne: "authName \<noteq> bankName" using laws(1) by (simp add: genesis_laws_def)
  obtain ag bg packed where g: "auth_UnmarshalJSON ops (raw_state ?gs authName) = Inr ag"
      "bank_UnmarshalJSON ops (raw_state ?gs bankName) = Inr bg" "PackAccounts ops accts = Inr packed"
    using laws(1) unfolding genesis_laws_def by blast
  obtain aj where aj: "auth_MarshalJSON ops (auth_SetAccounts ops ag packed) = Inr aj"
    using laws(1) unfolding genesis_laws_def by blast
  let ?bg = "total_supply_of ops (bg\<lparr>Balances := SanitizeGenesisBalances ops bals\<rparr>)"
  obtain bj where bj: "bank_MarshalJSON ops ?bg = Inr bj" using laws(1) unfolding genesis_laws_def by blast
  obtain st where st: "json_MarshalIndent ops (?gs(authName \<mapsto> aj, bankName \<mapsto> bj)) = Inr st"
    using laws(1) unfolding genesis_laws_def by blast
  let ?doc = "\<lparr>doc_ChainID = chainID, doc_AppState = st\<rparr>"
  define P :: "nat \<Rightarrow> 'e machine \<Rightarrow> bool" where "P n h' \<longleftrightarrow> advances os args (files h) (files h') \<and>
      (\<forall>i < n. files h' (genesis_elems base q i) = Some (File (doc_bytes ?doc)))" for n h'
  have raw: "raw_state (?gs(authName \<mapsto> aj)) bankName = raw_state ?gs bankName" using ne by (simp add: raw_state_def)
  have run: "initGenFiles ops authName bankName chainID accts bals docs (a_numValidators args) h =
      for_each (\<lambda>i h. check_do (SaveAs ops h ?doc (docs ! i))) [0..<?N] h"
    by (simp add: initGenFiles_def Let_def g aj raw bj st)
  have "\<exists>h'. for_each (\<lambda>i h. check_do (SaveAs ops h ?doc (docs ! i))) [0..<?N] h = (h', Return ()) \<and> P ?N h'"
  proof (rule for_each_upto)
    show "P 0 h" using advances_refl [OF r0] by (simp add: P_def)
  next
    fix i h1 assume i: "i < ?N" and p: "P i h1"
    let ?es = "[''config'', ''genesis.json'']"
    have es: "?es \<in> set file_elems" by (simp add: file_elems_def)
    have adv: "advances os args (files h) (files h1)" using p by (simp add: P_def)
    have w: "writes_file os (\<lambda>h file. SaveAs ops h ?doc file) (doc_bytes ?doc)"
      using laws(2) unfolding file_laws_def by blast
    have own: "node_elems base q i @ ?es \<in> own_files os args"
      unfolding own_places(3) [OF d] using i es by blast
    have "lookup (files h1) (butlast (node_elems base q i @ ?es)) = Some Dir"
      using node_made_advances [OF d i made [OF i] adv] by (simp add: node_made_def lookup_def butlast_append node_elems_def)
    from writer_advances [OF d advances_room [OF adv] w resolve_places(2) [OF d es] own this]
    obtain h' where h': "SaveAs ops h1 ?doc (docs ! i) = (h', None)" "advances os args (files h1) (files h')"
        "files h' = (files h1)(genesis_elems base q i \<mapsto> File (doc_bytes ?doc))"
      using i by (auto simp: docs genesis_elems_def)
    have "P (Suc i) h'"
      using p h'(3) advances_trans [OF adv h'(2)] by (auto simp: P_def less_Suc_eq)
    with h'(1) show "\<exists>h'. check_do (SaveAs ops h1 ?doc (docs ! i)) = (h', Return ()) \<and> P (Suc i) h'" by auto
  qed
  with run show ?thesis unfolding P_def by metis
qed
lemma copy_gentxs_advance:
  assumes "os_ok os" and d: "dirs_at os args base q" "a_outputDir args \<noteq> ''''" and os: "\<And>c p. fault os c p = None"
    and ids: "distinct ids" "list_all (\<lambda>t. CHR ''/'' \<notin> set t) ids" "length ids = nat (a_numValidators args)"
    and made: "\<And>i. i < nat (a_numValidators args) \<Longrightarrow> node_made base q ids i fs" and r0: "room os args fs"
  shows "\<exists>fs'. copy_gentxs os args (map (gentx_file args ids) [0..<nat (a_numValidators args)]) fs = (fs', Return ()) \<and>
    advances os args fs fs' \<and> (\<forall>p. p \<notin> own_gentxs os args \<longrightarrow> fs' p = fs p) \<and>
    (\<forall>i < length ids. \<forall>j < length ids. \<exists>c. fs' (gentx_dir base q i @ [gentx_name (ids ! j)]) = Some (File c) \<and>
       fs' (gentx_dir base q j @ [gentx_name (ids ! j)]) = Some (File c))"
proof -
  let ?names = "map gentx_name ids"
  have g: "gentxs_at os base q ?names (map (gentx_file args ids) [0..<nat (a_numValidators args)])"
    using gentxs_at_files [OF d ids(1,2)] by (simp add: gentx_name_def [abs_def] ids(3))
  have e: "gentx_elems base q ?names i j = gentx_dir base q i @ [gentx_name (ids ! j)]" if "j < length ids" for i j
    using that by (simp add: gentx_elems_def gentx_dir_def)
  have own: "gentx_dir base q i @ [gentx_name (ids ! j)] \<in> own_gentxs os args" if "i < length ids" for i j
    unfolding own_places(2) [OF d(1)] using that ids(3) by auto
  have src: "\<exists>c. fs (gentx_dir base q j @ [gentx_name (ids ! j)]) = Some (File c)" if "j < length ids" for j
    using made [of j] that ids(3) by (simp add: node_made_def is_file_def)
  have "gentxs_ready base q ?names fs"
    using made r0 own src by (simp add: gentxs_ready_def e ids(3) node_made_def gentx_dir_def [symmetric] room_def)
  from copy_gentxs_returns [OF assms(1) d(1) g _ os this] ids(3)
  obtain fs' where fs': "copy_gentxs os args (map (gentx_file args ids) [0..<nat (a_numValidators args)]) fs = (fs', Return ())"
    by auto
  note eff = copy_gentxs_effect [OF assms(1) d(1) g fs']
  have copies: "\<exists>c. fs' (gentx_dir base q i @ [gentx_name (ids ! j)]) = Some (File c) \<and>
      fs' (gentx_dir base q j @ [gentx_name (ids ! j)]) = Some (File c)" if "i < length ids" "j < length ids" for i j
  proof -
    from src [OF that(2)] obtain c where "fs (gentx_dir base q j @ [gentx_name (ids ! j)]) = Some (File c)" by blast
    with eff(1) [of i j c] eff(1) [of j j c] that ids(3) show ?thesis by (auto simp: e)
  qed
  have same: "fs' p = fs p \<or> (p \<in> own_gentxs os args \<and> is_file (fs' p))" for p
  proof (cases "\<exists>i < length ids. \<exists>j < length ids. p = gentx_dir base q i @ [gentx_name (ids ! j)]")
    case True
    with copies own show ?thesis unfolding is_file_def by blast
  next
    case False
    with eff(2) [of p] ids(3) show ?thesis by (auto simp: e)
  qed
  have "p \<notin> own_gentxs os args" if "p \<in> own_dirs os args" for p
    using places_apart(2) [OF d(1), of p] that by blast
  then have "advances os args fs fs'"
    using r0 same unfolding advances_def room_def is_file_def by (metis UnE fs_entry.distinct(1) option.inject)
  with fs' copies same show ?thesis by (intro exI [of _ fs']) blast
qed

lemma file_lawsD:
  assumes "file_laws os args doc_bytes genesis_bytes ops"
  shows "stat os (files h) file = Some (File (doc_bytes doc)) \<Longrightarrow> \<exists>g. AppGenesisFromFile ops h file = Inr g"
    and "stat os (files h) gentxs = Some Dir \<Longrightarrow>
      \<exists>h' cfg' st. GenAppStateFromConfig ops h cfg (chain, gentxs, nodeID, pk) g = (h', cfg', Inr st) \<and>
        keeps os args (files h) (files h')"
  using assms unfolding file_laws_def by blast+

lemma collect_node_returns:
  fixes ops :: "('e, 'coin, 'v, 'rest, 'arest) node_ops"
  assumes d: "dirs_at os args base q" "a_outputDir args \<noteq> ''''" and i: "i < nat (a_numValidators args)"
    and laws: "file_laws os args doc_bytes genesis_bytes ops" "collect_laws os genesis_bytes ops"
    and made: "node_made base q ids i (files h)" and r0: "room os args (files h)"
    and doc: "files h (genesis_elems base q i) = Some (File (doc_bytes doc))"
  shows "\<exists>cfg' st' h'. collect_node ops args nodes pks plist t i ((cfg, st), h) = (((cfg', st'), h'), Return ()) \<and>
    advances os args (files h) (files h') \<and> same_gentxs os args (files h) (files h') \<and>
    is_file (files h' (node_elems base q i @ [''config'', ''config.toml'']))"
proof -
  let ?dir = "nodeDir args (int i)"
  let ?cfg = "cfg\<lparr>Moniker := nodeDirName args (int i), RootDir := ?dir\<rparr>"
  let ?g = "Join [?dir, ''config'', ''gentx'']" and ?gen = "Join [?dir, ''config'', ''genesis.json'']"
  have fe: "[''config'', ''config.toml''] \<in> set file_elems" "[''config'', ''genesis.json''] \<in> set file_elems"
    by (simp_all add: file_elems_def)
  note pl = node_places(8) [OF d i, of "''''", simplified] and res = resolve_places(2) [OF d(1)]
  have gf: "GenesisFile ops c = Join [RootDir c, ''config'', ''genesis.json'']" for c :: "'rest node_cfg"
    using laws(2) by (simp add: collect_laws_def)
  have st: "stat os (files h) ?gen = Some (File (doc_bytes doc))"
    using doc res [OF fe(2)] by (simp add: stat_def lookup_def genesis_elems_def)
  obtain g where g: "AppGenesisFromFile ops h ?gen = Inr g"
    by (rule exE [OF file_lawsD(1) [OF laws(1) st]])
  have "resolve os ?g = Inr (gentx_dir base q i)"
    using d(1) unfolding dirs_at_def gentx_dir_def by (simp add: plain_elem_def)
  then have st: "stat os (files h) ?g = Some Dir"
    using made by (simp add: stat_def lookup_def node_made_def)
  obtain h1 cfg1 s where gas: "GenAppStateFromConfig ops h ?cfg (a_chainID args, ?g, nodes ! i, pks ! i) g = (h1, cfg1, Inr s)"
      "keeps os args (files h) (files h1)"
    using file_lawsD(2) [OF laws(1) st, of ?cfg "a_chainID args" "nodes ! i" "pks ! i" g] by (elim exE conjE)
  have root: "RootDir cfg1 = ?dir"
    using laws(2) [unfolded collect_laws_def, THEN conjunct2, THEN conjunct1, rule_format, OF gas(1)] by simp
  note a1 = keeps_advances [OF r0 gas(2)]
  let ?cfg1 = "collect_cfg args (int i) plist cfg1"
  have root1: "RootDir ?cfg1 = ?dir" by (simp add: collect_cfg_def root)
  have conf: "lookup fs (butlast (node_elems base q i @ [''config'', x])) = Some Dir"
    if "advances os args (files h) fs" for fs x
    using node_made_advances [OF d(1) i made that]
    by (simp add: node_made_def lookup_def butlast_append node_elems_def)
  obtain bz where w: "writes_file os (\<lambda>h file. WriteCmtConfig ops h file ?cfg1) bz"
    using laws(1) unfolding file_laws_def by blast
  obtain h2 where h2: "WriteCmtConfig ops h1 (Join [?dir, ''config'', ''config.toml'']) ?cfg1 = (h2, None)"
      "files h2 = (files h1)(node_elems base q i @ [''config'', ''config.toml''] \<mapsto> File bz)"
      "advances os args (files h1) (files h2)" "same_gentxs os args (files h1) (files h2)"
    using writer_advances [OF d(1) advances_room w res [OF fe(1)] pl [OF fe(1)] conf] a1 by blast
  let ?st = "case st of None \<Rightarrow> s | Some st \<Rightarrow> st"
  have w2: "writes_file os (\<lambda>h file. ExportGenesisFileWithTime ops h file (a_chainID args) ?st t) (genesis_bytes (a_chainID args) ?st t)"
    using laws(1) unfolding file_laws_def by blast
  have a2: "advances os args (files h) (files h2)" using a1 h2(3) advances_trans by blast
  obtain h3 where h3: "ExportGenesisFileWithTime ops h2 ?gen (a_chainID args) ?st t = (h3, None)"
      "advances os args (files h2) (files h3)" "same_gentxs os args (files h2) (files h3)"
    using writer_advances [OF d(1) advances_room [OF a2] w2 res [OF fe(2)] pl [OF fe(2)] conf [OF a2]] by blast
  have "collect_node ops args nodes pks plist t i ((cfg, st), h) = (((?cfg1, Some ?st), h3), Return ())"
    using g gas(1) h2(1) h3(1)
    by (simp add: collect_node_def Let_def call_def call_or_panic_def gf root1 err_sum_def)
  moreover have "advances os args (files h) (files h3)" using a2 h3(2) advances_trans by blast
  moreover have "same_gentxs os args (files h) (files h3)"
    using a1 h2(4) h3(3) same_gentxs_trans by blast
  moreover have "is_file (files h3 (node_elems base q i @ [''config'', ''config.toml'']))"
    using h2(2) h3(2) pl [OF fe(1)] unfolding advances_def is_file_def by simp
  ultimately show ?thesis by blast
qed

lemma collectGenFiles_returns:
  fixes ops :: "('e, 'coin, 'v, 'rest, 'arest) node_ops"
  assumes d: "dirs_at os args base q" "a_outputDir args \<noteq> ''''"
    and laws: "file_laws os args doc_bytes genesis_bytes ops" "collect_laws os genesis_bytes ops"
    and made: "\<And>i. i < nat (a_numValidators args) \<Longrightarrow> node_made base q ids i (files h)" and r0: "room os args (files h)"
    and doc: "\<And>i. i < nat (a_numValidators args) \<Longrightarrow> files h (genesis_elems base q i) = Some (File (doc_bytes doc))"
  shows "\<exists>cs h'. collectGenFiles ops args cfg nodes pks plist h = ((cs, h'), Return ()) \<and>
    advances os args (files h) (files h') \<and> same_gentxs os args (files h) (files h') \<and>
    (\<forall>i < nat (a_numValidators args). is_file (files h' (node_elems base q i @ [''config'', ''config.toml''])))"
proof -
  let ?N = "nat (a_numValidators args)" and ?c = "\<lambda>i. node_elems base q i @ [''config'', ''config.toml'']"
  define P :: "nat \<Rightarrow> ('rest node_cfg \<times> byte list option) \<times> 'e machine \<Rightarrow> bool" where
    "P n s \<longleftrightarrow> advances os args (files h) (files (snd s)) \<and> same_gentxs os args (files h) (files (snd s)) \<and>
       (\<forall>i < ?N. n \<le> i \<longrightarrow> files (snd s) (genesis_elems base q i) = Some (File (doc_bytes doc))) \<and>
       (\<forall>i < n. is_file (files (snd s) (?c i)))" for n s
  have "\<exists>s. for_each (collect_node ops args nodes pks plist (Now ops)) [0..<?N] ((cfg, None), h) = (s, Return ()) \<and> P ?N s"
  proof (rule for_each_upto)
    show "P 0 ((cfg, None), h)"
      using doc advances_refl [OF r0] by (simp add: P_def same_gentxs_def)
  next
    fix i and s :: "('rest node_cfg \<times> byte list option) \<times> 'e machine"
    assume i: "i < ?N" and p: "P i s"
    obtain cfg1 st h1 where s: "s = ((cfg1, st), h1)" by (metis surj_pair)
    have adv: "advances os args (files h) (files h1)" using p by (simp add: P_def s)
    obtain cfg' st' h' where c: "collect_node ops args nodes pks plist (Now ops) i ((cfg1, st), h1) = (((cfg', st'), h'), Return ())"
        "advances os args (files h1) (files h')" "same_gentxs os args (files h1) (files h')" "is_file (files h' (?c i))"
      using collect_node_returns [OF d i laws node_made_advances [OF d(1) i made [OF i] adv] advances_room [OF adv],
          of doc nodes pks plist "Now ops" cfg1 st] p i
      by (auto simp: P_def s)
    have "files h' (genesis_elems base q j) = files h1 (genesis_elems base q j)" if "j \<noteq> i" for j
      using collect_node_effect [OF laws(2) d(1) c(1)] that by blast
    moreover have "is_file (files h' (?c j))" if "j < i" for j
    proof -
      have "?c j \<in> own_files os args"
        by (rule node_places(8) [OF d, where t = "[]"]) (use that i in \<open>simp_all add: file_elems_def\<close>)
      then show ?thesis using p that c(2) unfolding advances_def P_def s by auto
    qed
    ultimately have "P (Suc i) ((cfg', st'), h')"
      using p c(4) advances_trans [OF adv c(2)] same_gentxs_trans [OF _ c(3), of "files h"]
      by (auto simp: P_def s less_Suc_eq)
    with c(1) show "\<exists>s'. collect_node ops args nodes pks plist (Now ops) i s = (s', Return ()) \<and> P (Suc i) s'"
      unfolding s by blast
  qed
  then show ?thesis unfolding collectGenFiles_def P_def by (metis prod.collapse)
qed

section \<open>The command\<close>

lemma gentx_dirs_chain_id [simp]:
  "gentxsDir (with_chain_id ops args) = gentxsDir args" "nodeDirName (with_chain_id ops args) = nodeDirName args"
  "node_files (with_chain_id ops args) = node_files args" "gentx_copy (with_chain_id ops args) = gentx_copy args"
  by (simp_all add: fun_eq_iff with_chain_id_def gentxsDir_def nodeDirName_def node_files_def nodeDir_def gentx_copy_def)

lemma own_chain_id [simp]:
  "own_dirs os (with_chain_id ops args) = own_dirs os args" "own_gentxs os (with_chain_id ops args) = own_gentxs os args"
  "own_files os (with_chain_id ops args) = own_files os args"
  by (simp_all add: own_dirs_def own_gentxs_def own_files_def)

lemma laws_chain_id:
  "room os (with_chain_id ops args) = room os args"
  "provision_laws os (with_chain_id ops args) ids authName bankName doc_bytes genesis_bytes ops' =
   provision_laws os args ids authName bankName doc_bytes genesis_bytes ops'"
proof -
  have f: "a_algo (with_chain_id ops args) = a_algo args"
    "a_validatorsStakesAmount (with_chain_id ops args) = a_validatorsStakesAmount args"
    by (simp_all add: with_chain_id_def)
  have v: "valTokens c (with_chain_id ops args) i = valTokens c args i" for c i
    by (simp add: valTokens_def f(2))
  have "node_stake ops' (with_chain_id ops args) = node_stake ops' args"
    by (simp add: node_stake_def fun_eq_iff f(2) v split: option.split)
  with f(1) show "room os (with_chain_id ops args) = room os args"
    "provision_laws os (with_chain_id ops args) ids authName bankName doc_bytes genesis_bytes ops' =
     provision_laws os args ids authName bankName doc_bytes genesis_bytes ops'"
    by (simp_all add: fun_eq_iff room_def provision_laws_def key_laws_def value_laws_def file_laws_def keeps_def)
qed

text \<open>The stages of the command, with the directories' places and the chain's name given.\<close>

lemma command_stages:
  fixes ops :: "('e, 'coin, 'v, 'rest, 'arest) node_ops"
  assumes os: "os_ok os" "\<And>c p. fault os c p = None" and d: "dirs_at os args base q" "a_outputDir args \<noteq> ''''"
    and n: "0 \<le> a_numValidators args" and chain: "with_chain_id ops args0 = args"
    and ids: "distinct ids" "list_all (\<lambda>t. CHR ''/'' \<notin> set t) ids" "length ids = nat (a_numValidators args)"
    and laws: "provision_laws os args ids authName bankName doc_bytes genesis_bytes ops"
    and r0: "room os args (files h)"
  shows "\<exists>h'. initTestnetFiles os ops authName bankName cfg args0 h = (h', Return ()) \<and>
    (\<forall>i < length ids. node_made base q ids i (files h') \<and> is_file (files h' (genesis_elems base q i)) \<and>
       is_file (files h' (node_elems base q i @ [''config'', ''config.toml'']))) \<and>
    (\<forall>i < length ids. \<forall>j < length ids. \<exists>c. files h' (gentx_dir base q i @ [gentx_name (ids ! j)]) = Some (File c) \<and>
       files h' (gentx_dir base q j @ [gentx_name (ids ! j)]) = Some (File c))"
proof -
  let ?N = "nat (a_numValidators args)"
  from laws have l: "key_laws os args ids ops" "value_laws args ops" "genesis_laws authName bankName ops"
    "file_laws os args doc_bytes genesis_bytes ops" "collect_laws os genesis_bytes ops"
    by (simp_all add: provision_laws_def)
  obtain acc :: "('coin, 'v, 'rest, 'arest) init_acc" and h1 where
    a: "for_each (init_node os ops args) [0..<?N] (init_acc_zero ops args cfg, h) = ((acc, h1), Return ())"
    and a1: "advances os args (files h) (files h1)" "\<And>i. i < ?N \<Longrightarrow> node_made base q ids i (files h1)"
      "nodeIDs acc = ids" "genFiles acc = map (\<lambda>i. Join [nodeDir args (int i), ''config'', ''genesis.json'']) [0..<?N]"
    using init_nodes_return [OF d l(1,2,4,5) os(2) ids(2,3) r0, of cfg] by auto
  obtain h2 doc where g: "initGenFiles ops authName bankName (a_chainID args) (genAccounts acc) (genBalances acc)
      (genFiles acc) (a_numValidators args) h1 = (h2, Return ())" "advances os args (files h1) (files h2)"
      "\<And>i. i < ?N \<Longrightarrow> files h2 (genesis_elems base q i) = Some (File (doc_bytes doc))"
    using initGenFiles_returns [OF d(1) l(3,4) a1(2) advances_room [OF a1(1)] a1(4), of "a_chainID args" "genAccounts acc" "genBalances acc"]
    by blast
  have m2: "node_made base q ids i (files h2)" if "i < ?N" for i
    by (rule node_made_advances [OF d(1) that a1(2) [OF that] g(2)])
  have gf: "gentxsFiles acc = map (gentx_file args ids) [0..<?N]"
    using init_nodes_collect [OF a] a1(3) by simp
  obtain fs where c: "copy_gentxs os args (gentxsFiles acc) (files h2) = (fs, Return ())" "advances os args (files h2) fs"
      "\<And>p. p \<notin> own_gentxs os args \<Longrightarrow> fs p = files h2 p"
      "\<And>i j. i < length ids \<Longrightarrow> j < length ids \<Longrightarrow> \<exists>c. fs (gentx_dir base q i @ [gentx_name (ids ! j)]) = Some (File c) \<and>
         fs (gentx_dir base q j @ [gentx_name (ids ! j)]) = Some (File c)"
    using copy_gentxs_advance [OF os(1) d os(2) ids m2 advances_room [OF g(2)]] unfolding gf by blast
  let ?h3 = "h2\<lparr>files := fs\<rparr>"
  have own: "genesis_elems base q i \<in> own_files os args" if "i < ?N" for i
    unfolding genesis_elems_def
    by (rule node_places(8) [OF d, where t = "[]"]) (use that in \<open>simp_all add: file_elems_def\<close>)
  have doc3: "files ?h3 (genesis_elems base q i) = Some (File (doc_bytes doc))" if "i < ?N" for i
    using c(3) [of "genesis_elems base q i"] g(3) [OF that] own [OF that] gentxs_files_apart [OF d(1)] by auto
  have m3: "node_made base q ids i (files ?h3)" if "i < ?N" for i
    using node_made_advances [OF d(1) that m2 [OF that] c(2)] by simp
  have r3: "room os args (files ?h3)" using advances_room [OF c(2)] by simp
  obtain cs h' where k: "collectGenFiles ops args (nodeConfig acc) (nodeIDs acc) (map the (valPubKeys acc)) (peers acc) ?h3 =
      ((cs, h'), Return ())" "advances os args (files ?h3) (files h')" "same_gentxs os args fs (files h')"
      "\<forall>i < ?N. is_file (files h' (node_elems base q i @ [''config'', ''config.toml'']))"
    using collectGenFiles_returns [OF d l(4,5) m3 r3 doc3, of "nodeConfig acc" "nodeIDs acc" "map the (valPubKeys acc)" "peers acc"]
    by auto
  have "initTestnetFiles os ops authName bankName cfg args0 h = (h', Return ())"
    using n a g(1) c(1) k(1) by (simp add: initTestnetFiles_def finish_testnet_def chain Let_def on_files_def)
  moreover have "node_made base q ids i (files h')" "is_file (files h' (genesis_elems base q i))" if "i < length ids" for i
    using node_made_advances [OF d(1) _ m3 k(2)] own doc3 k(2) that ids(3) by (auto simp: advances_def is_file_def)
  moreover have "files h' (gentx_dir base q i @ [x]) = fs (gentx_dir base q i @ [x])" if "i < length ids" for i x
    using k(3) that ids(3) unfolding same_gentxs_def own_places(2) [OF d(1)] by auto
  ultimately show ?thesis using k(4) c(4) ids(3) by (intro exI [of _ h']) auto
qed

text \<open>The whole command, by paths.\<close>

lemma command_returns:
  assumes os: "os_ok os" "\<And>c p. fault os c p = None"
    and out: "a_outputDir args \<noteq> ''''" "resolve os (a_outputDir args) = Inr out"
    and n: "0 \<le> a_numValidators args"
    and ids: "distinct ids" "list_all (\<lambda>t. CHR ''/'' \<notin> set t) ids" "length ids = nat (a_numValidators args)"
    and laws: "provision_laws os args ids authName bankName doc_bytes genesis_bytes ops"
    and r0: "room os args (files h)"
  shows "\<exists>h'. initTestnetFiles os ops authName bankName cfg args h = (h', Return ()) \<and>
    (\<forall>i < length ids. \<forall>j < length ids. \<exists>c. stat os (files h') (gentx_copy args i (ids ! j)) = Some (File c) \<and>
       stat os (files h') (gentx_copy args j (ids ! j)) = Some (File c)) \<and>
    (\<forall>i < length ids. \<forall>f \<in> set (node_files args i). \<exists>c. stat os (files h') f = Some (File c))"
proof -
  define args' where "args' = with_chain_id ops args"
  have eq: "a_numValidators args' = a_numValidators args" "a_outputDir args' = a_outputDir args"
    "gentx_copy args' = gentx_copy args" "node_files args' = node_files args" "with_chain_id ops args = args'"
    by (simp_all add: args'_def)
  have o': "a_outputDir args' \<noteq> ''''" "resolve os (a_outputDir args') = Inr out" using out by (simp_all add: eq)
  obtain base q where d: "dirs_at os args' base q" using dirs_exist [OF o'] by blast
  have ids': "length ids = nat (a_numValidators args')" "0 \<le> a_numValidators args'" using ids(3) n by (simp_all add: eq)
  have l: "provision_laws os args' ids authName bankName doc_bytes genesis_bytes ops" "room os args' (files h)"
    using laws r0 by (simp_all add: args'_def laws_chain_id)
  obtain h' where run: "initTestnetFiles os ops authName bankName cfg args h = (h', Return ())"
    and made: "\<forall>i < length ids. node_made base q ids i (files h') \<and> is_file (files h' (genesis_elems base q i)) \<and>
       is_file (files h' (node_elems base q i @ [''config'', ''config.toml'']))"
    and copies: "\<forall>i < length ids. \<forall>j < length ids. \<exists>c. files h' (gentx_dir base q i @ [gentx_name (ids ! j)]) = Some (File c) \<and>
       files h' (gentx_dir base q j @ [gentx_name (ids ! j)]) = Some (File c)"
    using command_stages [OF os d o'(1) ids'(2) eq(5) ids(1,2) ids'(1) l, of cfg] by (elim exE conjE)
  have "stat os (files h') (gentx_copy args i (ids ! j)) = files h' (gentx_dir base q i @ [gentx_name (ids ! j)])"
    if "i < length ids" "j < length ids" for i j
    using node_places(3) [OF d o'(1), of i "ids ! j"] that ids(2) ids'
    by (simp add: eq stat_def lookup_def list_all_length)
  moreover have "\<exists>c. stat os (files h') f = Some (File c)" if f: "i < length ids" "f \<in> set (node_files args i)" for i f
  proof -
    obtain es where es: "es \<in> set file_elems" "f = Join (nodeDir args' (int i) # es)"
      using f(2) by (auto simp: node_files_eq args'_def)
    have "stat os (files h') f = files h' (node_elems base q i @ es)"
      using resolve_places(2) [OF d es(1)] es by (simp add: stat_def lookup_def node_elems_def)
    then show ?thesis using made [rule_format, OF f(1)] es(1) by (auto simp: file_elems_def node_made_def genesis_elems_def is_file_def)
  qed
  ultimately show ?thesis using run copies by (intro exI [of _ h']) auto
qed

section \<open>In the world\<close>

lemma put_file_writes: "writes_file world_os (\<lambda>h file. put_file h file bz) bz"
  by (auto simp: writes_file_def put_file_def)

lemma keeps_refl [simp]: "keeps os args fs fs"
  by (simp add: keeps_def)

lemma two_node_names: "i < nat (a_numValidators two_nodes) \<Longrightarrow> nodeDirName two_nodes (int i) = [''v0'', ''v1''] ! i"
proof -
  have "nodeDirName two_nodes 0 = ''v0''" "nodeDirName two_nodes 1 = ''v1''" by code_simp+
  then show "i < nat (a_numValidators two_nodes) \<Longrightarrow> nodeDirName two_nodes (int i) = [''v0'', ''v1''] ! i"
    by (auto simp: two_nodes_out less_Suc_eq numeral_2_eq_2)
qed

lemma world_provision:
  "provision_laws world_os two_nodes [''v0'', ''v1''] ''auth'' ''bank'' doc_AppState world_genesis world_node_ops"
proof -
  have "key_laws world_os two_nodes [''v0'', ''v1''] world_node_ops"
    by (simp add: key_laws_def world_node_ops_def two_node_names)
  moreover have "value_laws two_nodes world_node_ops"
    by (simp add: value_laws_def world_node_ops_def account_coins_def node_stake_def split: option.split)
  moreover have "genesis_laws ''auth'' ''bank'' world_node_ops"
    by (simp add: genesis_laws_def world_node_ops_def)
  moreover have "file_laws world_os two_nodes doc_AppState world_genesis world_node_ops"
    using put_file_writes by (auto simp: file_laws_def world_node_ops_def)
  ultimately show ?thesis using world_collect_laws by (simp add: provision_laws_def)
qed

lemma world_room: "room world_os args (files empty_machine)"
  by (simp add: room_def empty_machine_def)

text \<open>Flags that parse to the arguments of two nodes.\<close>

definition two_flags :: flags where
  "two_flags = \<lparr>GetString = (\<lambda>n. (if n = FlagKeyType then ''secp256k1'' else if n = FlagChainID then ''c''
       else if n = FlagKeyringBackend then ''test'' else if n = flagNodeDirPrefix then ''v''
       else if n = flagOutputDir then ''t'' else if n = flagStartingIPAddress then ''localhost'' else '''',
       if n = flagPorts then Some (Msg ''flag'') else None)),
     GetInt = (\<lambda>n. (2, None))\<rparr>"

lemma two_flags_parsed: "parse_args (\<lambda>t. None) Inr two_flags = Inr two_nodes"
  by (simp add: parse_args_def two_flags_def stakes_of_flag_def ports_of_flag_def two_nodes_def one_node_def Let_def
      flagNumValidators_def flagNodeDirPrefix_def flagOutputDir_def flagStartingIPAddress_def flagPorts_def
      flagValidatorsStakeAmount_def)

end
