(* ===== verification/Gateway.thy ===== *)
theory Gateway
  imports Service Ledger
begin

text \<open>
  \<open>query.pb.gw.go\<close>: the reverse proxy that serves the \<open>Params\<close> query over HTTP. Its two handlers
  answer a request from a server in the same process, and from a client; the functions around
  them register a handler with a multiplexer and, for an endpoint, open and close a connection.
  The gateway's runtime, the HTTP server and gRPC are arguments.
\<close>

section \<open>The runtime\<close>

text \<open>
  \<open>'c\<close> is a \<open>context.Context\<close>, \<open>'m\<close> a marshaler, \<open>'r\<close> an HTTP request, \<open>'w\<close> what was written to a
  response writer, \<open>'d\<close> metadata: a pair of it is a \<open>ServerMetadata\<close>, a header and a trailer.
  What a server has set on its transport stream is part of the state, and so is what a
  connection has filled into the header and the trailer of a call.
\<close>

record ('s, 'w, 'c, 'm, 'r, 'd) gateway_ops =
  Request_Context :: "'r \<Rightarrow> 'c"
  NewContextWithServerTransportStream :: "'c \<Rightarrow> 'c"
  MarshalerForRequest :: "'r \<Rightarrow> 'm \<times> 'm"
  AnnotateIncomingContext :: "'c \<Rightarrow> 'r \<Rightarrow> goerr + 'c"
  AnnotateContext :: "'c \<Rightarrow> 'r \<Rightarrow> goerr + 'c"
  stream_metadata :: "'s \<Rightarrow> 'd \<times> 'd"
  call_metadata :: "'s \<Rightarrow> 'd \<times> 'd"
  no_metadata :: 'd
  metadata_Join :: "'d \<Rightarrow> 'd \<Rightarrow> 'd"
  NewServerMetadataContext :: "'c \<Rightarrow> 'd \<times> 'd \<Rightarrow> 'c"
  HTTPError :: "'c \<Rightarrow> 'm \<Rightarrow> 'w \<Rightarrow> 'r \<Rightarrow> goerr \<Rightarrow> 'w"
  ForwardResponseMessage :: "'c \<Rightarrow> 'm \<Rightarrow> 'w \<Rightarrow> 'r \<Rightarrow> QueryParamsResponse \<Rightarrow> 'w"

section \<open>The handlers\<close>

text \<open>The handler that \<open>RegisterQueryHandlerServer\<close> registers; a panic of the server goes through it.\<close>

definition handler_of_server ::
    "('s, 'w, 'c, 'm, 'r, 'd) gateway_ops \<Rightarrow> ('s, QueryParamsRequest, QueryParamsResponse) server_method
     \<Rightarrow> 'r \<Rightarrow> 's \<times> 'w \<Rightarrow> ('s \<times> 'w) \<times> unit outcome" where
  "handler_of_server ops server req = (\<lambda>(s, w).
     let ctx = NewContextWithServerTransportStream ops (Request_Context ops req);
         outboundMarshaler = snd (MarshalerForRequest ops req) in
     case AnnotateIncomingContext ops ctx req of
       Inl err \<Rightarrow> ((s, HTTPError ops ctx outboundMarshaler w req err), Return ())
     | Inr rctx \<Rightarrow>
     case local_request_Query_Params_0 server s of (s, r) \<Rightarrow>
       let md = (no_metadata ops, no_metadata ops);
           md = (metadata_Join ops (fst md) (fst (stream_metadata ops s)),
                 metadata_Join ops (snd md) (snd (stream_metadata ops s)));
           ctx = NewServerMetadataContext ops ctx md in
       case r of
         Panic p \<Rightarrow> ((s, w), Panic p)
       | Fail err \<Rightarrow> ((s, HTTPError ops ctx outboundMarshaler w req err), Return ())
       | Return resp \<Rightarrow> ((s, ForwardResponseMessage ops ctx outboundMarshaler w req resp), Return ()))"

text \<open>The handler that \<open>RegisterQueryHandlerClient\<close> registers.\<close>

definition handler_of_client ::
    "('s, 'w, 'c, 'm, 'r, 'd) gateway_ops \<Rightarrow> ('s, QueryParamsRequest, QueryParamsResponse) invoke
     \<Rightarrow> 'r \<Rightarrow> 's \<times> 'w \<Rightarrow> ('s \<times> 'w) \<times> unit outcome" where
  "handler_of_client ops client req = (\<lambda>(s, w).
     let ctx = Request_Context ops req;
         outboundMarshaler = snd (MarshalerForRequest ops req) in
     case AnnotateContext ops ctx req of
       Inl err \<Rightarrow> ((s, HTTPError ops ctx outboundMarshaler w req err), Return ())
     | Inr rctx \<Rightarrow>
     case request_Query_Params_0 client s of (s, r) \<Rightarrow>
       let ctx = NewServerMetadataContext ops ctx (call_metadata ops s) in
       case r of
         Inl err \<Rightarrow> ((s, HTTPError ops ctx outboundMarshaler w req err), Return ())
       | Inr resp \<Rightarrow> ((s, ForwardResponseMessage ops ctx outboundMarshaler w req resp), Return ()))"

section \<open>Registration\<close>

text \<open>
  A pattern is a version, operations with their operands, a pool of strings and a verb, as they
  are given to \<open>runtime.NewPattern\<close>; a multiplexer is the list of what it was given to handle.
\<close>

type_synonym pattern = "nat \<times> nat list \<times> string list \<times> string"

type_synonym 'h mux = "(string \<times> pattern \<times> 'h) list"

definition pattern_Query_Params_0 :: pattern where
  "pattern_Query_Params_0 = (1, [2, 0, 2, 0, 2, 1, 2, 2], [''feicoin'', ''v1'', ''params''], '''')"

definition mux_Handle :: "'h mux \<Rightarrow> string \<Rightarrow> pattern \<Rightarrow> 'h \<Rightarrow> 'h mux" where
  "mux_Handle mux meth pat h = mux @ [(meth, pat, h)]"

definition RegisterQueryHandlerServer ::
    "('s, 'w, 'c, 'm, 'r, 'd) gateway_ops \<Rightarrow> ('r \<Rightarrow> 's \<times> 'w \<Rightarrow> ('s \<times> 'w) \<times> unit outcome) mux
     \<Rightarrow> ('s, QueryParamsRequest, QueryParamsResponse) server_method
     \<Rightarrow> ('r \<Rightarrow> 's \<times> 'w \<Rightarrow> ('s \<times> 'w) \<times> unit outcome) mux \<times> goerr option" where
  "RegisterQueryHandlerServer ops mux server =
     (mux_Handle mux ''GET'' pattern_Query_Params_0 (handler_of_server ops server), None)"

definition RegisterQueryHandlerClient ::
    "('s, 'w, 'c, 'm, 'r, 'd) gateway_ops \<Rightarrow> ('r \<Rightarrow> 's \<times> 'w \<Rightarrow> ('s \<times> 'w) \<times> unit outcome) mux
     \<Rightarrow> ('s, QueryParamsRequest, QueryParamsResponse) invoke
     \<Rightarrow> ('r \<Rightarrow> 's \<times> 'w \<Rightarrow> ('s \<times> 'w) \<times> unit outcome) mux \<times> goerr option" where
  "RegisterQueryHandlerClient ops mux client =
     (mux_Handle mux ''GET'' pattern_Query_Params_0 (handler_of_client ops client), None)"

text \<open>A client is made of a connection alone: it is the connection's \<open>Invoke\<close>.\<close>

definition RegisterQueryHandler ::
    "('s, 'w, 'c, 'm, 'r, 'd) gateway_ops \<Rightarrow> ('r \<Rightarrow> 's \<times> 'w \<Rightarrow> ('s \<times> 'w) \<times> unit outcome) mux
     \<Rightarrow> ('s, QueryParamsRequest, QueryParamsResponse) invoke
     \<Rightarrow> ('r \<Rightarrow> 's \<times> 'w \<Rightarrow> ('s \<times> 'w) \<times> unit outcome) mux \<times> goerr option" where
  "RegisterQueryHandler ops mux conn = RegisterQueryHandlerClient ops mux conn"

text \<open>
  Dialling, closing and logging act on the network, \<open>'n\<close>. The function returns what its deferred
  function leaves running: the closing of the connection once the context is done.
\<close>

record ('n, 'conn, 's) network_ops =
  Dial :: "'n \<Rightarrow> string \<Rightarrow> 'n \<times> (goerr + 'conn)"
  Close :: "'n \<Rightarrow> 'conn \<Rightarrow> 'n \<times> goerr option"
  Infof :: "'n \<Rightarrow> string \<Rightarrow> goerr \<Rightarrow> 'n"
  Invoke :: "'conn \<Rightarrow> ('s, QueryParamsRequest, QueryParamsResponse) invoke"

definition close_conn :: "('n, 'conn, 's) network_ops \<Rightarrow> string \<Rightarrow> 'conn \<Rightarrow> 'n \<Rightarrow> 'n" where
  "close_conn net endpoint conn n =
     (case Close net n conn of
        (n, Some cerr) \<Rightarrow> Infof net n endpoint cerr
      | (n, None) \<Rightarrow> n)"

definition RegisterQueryHandlerFromEndpoint ::
    "('s, 'w, 'c, 'm, 'r, 'd) gateway_ops \<Rightarrow> ('n, 'conn, 's) network_ops
     \<Rightarrow> ('r \<Rightarrow> 's \<times> 'w \<Rightarrow> ('s \<times> 'w) \<times> unit outcome) mux \<Rightarrow> string \<Rightarrow> 'n
     \<Rightarrow> 'n \<times> ('n \<Rightarrow> 'n) option \<times> ('r \<Rightarrow> 's \<times> 'w \<Rightarrow> ('s \<times> 'w) \<times> unit outcome) mux \<times> goerr option" where
  "RegisterQueryHandlerFromEndpoint ops net mux endpoint n =
     (case Dial net n endpoint of
        (n, Inl err) \<Rightarrow> (n, None, mux, Some err)
      | (n, Inr conn) \<Rightarrow>
      (case RegisterQueryHandler ops mux (Invoke net conn) of
         (mux, Some err) \<Rightarrow> (close_conn net endpoint conn n, None, mux, Some err)
       | (mux, None) \<Rightarrow> (n, Some (close_conn net endpoint conn), mux, None)))"

section \<open>One answer, whichever way it takes\<close>

text \<open>
  \<open>reply_laws\<close>: of a reply, \<open>view\<close> (its status and its body) does not depend on the context, which
  only carries metadata; and a request that can be annotated one way can be annotated the other.
  \<open>conn_law\<close>: the connection encodes the request, runs the service's handler on the bytes, and
  decodes the encoded answer, or hands over a status error.
\<close>

definition reply_laws :: "('w \<Rightarrow> 'v) \<Rightarrow> ('s, 'w, 'c, 'm, 'r, 'd) gateway_ops \<Rightarrow> bool" where
  "reply_laws view ops \<longleftrightarrow>
     (\<forall>c c' m w r e. view (HTTPError ops c m w r e) = view (HTTPError ops c' m w r e)) \<and>
     (\<forall>c c' m w r x. view (ForwardResponseMessage ops c m w r x) = view (ForwardResponseMessage ops c' m w r x)) \<and>
     (\<forall>c c' r. map_sum (\<lambda>e. e) (\<lambda>_. ()) (AnnotateIncomingContext ops c r) =
        map_sum (\<lambda>e. e) (\<lambda>_. ()) (AnnotateContext ops c' r))"

definition conn_law ::
    "('s, QueryParamsRequest, QueryParamsResponse) server_method
     \<Rightarrow> ('s, QueryParamsRequest, QueryParamsResponse) invoke \<Rightarrow> bool" where
  "conn_law srv invoke \<longleftrightarrow>
     (\<forall>s req new bs s' r. QueryParamsRequest_Marshal req = Inr bs \<longrightarrow>
        Query_Params_Handler srv s (wire_dec QueryParamsRequest_Unmarshal bs) None = (s', r) \<longrightarrow>
        (\<forall>c t. r = Fail (Status c t) \<longrightarrow> (\<exists>out. invoke s ''/feicoin.feicoin.v1.Query/Params'' req new = (s', out, Some (Status c t)))) \<and>
        (\<forall>resp bz out. r = Return resp \<longrightarrow> QueryParamsResponse_Marshal resp = Inr bz \<longrightarrow>
           QueryParamsResponse_Unmarshal new bz = (out, None) \<longrightarrow>
           invoke s ''/feicoin.feicoin.v1.Query/Params'' req new = (s', out, None)))"

lemma query_method_outcomes:
  "(\<exists>c t. query_method k s req = (s, Fail (Status c t))) \<or> (\<exists>resp. query_method k s req = (s, Return resp))"
  by (auto simp: query_method_def queryServer_Params_def split: option.split prod.split)

text \<open>What the client gets over such a connection is what the server answers.\<close>

lemma request_over_conn:
  assumes "conn_law (query_method k) invoke"
  shows "request_Query_Params_0 invoke s =
    (case local_request_Query_Params_0 (query_method k) s of
       (s', Fail e) \<Rightarrow> (s', Inl e) | (s', Return x) \<Rightarrow> (s', Inr x) | (s', Panic e) \<Rightarrow> (s', Inl e))"
proof -
  let ?srv = "query_method k" and ?path = "''/feicoin.feicoin.v1.Query/Params''"
  obtain bs where bs: "QueryParamsRequest_Marshal QueryParamsRequest = Inr bs"
    using query_call.marshals [of QueryParamsRequest] by blast
  have h: "Query_Params_Handler ?srv s (wire_dec QueryParamsRequest_Unmarshal bs) None = ?srv s (Some QueryParamsRequest)"
    unfolding Query_Params_Handler_def by (rule query_call.delivered [OF _ bs]) simp
  note law = assms [unfolded conn_law_def, rule_format, OF bs]
  from query_method_outcomes [of k s "Some QueryParamsRequest"] show ?thesis
  proof (elim disjE exE)
    fix c t
    assume r: "?srv s (Some QueryParamsRequest) = (s, Fail (Status c t))"
    with law [OF h [unfolded r]] obtain out where
      "invoke s ?path QueryParamsRequest QueryParamsResponse_zero = (s, out, Some (Status c t))" by blast
    with r show ?thesis
      by (simp add: request_Query_Params_0_def queryClient_Params_def client_call_def local_request_Query_Params_0_def)
  next
    fix resp
    assume r: "?srv s (Some QueryParamsRequest) = (s, Return resp)"
    obtain bz where bz: "QueryParamsResponse_Marshal resp = Inr bz"
        "QueryParamsResponse_Unmarshal QueryParamsResponse_zero bz = (resp, None)"
      using query_response.marshal_eq [where m = resp] query_response.unmarshal_msg [where m = resp]
      by (simp add: QueryParamsResponse_Marshal_def QueryParamsResponse_Unmarshal_def)
    with law [OF h [unfolded r]] have
      "invoke s ?path QueryParamsRequest QueryParamsResponse_zero = (s, resp, None)" by blast
    with r show ?thesis
      by (simp add: request_Query_Params_0_def queryClient_Params_def client_call_def local_request_Query_Params_0_def)
  qed
qed

lemma handlers_agree:
  assumes "reply_laws view ops" "conn_law (query_method k) invoke"
  shows "\<exists>w1 w2. handler_of_server ops (query_method k) req (s, w) = ((s, w1), Return ()) \<and>
    handler_of_client ops invoke req (s, w) = ((s, w2), Return ()) \<and> view w1 = view w2"
proof -
  let ?c1 = "NewContextWithServerTransportStream ops (Request_Context ops req)" and ?c2 = "Request_Context ops req"
  have an: "map_sum (\<lambda>e. e) (\<lambda>_. ()) (AnnotateIncomingContext ops ?c1 req) = map_sum (\<lambda>e. e) (\<lambda>_. ()) (AnnotateContext ops ?c2 req)"
    and view: "view (HTTPError ops c m w r e) = view (HTTPError ops c' m w r e)"
      "view (ForwardResponseMessage ops c m w r x) = view (ForwardResponseMessage ops c' m w r x)" for c c' m w r e x
    using assms(1) unfolding reply_laws_def by blast+
  show ?thesis
  proof (cases "AnnotateContext ops ?c2 req")
    case (Inl e)
    with an have "AnnotateIncomingContext ops ?c1 req = Inl e" by (cases "AnnotateIncomingContext ops ?c1 req") auto
    with Inl show ?thesis
      by (auto simp: handler_of_server_def handler_of_client_def Let_def intro: view)
  next
    case (Inr rctx)
    with an obtain rctx' where a: "AnnotateIncomingContext ops ?c1 req = Inr rctx'"
      by (cases "AnnotateIncomingContext ops ?c1 req") auto
    note q = request_over_conn [OF assms(2), of s]
    from query_method_outcomes [of k s "Some QueryParamsRequest"] show ?thesis
      using Inr a q
      by (auto simp: handler_of_server_def handler_of_client_def Let_def local_request_Query_Params_0_def intro: view)
  qed
qed

section \<open>Connections\<close>

lemma endpoint_connection:
  "RegisterQueryHandlerFromEndpoint ops net mux endpoint n = (n', stop, mux', err) \<Longrightarrow>
   (case snd (Dial net n endpoint) of
      Inl e \<Rightarrow> err = Some e \<and> stop = None \<and> mux' = mux \<and> n' = fst (Dial net n endpoint)
    | Inr conn \<Rightarrow> err = None \<and> n' = fst (Dial net n endpoint) \<and> stop = Some (close_conn net endpoint conn) \<and>
        mux' = mux @ [(''GET'', pattern_Query_Params_0, handler_of_client ops (Invoke net conn))])"
  by (auto simp: RegisterQueryHandlerFromEndpoint_def RegisterQueryHandler_def RegisterQueryHandlerClient_def
      mux_Handle_def split: prod.splits sum.splits option.splits)

section \<open>A connection in one process\<close>

text \<open>An instance: a connection that does what \<open>conn_law\<close> says, and replies that are texts.\<close>

definition loopback ::
    "('s, QueryParamsRequest, QueryParamsResponse) server_method
     \<Rightarrow> ('s, QueryParamsRequest, QueryParamsResponse) invoke" where
  "loopback srv s path req new =
     (case QueryParamsRequest_Marshal req of
        Inl e \<Rightarrow> (s, new, Some (Msg ''marshal''))
      | Inr bs \<Rightarrow>
      case Query_Params_Handler srv s (wire_dec QueryParamsRequest_Unmarshal bs) None of
        (s, Fail e) \<Rightarrow> (s, new, Some e)
      | (s, Panic e) \<Rightarrow> (s, new, Some e)
      | (s, Return resp) \<Rightarrow>
      case QueryParamsResponse_Marshal resp of
        Inl e \<Rightarrow> (s, new, Some (Msg ''marshal''))
      | Inr bz \<Rightarrow>
      case QueryParamsResponse_Unmarshal new bz of
        (out, None) \<Rightarrow> (s, out, None)
      | (out, Some e) \<Rightarrow> (s, out, Some (Msg ''unmarshal'')))"

lemma loopback_law: "conn_law srv (loopback srv)"
  by (simp add: conn_law_def loopback_def)

definition text_gateway :: "('s, string list, unit, unit, string, string) gateway_ops" where
  "text_gateway = \<lparr>
     Request_Context = (\<lambda>r. ()), NewContextWithServerTransportStream = (\<lambda>c. c),
     MarshalerForRequest = (\<lambda>r. ((), ())),
     AnnotateIncomingContext = (\<lambda>c r. if r = ''bad'' then Inl (Msg ''timeout'') else Inr c),
     AnnotateContext = (\<lambda>c r. if r = ''bad'' then Inl (Msg ''timeout'') else Inr c),
     stream_metadata = (\<lambda>s. ('''', '''')), call_metadata = (\<lambda>s. ('''', '''')),
     no_metadata = '''', metadata_Join = (@), NewServerMetadataContext = (\<lambda>c d. c),
     HTTPError = (\<lambda>c m w r e. w @ [''error'', err_text e]),
     ForwardResponseMessage = (\<lambda>c m w r x. w @ [''ok''])\<rparr>"

lemma text_gateway_laws: "reply_laws (\<lambda>w. w) text_gateway"
  by (simp add: reply_laws_def text_gateway_def)

end
