(* ===== verification/Registration.thy ===== *)
theory Registration
  imports Gateway App_Module
begin

text \<open>
  How the module is made reachable: the registration of its two services with a gRPC server
  (\<open>RegisterServices\<close> of \<open>module.go\<close>, \<open>RegisterMsgServer\<close>, \<open>RegisterQueryServer\<close>, the constructors of
  the servers in \<open>keeper\<close>), of its messages with the interface registry (\<open>codec.go\<close>), of its route
  with the gateway, and the hooks of \<open>simulation.go\<close>. The gRPC server and the registry are
  arguments.
\<close>

section \<open>Servers\<close>

record ('s, 'amt) MsgServer =
  srv_UpdateParams :: "('s, MsgUpdateParams, MsgUpdateParamsResponse) server_method"
  srv_MintTokens :: "('s, 'amt MsgMintTokens, MsgMintTokensResponse) server_method"

record 's QueryServer =
  srv_Params :: "('s, QueryParamsRequest, QueryParamsResponse) server_method"

definition NewMsgServerImpl ::
    "('s, 'svc, 'cdc, 'sch, 'coins) Keeper \<Rightarrow> ('s, 'amt, 'coin, 'coins) sdk \<Rightarrow> host \<Rightarrow> ('s, 'amt) MsgServer" where
  "NewMsgServerImpl k sdk exec = \<lparr>srv_UpdateParams = UpdateParams k, srv_MintTokens = MintTokens k sdk exec\<rparr>"

definition NewQueryServerImpl :: "('s, 'svc, 'cdc, 'sch, 'coins) Keeper \<Rightarrow> 's QueryServer" where
  "NewQueryServerImpl k = \<lparr>srv_Params = query_method k\<rparr>"

section \<open>Registration with a gRPC server\<close>

text \<open>
  What a server is registered as (Go's \<open>interface{}\<close>), and the response of a handler (likewise).
  \<open>method_handler\<close> is the table of handlers of the two service descriptions; a handler's assertion
  of the server's type panics when it fails. The handler decodes the request with \<open>dec\<close>, here from
  the bytes of the call.
\<close>

datatype ('s, 'amt) service_impl = MsgImpl "('s, 'amt) MsgServer" | QueryImpl "'s QueryServer"

datatype reply = UpdateReply MsgUpdateParamsResponse | MintReply MsgMintTokensResponse | ParamsReply QueryParamsResponse

fun map_reply :: "('a \<Rightarrow> 'b) \<Rightarrow> 's \<times> 'a outcome \<Rightarrow> 's \<times> 'b outcome" where
  "map_reply f (s, Return x) = (s, Return (f x))"
| "map_reply f (s, Fail e) = (s, Fail e)"
| "map_reply f (s, Panic e) = (s, Panic e)"

definition bad_assertion :: goerr where
  "bad_assertion = Msg ''interface conversion''"

definition method_handler ::
    "'amt int_codec \<Rightarrow> string \<Rightarrow> string \<Rightarrow> (('s, 'amt) service_impl \<Rightarrow> 's \<Rightarrow> byte list \<Rightarrow> 's \<times> reply outcome) option" where
  "method_handler ac service meth =
     (if service = fst Msg_serviceDesc then
        (if meth = ''UpdateParams'' then Some (\<lambda>impl s bs. case impl of
           MsgImpl srv \<Rightarrow> map_reply UpdateReply
             (Msg_UpdateParams_Handler (srv_UpdateParams srv) s (wire_dec MsgUpdateParams_Unmarshal bs) None)
         | QueryImpl _ \<Rightarrow> (s, Panic bad_assertion))
         else if meth = ''MintTokens'' then Some (\<lambda>impl s bs. case impl of
           MsgImpl srv \<Rightarrow> map_reply MintReply
             (Msg_MintTokens_Handler ac (srv_MintTokens srv) s (wire_dec (MsgMintTokens_Unmarshal ac) bs) None)
         | QueryImpl _ \<Rightarrow> (s, Panic bad_assertion))
         else None)
      else if service = fst Query_serviceDesc \<and> meth = ''Params'' then Some (\<lambda>impl s bs. case impl of
           QueryImpl srv \<Rightarrow> map_reply ParamsReply
             (Query_Params_Handler (srv_Params srv) s (wire_dec QueryParamsRequest_Unmarshal bs) None)
         | MsgImpl _ \<Rightarrow> (s, Panic bad_assertion))
      else None)"

text \<open>A gRPC server, \<open>'g\<close>: it takes service descriptions with their servers and answers calls.\<close>

record ('g, 's, 'amt) grpc_server =
  RegisterService :: "'g \<Rightarrow> string \<times> string list \<Rightarrow> ('s, 'amt) service_impl \<Rightarrow> 'g"
  Call :: "'g \<Rightarrow> string \<Rightarrow> 's \<Rightarrow> byte list \<Rightarrow> 's \<times> reply outcome"

definition RegisterMsgServer :: "('g, 's, 'amt) grpc_server \<Rightarrow> 'g \<Rightarrow> ('s, 'amt) MsgServer \<Rightarrow> 'g" where
  "RegisterMsgServer g s srv = RegisterService g s Msg_serviceDesc (MsgImpl srv)"

definition RegisterQueryServer :: "('g, 's, 'amt) grpc_server \<Rightarrow> 'g \<Rightarrow> 's QueryServer \<Rightarrow> 'g" where
  "RegisterQueryServer g s srv = RegisterService g s Query_serviceDesc (QueryImpl srv)"

definition RegisterServices ::
    "('g, 's, 'amt) grpc_server \<Rightarrow> ('s, 'amt, 'coin, 'coins) sdk \<Rightarrow> host
     \<Rightarrow> ('s, 'svc, 'cdc, 'sch, 'coins, 'auth) AppModule \<Rightarrow> 'g \<Rightarrow> 'g \<times> goerr option" where
  "RegisterServices g sdk exec am registrar =
     (let registrar = RegisterMsgServer g registrar (NewMsgServerImpl (am_keeper am) sdk exec);
          registrar = RegisterQueryServer g registrar (NewQueryServerImpl (am_keeper am))
      in (registrar, None))"

section \<open>Other registrations\<close>

text \<open>The interface registry, by the names of the messages registered as implementations.\<close>

record 'r interface_registry =
  RegisterImplementations :: "'r \<Rightarrow> string list \<Rightarrow> 'r"
  RegisterMsgServiceDesc :: "'r \<Rightarrow> string \<times> string list \<Rightarrow> 'r"

definition types_RegisterInterfaces :: "'r interface_registry \<Rightarrow> 'r \<Rightarrow> 'r" where
  "types_RegisterInterfaces ops registrar =
     RegisterMsgServiceDesc ops (RegisterImplementations ops registrar [''MsgUpdateParams'']) Msg_serviceDesc"

definition AppModule_RegisterInterfaces :: "'r interface_registry \<Rightarrow> 'r \<Rightarrow> 'r" where
  "AppModule_RegisterInterfaces ops registrar = types_RegisterInterfaces ops registrar"

definition AppModule_RegisterGRPCGatewayRoutes ::
    "('s, 'w, 'c, 'm, 'r, 'd) gateway_ops \<Rightarrow> ('s, QueryParamsRequest, QueryParamsResponse) invoke
     \<Rightarrow> ('r \<Rightarrow> 's \<times> 'w \<Rightarrow> ('s \<times> 'w) \<times> unit outcome) mux
     \<Rightarrow> ('r \<Rightarrow> 's \<times> 'w \<Rightarrow> ('s \<times> 'w) \<times> unit outcome) mux \<times> unit outcome" where
  "AppModule_RegisterGRPCGatewayRoutes ops conn mux =
     (case RegisterQueryHandlerClient ops mux conn of
        (mux, Some err) \<Rightarrow> (mux, Panic err)
      | (mux, None) \<Rightarrow> (mux, Return ()))"

text \<open>Hooks of the simulation: no store decoder, no operations, no proposals.\<close>

definition RegisterStoreDecoder :: "'dec \<Rightarrow> 'dec" where
  "RegisterStoreDecoder sdr = sdr"

definition WeightedOperations :: "'sim \<Rightarrow> 'op list" where
  "WeightedOperations simState = (let operations = [] in operations)"

definition ProposalMsgs :: "'sim \<Rightarrow> 'msg list" where
  "ProposalMsgs simState = []"

section \<open>Calls reach the servers\<close>

text \<open>
  What is relied on of a gRPC server without interceptors: a call of a method of a registered
  service runs the handler of the description on the server registered with it, and registering
  another service leaves the calls of the first as they were.
\<close>

definition full_method :: "string \<Rightarrow> string \<Rightarrow> string" where
  "full_method service meth = ''/'' @ service @ ''/'' @ meth"

definition grpc_laws :: "'amt int_codec \<Rightarrow> ('g, 's, 'amt) grpc_server \<Rightarrow> bool" where
  "grpc_laws ac g \<longleftrightarrow>
     (\<forall>reg d impl m h s bs. m \<in> set (snd d) \<longrightarrow> method_handler ac (fst d) m = Some h \<longrightarrow>
        Call g (RegisterService g reg d impl) (full_method (fst d) m) s bs = h impl s bs) \<and>
     (\<forall>reg d impl service m s bs. service \<noteq> fst d \<longrightarrow> CHR ''/'' \<notin> set service \<union> set (fst d) \<longrightarrow>
        Call g (RegisterService g reg d impl) (full_method service m) s bs = Call g reg (full_method service m) s bs)"

lemma map_reply_eq [simp]:
  "map_reply f r = (s, Return y) \<longleftrightarrow> (\<exists>x. r = (s, Return x) \<and> y = f x)"
  "map_reply f r = (s, Fail e) \<longleftrightarrow> r = (s, Fail e)"
  "map_reply f r = (s, Panic e) \<longleftrightarrow> r = (s, Panic e)"
  by (cases "(f, r)" rule: map_reply.cases; auto)+

lemma service_names:
  "fst Msg_serviceDesc = ''feicoin.feicoin.v1.Msg''" "fst Query_serviceDesc = ''feicoin.feicoin.v1.Query''"
  "snd Msg_serviceDesc = [''UpdateParams'', ''MintTokens'']" "snd Query_serviceDesc = [''Params'']"
  by (simp_all add: Msg_serviceDesc_def Query_serviceDesc_def)

lemma handlers:
  "method_handler ac ''feicoin.feicoin.v1.Msg'' ''UpdateParams'' = Some (\<lambda>impl s bs. case impl of
     MsgImpl srv \<Rightarrow> map_reply UpdateReply
       (Msg_UpdateParams_Handler (srv_UpdateParams srv) s (wire_dec MsgUpdateParams_Unmarshal bs) None)
   | QueryImpl _ \<Rightarrow> (s, Panic bad_assertion))"
  "method_handler ac ''feicoin.feicoin.v1.Msg'' ''MintTokens'' = Some (\<lambda>impl s bs. case impl of
     MsgImpl srv \<Rightarrow> map_reply MintReply
       (Msg_MintTokens_Handler ac (srv_MintTokens srv) s (wire_dec (MsgMintTokens_Unmarshal ac) bs) None)
   | QueryImpl _ \<Rightarrow> (s, Panic bad_assertion))"
  "method_handler ac ''feicoin.feicoin.v1.Query'' ''Params'' = Some (\<lambda>impl s bs. case impl of
     QueryImpl srv \<Rightarrow> map_reply ParamsReply
       (Query_Params_Handler (srv_Params srv) s (wire_dec QueryParamsRequest_Unmarshal bs) None)
   | MsgImpl _ \<Rightarrow> (s, Panic bad_assertion))"
  by (simp_all add: method_handler_def service_names)

text \<open>After the module has registered its services, by the method.\<close>

lemma registered_calls:
  assumes "grpc_laws ac g" "RegisterServices g sdk exec am reg = (reg', err)"
  shows "err = None"
    and "Call g reg' (full_method ''feicoin.feicoin.v1.Msg'' ''UpdateParams'') s bs =
      map_reply UpdateReply (Msg_UpdateParams_Handler (UpdateParams (am_keeper am)) s (wire_dec MsgUpdateParams_Unmarshal bs) None)"
    and "Call g reg' (full_method ''feicoin.feicoin.v1.Msg'' ''MintTokens'') s bs =
      map_reply MintReply (Msg_MintTokens_Handler ac (MintTokens (am_keeper am) sdk exec) s
        (wire_dec (MsgMintTokens_Unmarshal ac) bs) None)"
    and "Call g reg' (full_method ''feicoin.feicoin.v1.Query'' ''Params'') s bs =
      map_reply ParamsReply (Query_Params_Handler (query_method (am_keeper am)) s (wire_dec QueryParamsRequest_Unmarshal bs) None)"
proof -
  define reg1 where "reg1 = RegisterService g reg Msg_serviceDesc (MsgImpl (NewMsgServerImpl (am_keeper am) sdk exec))"
  from assms(2) have reg': "err = None"
      "reg' = RegisterService g reg1 Query_serviceDesc (QueryImpl (NewQueryServerImpl (am_keeper am)))"
    by (simp_all add: RegisterServices_def RegisterMsgServer_def RegisterQueryServer_def reg1_def)
  have run: "Call g (RegisterService g r d impl) (full_method (fst d) m) s bs = h impl s bs"
    if "m \<in> set (snd d)" "method_handler ac (fst d) m = Some h" for r d impl m h
    using assms(1) [unfolded grpc_laws_def, THEN conjunct1, rule_format, OF that] .
  note run = run [of _ Msg_serviceDesc, unfolded service_names] run [of _ Query_serviceDesc, unfolded service_names]
  have keep: "Call g (RegisterService g r d impl) (full_method service m) s bs = Call g r (full_method service m) s bs"
    if "service \<noteq> fst d" "CHR ''/'' \<notin> set service \<union> set (fst d)" for r d impl service m
    using assms(1) [unfolded grpc_laws_def, THEN conjunct2, rule_format, OF that] by simp
  have other: "Call g reg' (full_method ''feicoin.feicoin.v1.Msg'' m) s bs =
      Call g reg1 (full_method ''feicoin.feicoin.v1.Msg'' m) s bs" for m
    unfolding reg' by (rule keep) (simp_all add: service_names)
  show "err = None" by (rule reg'(1))
  show "Call g reg' (full_method ''feicoin.feicoin.v1.Msg'' ''UpdateParams'') s bs =
      map_reply UpdateReply (Msg_UpdateParams_Handler (UpdateParams (am_keeper am)) s (wire_dec MsgUpdateParams_Unmarshal bs) None)"
    unfolding other reg1_def
    by (subst run(1) [OF _ handlers(1)]) (simp_all add: NewMsgServerImpl_def)
  show "Call g reg' (full_method ''feicoin.feicoin.v1.Msg'' ''MintTokens'') s bs =
      map_reply MintReply (Msg_MintTokens_Handler ac (MintTokens (am_keeper am) sdk exec) s
        (wire_dec (MsgMintTokens_Unmarshal ac) bs) None)"
    unfolding other reg1_def
    by (subst run(1) [OF _ handlers(2)]) (simp_all add: NewMsgServerImpl_def)
  show "Call g reg' (full_method ''feicoin.feicoin.v1.Query'' ''Params'') s bs =
      map_reply ParamsReply (Query_Params_Handler (query_method (am_keeper am)) s (wire_dec QueryParamsRequest_Unmarshal bs) None)"
    unfolding reg'
    by (subst run(2) [OF _ handlers(3)]) (simp_all add: NewQueryServerImpl_def)
qed

text \<open>What a client encoded, and calls by the path it calls, is run by the module's servers.\<close>

lemma update_call_served:
  assumes "grpc_laws ac g" "MsgUpdateParams_ok req" "MsgUpdateParams_Marshal req = Inr bs"
  shows "Call g (fst (RegisterServices g sdk exec am reg)) ''/feicoin.feicoin.v1.Msg/UpdateParams'' s bs =
    map_reply UpdateReply (UpdateParams (am_keeper am) s (Some req))"
  using registered_calls(2) [OF assms(1) prod.collapse [symmetric], of sdk exec am reg s bs]
  unfolding Msg_UpdateParams_Handler_def update_call.delivered [OF assms(2,3)]
  by (simp add: full_method_def)

lemma query_call_served:
  assumes "grpc_laws ac g" "QueryParamsRequest_Marshal req = Inr bs"
  shows "Call g (fst (RegisterServices g sdk exec am reg)) ''/feicoin.feicoin.v1.Query/Params'' s bs =
    map_reply ParamsReply (query_method (am_keeper am) s (Some req))"
  using registered_calls(4) [OF assms(1) prod.collapse [symmetric], of sdk exec am reg s bs]
  unfolding Query_Params_Handler_def query_call.delivered [OF TrueI assms(2)]
  by (simp add: full_method_def)

lemma mint_call_served:
  assumes "grpc_laws ac g" "MsgMintTokens_ok ac enc req" "MsgMintTokens_Marshal ac req = Inr bs"
  shows "Call g (fst (RegisterServices g sdk exec am reg)) ''/feicoin.feicoin.v1.Msg/MintTokens'' s bs =
    map_reply MintReply (MintTokens (am_keeper am) sdk exec s (Some req))"
  using registered_calls(3) [OF assms(1) prod.collapse [symmetric], of sdk exec am reg s bs]
  unfolding Msg_MintTokens_Handler_def mint_call.delivered [OF assms(2,3)]
  by (simp add: full_method_def)

text \<open>An update over the wire, and a query after it, by what the store does.\<close>

lemma served_update:
  assumes "grpc_laws ac g" "item_laws (k_Params (am_keeper am))"
    and "MsgUpdateParams_ok m" "MsgUpdateParams_Marshal m = Inr bs" "QueryParamsRequest_Marshal q = Inr qs"
    and "Call g (fst (RegisterServices g sdk exec am reg)) ''/feicoin.feicoin.v1.Msg/UpdateParams'' s bs = (s', r)"
  shows "r = Return x \<Longrightarrow>
      StringToBytes (k_addressCodec (am_keeper am)) (update_Authority m) = Inr (GetAuthority (am_keeper am)) \<and>
      Call g (fst (RegisterServices g sdk exec am reg)) ''/feicoin.feicoin.v1.Query/Params'' s' qs =
        (s', Return (ParamsReply \<lparr>response_Params = update_Params m\<rparr>))"
    and "StringToBytes (k_addressCodec (am_keeper am)) (update_Authority m) \<noteq> Inr (GetAuthority (am_keeper am)) \<Longrightarrow>
      s' = s \<and> (\<exists>e. r = Fail e)"
    and "StringToBytes (k_addressCodec (am_keeper am)) (update_Authority m) = Inr (GetAuthority (am_keeper am)) \<Longrightarrow>
      Item_Set (k_Params (am_keeper am)) s (update_Params m) = (t, Return ()) \<Longrightarrow>
      s' = t \<and> r = Return (UpdateReply MsgUpdateParamsResponse)"
proof -
  obtain u where u: "UpdateParams (am_keeper am) s (Some m) = (s', u)" "map_reply UpdateReply (s', u) = (s', r)"
    using assms(6) update_call_served [OF assms(1,3,4), of sdk exec am reg s]
    by (cases "UpdateParams (am_keeper am) s (Some m)"; cases "snd (UpdateParams (am_keeper am) s (Some m))") auto
  show "StringToBytes (k_addressCodec (am_keeper am)) (update_Authority m) = Inr (GetAuthority (am_keeper am)) \<and>
      Call g (fst (RegisterServices g sdk exec am reg)) ''/feicoin.feicoin.v1.Query/Params'' s' qs =
        (s', Return (ParamsReply \<lparr>response_Params = update_Params m\<rparr>))" if "r = Return x"
  proof -
    from u(2) that obtain y where y: "u = Return y" by auto
    with u(1) have "StringToBytes (k_addressCodec (am_keeper am)) (update_Authority m) = Inr (GetAuthority (am_keeper am))"
      "Item_Get (k_Params (am_keeper am)) s' = (update_Params m, None)"
      using assms(2) by (auto simp: UpdateParams_Return item_laws_def)
    then show ?thesis
      by (simp add: query_call_served [OF assms(1,5)] query_method_def queryServer_Params_cases)
  qed
  show "s' = s \<and> (\<exists>e. r = Fail e)"
    if "StringToBytes (k_addressCodec (am_keeper am)) (update_Authority m) \<noteq> Inr (GetAuthority (am_keeper am))"
    using UpdateParams_unauthorised [OF that, of s] u by auto
  show "s' = t \<and> r = Return (UpdateReply MsgUpdateParamsResponse)"
    if "StringToBytes (k_addressCodec (am_keeper am)) (update_Authority m) = Inr (GetAuthority (am_keeper am))"
      "Item_Set (k_Params (am_keeper am)) s (update_Params m) = (t, Return ())"
  proof -
    from that have "UpdateParams (am_keeper am) s (Some m) = (t, Return MsgUpdateParamsResponse)" by (simp add: UpdateParams_Return)
    with u show ?thesis by auto
  qed
qed

section \<open>A server\<close>

text \<open>A list of services; a call looks its path up among their methods.\<close>

definition list_server :: "'amt int_codec \<Rightarrow> (((string \<times> string list) \<times> ('s, 'amt) service_impl) list, 's, 'amt) grpc_server" where
  "list_server ac = \<lparr>
     RegisterService = \<lambda>reg d impl. (d, impl) # reg,
     Call = \<lambda>reg path s bs.
       (case map_of (concat (map (\<lambda>(d, impl). List.map_filter (\<lambda>m. map_option (\<lambda>h. (full_method (fst d) m, h impl))
               (method_handler ac (fst d) m)) (snd d)) reg)) path of
          None \<Rightarrow> (s, Fail (Status Unimplemented ''unknown method''))
        | Some h \<Rightarrow> h s bs)\<rparr>"

lemma takeWhile_before: "c \<notin> set a \<Longrightarrow> takeWhile (\<lambda>x. x \<noteq> c) (a @ c # m) = a"
  by (induction a) auto

lemma full_method_inj:
  assumes "CHR ''/'' \<notin> set a" "CHR ''/'' \<notin> set b" "full_method a m = full_method b n"
  shows "a = b"
proof -
  from assms(3) have "takeWhile (\<lambda>x. x \<noteq> CHR ''/'') (a @ CHR ''/'' # m) = takeWhile (\<lambda>x. x \<noteq> CHR ''/'') (b @ CHR ''/'' # n)"
    by (simp add: full_method_def)
  with assms(1,2) show ?thesis by (simp add: takeWhile_before)
qed

lemma full_method_same [simp]: "full_method a m = full_method a n \<longleftrightarrow> m = n"
  by (simp add: full_method_def)

lemma map_of_methods:
  "m \<in> set ms \<Longrightarrow> f m = Some h \<Longrightarrow>
   map_of (List.map_filter (\<lambda>m. map_option (\<lambda>h. (full_method a m, g h)) (f m)) ms) (full_method a m) = Some (g h)"
  by (induction ms) (auto simp: map_filter_simps split: option.split)

lemma map_of_methods_other:
  "\<forall>m \<in> set ms. full_method a m \<noteq> p \<Longrightarrow>
   map_of (List.map_filter (\<lambda>m. map_option (\<lambda>h. (full_method a m, g h)) (f m)) ms) p = None"
  by (induction ms) (auto simp: map_filter_simps split: option.split)

lemma list_server_laws: "grpc_laws ac (list_server ac)"
proof -
  have "full_method (fst d) m \<noteq> full_method service n"
    if "service \<noteq> fst d" "CHR ''/'' \<notin> set service \<union> set (fst d)" for d :: "string \<times> string list" and service m n
    using that full_method_inj [of "fst d" service m n] by auto
  then show ?thesis
    unfolding grpc_laws_def list_server_def
    by (auto simp: map_of_methods map_add_def map_of_methods_other split: option.split)
qed

section \<open>A module\<close>

text \<open>The module provided over the ledger, from a configuration that names no authority.\<close>

definition ledger_addresses :: module_addresses where
  "ledger_addresses = \<lparr>NewModuleAddress = str_bytes, NewModuleAddressOrBech32Address = str_bytes\<rparr>"

definition ledger_inputs :: "(ledger, unit, unit, (string \<times> int) list, unit) ModuleInputs" where
  "ledger_inputs = \<lparr>in_Config = Module_zero, in_StoreService = (), in_Cdc = (), in_AddressCodec = ledger_codec,
     in_AuthKeeper = (), in_BankKeeper = ledger_bank []\<rparr>"

lemma ledger_provides:
  "\<exists>k am. ProvideModule ledger_collections ledger_addresses ledger_inputs = Return (k, am) \<and> k_Params k = ledger_item ParamsKey"
  by (simp add: ProvideModule_def NewKeeper_def ledger_collections_def ledger_inputs_def ledger_codec_def
      module_authority_def ledger_addresses_def Module_zero_def GovModuleName_def str_bytes_def Let_def)

end
