(* ===== verification/Server_Run.thy ===== *)
theory Server_Run
  imports Registration
begin

text \<open>
  A server with the module's services that takes one call after the other, each of any bytes, and
  keeps what a call has written exactly when it is answered, as the base application does. Its runs
  are runs of \<open>chain\<close> over the messages the bytes decode to: a forward simulation, call by call.
\<close>

section \<open>Calls and what they stand for\<close>

datatype module_method = CallUpdateParams | CallMintTokens | CallParams

fun path_of :: "module_method \<Rightarrow> string" where
  "path_of CallUpdateParams = ''/feicoin.feicoin.v1.Msg/UpdateParams''"
| "path_of CallMintTokens = ''/feicoin.feicoin.v1.Msg/MintTokens''"
| "path_of CallParams = ''/feicoin.feicoin.v1.Query/Params''"

definition decoded :: "('m \<Rightarrow> byte list \<Rightarrow> 'm \<times> perr option) \<Rightarrow> 'm \<Rightarrow> byte list \<Rightarrow> 'm option" where
  "decoded unm new bs = (case unm new bs of (m, None) \<Rightarrow> Some m | (m, Some e) \<Rightarrow> None)"

fun message_of :: "'amt int_codec \<Rightarrow> host \<Rightarrow> module_method \<Rightarrow> byte list \<Rightarrow> 'amt chain_msg option" where
  "message_of ac exec CallUpdateParams bs =
     map_option UpdateParamsMsg (decoded MsgUpdateParams_Unmarshal MsgUpdateParams_zero bs)"
| "message_of ac exec CallMintTokens bs =
     map_option (MintTokensMsg exec) (decoded (MsgMintTokens_Unmarshal ac) (MsgMintTokens_zero ac) bs)"
| "message_of ac exec CallParams bs = None"

text \<open>The calls in order, each with whether it was answered, and the state after them.\<close>

fun answered :: "'a outcome \<Rightarrow> bool" where
  "answered (Return x) = True"
| "answered (Fail e) = False"
| "answered (Panic e) = False"

fun serve ::
    "('g, 's, 'amt) grpc_server \<Rightarrow> 'g \<Rightarrow> 's \<Rightarrow> (module_method \<times> byte list) list
     \<Rightarrow> ((module_method \<times> byte list) \<times> bool) list \<times> 's" where
  "serve g reg s [] = ([], s)"
| "serve g reg s ((m, bs) # calls) =
     (let (t, r) = Call g reg (path_of m) s bs;
          (log, u) = serve g reg (if answered r then t else s) calls
      in (((m, bs), answered r) # log, u))"

definition chain_log ::
    "'amt int_codec \<Rightarrow> host \<Rightarrow> ((module_method \<times> byte list) \<times> bool) list \<Rightarrow> ('amt chain_msg \<times> bool) list" where
  "chain_log ac exec =
     List.map_filter (\<lambda>((m, bs), ok). map_option (\<lambda>msg. (msg, ok)) (message_of ac exec m bs))"

lemma chain_log_simps [simp]:
  "chain_log ac exec [] = []"
  "chain_log ac exec (((m, bs), ok) # log) =
     (case message_of ac exec m bs of None \<Rightarrow> [] | Some msg \<Rightarrow> [(msg, ok)]) @ chain_log ac exec log"
  by (simp_all add: chain_log_def map_filter_simps split: option.split)

section \<open>Runs one after the other\<close>

lemma chain_append:
  assumes "chain k sdk s0 l1 s1" "chain k sdk s1 l2 s2"
  shows "chain k sdk s0 (l1 @ l2) s2"
  using assms(2)
proof (induction rule: chain.induct)
  case start
  show ?case using assms(1) by simp
next
  case (executed log s m s')
  show ?case using chain.executed [OF executed(3,2)] by simp
next
  case (failed log s m s' r)
  show ?case using chain.failed [OF failed(4,2,3)] by simp
qed

lemma chain_one:
  "handle k sdk m s = (t, r) \<Longrightarrow> chain k sdk s [(m, answered r)] (if answered r then t else s)"
  using chain.executed [OF chain.start, of k sdk m s t] chain.failed [OF chain.start, of k sdk m s t r]
  by (cases r) auto

section \<open>The simulation\<close>

lemma answered_map_reply [simp]: "answered (snd (map_reply f r)) = answered (snd r)"
  "fst (map_reply f r) = fst r"
  by (cases "(f, r)" rule: map_reply.cases; simp)+

lemma answered_after [simp]:
  "answered (snd (after r (\<lambda>s _. (s, Return ())))) = answered (snd r)" "fst (after r (\<lambda>s _. (s, Return ()))) = fst r"
  by (cases r; cases "snd r"; simp)+

lemma answered_pair: "fst h = t \<Longrightarrow> answered (snd h) = b \<Longrightarrow> \<exists>r. h = (t, r) \<and> answered r = b"
  by (cases h) auto

text \<open>A handler that decodes the bytes of its call either runs on the request or fails.\<close>

lemma handler_decodes:
  "unary_handler new path srv s (wire_dec unm bs) None =
     (case decoded unm new bs of
        Some m \<Rightarrow> srv s (Some m)
      | None \<Rightarrow> (s, Fail (Msg ''error unmarshalling request'')))"
  by (auto simp: unary_handler_def wire_dec_def decoded_def split: prod.split option.split)

text \<open>One call: the handler of its message, or nothing.\<close>

lemma call_simulated:
  assumes "grpc_laws ac g" "Call g (fst (RegisterServices g sdk exec am reg)) (path_of m) s bs = (t, r)"
  shows "case message_of ac exec m bs of
      Some msg \<Rightarrow> \<exists>r'. handle (am_keeper am) sdk msg s = (t, r') \<and> answered r' = answered r
    | None \<Rightarrow> t = s \<and> (m = CallParams \<or> \<not> answered r)"
proof -
  note c = registered_calls [OF assms(1) prod.collapse [symmetric], of sdk exec am reg]
  show ?thesis
  proof (cases m)
    case CallUpdateParams
    with assms(2) c(2) [of s bs] have e: "(t, r) = map_reply UpdateReply (case decoded MsgUpdateParams_Unmarshal MsgUpdateParams_zero bs of
        Some m \<Rightarrow> UpdateParams (am_keeper am) s (Some m) | None \<Rightarrow> (s, Fail (Msg ''error unmarshalling request'')))"
      by (simp add: Msg_UpdateParams_Handler_def handler_decodes full_method_def)
    from arg_cong [OF e, of fst] arg_cong [OF e, of "answered \<circ> snd"] show ?thesis
      by (cases "decoded MsgUpdateParams_Unmarshal MsgUpdateParams_zero bs") (auto simp: CallUpdateParams intro!: answered_pair)
  next
    case CallMintTokens
    with assms(2) c(3) [of s bs] have e: "(t, r) = map_reply MintReply (case decoded (MsgMintTokens_Unmarshal ac) (MsgMintTokens_zero ac) bs of
        Some m \<Rightarrow> MintTokens (am_keeper am) sdk exec s (Some m) | None \<Rightarrow> (s, Fail (Msg ''error unmarshalling request'')))"
      by (simp add: Msg_MintTokens_Handler_def handler_decodes full_method_def)
    from arg_cong [OF e, of fst] arg_cong [OF e, of "answered \<circ> snd"] show ?thesis
      by (cases "decoded (MsgMintTokens_Unmarshal ac) (MsgMintTokens_zero ac) bs") (auto simp: CallMintTokens intro!: answered_pair)
  next
    case CallParams
    with assms(2) c(4) [of s bs] have e: "(t, r) = map_reply ParamsReply (case decoded QueryParamsRequest_Unmarshal QueryParamsRequest bs of
        Some m \<Rightarrow> query_method (am_keeper am) s (Some m) | None \<Rightarrow> (s, Fail (Msg ''error unmarshalling request'')))"
      by (simp add: Query_Params_Handler_def handler_decodes full_method_def)
    from arg_cong [OF e, of fst] show ?thesis
      by (cases "decoded QueryParamsRequest_Unmarshal QueryParamsRequest bs") (auto simp: CallParams query_method_def)
  qed
qed

lemma serve_refines:
  assumes "grpc_laws ac g" "serve g (fst (RegisterServices g sdk exec am reg)) s0 calls = (log, s)"
  shows "chain (am_keeper am) sdk s0 (chain_log ac exec log) s \<and> map fst log = calls \<and>
    (\<forall>m bs. ((m, bs), True) \<in> set log \<longrightarrow> m = CallParams \<or> message_of ac exec m bs \<noteq> None)"
  using assms(2)
proof (induction calls arbitrary: s0 log)
  case Nil
  then show ?case by (auto intro: chain.start)
next
  case (Cons call calls)
  obtain m bs where call: "call = (m, bs)" by (cases call)
  obtain t r where c: "Call g (fst (RegisterServices g sdk exec am reg)) (path_of m) s0 bs = (t, r)" by fastforce
  let ?s1 = "if answered r then t else s0"
  from Cons.prems obtain log1 where l: "serve g (fst (RegisterServices g sdk exec am reg)) ?s1 calls = (log1, s)"
      "log = ((m, bs), answered r) # log1"
    by (auto simp: call c split: prod.splits)
  note IH = Cons.IH [OF l(1)] and sim = call_simulated [OF assms(1) c]
  have "chain (am_keeper am) sdk s0 (case message_of ac exec m bs of None \<Rightarrow> [] | Some msg \<Rightarrow> [(msg, answered r)]) ?s1"
  proof (cases "message_of ac exec m bs")
    case None
    with sim show ?thesis by (auto intro: chain.start)
  next
    case (Some msg)
    with sim obtain r' where "handle (am_keeper am) sdk msg s0 = (t, r')" "answered r' = answered r" by auto
    with chain_one [OF this(1)] Some show ?thesis by simp
  qed
  from chain_append [OF this conjunct1 [OF IH]] IH sim show ?case
    by (auto simp: l(2) call)
qed

text \<open>The bytes of a request a client encoded stand for that request.\<close>

lemma message_of_encoded:
  "MsgMintTokens_ok ac enc req \<Longrightarrow> MsgMintTokens_Marshal ac req = Inr bs \<Longrightarrow>
     message_of ac exec CallMintTokens bs = Some (MintTokensMsg exec req)"
  "MsgUpdateParams_ok upd \<Longrightarrow> MsgUpdateParams_Marshal upd = Inr bs \<Longrightarrow>
     message_of ac exec CallUpdateParams bs = Some (UpdateParamsMsg upd)"
  using mint_call.req_round_trip [of ac enc req] update_call.req_round_trip [of upd]
  by (auto simp: decoded_def)

end
