(* ===== verification/Spec2Isabelle.thy ===== *)
theory Spec2Isabelle
  imports Proto_Hooks Ledger Service App_Module App_Config Testnet_World Export_World
    Multi_Node_Live App_Wiring_World Server_Run
begin

text \<open>
  Verification of feicoin, a Cosmos SDK chain with one module of its own, \<open>x/feicoin\<close>, whose
  messages update its parameters and mint tokens.

  The program. A transaction's bytes reach the chain through the generated protobuf code of
  \<open>x/feicoin/types/*.pb.go\<close>; the gRPC handlers there decode a request and call the message or
  query server of \<open>x/feicoin/keeper\<close>; the servers work on a keeper that holds the address codec,
  the module's authority, the bank and the store item of the parameters. \<open>x/feicoin/module\<close> wires
  the keeper into the application, registers its services, messages and routes, and carries genesis
  in and out as JSON. \<open>app\<close> configures the modules, builds the application with its IBC keepers, and
  exports its state; \<open>cmd/feicoind\<close> is the command line, with two commands that set up test networks.

  The theories, in the order they build on each other.

  \<^item> \<open>Prelude\<close>: Go's 64-bit integers, byte slices whose accesses may panic, strings, results.
    \<open>Digits\<close>: \<open>strconv.Itoa\<close>, \<open>strings.Split\<close>. \<open>Filepath\<close>: \<open>path/filepath\<close> on Unix. \<open>Json\<close>: what
    \<open>msg_server.go\<close> uses of \<open>encoding/json\<close>.
  \<^item> \<open>Varint\<close>: \<open>sov*\<close>, \<open>soz*\<close>, \<open>encodeVarint*\<close> and the reader loop the generated code inlines,
    against the base-128 format (\<open>varint_bytes\<close>, \<open>varint_val\<close>). \<open>Wire\<close>: \<open>skip*\<close>, the tag and length
    readers, the loop of every \<open>Unmarshal\<close>, the backwards writers of every \<open>MarshalToSizedBuffer\<close>;
    the locale \<open>pb_reader\<close> has what holds of any such loop. The five generated files repeat this code
    with their own error values; it is written once, with the file as an argument, and the
    definitions of each message instantiate it.
  \<^item> \<open>Wire_Fields\<close>: fields as a datatype (\<open>wfield\<close>, with nested groups), the exactness of
    skipping, the refinement of \<open>Unmarshal\<close> to \<open>apply_fields\<close>, the frame property \<open>writes\<close> of the
    writers. \<open>Messages\<close>: the locales \<open>pb_writer\<close> and \<open>pb_codec\<close>, the contract of a message type.
    \<open>Params_Pb\<close>, \<open>Genesis_Pb\<close>, \<open>Query_Pb\<close>, \<open>Module_Pb\<close>, \<open>Tx_Pb\<close>, \<open>Mint_Pb\<close>: the messages of the
    generated files, with an interpretation of \<open>pb_codec\<close> for each; \<open>Proto_Hooks\<close>: \<open>Reset\<close>,
    \<open>XXX_Unmarshal\<close>, \<open>XXX_Size\<close>. \<open>math.Int\<close>, the type of an
    amount, is an argument (\<open>int_codec\<close>); \<open>Decimal\<close> is an instance.
  \<^item> \<open>Results\<close>: errors, outcomes (a response, an error, a panic) and the interfaces of the SDK
    the module calls. \<open>Loops\<close>: loops over slices whose body works on the state, and the ways the code
    treats errors in them.
  \<^item> \<open>Keeper\<close>: \<open>keys.go\<close>, \<open>errors.go\<close>, \<open>params.go\<close>, \<open>genesis.go\<close>, \<open>keeper.go\<close>, \<open>query_params.go\<close>; its
    locale \<open>genesis_provider\<close> is what the module relies on. \<open>Msg_Server\<close>: \<open>msg_update_params.go\<close> and
    \<open>msg_server.go\<close>. \<open>Minting\<close>: the laws of the bank and of coins, and what a mint does under them.
    \<open>Chain\<close>: the module as a machine that delivers messages one after the other (\<open>chain\<close>, an
    inductive relation with a log).
  \<^item> \<open>Service\<close>: the gRPC handlers and clients, with the locale \<open>grpc_method\<close>. \<open>Gateway\<close>:
    \<open>query.pb.gw.go\<close>. \<open>App_Module\<close>: \<open>module.go\<close>, \<open>depinject.go\<close>, \<open>simulation.go\<close>. \<open>Registration\<close>: the
    services with a gRPC server, the messages with the interface registry (\<open>codec.go\<close>), the routes,
    the simulation's hooks. \<open>Server_Run\<close>: a server's calls, one after the other, against \<open>chain\<close>.
  \<^item> \<open>App_Config\<close>: \<open>app_config.go\<close> with every module's configuration, \<open>GetMaccPerms\<close>,
    \<open>BlockedAddresses\<close>, \<open>genesis_account.go\<close>. \<open>App_Wiring\<close>: \<open>New\<close>, the accessors and the API routes of
    \<open>app.go\<close>, \<open>ibc.go\<close>, \<open>config.go\<close>, \<open>docs.go\<close>; \<open>App_Wiring_Facts\<close> its properties. \<open>Export\<close>: \<open>export.go\<close>.
  \<^item> \<open>File_System\<close>: what the multi-node command uses of \<open>os\<close>, over a tree of files in which any call
    may fail, with \<open>writeFile\<close>, \<open>copyFile\<close> and \<open>isSubDir\<close>. \<open>Multi_Node\<close> and \<open>Multi_Node_Files\<close>:
    \<open>testnet_multi_node.go\<close>, the flags and the nodes' values, then the loops over nodes and files;
    \<open>Multi_Node_Facts\<close> and \<open>Multi_Node_Live\<close> their properties. \<open>Testnet\<close>: \<open>testnet.go\<close>.
  \<^item> \<open>Commands\<close>: \<open>main.go\<close>, \<open>root.go\<close>, \<open>commands.go\<close> with \<open>appExport\<close> (which makes an application by
    \<open>New\<close> and exports it), \<open>config.go\<close>, the flags, \<open>autocli.go\<close>; \<open>Commands_Facts\<close> its properties.
  \<^item> \<open>Ledger\<close>, \<open>Testnet_World\<close>, \<open>App_Wiring_World\<close>, \<open>Export_World\<close>, \<open>Multi_Node_World\<close>: concrete stores,
    banks, keepers, machines, in which all assumed laws are proved; the witnesses compute in them.

  How state and effects are modelled. An operation takes the state \<open>'s\<close> and returns the state it
  leaves together with its outcome, so what a failed call has written stays visible; \<open>chain\<close> adds
  that the base application discards it. Code outside the repository is an argument, and what a
  property needs of it is a named hypothesis, each proved of a concrete instance: of stores
  and the bank \<open>item_laws\<close>, \<open>bank_laws\<close>, \<open>frame_laws\<close>, \<open>mint_law\<close>, \<open>send_law\<close>, \<open>new_coins_law\<close>,
  \<open>delete_law\<close>; of codecs and names \<open>int_codec_ok\<close>, \<open>json_codec_ok\<close>, \<open>names_ok\<close>; of gRPC and HTTP
  \<open>grpc_laws\<close>, \<open>conn_law\<close>, \<open>reply_laws\<close>; of the keepers the export calls \<open>validators_law\<close>,
  \<open>validators_frame\<close>, \<open>unbonding_laws\<close>, \<open>signing_laws\<close>, \<open>pool_laws\<close>; of the injection, the stores and
  the IBC packages \<open>wiring_laws\<close>, \<open>wiring_frame\<close>; of the operating system \<open>os_ok\<close>; of the packages
  that write the nodes' files \<open>collect_laws\<close>, \<open>provision_laws\<close>; of parsed flags \<open>typed_flags\<close>,
  \<open>default_flags\<close>.

  Bounds. A slice's length is a Go \<open>int\<close> (\<open>len_ok\<close>: below \<open>2^63\<close>), and index arithmetic that the
  code checks for overflow wraps (\<open>wrap64\<close>). The loops of \<open>skip\<close> and \<open>Unmarshal\<close> are total
  functions on the distance to the end of the input; an iteration that did not advance would give
  \<open>Diverges\<close>, which is proved not to occur. The JSON parser takes fuel, twice the length of the
  text plus one, and \<open>json_value_enough\<close> shows that more changes nothing. All other loops are over
  slices and structural.

  What is shown, by section. The module on the chain (C1-C13): supply accounting and authority over
  all runs, the exact effect of a mint, its guards, its lack of atomicity, its dependence on the
  machine that executes it and agreement otherwise, what that machine's report means, parameter
  updates, availability, genesis, and that a registered server, given any bytes, refines the chain. Exporting the
  state (C14-C17): what each part of the preparation for height zero leaves, and the whole command.
  Test networks (C18-C25): the rewriting of a chain's state, the values of each node of a new
  network, the loop over the nodes, success of the whole command, its one genesis, its cleaning up.
  The messages on the wire (C26-C30) and varints (C31): round trips, refinement, safety on
  arbitrary bytes, skipping. The application (C32-C38): permissions, orders, construction, the root
  command, flags and defaults, and the provided module's parameters under its configured authority. The query over the wire (C39, C40): its answer, and
  that the gateway's two ways to it agree.

  Not modelled: the reflection hooks of the generated code with the registration of their
  descriptors, the branch of \<open>XXX_Marshal\<close> left to the protobuf library, the help texts of flags, gas
  metering, and the declarations without operations (\<open>types.go\<close>, \<open>genesis.go\<close> of \<open>app\<close>) or for tests
  only (\<open>sample.go\<close>).
\<close>

section \<open>The module on the chain\<close>

text \<open>
  C1. Supply accounting: along every run of the module, the supply of a denomination is what it
  was plus the amounts of the executed mints in it, the balance of an address is what it was
  plus the amounts of the executed mints to it, and the supply never falls. Parameter updates
  and messages that failed contribute nothing.
\<close>
theorem supply_accounting:
  assumes "bank_laws v (k_bankKeeper k) sdk" "frame_laws v (k_Params k) (k_bankKeeper k) sdk"
    and "chain k sdk s0 log s"
  shows "total_supply v s d = total_supply v s0 d + sum_list (map (minted v d) log) \<and>
    bal v s a d = bal v s0 a d + sum_list (map (received v sdk a d) log) \<and>
    total_supply v s0 d \<le> total_supply v s d"
  using chain_supply [OF assms] chain_supply_mono [OF assms] by blast

lemma supply_accounting_witness:
  "\<exists>s. chain (ledger_keeper []) ledger_sdk empty_ledger run_log s \<and> total_supply ledger_view s ''fei'' = 5"
proof -
  obtain s where s: "chain (ledger_keeper []) ledger_sdk empty_ledger run_log s"
    using ledger_run by blast
  have "total_supply ledger_view s ''fei'' = 5"
    using supply_accounting [of ledger_view "ledger_keeper []" ledger_sdk empty_ledger run_log s "''fei''" "[]"]
      ledger_bank_laws ledger_frame_laws s
    by (simp add: run_log_def minted_def ledger_view_def empty_ledger_def)
  with s show ?thesis by blast
qed

text \<open>
  C2. Authority: in every run, a mint was executed only if its authority is the address the
  executing machine reports for the key \<open>bob\<close>, and a parameter update only if its authority
  decodes to the keeper's authority.
\<close>
theorem executed_authorised:
  assumes "chain k sdk s0 log s" "(m, True) \<in> set log"
  shows "case m of
      UpdateParamsMsg req \<Rightarrow> StringToBytes (k_addressCodec k) (update_Authority req) = Inr (GetAuthority k)
    | MintTokensMsg exec req \<Rightarrow> getBobAddress exec = Inr (mint_Authority req)"
  by (rule chain_authorised [OF assms])

lemma executed_authorised_witness:
  "\<exists>s. chain (ledger_keeper []) ledger_sdk empty_ledger run_log s \<and>
     getBobAddress (keyring_host (Some bob)) = Inr (mint_Authority mint_five)"
  using ledger_run executed_authorised [of "ledger_keeper []" ledger_sdk empty_ledger run_log _
      "MintTokensMsg (keyring_host (Some bob)) mint_five"]
  by (force simp: run_log_def)

text \<open>
  C3. The effect of a mint: a response means that the recipient's balance and the total supply
  grew by exactly the amount, in exactly the message's denomination, and that no other balance
  and no other supply changed; in particular nothing stays in the module's account.
\<close>
theorem mint_effect:
  assumes "bank_laws v (k_bankKeeper k) sdk"
    and "MintTokens k sdk exec s (Some req) = (s', Return r)"
  shows "\<exists>rcp. AccAddressFromBech32 sdk (mint_Recipient req) = Inr rcp \<and>
    0 \<le> int_of v (mint_Amount req) \<and>
    (\<forall>d. total_supply v s' d =
      total_supply v s d + (if d = mint_Denom req then int_of v (mint_Amount req) else 0)) \<and>
    (\<forall>a d. bal v s' a d =
      bal v s a d + (if a = rcp \<and> d = mint_Denom req then int_of v (mint_Amount req) else 0))"
proof -
  from assms(2) obtain rcp where "AccAddressFromBech32 sdk (mint_Recipient req) = Inr rcp"
    by (auto simp: MintTokens_Return)
  with MintTokens_effect [OF assms this] show ?thesis by blast
qed

lemma mint_effect_witness:
  "\<exists>s'. MintTokens (ledger_keeper []) ledger_sdk (keyring_host (Some bob)) empty_ledger (Some mint_five)
      = (s', Return MsgMintTokensResponse) \<and>
    bal ledger_view s' (str_bytes ''alice'') ''fei'' = 5 \<and>
    bal ledger_view s' (ledger_module_address ModuleName) ''fei'' = 0"
proof -
  obtain s' where s': "MintTokens (ledger_keeper []) ledger_sdk (keyring_host (Some bob)) empty_ledger
      (Some mint_five) = (s', Return MsgMintTokensResponse)"
    using bob_mints by blast
  have "ledger_module_address ModuleName \<noteq> str_bytes ''alice''" by code_simp
  with mint_effect [of ledger_view "ledger_keeper []", OF _ s'] ledger_bank_laws s' show ?thesis
    by (auto simp: ledger_view_def empty_ledger_def)
qed

text \<open>
  C4. The handler is not atomic: when the bank mints the coins and then refuses the recipient,
  the handler returns an error and the state it leaves has the larger supply, with the coins in
  the module's account. Only the discarding of the state by the caller undoes the mint.
\<close>
theorem mint_not_undone:
  assumes "bank_laws v (k_bankKeeper k) sdk"
    and "getBobAddress exec = Inr (mint_Authority req)"
    and "AccAddressFromBech32 sdk (mint_Recipient req) = Inr rcp" "mint_coins sdk req = Inr coins"
    and "MintCoins (k_bankKeeper k) s ModuleName coins = (s1, Return ())"
    and "SendCoinsFromModuleToAccount (k_bankKeeper k) s1 ModuleName rcp coins = (s1, Fail e)"
  shows "MintTokens k sdk exec s (Some req) =
      (s1, Fail (Wrapped e ''failed to send minted coins to recipient'')) \<and>
    total_supply v s1 (mint_Denom req) =
      total_supply v s (mint_Denom req) + int_of v (mint_Amount req) \<and>
    bal v s1 (module_address v ModuleName) (mint_Denom req) =
      bal v s (module_address v ModuleName) (mint_Denom req) + int_of v (mint_Amount req)"
  using assms MintTokens_send_fails [OF assms(2-6)] coin_law_mint_coins [of v sdk req coins "mint_Denom req"]
  unfolding bank_laws_def mint_law_def by auto

lemma mint_not_undone_witness:
  "\<exists>s1 e. MintTokens (ledger_keeper [str_bytes ''alice'']) ledger_sdk (keyring_host (Some bob)) empty_ledger
      (Some mint_five) = (s1, Fail e) \<and> total_supply ledger_view s1 ''fei'' = 5"
proof -
  let ?k = "ledger_keeper [str_bytes ''alice'']" and ?bk = "ledger_bank [str_bytes ''alice'']"
  let ?cs = "[(''fei'', 5 :: int)]"
  obtain s1 where m: "MintCoins ?bk empty_ledger ModuleName ?cs = (s1, Return ())"
    by (simp add: ledger_MintCoins)
  have cs: "mint_coins ledger_sdk mint_five = Inr ?cs" by (simp add: ledger_mint_coins)
  have f: "SendCoinsFromModuleToAccount ?bk s1 ModuleName (str_bytes ''alice'') ?cs =
      (s1, Fail (Msg ''address is not allowed to receive funds''))"
    by (simp add: ledger_bank_def)
  note * = mint_not_undone [of ledger_view ?k ledger_sdk "keyring_host (Some bob)" mint_five
      "str_bytes ''alice''" ?cs empty_ledger s1 "Msg ''address is not allowed to receive funds''"]
  show ?thesis
    using * m cs f ledger_bank_laws keyring_getBobAddress(2) [OF plain_bob]
    by (auto simp: ledger_view_def empty_ledger_def)
qed

text \<open>
  C5. Guards: when the machine does not report the message's authority as bob's address, or the
  recipient is not an address, or no coins can be made of the amount, the state is left as it
  was and there is no response, whatever the bank would do.
\<close>
theorem mint_guarded:
  assumes "getBobAddress exec \<noteq> Inr (mint_Authority req) \<or>
      (\<exists>e. AccAddressFromBech32 sdk (mint_Recipient req) = Inl e) \<or> (\<exists>e. mint_coins sdk req = Inl e)"
  shows "\<exists>e. MintTokens k sdk exec s (Some req) \<in> {(s, Fail e), (s, Panic e)}"
  using assms by (auto simp: MintTokens_def split: sum.split)

lemma mint_guarded_witness:
  "\<exists>e. MintTokens (ledger_keeper []) ledger_sdk (keyring_host None) empty_ledger (Some mint_five)
     \<in> {(empty_ledger, Fail e), (empty_ledger, Panic e)}"
  by (rule mint_guarded) (simp add: keyring_getBobAddress)

text \<open>
  C6. Execution depends on the machine: if one machine executes a mint of a positive amount and
  another one reports a different address for bob, or none, then the other rejects the same
  message in the same state, and the two end in different states.
\<close>
theorem mint_depends_on_machine:
  assumes "bank_laws v (k_bankKeeper k) sdk" "0 < int_of v (mint_Amount req)"
    and "MintTokens k sdk exec1 s (Some req) = (s1, Return r)"
    and "getBobAddress exec2 \<noteq> getBobAddress exec1"
  shows "\<exists>e. MintTokens k sdk exec2 s (Some req) = (s, Fail e) \<and> s1 \<noteq> s"
proof -
  from assms(3) obtain rcp where r: "AccAddressFromBech32 sdk (mint_Recipient req) = Inr rcp"
    and bob: "getBobAddress exec1 = Inr (mint_Authority req)"
    by (auto simp: MintTokens_Return)
  obtain e where "MintTokens k sdk exec2 s (Some req) = (s, Fail e)"
    using MintTokens_unauthorised [of exec2 req] assms(4) bob by metis
  moreover have "total_supply v s1 (mint_Denom req) \<noteq> total_supply v s (mint_Denom req)"
    using MintTokens_effect(2) [OF assms(1,3) r, of "mint_Denom req"] assms(2) by simp
  ultimately show ?thesis by blast
qed

lemma mint_depends_on_machine_witness:
  "\<exists>s1 e. MintTokens (ledger_keeper []) ledger_sdk (keyring_host (Some bob)) empty_ledger (Some mint_five)
       = (s1, Return MsgMintTokensResponse) \<and>
     MintTokens (ledger_keeper []) ledger_sdk (keyring_host None) empty_ledger (Some mint_five)
       = (empty_ledger, Fail e) \<and> s1 \<noteq> empty_ledger"
proof -
  obtain s1 where s1: "MintTokens (ledger_keeper []) ledger_sdk (keyring_host (Some bob)) empty_ledger
      (Some mint_five) = (s1, Return MsgMintTokensResponse)"
    using bob_mints by blast
  have "getBobAddress (keyring_host None) \<noteq> getBobAddress (keyring_host (Some bob))"
    by (simp add: keyring_getBobAddress)
  with mint_depends_on_machine [OF _ _ s1, of ledger_view "keyring_host None"] ledger_bank_laws s1
  show ?thesis by (auto simp: ledger_view_def)
qed



text \<open>
  C8. What the machine reports: from the text of an object of plain strings, the address is the
  value of the last member whose name is \<open>address\<close> up to case; an object without such a member
  is accepted, and the address is then empty.
\<close>
theorem bob_address_of_object:
  assumes "exec ''feicoind''
      [''keys'', ''show'', ''bob'', ''--keyring-backend'', ''test'', ''--output'', ''json''] =
      Inr (str_bytes (print_object ms))"
    and "list_all (\<lambda>(n, x). plain n \<and> plain x) ms"
  shows "getBobAddress exec =
    Inr (last ([] # map snd (filter (\<lambda>(n, x). fold_name n = fold_name ''address'') ms)))"
  unfolding getBobAddress_def assms(1) by (simp only: sum.case bytes_str_str_bytes json_string_field_print [OF assms(2)] option.case)

lemma bob_address_of_object_witness:
  "getBobAddress (\<lambda>cmd args. Inr (str_bytes (print_object [(''name'', ''bob''), (''Address'', ''feic1bob'')])))
    = Inr ''feic1bob'' \<and>
   getBobAddress (\<lambda>cmd args. Inr (str_bytes (print_object [(''name'', ''bob'')]))) = Inr ''''"
proof -
  have p: "list_all (\<lambda>(n, x). plain n \<and> plain x) [(''name'', ''bob''), (''Address'', ''feic1bob'')]"
    "list_all (\<lambda>(n, x). plain n \<and> plain x) [(''name'', ''bob'')]" by code_simp+
  have f: "filter (\<lambda>(n, x). fold_name n = fold_name ''address'') [(''name'', ''bob''), (''Address'', ''feic1bob'')]
      = [(''Address'', ''feic1bob'')]"
    "filter (\<lambda>(n, x). fold_name n = fold_name ''address'') [(''name'', ''bob'')] = []" by code_simp+
  show ?thesis
    using bob_address_of_object [OF refl p(1)] bob_address_of_object [OF refl p(2)] unfolding f by simp
qed



text \<open>
  C10. Parameter updates, on every branch: a response means that the message's authority is the
  keeper's and that the \<open>Params\<close> query and the genesis export return the new parameters; an
  error or a panic means that the query answers as before, with an unchanged state when the
  authority was wrong.
\<close>
theorem update_params_effect:
  assumes "item_laws (k_Params k)" "UpdateParams k s req = (s', r)"
  shows "case r of
      Return _ \<Rightarrow> \<exists>m. req = Some m \<and>
        StringToBytes (k_addressCodec k) (update_Authority m) = Inr (GetAuthority k) \<and>
        queryServer_Params k s' (Some q) = Inr \<lparr>response_Params = update_Params m\<rparr> \<and>
        Keeper_ExportGenesis k s' = Inr \<lparr>genesis_Params = update_Params m\<rparr>
    | _ \<Rightarrow> queryServer_Params k s' q' = queryServer_Params k s q' \<and>
        (case req of None \<Rightarrow> s' = s
         | Some m \<Rightarrow> StringToBytes (k_addressCodec k) (update_Authority m) \<noteq> Inr (GetAuthority k) \<longrightarrow> s' = s)"
proof (cases "\<exists>x. r = Return x")
  case True
  then obtain x where x: "r = Return x" by blast
  with assms(2) obtain m where m: "req = Some m" by (cases req) (auto simp: UpdateParams_def)
  with x assms(2) have "StringToBytes (k_addressCodec k) (update_Authority m) = Inr (GetAuthority k)"
    "Item_Get (k_Params k) s' = (update_Params m, None)"
    using assms(1) by (auto simp: UpdateParams_Return item_laws_def)
  with m x show ?thesis
    by (simp add: queryServer_Params_def Keeper_ExportGenesis_def DefaultGenesis_def)
next
  case False
  then have n: "\<And>x. r \<noteq> Return x" by blast
  note c = UpdateParams_not_Return [OF assms(2) n]
  then have "Item_Get (k_Params k) s' = Item_Get (k_Params k) s"
    using assms(1) unfolding item_laws_def by blast
  then have "queryServer_Params k s' q' = queryServer_Params k s q'"
    by (simp add: queryServer_Params_def split: option.split)
  with c n show ?thesis by (cases r; cases req) auto
qed

lemma update_params_effect_witness:
  "\<exists>s'. UpdateParams (ledger_keeper []) empty_ledger (Some update_by_gov) = (s', Return MsgUpdateParamsResponse) \<and>
     queryServer_Params (ledger_keeper []) s' (Some QueryParamsRequest) = Inr \<lparr>response_Params = Params\<rparr>"
proof -
  obtain s' where s': "UpdateParams (ledger_keeper []) empty_ledger (Some update_by_gov) =
      (s', Return MsgUpdateParamsResponse)"
    using gov_updates by blast
  with update_params_effect [OF _ s', of QueryParamsRequest None] ledger_item_laws [of ParamsKey]
  show ?thesis by (auto simp: update_by_gov_def)
qed

text \<open>
  C11. Availability: once genesis was initialised, in every state the module can reach the
  \<open>Params\<close> query answers and the genesis export returns, with the same parameters.
\<close>
theorem params_available:
  assumes "item_laws (k_Params k)" "frame_laws v (k_Params k) (k_bankKeeper k) sdk"
    and "Keeper_InitGenesis k s gs = (s0, Return ())" "chain k sdk s0 log s1"
  shows "\<exists>p. queryServer_Params k s1 (Some q) = Inr \<lparr>response_Params = p\<rparr> \<and>
    Keeper_ExportGenesis k s1 = Inr \<lparr>genesis_Params = p\<rparr>"
proof -
  have "Item_Get (k_Params k) s0 = (genesis_Params gs, None)"
    using assms(1,3) unfolding Keeper_InitGenesis_def item_laws_def by blast
  then have "snd (Item_Get (k_Params k) s1) = None"
    using chain_params [OF assms(1,2,4)] by simp
  then show ?thesis
    by (cases "Item_Get (k_Params k) s1")
      (simp add: queryServer_Params_def Keeper_ExportGenesis_def DefaultGenesis_def)
qed

lemma params_available_witness:
  "\<exists>s0 p. Keeper_InitGenesis (ledger_keeper []) empty_ledger DefaultGenesis = (s0, Return ()) \<and>
     queryServer_Params (ledger_keeper []) s0 (Some QueryParamsRequest) = Inr \<lparr>response_Params = p\<rparr>"
proof -
  obtain s0 where s0: "Keeper_InitGenesis (ledger_keeper []) empty_ledger DefaultGenesis = (s0, Return ())"
    using ledger_InitGenesis by blast
  from params_available [OF _ _ s0 chain.start, of ledger_view ledger_sdk QueryParamsRequest] s0
    ledger_item_laws [of ParamsKey] ledger_frame_laws [of ParamsKey "[]"]
  show ?thesis by auto
qed

text \<open>
  C12. Genesis through JSON: a genesis document the codec wrote is valid, and after the module
  has been initialised from it the export returns the same document.
\<close>
theorem genesis_document_round_trip:
  assumes "json_codec_ok cdc" "item_laws (k_Params k)" "MarshalJSON cdc gs = Inr bz"
    and "AppModule_InitGenesis cdc k s bz = (s', Return ())"
  shows "AppModule_ValidateGenesis cdc bz = None \<and> AppModule_ExportGenesis cdc k s' = Return bz"
proof -
  have u: "UnmarshalJSON cdc bz = Inr gs" using assms(1,3) by (simp add: json_codec_ok_def)
  from AppModule_export_init [OF assms(2) u assms(4)] assms(3) u show ?thesis
    by (simp add: AppModule_Export_Return AppModule_ValidateGenesis_def GenesisState_Validate_def
        Params_Validate_def)
qed

lemma genesis_document_round_trip_witness:
  "\<exists>s'. AppModule_InitGenesis \<lparr>MarshalJSON = (\<lambda>gs. Inr ''{}''), UnmarshalJSON = (\<lambda>t. Inr DefaultGenesis)\<rparr>
      (ledger_keeper []) empty_ledger ''{}'' = (s', Return ()) \<and>
    AppModule_ExportGenesis \<lparr>MarshalJSON = (\<lambda>gs. Inr ''{}''), UnmarshalJSON = (\<lambda>t. Inr DefaultGenesis)\<rparr>
      (ledger_keeper []) s' = Return ''{}''"
proof -
  let ?cdc = "\<lparr>MarshalJSON = (\<lambda>gs. Inr ''{}''), UnmarshalJSON = (\<lambda>t. Inr DefaultGenesis)\<rparr> :: json_codec"
  have "gs = DefaultGenesis" for gs
    using Params_only [of "genesis_Params gs"] Params_only [of DefaultParams]
    by (cases gs) (simp add: DefaultGenesis_def)
  then have ok: "json_codec_ok ?cdc" by (simp add: json_codec_ok_def) metis
  obtain s' where "Keeper_InitGenesis (ledger_keeper []) empty_ledger DefaultGenesis = (s', Return ())"
    using ledger_InitGenesis by blast
  then have i: "AppModule_InitGenesis ?cdc (ledger_keeper []) empty_ledger ''{}'' = (s', Return ())"
    by (simp add: AppModule_Init_Return)
  with genesis_document_round_trip [OF ok _ _ i] ledger_item_laws [of ParamsKey] show ?thesis by auto
qed

text \<open>
  Construction: a keeper that was provided has the governance address as its authority, or
  the configured one, an authority the address codec accepts, and its parameters under
  \<open>ParamsKey\<close>; the module holds that keeper. The construction never returns an error value: it
  panics when the codec rejects the authority or the schema cannot be built, and only then.
\<close>
lemma provided_keeper:
  "(case ProvideModule coll ma inp of
      Return (k, m) \<Rightarrow>
        GetAuthority k = (if module_Authority (in_Config inp) = '''' then NewModuleAddress ma GovModuleName
          else NewModuleAddressOrBech32Address ma (module_Authority (in_Config inp))) \<and>
        snd (BytesToString (k_addressCodec k) (GetAuthority k)) = None \<and>
        k_Params k = NewItem coll (in_StoreService inp) ParamsKey ''params'' (in_Cdc inp) \<and>
        k_bankKeeper k = in_BankKeeper inp \<and> am_keeper m = k
    | Fail e \<Rightarrow> False
    | Panic e \<Rightarrow>
        (\<exists>err. snd (BytesToString (in_AddressCodec inp) (module_authority ma (in_Config inp))) = Some err) \<or>
        Build coll (in_StoreService inp) [(ParamsKey, ''params'')] = Inl e)"
  by (auto simp: ProvideModule_def NewKeeper_def NewAppModule_def GetAuthority_def module_authority_def
      Let_def split: prod.split option.split sum.split)

text \<open>
  C13. The server over the wire refines the chain: whatever calls, of any bytes, reach a server with
  which the module registered its services, keeping what a call wrote exactly when it is answered
  takes the module through a run of \<open>chain\<close> over the messages the bytes decode to, in their order,
  executed where the call was answered; so what was shown of all runs holds of the served bytes. A
  message call is answered only if its bytes decode, and the bytes a client encoded decode to its
  request.
\<close>
theorem calls_refine_chain:
  assumes "grpc_laws ac g" "serve g (fst (RegisterServices g sdk exec am reg)) s0 calls = (log, s)"
  shows "chain (am_keeper am) sdk s0 (chain_log ac exec log) s \<and> map fst log = calls \<and>
    (\<forall>m bs. ((m, bs), True) \<in> set log \<longrightarrow> m = CallParams \<or> message_of ac exec m bs \<noteq> None) \<and>
    (\<forall>enc req bs. MsgMintTokens_ok ac enc req \<longrightarrow> MsgMintTokens_Marshal ac req = Inr bs \<longrightarrow>
       message_of ac exec CallMintTokens bs = Some (MintTokensMsg exec req)) \<and>
    (\<forall>req bs. MsgUpdateParams_ok req \<longrightarrow> MsgUpdateParams_Marshal req = Inr bs \<longrightarrow>
       message_of ac exec CallUpdateParams bs = Some (UpdateParamsMsg req))"
  using serve_refines [OF assms] message_of_encoded by blast

lemma calls_refine_chain_witness:
  "\<exists>bs log s. MsgMintTokens_Marshal decimal_codec mint_five = Inr bs \<and>
     serve (list_server decimal_codec)
       (fst (RegisterServices (list_server decimal_codec) ledger_sdk (keyring_host (Some bob))
         \<lparr>am_cdc = (), am_keeper = ledger_keeper [], am_authKeeper = (), am_bankKeeper = ledger_bank []\<rparr> []))
       empty_ledger [(CallMintTokens, bs)] = (log, s) \<and>
     chain (ledger_keeper []) ledger_sdk empty_ledger (chain_log decimal_codec (keyring_host (Some bob)) log) s \<and>
     map fst log = [(CallMintTokens, bs)] \<and>
     message_of decimal_codec (keyring_host (Some bob)) CallMintTokens bs = Some (MintTokensMsg (keyring_host (Some bob)) mint_five)"
proof -
  obtain bs where b: "MsgMintTokens_Marshal decimal_codec mint_five = Inr bs"
    using mint_five_bytes by blast
  let ?am = "\<lparr>am_cdc = (), am_keeper = ledger_keeper [], am_authKeeper = (), am_bankKeeper = ledger_bank []\<rparr>"
  obtain log s where l: "serve (list_server decimal_codec) (fst (RegisterServices (list_server decimal_codec) ledger_sdk
      (keyring_host (Some bob)) ?am [])) empty_ledger [(CallMintTokens, bs)] = (log, s)"
    by fastforce
  note c = calls_refine_chain [OF list_server_laws l]
  show ?thesis
    by (intro exI [of _ bs] exI [of _ log] exI [of _ s] conjI b l c [THEN conjunct2, THEN conjunct1]
        c [THEN conjunct2, THEN conjunct2, THEN conjunct2, THEN conjunct1, rule_format, OF mint_five_ok b])
      (use c [THEN conjunct1] in simp)
qed

text \<open>
  A mint a client encoded runs this module's handler on exactly the client's request; behind an
  interceptor, that is told the same path and given the request.
\<close>
lemma mint_request_delivered:
  assumes "MsgMintTokens_ok ac enc req" "MsgMintTokens_Marshal ac req = Inr bs" "grpc_laws ac g"
  shows "Call g (fst (RegisterServices g sdk exec am reg)) ''/feicoin.feicoin.v1.Msg/MintTokens'' s bs =
      map_reply MintReply (MintTokens (am_keeper am) sdk exec s (Some req)) \<and>
    Msg_MintTokens_Handler ac srv s (wire_dec (MsgMintTokens_Unmarshal ac) bs) None = srv s (Some req) \<and>
    Msg_MintTokens_Handler ac srv s (wire_dec (MsgMintTokens_Unmarshal ac) bs) (Some f) =
      f s req ''/feicoin.feicoin.v1.Msg/MintTokens'' (\<lambda>s req. srv s (Some req))"
proof (intro conjI)
  show "Call g (fst (RegisterServices g sdk exec am reg)) ''/feicoin.feicoin.v1.Msg/MintTokens'' s bs =
      map_reply MintReply (MintTokens (am_keeper am) sdk exec s (Some req))"
    by (rule mint_call_served [OF assms(3,1,2)])
  show "Msg_MintTokens_Handler ac srv s (wire_dec (MsgMintTokens_Unmarshal ac) bs) None = srv s (Some req)"
    unfolding Msg_MintTokens_Handler_def by (rule mint_call.delivered [OF assms(1,2)])
  show "Msg_MintTokens_Handler ac srv s (wire_dec (MsgMintTokens_Unmarshal ac) bs) (Some f) =
      f s req ''/feicoin.feicoin.v1.Msg/MintTokens'' (\<lambda>s req. srv s (Some req))"
    unfolding Msg_MintTokens_Handler_def by (rule mint_call.intercepted [OF assms(1,2)])
qed

lemma mint_request_delivered_witness:
  "\<exists>bs s'. MsgMintTokens_Marshal decimal_codec mint_five = Inr bs \<and>
     Call (list_server decimal_codec)
       (fst (RegisterServices (list_server decimal_codec) ledger_sdk (keyring_host (Some bob))
         \<lparr>am_cdc = (), am_keeper = ledger_keeper [], am_authKeeper = (), am_bankKeeper = ledger_bank []\<rparr> []))
       ''/feicoin.feicoin.v1.Msg/MintTokens'' empty_ledger bs = (s', Return (MintReply MsgMintTokensResponse))"
proof -
  obtain bs s' where b: "MsgMintTokens_Marshal decimal_codec mint_five = Inr bs"
      "MintTokens (ledger_keeper []) ledger_sdk (keyring_host (Some bob)) empty_ledger (Some mint_five) =
        (s', Return MsgMintTokensResponse)"
    using mint_five_bytes bob_mints by blast
  show ?thesis
    by (intro exI conjI, rule b(1), subst mint_request_delivered [OF mint_five_ok b(1) list_server_laws, THEN conjunct1])
      (simp add: b(2))
qed

section \<open>Exporting the state\<close>





text \<open>
  C16. Outstanding rewards at height zero: reinitialising validators with different addresses adds
  to the community pool, in each denomination, exactly the sum of their outstanding rewards,
  leaves them with none, and does not change those of other validators.
\<close>
theorem export_rewards_donated:
  assumes "pool_laws amt pool outstanding ks" "for_each (reinit_validator ks 0) vals s = (s', Return ())"
    and "map (\<lambda>v. StringToBytes (Staking_ValidatorAddressCodec ks) (OperatorAddress v)) vals = map Inr as" "distinct as"
  shows "pool s' d = pool s d + sum_list (map (\<lambda>a. outstanding s a d) as) \<and>
    outstanding s' = (\<lambda>a. if a \<in> set as then (\<lambda>d. 0) else outstanding s a)"
  by (rule reinit_validators_effect [OF assms])

lemma export_rewards_donated_witness:
  "\<exists>s'. for_each (reinit_validator world_keepers 0) (x_validators world_chain) (world_chain\<lparr>x_outstanding := \<lambda>a. 4\<rparr>)
       = (s', Return ()) \<and> x_pool s' = 18"
proof -
  let ?s = "world_chain\<lparr>x_outstanding := \<lambda>a. 4\<rparr>" and ?as = "[str_bytes ''val'', str_bytes ''other'']"
  obtain s' where s': "for_each (reinit_validator world_keepers 0) (x_validators world_chain) ?s = (s', Return ())"
    using world_reinit by blast
  have "distinct ?as" by code_simp
  from export_rewards_donated [OF world_pool_laws s' world_addresses this, of "''stake''"] s' show ?thesis
    by (simp add: stake_only_def world_chain_def)
qed

text \<open>
  C17. The export command: when it gives a result without an error, the home directory was set, the
  application was made by \<open>New\<close>, so with its keepers on their own stores and subspaces, at its latest
  state if no height (\<open>-1\<close>) was asked for and else loaded at that height; the preparation for height
  zero, with the keepers of this application, ran to its end if it was asked for and nothing else
  changed the state; and the result has the modules' genesis, the validators and the consensus
  parameters of the final state, and the height after the last one, or zero.
\<close>
theorem export_result:
  assumes "wiring_laws ops" "wiring_frame ops" "distinct (subspace_names nm inm)"
    and "appExport ops z nm inm parts home value logger db trace height zero allowed opts mods s = (t, Return (r, None))"
  shows "\<exists>path s0 s1 app. opts_Get opts home = OptString path \<and> path \<noteq> '''' \<and> is_viper opts \<and>
    New ops z nm inm logger db trace (height = -1) (value opts) [] s = (s0, Return app) \<and> keepers_wired ops nm inm app \<and>
    (if height = -1 then s1 = s0 else LoadHeight parts app s0 height = (s1, None)) \<and>
    (if zero then prepForZeroHeightGenesis (keepers_of parts app) (app_LastBlockHeight (export_of parts app) s1) allowed s1
        = (t, Return ()) else t = s1) \<and>
    Height r = (if zero then 0 else wrap64 (app_LastBlockHeight (export_of parts app) s1 + 1)) \<and>
    (\<exists>gs. ExportGenesisForModules (export_of parts app) t mods = Inr gs \<and>
       MarshalIndent (export_of parts app) gs = Inr (AppState r)) \<and>
    WriteValidators (export_of parts app) t = (Validators r, None) \<and>
    ConsensusParams r = GetConsensusParams (export_of parts app) t"
  using assms(4)
proof (rule appExport_ok)
  fix path s0 s1 app
  assume a: "opts_Get opts home = OptString path" "path \<noteq> ''''" "is_viper opts"
      "New ops z nm inm logger db trace (height = -1) (value opts) [] s = (s0, Return app)"
      "if height = -1 then s1 = s0 else LoadHeight parts app s0 height = (s1, None)"
    and e: "ExportAppStateAndValidators (keepers_of parts app) (export_of parts app) zero allowed mods s1 = (t, Return (r, None))"
  show ?thesis
    by (intro exI [of _ path] exI [of _ s0] exI [of _ s1] exI [of _ app] conjI)
      (use a New_wired [OF assms(1-3) a(4)] ExportAppStateAndValidators_ok [OF e] in \<open>simp_all\<close>)
qed

lemma export_result_witness:
  "\<exists>s' r. appExport wire_ops '''' sdk_names ibc_names world_parts ''home'' (\<lambda>opts. ''viper'') ''logger'' ''db'' ''trace''
     7 True [''feic1val''] world_viper [] world_chain = (s', Return (r, None)) \<and> Height r = 0"
proof -
  obtain s' r where e: "appExport wire_ops '''' sdk_names ibc_names world_parts ''home'' (\<lambda>opts. ''viper'') ''logger'' ''db''
      ''trace'' 7 True [''feic1val''] world_viper [] world_chain = (s', Return (r, None))"
    using world_export by blast
  from export_result [OF wire_laws wire_frame subspace_names_distinct e] e show ?thesis by auto
qed

text \<open>
  An allowed address that does not decode stops the export for height zero before anything
  is changed: the preparation panics, so the command has no result.
\<close>
lemma export_panics:
  assumes "addr \<in> set allowed" "StringToBytes (Registry_ValidatorAddressCodec ks) addr = Inl e"
  shows "\<exists>p. ExportAppStateAndValidators ks exp True allowed mods s = (s, Panic p)"
  using prep_undecodable [OF assms, of "app_LastBlockHeight exp s" s]
  by (auto simp: ExportAppStateAndValidators_def Let_def)

lemma export_panics_witness:
  "\<exists>p. ExportAppStateAndValidators world_keepers world_app True [''feic1val'', ''cosmos1x''] [] world_chain =
     (world_chain, Panic p)"
  by (rule export_panics [OF _ world_undecodable]) simp

lemma export_rejects:
  assumes "addr \<in> set allowed" "\<And>app. StringToBytes (Registry_ValidatorAddressCodec (keepers_of parts app)) addr = Inl e"
  shows "appExport ops z nm inm parts home value logger db trace height True allowed opts mods s \<noteq> (t, Return (r, None))"
proof
  assume "appExport ops z nm inm parts home value logger db trace height True allowed opts mods s = (t, Return (r, None))"
  then show False
  proof (rule appExport_ok)
    fix s1 app
    assume "ExportAppStateAndValidators (keepers_of parts app) (export_of parts app) True allowed mods s1 = (t, Return (r, None))"
    with export_panics [OF assms, of app "export_of parts app" mods s1] show False by auto
  qed
qed

section \<open>Test networks\<close>



text \<open>
  C19. The in-place test network without \<open>accounts-to-fund\<close>: the flag's default, the empty text,
  is split into one empty address and not into none, so with an address codec that rejects the
  empty text the command never succeeds.
\<close>
theorem testnet_default_fails:
  assumes "map_of in_place_flags flagAccountsToFund = Some dflt" "toString (appOpts (OptFlag flagAccountsToFund)) = dflt"
    and "AccountStringToBytes (ops app) '''' = Inl e"
  shows "newTestnetApp create ops bk mm newCoins toString appOpts s \<noteq> (s', Return app)"
proof -
  have "toString (appOpts (OptFlag flagAccountsToFund)) = ''''" using assms(1,2) by (simp add: in_place_flags_def)
  then have empty: "'''' \<in> set (accountsToFund args)" if "getCommandArgs toString appOpts = Inr args" for args
    using that by (simp add: getCommandArgs_accounts)
  show ?thesis
    by (auto simp: newTestnetApp_Return dest: initAppForTestnet_undecodable [OF empty assms(3)])
qed

lemma testnet_default_fails_witness:
  "newTestnetApp (\<lambda>s. (s, Return ())) (\<lambda>_. world_ops) (\<lambda>_. world_bank) ModuleName world_coins world_string (world_options '''')
     world_start \<noteq> (world_start, Return ())"
  by (rule testnet_default_fails [where e = "Msg ''decoding bech32 failed''", of "''''"])
    (simp_all add: in_place_flags_def world_string_def world_options_def world_ops_def ledger_address_def)

text \<open>
  C20. Stakes of the multi-node network: from a comma-separated list of amounts, validator \<open>i\<close>
  gets the \<open>i\<close>-th of the valid ones, counted from 0, and the default when there are no more. An
  invalid amount does not give its own validator the default: it moves the later ones up.
\<close>
theorem multi_node_stakes:
  assumes "GetString f flagValidatorsStakeAmount = (join '','' amounts, None)"
    and "amounts \<noteq> []" "list_all (\<lambda>t. CHR '','' \<notin> set t) amounts"
    and "\<And>a. a \<in> set (valid_amounts newInt amounts) \<Longrightarrow> newCoin a = Inr (mk a)"
  shows "\<exists>args. parse_args newInt newCoin f = Inr args \<and>
    (\<forall>i. valTokens dflt args i =
      (if 0 \<le> i \<and> i < len (valid_amounts newInt amounts) then mk (valid_amounts newInt amounts ! nat i) else dflt))"
  using stakes_of_flag_join [where newInt = newInt and newCoin = newCoin and mk = mk, OF assms(2,3)] assms(1,4)
  by (simp add: parse_args_def Let_def valTokens_def indexed_def len_def nat_less_iff)

lemma multi_node_stakes_witness:
  "\<exists>args. parse_args (\<lambda>t. if t = ''x'' then None else Some (length t)) Inr
       (set_flags [(flagValidatorsStakeAmount, ''1,x,333'')] 3) = Inr args \<and>
     valTokens 100 args 1 = 3 \<and> valTokens 100 args 2 = 100"
proof -
  let ?num = "\<lambda>t. if t = ''x'' then None else Some (length t)" and ?as = "[''1'', ''x'', ''333'']"
  have v: "valid_amounts ?num ?as = [1, 3]" by (simp add: valid_amounts_def List.map_filter_simps)
  have f: "GetString (set_flags [(flagValidatorsStakeAmount, ''1,x,333'')] 3) flagValidatorsStakeAmount =
      (join '','' ?as, None)"
    by (simp add: set_flags_def)
  have c: "list_all (\<lambda>t. CHR '','' \<notin> set t) ?as" by code_simp
  from multi_node_stakes [OF f _ c, where newInt = ?num and newCoin = Inr and mk = id and dflt = 100]
  show ?thesis unfolding v by auto
qed

text \<open>
  C21. Addresses of the multi-node network, without listed ports and with at most 1317 nodes: node
  \<open>i\<close> listens on the ports \<open>node_ports i\<close>, all of them port numbers and no two of them equal,
  within a node or between nodes; and the list of peers has, for each node in order, the port of
  that node's peer-to-peer address.
\<close>
theorem multi_node_addresses:
  assumes "parse_args newInt newCoin f = Inr args" "GetString f flagPorts = ('''', None)"
    and "a_numValidators args \<le> 1317"
  shows "(\<forall>i\<in>set [0..<nat (a_numValidators args)]. node_config args (int i) = \<lparr>
      RPC_ListenAddress = ''tcp://127.0.0.1:'' @ Itoa (node_ports (int i) ! 0),
      P2P_ListenAddress = ''tcp://0.0.0.0:'' @ Itoa (node_ports (int i) ! 1),
      ProxyApp = ''tcp://127.0.0.1:'' @ Itoa (node_ports (int i) ! 2),
      PrometheusListenAddr = '':'' @ Itoa (node_ports (int i) ! 3)\<rparr> \<and>
    node_app_config args (int i) = \<lparr>
      GRPC_Address = a_startingIPAddress args @ '':'' @ Itoa (node_ports (int i) ! 4),
      API_Address = ''tcp://localhost:'' @ Itoa (node_ports (int i) ! 5)\<rparr>) \<and>
    distinct (concat (map (\<lambda>i. node_ports (int i)) [0..<nat (a_numValidators args)])) \<and>
    (\<forall>i\<in>set [0..<nat (a_numValidators args)]. \<forall>p\<in>set (node_ports (int i)). 1 \<le> p \<and> p \<le> 65535) \<and>
    persistentPeers args ids =
      join '','' (map (\<lambda>i. ids (int i) @ ''@'' @ a_startingIPAddress args @ '':'' @ Itoa (node_ports (int i) ! 1))
        [0..<nat (a_numValidators args)])"
proof -
  have p: "port_of args (int i) = Itoa (26657 - 3 * int i)" if "i < nat (a_numValidators args)" for i
    using assms(1,2) that
    by (auto simp: parse_args_Inr default_ports port_of_def indexed_def len_def nat_less_iff)
  show ?thesis
  proof (intro conjI)
    show "distinct (concat (map (\<lambda>i. node_ports (int i)) [0..<nat (a_numValidators args)]))"
      by (rule distinct_node_ports) (use assms(3) in simp)
    show "\<forall>i\<in>set [0..<nat (a_numValidators args)]. \<forall>p\<in>set (node_ports (int i)). 1 \<le> p \<and> p \<le> 65535"
      by (intro ballI, rule node_ports_range) (use assms(3) in auto)
  qed (simp_all add: p node_config_def node_app_config_def node_ports_def persistentPeers_join memo_def)
qed

lemma multi_node_addresses_witness:
  "\<exists>args :: nat initArgs. parse_args (\<lambda>t. None) Inr (set_flags [(flagStartingIPAddress, ''localhost'')] 2) = Inr args \<and>
     persistentPeers args (\<lambda>i. ''id'') = ''id@localhost:26656,id@localhost:26653''"
proof -
  obtain args :: "nat initArgs" where
    args: "parse_args (\<lambda>t. None) Inr (set_flags [(flagStartingIPAddress, ''localhost'')] 2) = Inr args"
    and a: "a_numValidators args = 2" "a_startingIPAddress args = ''localhost''"
    by (simp add: parse_args_def Let_def stakes_of_flag_def set_flags_def flagStartingIPAddress_def
        flagValidatorsStakeAmount_def)
  have "GetString (set_flags [(flagStartingIPAddress, ''localhost'')] 2) flagPorts = ('''', None)"
    by code_simp
  from multi_node_addresses [OF args this, where ids = "\<lambda>i. ''id''", THEN conjunct2, THEN conjunct2, THEN conjunct2]
  have "persistentPeers args (\<lambda>i. ''id'') =
      join '','' (map (\<lambda>i. ''id'' @ ''@'' @ ''localhost'' @ '':'' @ Itoa (node_ports (int i) ! 1)) [0..<nat 2])"
    by (simp only: a)
  also have "\<dots> = ''id@localhost:26656,id@localhost:26653''"
    by (simp add: upt_rec node_ports_def peer_ports)
  finally show ?thesis using args by blast
qed

text \<open>
  C22. The loop over the nodes: when it returns, the text of peers it has built up is the list of
  the nodes' identities and addresses in the nodes' order, separated by commas; the transaction
  files are named after the identities; there is a genesis file and an account for each node, so
  that the later loops index within them; and every account has the same coins.
\<close>
theorem node_loop:
  assumes "for_each (init_node os ops args) [0..<nat (a_numValidators args)] (init_acc_zero ops args cfg, h) =
      ((acc, h'), Return ())"
  shows "length (nodeIDs acc) = nat (a_numValidators args) \<and>
    peers acc = persistentPeers args (\<lambda>i. nodeIDs acc ! nat i) \<and>
    gentxsFiles acc = map (gentx_file args (nodeIDs acc)) [0..<nat (a_numValidators args)] \<and>
    length (genFiles acc) = nat (a_numValidators args) \<and> length (genAccounts acc) = nat (a_numValidators args) \<and>
    map (\<lambda>b. Inr (balance_Coins b)) (genBalances acc) = replicate (nat (a_numValidators args)) (account_coins ops)"
  by (rule init_nodes_collect [OF assms])

lemma node_loop_witness:
  "\<exists>acc h'. for_each (init_node world_os world_node_ops one_node) [0..<nat (a_numValidators one_node)]
       (init_acc_zero world_node_ops one_node world_cfg, empty_machine) = ((acc, h'), Return ()) \<and>
     peers acc = persistentPeers one_node (\<lambda>i. nodeIDs acc ! nat i)"
  using world_loop node_loop by metis

text \<open>
  Distribution of the genesis transactions: when every node's directory for them exists and
  holds the node's own transaction, no directory is in the way of a copy, and no file operation
  fails for outside reasons, the loops return, and then every node's directory has every node's
  transaction; its own stays as it was.
\<close>
lemma gentxs_distributed:
  assumes "os_ok os" "a_outputDir args \<noteq> ''''" "resolve os (a_outputDir args) = Inr out"
    and "distinct ids" "list_all (\<lambda>t. CHR ''/'' \<notin> set t) ids" "length ids = nat (a_numValidators args)"
    and "\<And>c p. fault os c p = None"
    and "\<And>i. i < length ids \<Longrightarrow> stat os fs (gentxsDir args (int i)) = Some Dir"
    and "\<And>i. i < length ids \<Longrightarrow> \<exists>c. stat os fs (gentx_file args ids i) = Some (File c)"
    and "\<And>i j. i < length ids \<Longrightarrow> j < length ids \<Longrightarrow> stat os fs (gentx_copy args i (ids ! j)) \<noteq> Some Dir"
  shows "\<exists>fs'. copy_gentxs os args (map (gentx_file args ids) [0..<length ids]) fs = (fs', Return ()) \<and>
    (\<forall>i < length ids. \<forall>j < length ids. stat os fs' (gentx_copy args i (ids ! j)) = stat os fs (gentx_file args ids j))"
  by (rule copy_gentxs_all [OF assms])

lemma gentxs_distributed_witness:
  "\<exists>fs'. copy_gentxs world_os two_nodes (map (gentx_file two_nodes [''a'', ''b'']) [0..<2]) two_files = (fs', Return ()) \<and>
     stat world_os fs' (gentx_copy two_nodes 1 ''a'') = Some (File [1])"
proof -
  have d: "distinct [''a'', ''b'']" "list_all (\<lambda>t. CHR ''/'' \<notin> set t) [''a'', ''b'']"
    "length [''a'', ''b''] = nat (a_numValidators two_nodes)" by (simp_all add: two_nodes_out)
  have o: "a_outputDir two_nodes \<noteq> ''''" "resolve world_os (a_outputDir two_nodes) = Inr [''w'', ''t'']"
    by (simp_all add: two_nodes_out)
  obtain fs' where fs': "copy_gentxs world_os two_nodes (map (gentx_file two_nodes [''a'', ''b'']) [0..<length [''a'', ''b'']])
      two_files = (fs', Return ())"
    and c: "\<forall>i < length [''a'', ''b'']. \<forall>j < length [''a'', ''b'']. stat world_os fs' (gentx_copy two_nodes i ([''a'', ''b''] ! j)) =
      stat world_os two_files (gentx_file two_nodes [''a'', ''b''] j)"
    using gentxs_distributed [OF world_os_ok o d world_fault two_files_ready] by blast
  from c [rule_format, of 1 0] have "stat world_os fs' (gentx_copy two_nodes 1 ''a'') = Some (File [1])"
    by (simp add: gentx_file_copy two_files_stat)
  with fs' show ?thesis by (auto simp: numeral_2_eq_2)
qed



text \<open>
  C24. One genesis: when the whole command returns, the genesis files of all nodes exist and have
  the same contents, made of the chain's name, one application state and one time.
\<close>
theorem one_genesis:
  assumes "collect_laws os genesis_bytes ops" "a_outputDir args \<noteq> ''''" "resolve os (a_outputDir args) = Inr out"
    and "initTestnetFiles os ops authName bankName cfg args h = (h', Return ())"
  shows "\<exists>s. \<forall>i < nat (a_numValidators args).
    stat os (files h') (Join [nodeDir args (int i), ''config'', ''genesis.json'']) =
      Some (File (genesis_bytes (a_chainID (with_chain_id ops args)) s (Now ops)))"
  by (rule initTestnetFiles_genesis [OF assms])

lemma one_genesis_witness:
  "\<exists>h s. initTestnetFiles world_os world_node_ops ''auth'' ''bank'' world_cfg one_node empty_machine = (h, Return ()) \<and>
     stat world_os (files h) (Join [nodeDir one_node 0, ''config'', ''genesis.json'']) =
       Some (File (world_genesis ''c'' s ''now''))"
proof -
  obtain h where h: "initTestnetFiles world_os world_node_ops ''auth'' ''bank'' world_cfg one_node empty_machine = (h, Return ())"
    using one_node_command by blast
  have o: "a_outputDir one_node \<noteq> ''''" "resolve world_os (a_outputDir one_node) = Inr [''w'', ''t'']" by code_simp+
  have "a_chainID (with_chain_id world_node_ops one_node) = ''c''" "Now world_node_ops = ''now''" "nat (a_numValidators one_node) = 1"
    by (simp_all add: with_chain_id_def one_node_def world_node_ops_def)
  with one_genesis [OF world_collect_laws o h] h show ?thesis by auto
qed



text \<open>
  The subdirectory test: for paths that stand for the places \<open>s\<close> and \<open>d\<close>, it says whether \<open>s\<close> is
  \<open>d\<close> or below it, except that it says no when the element after \<open>d\<close> begins with two dots.
\<close>
lemma subdirectory_test:
  assumes "os_ok os" "resolve os src = Inr s" "resolve os dstDir = Inr d"
  shows "isSubDir os src dstDir = Inr (\<exists>rest. s = d @ rest \<and> (rest = [] \<or> take 2 (hd rest) \<noteq> ''..''))"
  by (rule isSubDir_iff [OF assms])

lemma subdirectory_test_witness:
  "isSubDir world_os ''t/../t/v0//x.json'' ''./t/v0'' = Inr True \<and> isSubDir world_os ''t/v0/..x'' ''t/v0'' = Inr False"
proof -
  have r: "resolve world_os ''t/../t/v0//x.json'' = Inr [''w'', ''t'', ''v0'', ''x.json'']"
    "resolve world_os ''./t/v0'' = Inr [''w'', ''t'', ''v0'']" "resolve world_os ''t/v0'' = Inr [''w'', ''t'', ''v0'']"
    "resolve world_os ''t/v0/..x'' = Inr [''w'', ''t'', ''v0'', ''..x'']"
    by code_simp+
  show ?thesis
    using subdirectory_test [OF world_os_ok r(1,2)] subdirectory_test [OF world_os_ok r(4,3)] by simp
qed

section \<open>The messages on the wire\<close>

text \<open>
  C26. Round trip of \<open>MsgMintTokens\<close>: \<open>Marshal\<close> returns the wire format of the message, of
  exactly \<open>Size\<close> bytes, and \<open>Unmarshal\<close> of them into a new message gives the message back; so does
  the protobuf library's way, which resets a message that was in use and decodes into it.
\<close>
theorem mint_round_trip:
  assumes "MsgMintTokens_ok ac enc m"
  shows "\<exists>bs. MsgMintTokens_Marshal ac m = Inr bs \<and> bs = fields_bytes (MsgMintTokens_msg enc m) \<and>
    len bs = MsgMintTokens_Size ac (Some m) \<and> MsgMintTokens_XXX_Size ac (Some m) = len bs \<and>
    MsgMintTokens_Unmarshal ac (MsgMintTokens_zero ac) bs = (m, None) \<and>
    MsgMintTokens_XXX_Unmarshal ac (MsgMintTokens_Reset ac used) bs = (m, None)"
  using mint_msg.marshal_eq [OF assms] mint_msg.size_fields [OF assms] mint_msg.unmarshal_msg [OF assms]
  by (simp add: MsgMintTokens_Marshal_def MsgMintTokens_Unmarshal_def MsgMintTokens_XXX_Size_def
      MsgMintTokens_XXX_Unmarshal_def MsgMintTokens_Reset_def)

lemma mint_round_trip_witness:
  "\<exists>bs. MsgMintTokens_Marshal decimal_codec mint_five = Inr bs \<and>
     MsgMintTokens_Unmarshal decimal_codec (MsgMintTokens_zero decimal_codec) bs = (mint_five, None)"
  using mint_round_trip [OF mint_five_ok] by blast

text \<open>
  No panic: \<open>Unmarshal\<close> of any bytes, into any receiver, returns, with a message and either
  no error or one of the error values of the code; it neither indexes outside its input nor
  stops advancing.
\<close>
lemma mint_unmarshal_safe:
  assumes "len_ok d"
  shows "snd (MsgMintTokens_Unmarshal ac m d) \<notin> {Some IndexPanic, Some Diverges}"
  using mint_msg.unmarshal_error [of ac m d] assms
  by (cases "MsgMintTokens_Unmarshal ac m d") (auto simp: MsgMintTokens_Unmarshal_def decoder_error_def)

lemma mint_unmarshal_safe_witness:
  "snd (MsgMintTokens_Unmarshal decimal_codec mint_five [0xff, 0x0b]) \<notin> {Some IndexPanic, Some Diverges}"
  by (rule mint_unmarshal_safe) (simp add: len_ok_def)

text \<open>
  C27. Refinement: \<open>Unmarshal\<close> of any sequence of well-formed fields, known or unknown, in any
  order and repeated, does to the receiver what the fields mean one after the other.
\<close>
theorem mint_unmarshal_fields:
  assumes "list_all field_ok ws" "len_ok (fields_bytes ws)"
    and "apply_fields (MsgMintTokens_fields ac) ws m = Some m'"
  shows "MsgMintTokens_Unmarshal ac m (fields_bytes ws) = (m', None)"
  unfolding MsgMintTokens_Unmarshal_def by (rule mint_msg.unmarshal_fields [OF assms])

lemma mint_unmarshal_fields_witness:
  "MsgMintTokens_Unmarshal decimal_codec mint_five
     (fields_bytes [WLen 4 (str_bytes ''a''), WGroup 9 [WVarint 1 300] 9, WLen 4 (str_bytes ''b'')])
   = (mint_five\<lparr>mint_Denom := ''b''\<rparr>, None)"
proof (rule mint_unmarshal_fields)
  show "list_all field_ok [WLen 4 (str_bytes ''a''), WGroup 9 [WVarint 1 300] 9, WLen 4 (str_bytes ''b'')]"
    by (simp add: field_ok_def)
  show "len_ok (fields_bytes [WLen 4 (str_bytes ''a''), WGroup 9 [WVarint 1 300] 9, WLen 4 (str_bytes ''b'')])"
    by code_simp
  show "apply_fields (MsgMintTokens_fields decimal_codec)
      [WLen 4 (str_bytes ''a''), WGroup 9 [WVarint 1 300] 9, WLen 4 (str_bytes ''b'')] mint_five =
      Some (mint_five\<lparr>mint_Denom := ''b''\<rparr>)"
    by (simp add: apply_field_def MsgMintTokens_fields_def)
qed

text \<open>
  Unknown fields: fields of numbers the type does not have, around a message's own, are
  skipped, whatever they hold.
\<close>
lemma mint_unknown_fields:
  assumes "MsgMintTokens_ok ac enc m" "list_all field_ok (us @ vs)"
    and "list_all (\<lambda>w. 4 < field_number w) (us @ vs)"
    and "len_ok (fields_bytes (us @ MsgMintTokens_msg enc m @ vs))"
  shows "MsgMintTokens_Unmarshal ac (MsgMintTokens_zero ac) (fields_bytes (us @ MsgMintTokens_msg enc m @ vs))
    = (m, None)"
proof -
  have "list_all (\<lambda>w. MsgMintTokens_fields ac (int (field_number w)) = None) (us @ vs)"
    using assms(3) by (rule list.pred_mono_strong) (simp add: MsgMintTokens_fields_def)
  with mint_msg.unknown_ignored [OF assms(1,2) this assms(4)] show ?thesis
    by (simp add: MsgMintTokens_Unmarshal_def)
qed

lemma mint_unknown_fields_witness:
  "MsgMintTokens_Unmarshal decimal_codec (MsgMintTokens_zero decimal_codec)
     (fields_bytes ([WFixed32 5 [1, 2, 3, 4]] @ MsgMintTokens_msg decimal_enc mint_five @ [WVarint 77 1]))
   = (mint_five, None)"
proof (rule mint_unknown_fields [OF mint_five_ok])
  show "len_ok (fields_bytes ([WFixed32 5 [1, 2, 3, 4]] @ MsgMintTokens_msg decimal_enc mint_five @ [WVarint 77 1]))"
    by code_simp
qed (simp_all add: field_ok_def)

text \<open>
  Concatenation: decoding the concatenation of two inputs that decode is decoding the first
  and then the second into the result.
\<close>
lemma mint_unmarshal_concat:
  assumes "MsgMintTokens_Unmarshal ac m d = (m1, None)" "MsgMintTokens_Unmarshal ac m1 t = (m2, None)"
    and "len_ok (d @ t)"
  shows "MsgMintTokens_Unmarshal ac m (d @ t) = (m2, None)"
  using assms unfolding MsgMintTokens_Unmarshal_def by (rule mint_msg.unmarshal_append)

lemma mint_unmarshal_concat_witness:
  "MsgMintTokens_Unmarshal decimal_codec mint_five ([0x22, 1, 97] @ [0x0a, 1, 98]) =
     (mint_five\<lparr>mint_Denom := ''a'', mint_Authority := ''b''\<rparr>, None)"
proof (rule mint_unmarshal_concat)
  show "MsgMintTokens_Unmarshal decimal_codec mint_five [0x22, 1, 97] = (mint_five\<lparr>mint_Denom := ''a''\<rparr>, None)"
    "MsgMintTokens_Unmarshal decimal_codec (mint_five\<lparr>mint_Denom := ''a''\<rparr>) [0x0a, 1, 98] =
      (mint_five\<lparr>mint_Denom := ''a'', mint_Authority := ''b''\<rparr>, None)"
    by code_simp+
qed (simp add: len_ok_def)

text \<open>
  Injectivity: two messages with the same encoding are equal.
\<close>
lemma mint_marshal_injective:
  assumes "MsgMintTokens_ok ac enc m" "MsgMintTokens_ok ac enc m'"
    and "MsgMintTokens_Marshal ac m = MsgMintTokens_Marshal ac m'"
  shows "m = m'"
  using mint_msg.marshal_inj [OF assms(1,2)] assms(3) by (simp add: MsgMintTokens_Marshal_def)

lemma mint_marshal_injective_witness: "mint_five = mint_five\<lparr>mint_Amount := 5\<rparr>"
  by (rule mint_marshal_injective [OF mint_five_ok]) (use mint_five_ok in \<open>simp_all add: mint_five_def\<close>)

text \<open>
  \<open>MarshalTo\<close> writes the encoding to the front of the caller's buffer and leaves the rest
  of it alone; \<open>MarshalToSizedBuffer\<close> writes it to the end and leaves what is before.
\<close>
lemma mint_marshal_frame:
  assumes "MsgMintTokens_ok ac enc m" "MsgMintTokens_Marshal ac m = Inr bs" "length mid = length bs"
  shows "MsgMintTokens_MarshalTo ac m (mid @ suf) = Inr (bs @ suf, len bs) \<and>
    MsgMintTokens_MarshalToSizedBuffer ac m (pre @ mid) = Inr (pre @ bs, len bs)"
proof (rule conjI)
  have bs: "bs = fields_bytes (MsgMintTokens_msg enc m)"
    using assms(2) mint_msg.marshal_eq [OF assms(1)] by (simp add: MsgMintTokens_Marshal_def)
  show "MsgMintTokens_MarshalTo ac m (mid @ suf) = Inr (bs @ suf, len bs)"
    using mint_msg.marshal_to_eq [OF assms(1)] assms(3) unfolding bs MsgMintTokens_MarshalTo_def by blast
  show "MsgMintTokens_MarshalToSizedBuffer ac m (pre @ mid) = Inr (pre @ bs, len bs)"
    using mint_msg.mtsb_fields [OF assms(1)] assms(3) unfolding bs by blast
qed

lemma mint_marshal_frame_witness:
  "\<exists>bs. MsgMintTokens_Marshal decimal_codec mint_five = Inr bs \<and>
     MsgMintTokens_MarshalTo decimal_codec mint_five (replicate 30 0 @ [1, 2]) = Inr (bs @ [1, 2], 30)"
proof -
  obtain bs where bs: "MsgMintTokens_Marshal decimal_codec mint_five = Inr bs" "length bs = 30"
    using mint_five_bytes by (simp add: bob_def)
  with mint_marshal_frame [OF mint_five_ok bs(1), of "replicate 30 0" "[1, 2]"] show ?thesis
    by (simp add: len_def)
qed

text \<open>
  \<open>XXX_Marshal\<close> fills the slice from its capacity's end but returns its first bytes: with
  a capacity of exactly the size the result is the encoding, and with spare capacity it is cut
  from the bytes that were there before, followed by the start of the encoding.
\<close>
lemma mint_xxx_marshal:
  assumes "MsgMintTokens_ok ac enc m" "MsgMintTokens_Marshal ac m = Inr bs" "length mid = length bs"
  shows "MsgMintTokens_XXX_Marshal ac m mid = Inr bs \<and>
    MsgMintTokens_XXX_Marshal ac m (pre @ mid) = Inr (take (length bs) (pre @ bs))"
proof -
  have bs: "bs = fields_bytes (MsgMintTokens_msg enc m)"
    using assms(2) mint_msg.marshal_eq [OF assms(1)] by (simp add: MsgMintTokens_Marshal_def)
  then have "MsgMintTokens_XXX_Marshal ac m (pre @ mid) = Inr (take (length bs) (pre @ bs))" for pre
    using mint_msg.xxx_marshal_eq [OF assms(1)] assms(3) unfolding bs MsgMintTokens_XXX_Marshal_def by blast
  from this [of "[]"] this [of pre]
  show ?thesis by simp
qed

lemma mint_xxx_marshal_witness:
  "\<exists>bs. MsgMintTokens_Marshal decimal_codec mint_five = Inr bs \<and>
     MsgMintTokens_XXX_Marshal decimal_codec mint_five (replicate 30 0) = Inr bs"
proof -
  obtain bs where bs: "MsgMintTokens_Marshal decimal_codec mint_five = Inr bs" "length bs = 30"
    using mint_five_bytes by (simp add: bob_def)
  with mint_xxx_marshal [OF mint_five_ok bs(1), of "replicate 30 0"] show ?thesis by simp
qed

text \<open>
  C28. Field numbers are read as 32 bits: a field whose number exceeds the denomination's by a
  multiple of \<open>2^32\<close> is taken for the denomination, so one message has encodings beyond the
  one \<open>Marshal\<close> writes.
\<close>
theorem mint_field_number_alias:
  assumes "4 + j * 2 ^ 32 < (2 :: nat) ^ 61" "len_ok (wf_bytes (WLen (4 + j * 2 ^ 32) (str_bytes t)))"
  shows "MsgMintTokens_Unmarshal ac m (wf_bytes (WLen (4 + j * 2 ^ 32) (str_bytes t))) =
    (m\<lparr>mint_Denom := t\<rparr>, None)"
  unfolding MsgMintTokens_Unmarshal_def
  using mint_msg.unmarshal_alias [of ac 4 "(''Denom'', \<lambda>m bs. (m\<lparr>mint_Denom := bytes_str bs\<rparr>, None))" m
      "str_bytes t" "m\<lparr>mint_Denom := t\<rparr>" j] assms
  by (simp add: MsgMintTokens_fields_def)

lemma mint_field_number_alias_witness:
  "MsgMintTokens_Unmarshal decimal_codec mint_five (wf_bytes (WLen (4 + 1 * 2 ^ 32) (str_bytes ''x''))) =
    (mint_five\<lparr>mint_Denom := ''x''\<rparr>, None)"
proof (rule mint_field_number_alias)
  show "len_ok (wf_bytes (WLen (4 + 1 * 2 ^ 32) (str_bytes ''x'')))"
    using length_varint_bytes_le [of "tag_value (4 + 1 * 2 ^ 32) 2"]
    by (simp add: wf_bytes_def tag_bytes_def tag_value_def len_ok_def len_def varint_bytes.simps [of "Suc 0"])
qed simp

text \<open>
  Round trip of \<open>MsgUpdateParams\<close>, with its nested message: the encoding has \<open>Size\<close> bytes
  and is read back as the message.
\<close>
lemma update_round_trip:
  assumes "MsgUpdateParams_ok m"
  shows "\<exists>bs. MsgUpdateParams_Marshal m = Inr bs \<and> len bs = MsgUpdateParams_Size (Some m) \<and>
    MsgUpdateParams_Unmarshal MsgUpdateParams_zero bs = (m, None)"
  using update_msg.marshal_eq [OF assms] update_msg.size_fields [OF assms] update_msg.unmarshal_msg [OF assms]
  by (simp add: MsgUpdateParams_Marshal_def MsgUpdateParams_Unmarshal_def)

lemma update_round_trip_witness:
  "\<exists>bs. MsgUpdateParams_Marshal update_by_gov = Inr bs \<and>
     MsgUpdateParams_Unmarshal MsgUpdateParams_zero bs = (update_by_gov, None)"
proof -
  have "MsgUpdateParams_ok update_by_gov" by code_simp
  from update_round_trip [OF this] show ?thesis by blast
qed

text \<open>
  Round trip of the module's configuration object.
\<close>
lemma module_round_trip:
  assumes "Module_ok m"
  shows "\<exists>bs. Module_Marshal m = Inr bs \<and> len bs = Module_Size (Some m) \<and>
    Module_Unmarshal Module_zero bs = (m, None)"
  using module_msg.marshal_eq [OF assms] module_msg.size_fields [OF assms] module_msg.unmarshal_msg [OF assms]
  by (simp add: Module_Marshal_def Module_Unmarshal_def)

lemma module_round_trip_witness:
  "\<exists>bs. Module_Marshal \<lparr>module_Authority = ''group''\<rparr> = Inr bs \<and>
     Module_Unmarshal Module_zero bs = (\<lparr>module_Authority = ''group''\<rparr>, None)"
proof -
  have "Module_ok \<lparr>module_Authority = ''group''\<rparr>" by code_simp
  from module_round_trip [OF this] show ?thesis by blast
qed

text \<open>
  Round trips of the genesis state and of the query's response; both are written as the two
  bytes of an empty field 1.
\<close>
lemma genesis_and_response_round_trip:
  "GenesisState_Marshal gs = Inr [0x0a, 0] \<and>
      GenesisState_Unmarshal GenesisState_zero [0x0a, 0] = (gs, None) \<and>
    QueryParamsResponse_Marshal rsp = Inr [0x0a, 0] \<and>
      QueryParamsResponse_Unmarshal QueryParamsResponse_zero [0x0a, 0] = (rsp, None)"
proof -
  have b: "fields_bytes [WLen 1 []] = [0x0a, 0]" by code_simp
  have "GenesisState_Marshal gs = Inr [0x0a, 0] \<and>
      GenesisState_Unmarshal GenesisState_zero [0x0a, 0] = (gs, None)"
    using genesis.marshal_eq [where m = gs] genesis.unmarshal_msg [where m = gs]
    by (simp add: GenesisState_Marshal_def GenesisState_Unmarshal_def GenesisState_msg_def b [simplified])
  moreover have "QueryParamsResponse_Marshal rsp = Inr [0x0a, 0] \<and>
      QueryParamsResponse_Unmarshal QueryParamsResponse_zero [0x0a, 0] = (rsp, None)"
    using query_response.marshal_eq [where m = rsp] query_response.unmarshal_msg [where m = rsp]
    by (simp add: QueryParamsResponse_Marshal_def QueryParamsResponse_Unmarshal_def
        QueryParamsResponse_msg_def b [simplified])
  ultimately show ?thesis by blast
qed

text \<open>
  C29. No panic in the decoders: every generated \<open>Unmarshal\<close> of the module, on any bytes and
  receiver, returns without a panic and without an iteration that stands still.
\<close>
theorem unmarshal_safe:
  assumes "len_ok d"
  shows "snd (MsgMintTokens_Unmarshal ac m0 d) \<notin> {Some IndexPanic, Some Diverges} \<and>
    snd (MsgUpdateParams_Unmarshal m1 d) \<notin> {Some IndexPanic, Some Diverges} \<and>
    snd (MsgUpdateParamsResponse_Unmarshal m2 d) \<notin> {Some IndexPanic, Some Diverges} \<and>
    snd (MsgMintTokensResponse_Unmarshal m3 d) \<notin> {Some IndexPanic, Some Diverges} \<and>
    snd (GenesisState_Unmarshal m4 d) \<notin> {Some IndexPanic, Some Diverges} \<and>
    snd (Params_Unmarshal m5 d) \<notin> {Some IndexPanic, Some Diverges} \<and>
    snd (QueryParamsRequest_Unmarshal m6 d) \<notin> {Some IndexPanic, Some Diverges} \<and>
    snd (QueryParamsResponse_Unmarshal m7 d) \<notin> {Some IndexPanic, Some Diverges} \<and>
    snd (Module_Unmarshal m8 d) \<notin> {Some IndexPanic, Some Diverges}"
proof (intro conjI)
  have *: "snd r \<notin> {Some IndexPanic, Some Diverges}"
    if "\<And>m' e. r = (m', Some e) \<Longrightarrow> decoder_error e" for r :: "'x \<times> perr option"
    using that by (cases r) (auto simp: decoder_error_def)
  show "snd (MsgMintTokens_Unmarshal ac m0 d) \<notin> {Some IndexPanic, Some Diverges}"
    by (rule mint_unmarshal_safe [OF assms])
  show "snd (MsgUpdateParams_Unmarshal m1 d) \<notin> {Some IndexPanic, Some Diverges}"
    by (rule *) (rule update_msg.unmarshal_error [OF _ assms], simp add: MsgUpdateParams_Unmarshal_def)
  show "snd (MsgUpdateParamsResponse_Unmarshal m2 d) \<notin> {Some IndexPanic, Some Diverges}"
    by (rule *) (rule update_response.unmarshal_error [OF _ assms], simp add: MsgUpdateParamsResponse_Unmarshal_def)
  show "snd (MsgMintTokensResponse_Unmarshal m3 d) \<notin> {Some IndexPanic, Some Diverges}"
    by (rule *) (rule mint_response.unmarshal_error [OF _ assms], simp add: MsgMintTokensResponse_Unmarshal_def)
  show "snd (GenesisState_Unmarshal m4 d) \<notin> {Some IndexPanic, Some Diverges}"
    by (rule *) (rule genesis.unmarshal_error [OF _ assms], simp add: GenesisState_Unmarshal_def)
  show "snd (Params_Unmarshal m5 d) \<notin> {Some IndexPanic, Some Diverges}"
    by (rule *) (rule params.unmarshal_error [OF _ assms], simp add: Params_Unmarshal_def)
  show "snd (QueryParamsRequest_Unmarshal m6 d) \<notin> {Some IndexPanic, Some Diverges}"
    by (rule *) (rule query_request.unmarshal_error [OF _ assms], simp add: QueryParamsRequest_Unmarshal_def)
  show "snd (QueryParamsResponse_Unmarshal m7 d) \<notin> {Some IndexPanic, Some Diverges}"
    by (rule *) (rule query_response.unmarshal_error [OF _ assms], simp add: QueryParamsResponse_Unmarshal_def)
  show "snd (Module_Unmarshal m8 d) \<notin> {Some IndexPanic, Some Diverges}"
    by (rule *) (rule module_msg.unmarshal_error [OF _ assms], simp add: Module_Unmarshal_def)
qed

lemma unmarshal_safe_witness:
  "snd (GenesisState_Unmarshal GenesisState_zero [0x0a, 0xff]) \<notin> {Some IndexPanic, Some Diverges}"
proof -
  have "len_ok [0x0a, 0xff]" by (simp add: len_ok_def)
  from unmarshal_safe [OF this] show ?thesis by blast
qed

text \<open>
  C30. Skipping is exact: each file's \<open>skip\<close>, at the start of a well-formed field of any wire
  type, with groups nested to any depth, returns the length of that field, whatever follows.
\<close>
theorem skip_field_exact:
  assumes "wf_ok w" "len_ok (wf_bytes w @ suf)"
  shows "skipTx (wf_bytes w @ suf) = Inr (len (wf_bytes w)) \<and>
    skipGenesis (wf_bytes w @ suf) = Inr (len (wf_bytes w)) \<and>
    skipParams (wf_bytes w @ suf) = Inr (len (wf_bytes w)) \<and>
    skipQuery (wf_bytes w @ suf) = Inr (len (wf_bytes w)) \<and>
    skipModule (wf_bytes w @ suf) = Inr (len (wf_bytes w))"
  using skip_exact [OF assms]
  by (simp add: skipTx_def skipGenesis_def skipParams_def skipQuery_def skipModule_def)

lemma skip_field_exact_witness:
  "skipTx (wf_bytes (WGroup 1 [WGroup 2 [WVarint 3 5] 7, WLen 4 [1, 2]] 1) @ [9]) =
     Inr (len (wf_bytes (WGroup 1 [WGroup 2 [WVarint 3 5] 7, WLen 4 [1, 2]] 1)))"
proof -
  have "wf_ok (WGroup 1 [WGroup 2 [WVarint 3 5] 7, WLen 4 [1, 2]] 1)" by simp
  moreover have "len_ok (wf_bytes (WGroup 1 [WGroup 2 [WVarint 3 5] 7, WLen 4 [1, 2]] 1) @ [9])" by code_simp
  ultimately show ?thesis by (rule skip_field_exact [THEN conjunct1])
qed

text \<open>
  Skipping is safe: on any bytes \<open>skipTx\<close> returns a positive count that is a Go \<open>int\<close>, or
  an error value; it neither panics nor loops without progress.
\<close>
lemma skip_safe:
  assumes "len_ok d"
  shows "case skipTx d of
      Inr n \<Rightarrow> 0 < n \<and> n < 2 ^ 63
    | Inl e \<Rightarrow> e \<noteq> IndexPanic \<and> e \<noteq> Diverges"
  using skip_loop_ok [of TxPb d 0 0] skip_loop_error [of TxPb d 0 0] assms
  by (auto simp: skipTx_def skip_def decoder_error_def split: sum.split)

lemma skip_safe_witness:
  "case skipTx [0x0c] of Inr n \<Rightarrow> 0 < n \<and> n < 2 ^ 63 | Inl e \<Rightarrow> e \<noteq> IndexPanic \<and> e \<noteq> Diverges"
  by (rule skip_safe) (simp add: len_ok_def)

section \<open>Varints\<close>

text \<open>
  The reader of a varint at any offset returns the value of the varint there, reduced to 64
  bits, and the offset after it, when it has at most ten bytes; otherwise it is an overflow, or,
  when the input ends first, an unexpected end.
\<close>
lemma varint_read:
  "decode_varint f (pre @ s) (len pre) 0 0 =
     (case varint_val (take 10 s) of
        Some (v, n) \<Rightarrow> Inr (of_nat v, len pre + int n)
      | None \<Rightarrow> Inl (if length s < 10 then ErrUnexpectedEOF else ErrIntOverflow f))"
  unfolding decode_varint_eq by (simp add: read_varint_def split: option.split)

text \<open>
  C31. The writer of a varint fills the bytes before the offset it is given with the encoding,
  changes nothing else, returns where the encoding begins, and the reader there gives the value
  back.
\<close>
theorem varint_written_and_read:
  assumes "length mid = nat (sovTx v)"
  shows "\<exists>bs. length bs = nat (sovTx v) \<and>
    encodeVarintTx (pre @ mid @ suf) (len (pre @ mid)) v = Inr (pre @ bs @ suf, len pre) \<and>
    decode_varint TxPb (pre @ bs @ suf) (len pre) 0 0 = Inr (v, len pre + sovTx v)"
proof -
  have "length mid = length (varint_bytes (unat v))"
    using assms by (simp add: sovTx_def sov_eq)
  from encodeVarint_eq [OF this] decode_varint_bytes [OF unat_less_2p64] show ?thesis
    by (intro exI [of _ "varint_bytes (unat v)"]) (simp add: encodeVarintTx_def sovTx_def sov_eq)
qed

lemma varint_written_and_read_witness:
  "\<exists>bs. length bs = nat (sovTx 300) \<and>
    encodeVarintTx ([1] @ [0, 0] @ [2]) (len ([1] @ [0, 0] :: byte list)) 300 = Inr ([1] @ bs @ [2], len [1 :: byte]) \<and>
    decode_varint TxPb ([1] @ bs @ [2]) (len [1 :: byte]) 0 0 = Inr (300, len [1 :: byte] + sovTx 300)"
proof -
  have "sovTx 300 = 2" by code_simp
  then have "length [0, 0 :: byte] = nat (sovTx 300)" by simp
  from varint_written_and_read [OF this] show ?thesis .
qed

text \<open>
  Sizes: \<open>sovTx\<close> is the least number of seven-bit groups that hold the value, between one
  and ten, and \<open>sozTx\<close> is that of the zigzag encoding of the value as a signed integer.
\<close>
lemma varint_sizes:
  "1 \<le> sovTx v \<and> sovTx v \<le> 10 \<and> unat v < 128 ^ nat (sovTx v) \<and>
   (sovTx v = 1 \<or> 128 ^ (nat (sovTx v) - 1) \<le> unat v) \<and>
   sozTx v = len (varint_bytes (zigzag (sint v)))"
  using sov_bounds [of v] varint_bytes_range [of "unat v"]
  by (simp add: sovTx_def sozTx_def soz_eq) (simp add: sov_eq len_def)

section \<open>The application\<close>



text \<open>
  C33. Module orders: each order names every module at most once; the constraints the
  configuration's comments state hold in it (the upgrade module first before blocks, slashing
  after distribution, staking in every begin block, genutil after staking and auth); this module
  takes part in all three orders; and every module of the configuration but the runtime, the
  transaction configuration and the legacy parameters is initialised at genesis; and every name in
  an order is a module of the configuration or one of the IBC modules the application registers.
\<close>
theorem module_orders:
  assumes "names_ok nm"
  shows "distinct (map (name_value nm) PreBlockers) \<and> distinct (map (name_value nm) BeginBlockers) \<and>
    distinct (map (name_value nm) EndBlockers) \<and> distinct (map (name_value nm) InitGenesis_order) \<and>
    hd PreBlockers = Ext upgradetypes \<and>
    precedes BeginBlockers (Ext distrtypes) (Ext slashingtypes) \<and> Ext stakingtypes \<in> set BeginBlockers \<and>
    precedes InitGenesis_order (Ext stakingtypes) (Ext genutiltypes) \<and>
    precedes InitGenesis_order (Ext authtypes) (Ext genutiltypes) \<and>
    Feicoin \<in> set BeginBlockers \<inter> set EndBlockers \<inter> set InitGenesis_order \<and>
    set app_modules - set InitGenesis_order = {Ext runtime_module, Lit ''tx'', Ext paramstypes} \<and>
    set (map (name_value nm) (PreBlockers @ BeginBlockers @ EndBlockers @ InitGenesis_order)) \<subseteq>
      set (map (name_value nm) app_modules) \<union> fst ` set (ibc_module_names nm inm)"
proof (intro conjI)
  show "set (map (name_value nm) (PreBlockers @ BeginBlockers @ EndBlockers @ InitGenesis_order)) \<subseteq>
      set (map (name_value nm) app_modules) \<union> fst ` set (ibc_module_names nm inm)"
    by (rule orders_covered)
  show "distinct (map (name_value nm) PreBlockers)" "distinct (map (name_value nm) BeginBlockers)"
    "distinct (map (name_value nm) EndBlockers)" "distinct (map (name_value nm) InitGenesis_order)"
    by (rule distinct_names [OF assms];
        simp add: PreBlockers_def BeginBlockers_def EndBlockers_def InitGenesis_order_def)+
  show "set app_modules - set InitGenesis_order = {Ext runtime_module, Lit ''tx'', Ext paramstypes}"
    unfolding app_modules_eq InitGenesis_order_def by auto
qed (simp_all add: PreBlockers_def BeginBlockers_def EndBlockers_def InitGenesis_order_def precedes_def)

lemma module_orders_witness: "distinct (map (name_value sdk_names) InitGenesis_order)"
  using module_orders [OF sdk_names_ok] by blast

text \<open>
  A genesis account is valid exactly when it has no original vesting or its vesting starts
  before it ends, its module account is valid when it names a module, and its base account is.
\<close>
lemma genesis_account_valid:
  "GenesisAccount_Validate ops sga = None \<longleftrightarrow>
     (Coins_IsZero ops (ga_OriginalVesting sga) \<or> ga_StartTime sga < ga_EndTime sga) \<and>
     (ga_ModuleName sga = '''' \<or>
      ModuleAccount_Validate ops (ga_BaseAccount sga) (ga_ModuleName sga) (ga_ModulePermissions sga) = None) \<and>
     BaseAccount_Validate ops (ga_BaseAccount sga) = None"
  by (rule GenesisAccount_Validate_None)

text \<open>
  C34. Construction of the application: when \<open>New\<close> returns, each of the four IBC keepers was built on
  the store key registered under its own name and on the parameter subspace made for it, with the
  governance account as its authority and the channels of this application's IBC keeper; the
  modules registered are those the client side knows, in its order; the codec and the module's
  keeper are the injected ones; and the chain's initialisation was set to the application's own
  before it was loaded, at its latest state if asked for. \<open>New\<close> never returns an error.
\<close>
theorem app_wired:
  assumes "wiring_laws ops" "wiring_frame ops" "distinct (subspace_names nm inm)"
    and "New ops zero nm inm logger db trace latest opts bopts s = (s', Return app)"
  shows "keepers_wired ops nm inm app \<and> modules_registered ops nm inm \<and>
    (\<exists>s1 i. Inject ops s (Configs [AppConfig ops nm, SupplyValues [opts, logger]]) = (s1, Inr i) \<and>
       FeicoinKeeper app = i_FeicoinKeeper i \<and> appCodec app = i_appCodec i \<and> UpgradeKeeper app = i_UpgradeKeeper i) \<and>
    (\<exists>s2 s3. SetInitChainer ops s2 (app_InitChainer ops app) = (s3, None) \<and> Load ops s3 latest = (s', None)) \<and>
    New ops zero nm inm logger db trace latest opts bopts t \<noteq> (t', Fail e)"
  using New_wired [OF assms] by (simp add: New_panics)

lemma app_wired_witness:
  "\<exists>s app. New wire_ops '''' sdk_names ibc_names ''logger'' ''db'' ''trace'' True ''options'' [] wire_start = (s, Return app) \<and>
     keepers_wired (wire_ops :: (wire_state, string, unit, unit) wiring_ops) sdk_names ibc_names app \<and>
     w_loaded s \<and> FeicoinKeeper app = ''feicoin''"
proof -
  have "w_keys wire_start = Map.empty" "w_subspaces wire_start = []" by (simp_all add: wire_start_def)
  from wire_New [OF this, of "''logger''" "''db''" "''trace''" True "''options''" "[]"] obtain s app where
    n: "New wire_ops '''' sdk_names ibc_names ''logger'' ''db'' ''trace'' True ''options'' [] wire_start = (s, Return app)"
    by blast
  have l: "w_loaded s" if "Load wire_ops t True = (s, None)" for t :: wire_state using that by (auto simp: wire_ops_def)
  have f: "i = wire_injected" if "Inject wire_ops wire_start c = (t, Inr i)" for c i and t :: wire_state using that by (simp add: wire_ops_def)
  note w = app_wired [OF wire_laws wire_frame subspace_names_distinct n]
  from w [THEN conjunct2, THEN conjunct2, THEN conjunct1] obtain s1 i c where
    i: "Inject wire_ops wire_start c = (s1, Inr i)" "FeicoinKeeper app = i_FeicoinKeeper i" by (elim conjE exE) (rule that)
  from w [THEN conjunct2, THEN conjunct2, THEN conjunct2, THEN conjunct1] obtain s2 s3 where "Load wire_ops s3 True = (s, None)" by (elim conjE exE) (rule that)
  then have "w_loaded s" by (rule l)
  moreover have "FeicoinKeeper app = ''feicoin''" using i(2) f [OF i(1)] by (simp add: wire_injected_def)
  moreover note w [THEN conjunct1]
  ultimately show ?thesis using n by (intro exI [of _ s] exI [of _ app] conjI)
qed

text \<open>
  C35. The root command does not depend on the order in which Go goes through its maps: whatever
  the orders of the two loops over the IBC modules, the result is the same, when registering the
  interfaces of two modules commutes; and the command was made of the basic manager and the
  modules of the configuration, with the IBC modules added under their names, and of the client
  context's transaction configuration.
\<close>
theorem root_command_order:
  assumes "\<And>m m' r. RegisterInterfaces cops m (RegisterInterfaces cops m' r) =
      RegisterInterfaces cops m' (RegisterInterfaces cops m r)"
    and "set order1 = fst ` set (ibc_module_names nm inm)" "set order2 = fst ` set (ibc_module_names nm inm)"
    and "mset order3 = mset order4"
  shows "NewRootCmd env cops nm inm adaptor enhance run order1 order3 inp reg =
      NewRootCmd env cops nm inm adaptor enhance run order2 order4 inp reg \<and>
    (case NewRootCmd env cops nm inm adaptor enhance run order1 order3 (Inr i) reg of
       (reg', Return cmd) \<Rightarrow>
         enhance (auto_Modules i ++ client_modules cops nm inm (Codec (clientCtx i)), auto_rest i)
           (initRootCmd env \<lparr>Use = Name @ ''d'', Short = ''feicoin node'', SilenceErrors = True,
               PersistentPreRunE = run (clientCtx i), subcommands = []\<rparr> (TxConfig (clientCtx i))
             (moduleBasicManager i ++
              (\<lambda>n. map_option (adaptor n) (client_modules cops nm inm (Codec (clientCtx i)) n)))) = Inr cmd
     | _ \<Rightarrow> True)"
  using NewRootCmd_order [OF assms] NewRootCmd_Return [OF _ assms(2) refl]
  by (auto split: prod.split outcome.split)

lemma root_command_order_witness:
  "NewRootCmd wire_env wire_client sdk_names ibc_names (\<lambda>n m. m) (\<lambda>m c. Inr c) (\<lambda>c. ()) wire_order wire_order (Inr wire_root) {} =
   NewRootCmd wire_env wire_client sdk_names ibc_names (\<lambda>n m. m) (\<lambda>m c. Inr c) (\<lambda>c. ()) (rev wire_order) (rev wire_order) (Inr wire_root) {}"
  by (rule root_command_order [THEN conjunct1]) (auto simp: wire_client_def wire_order_def)



text \<open>
  C37. The multi-node command without flags: four validators with the same stake, 100000000 of the
  bond denomination, ports counted down from 26657 in steps of three, directories under
  \<open>.testnets\<close>; and here the gas price the code sets is the flag's own.
\<close>
theorem default_network:
  assumes "default_flags (multi_node_flags algo denom) f" "newInt ''100000000'' = Some a" "newCoin a = Inr c"
  shows "\<exists>args. parse_args newInt newCoin f = Inr args \<and> a_numValidators args = 4 \<and>
    (\<forall>i \<in> {0, 1, 2, 3}. valTokens dflt args i = c \<and> port_of args i = Itoa (26657 - 3 * i)) \<and>
    a_outputDir args = ''./.testnets'' \<and> a_nodeDirPrefix args = ''validator'' \<and> a_algo args = algo \<and>
    a_chainID args = '''' \<and> MinGasPrices (init_app_cfg denom args cfg) = a_minGasPrices args"
  by (rule multi_node_defaults [where newInt = newInt and newCoin = newCoin, OF assms])

lemma default_network_witness:
  "\<exists>args. parse_args (\<lambda>t. if t = ''100000000'' then Some 7 else None) Inr (flags_of (multi_node_flags ''secp256k1'' ''stake''))
      = Inr args \<and> valTokens (0 :: nat) args 3 = 7"
proof -
  have "distinct (map fst (multi_node_flags ''secp256k1'' ''stake''))" by (simp add: flag_defs flag_names)
  from default_network [OF flags_of_default [OF this], of "\<lambda>t. if t = ''100000000'' then Some 7 else None" 7 Inr 7 0]
  show ?thesis by auto
qed



text \<open>
  The module's commands: the descriptors are for the two services and name exactly their methods, in
  their order; the only transaction that becomes a command is the mint, and its positional
  arguments are, in order, the fields 2 to 4 of its message, the ones its usage line shows.
\<close>
lemma cli_descriptors:
  "map_prod (\<lambda>c. (cmd_Service c, map RpcMethod (RpcCommandOptions c))) (\<lambda>c. (cmd_Service c, map RpcMethod (RpcCommandOptions c)))
     AutoCLIOptions = (Query_serviceDesc, Msg_serviceDesc) \<and>
   map RpcMethod (filter (\<lambda>c. \<not> Skip c) tx_descriptor) = [''MintTokens''] \<and>
   map (\<lambda>i. map_option fst (MsgMintTokens_fields ac i)) [2, 3, 4] =
     map (Some \<circ> capitalize) (PositionalArgs (tx_descriptor ! 1)) \<and>
   rpc_Use (tx_descriptor ! 1) = ''mint-tokens'' @ concat (map (\<lambda>a. '' ['' @ a @ '']'') (PositionalArgs (tx_descriptor ! 1)))"
  using descriptors_match [of ac] by (simp only: AutoCLIOptions_def map_prod_simp service_command.simps) simp

section \<open>The query over the wire\<close>

text \<open>
  C39. The query service: the handler, given the bytes of a request, answers from the store with
  the state unchanged, and the bytes of its answer are read back by the client as that answer.
\<close>
theorem query_served:
  assumes "item_laws (k_Params k)" "Item_Set (k_Params k) s0 p = (s, Return ())"
    and "QueryParamsRequest_Marshal QueryParamsRequest = Inr bs"
  shows "\<exists>out. Query_Params_Handler (query_method k) s (wire_dec QueryParamsRequest_Unmarshal bs) None =
      (s, Return \<lparr>response_Params = p\<rparr>) \<and>
    QueryParamsResponse_Marshal \<lparr>response_Params = p\<rparr> = Inr out \<and>
    QueryParamsResponse_Unmarshal QueryParamsResponse_zero out = (\<lparr>response_Params = p\<rparr>, None)"
proof -
  have "Item_Get (k_Params k) s = (p, None)" using assms(1,2) by (simp add: item_laws_def)
  then have "Query_Params_Handler (query_method k) s (wire_dec QueryParamsRequest_Unmarshal bs) None =
      (s, Return \<lparr>response_Params = p\<rparr>)"
    by (simp add: Query_Params_Handler_def query_call.delivered [OF _ assms(3)] query_method_def
        queryServer_Params_def)
  then show ?thesis
    using query_response.marshal_eq [where m = "\<lparr>response_Params = p\<rparr>"]
      query_response.unmarshal_msg [where m = "\<lparr>response_Params = p\<rparr>"]
    by (simp add: QueryParamsResponse_Marshal_def QueryParamsResponse_Unmarshal_def)
qed

lemma query_served_witness:
  "\<exists>s. Query_Params_Handler (query_method (ledger_keeper [])) s (wire_dec QueryParamsRequest_Unmarshal []) None =
     (s, Return \<lparr>response_Params = Params\<rparr>)"
proof -
  obtain s where s: "Item_Set (k_Params (ledger_keeper [])) empty_ledger Params = (s, Return ())"
    using ledger_Set [of ParamsKey empty_ledger Params] by auto
  have "QueryParamsRequest_Marshal QueryParamsRequest = Inr []" by code_simp
  from query_served [OF _ s this] ledger_item_laws [of ParamsKey] show ?thesis by auto
qed

text \<open>
  C40. One answer: the gateway's two handlers, the one that calls the query server in its own process
  and the one that asks it through a client and a connection, reply to every request with the
  same status and body and leave the state unchanged, whether the query succeeds or fails.
\<close>
theorem gateway_agrees:
  assumes "reply_laws view ops" "conn_law (query_method k) invoke"
  shows "\<exists>w1 w2. handler_of_server ops (query_method k) req (s, w) = ((s, w1), Return ()) \<and>
    handler_of_client ops invoke req (s, w) = ((s, w2), Return ()) \<and> view w1 = view w2"
  by (rule handlers_agree [OF assms])

lemma gateway_agrees_witness:
  "\<exists>w. handler_of_server text_gateway (query_method (ledger_keeper [])) ''req'' (empty_ledger, []) = ((empty_ledger, w), Return ()) \<and>
     handler_of_client text_gateway (loopback (query_method (ledger_keeper []))) ''req'' (empty_ledger, []) =
       ((empty_ledger, w), Return ())"
  using gateway_agrees [OF text_gateway_laws loopback_law, of "ledger_keeper []" "''req''" empty_ledger "[]"] by auto

end
